(* ===== verification/Prelude.thy ===== *)
theory Prelude
  imports Main "HOL-Library.State_Monad" "HOL-Library.Monad_Syntax"
begin

text \<open>
  Shared vocabulary of the development: Go error values, the outcome of a Go function
  (a value, an error result, or a panic), the history of external calls that stands for the
  outside world, the primitive that performs one external call, and the generic lemmas on lists
  and on the state monad that the component theories use.

  The outside world (API server, file system, processes, random source, clock) is not under
  src/. It is a parameter: every external function is an arbitrary function of the history of
  calls made so far, so an environment may answer the same request differently at different
  times. Performing a call appends it to the history.
\<close>

named_theorems go_simps
named_theorems world_simps

section \<open>Go errors and outcomes\<close>

text \<open>
  A Go \<open>error\<close> value. \<open>StatusErr\<close> is an API-server error (\<open>*apierrors.StatusError\<close>) with its
  reason and HTTP code, \<open>Plain\<close> a fresh error with a message, \<open>Wrapped\<close> the result of
  \<open>fmt.Errorf("...: %v", err)\<close>, which hides the class of the wrapped error.
\<close>

datatype reason = NotFound | AlreadyExists | OtherReason

datatype goerr =
    StatusErr reason int
  | Plain string
  | Wrapped string goerr

fun IsNotFound :: "goerr \<Rightarrow> bool" where
  "IsNotFound (StatusErr r _) = (r = NotFound)"
| "IsNotFound _ = False"

fun IsAlreadyExists :: "goerr \<Rightarrow> bool" where
  "IsAlreadyExists (StatusErr r _) = (r = AlreadyExists)"
| "IsAlreadyExists _ = False"

lemma IsNotFound_iff [go_simps]: "IsNotFound e \<longleftrightarrow> (\<exists>c. e = StatusErr NotFound c)"
  by (cases e) auto

lemma IsAlreadyExists_iff [go_simps]: "IsAlreadyExists e \<longleftrightarrow> (\<exists>c. e = StatusErr AlreadyExists c)"
  by (cases e) auto

lemma AlreadyExists_not_NotFound: "IsAlreadyExists e \<Longrightarrow> \<not> IsNotFound e"
  by (cases e) auto

text \<open>The outcome of a Go function that returns \<open>(T, error)\<close> and may panic.\<close>

datatype 'a outcome = Ok 'a | Err goerr | Panic string

fun is_Ok :: "'a outcome \<Rightarrow> bool" where
  "is_Ok (Ok _) = True"
| "is_Ok _ = False"

definition of_sum :: "goerr + 'a \<Rightarrow> 'a outcome" where
  "of_sum r = (case r of Inl e \<Rightarrow> Err e | Inr x \<Rightarrow> Ok x)"

lemma of_sum_simps [simp]: "of_sum (Inl e) = Err e" "of_sum (Inr x) = Ok x"
  by (simp_all add: of_sum_def)

lemma is_Ok_iff [go_simps]: "is_Ok r \<longleftrightarrow> (\<exists>x. r = Ok x)"
  by (cases r) auto

text \<open>The panic of a read or write through a nil pointer.\<close>

definition nil_deref :: "'a outcome" where
  "nil_deref = Panic ''invalid memory address or nil pointer dereference''"

section \<open>State-passing computations\<close>

abbreviation ret :: "'a \<Rightarrow> ('s, 'a) state" where
  "ret \<equiv> State_Monad.return"

text \<open>
  Sequencing of Go statements that may fail: \<open>andthen m f\<close> is
  \<open>x, err := m; if err != nil { return err }; f(x)\<close>; a panic propagates as well.
\<close>

definition andthen :: "('s, 'a outcome) state \<Rightarrow> ('a \<Rightarrow> ('s, 'b outcome) state) \<Rightarrow> ('s, 'b outcome) state" where
  "andthen m f = do {
     r \<leftarrow> m;
     (case r of
        Ok x \<Rightarrow> f x
      | Err e \<Rightarrow> ret (Err e)
      | Panic p \<Rightarrow> ret (Panic p))
   }"

text \<open>The same, wrapping the error: \<open>if err != nil { return fmt.Errorf(msg, err) }\<close>.\<close>

definition wrap_err :: "string \<Rightarrow> ('s, 'a outcome) state \<Rightarrow> ('s, 'a outcome) state" where
  "wrap_err msg m = do {
     r \<leftarrow> m;
     ret (case r of Err e \<Rightarrow> Err (Wrapped msg e) | Ok x \<Rightarrow> Ok x | Panic p \<Rightarrow> Panic p)
   }"

text \<open>A \<open>for _, x := range xs\<close> loop whose body returns from the function on an error.\<close>

fun for_each :: "('a \<Rightarrow> ('s, unit outcome) state) \<Rightarrow> 'a list \<Rightarrow> ('s, unit outcome) state" where
  "for_each f [] = ret (Ok ())"
| "for_each f (x # xs) = andthen (f x) (\<lambda>_. for_each f xs)"

lemma run_andthen:
  "run_state (andthen m f) s =
     (case run_state m s of
        (Ok x, s') \<Rightarrow> run_state (f x) s'
      | (Err e, s') \<Rightarrow> (Err e, s')
      | (Panic p, s') \<Rightarrow> (Panic p, s'))"
  by (simp add: andthen_def split: prod.splits outcome.splits)

lemma run_andthen_Ok [simp]:
  "run_state m s = (Ok x, s') \<Longrightarrow> run_state (andthen m f) s = run_state (f x) s'"
  by (simp add: run_andthen)

lemma run_andthen_Err [simp]:
  "run_state m s = (Err e, s') \<Longrightarrow> run_state (andthen m f) s = (Err e, s')"
  by (simp add: run_andthen)

lemma run_andthen_Panic [simp]:
  "run_state m s = (Panic p, s') \<Longrightarrow> run_state (andthen m f) s = (Panic p, s')"
  by (simp add: run_andthen)

lemma andthen_OkE:
  assumes "run_state (andthen m f) s = (Ok y, s'')"
  obtains x s' where "run_state m s = (Ok x, s')" and "run_state (f x) s' = (Ok y, s'')"
  using assms by (auto simp: run_andthen split: prod.splits outcome.splits)

lemma run_wrap_err:
  "run_state (wrap_err msg m) s =
     (case run_state m s of
        (Err e, s') \<Rightarrow> (Err (Wrapped msg e), s')
      | (r, s') \<Rightarrow> (r, s'))"
  by (simp add: wrap_err_def split: prod.splits outcome.splits)

lemma wrap_err_Ok_iff:
  "run_state (wrap_err msg m) s = (Ok x, s') \<longleftrightarrow> run_state m s = (Ok x, s')"
  by (auto simp: run_wrap_err split: prod.splits outcome.splits)

lemma for_each_append:
  "for_each f (xs @ ys) = andthen (for_each f xs) (\<lambda>_. for_each f ys)"
  by (induction xs) (auto intro!: state_ext simp: run_andthen split: prod.splits outcome.splits)

text \<open>A relation between the state before and after that every body keeps is kept by the loop.\<close>

lemma for_each_rel:
  assumes "\<And>s. R s s"
    and "\<And>s t u. R s t \<Longrightarrow> R t u \<Longrightarrow> R s u"
    and "\<And>x s. x \<in> set xs \<Longrightarrow> R s (snd (run_state (f x) s))"
  shows "R s (snd (run_state (for_each f xs) s))"
  using assms(3)
proof (induction xs arbitrary: s)
  case Nil
  then show ?case by (simp add: assms(1))
next
  case (Cons x xs)
  have step: "R s (snd (run_state (f x) s))" using Cons.prems by simp
  have rest: "R (snd (run_state (f x) s)) (snd (run_state (for_each f xs) (snd (run_state (f x) s))))"
    using Cons by simp
  show ?case
    using step assms(2) [OF step rest]
    by (auto simp: run_andthen split: prod.splits outcome.splits)
qed

text \<open>
  A reflexive and transitive relation between the states before and after. A computation built from
  parts that keep within the relation keeps within it.
\<close>

locale io_relation =
  fixes R :: "'s \<Rightarrow> 's \<Rightarrow> bool"
  assumes refl: "R s s"
    and trans: "R s t \<Longrightarrow> R t u \<Longrightarrow> R s u"
begin

lemma io_iff: "state_io_rel R m \<longleftrightarrow> (\<forall>s. R s (snd (run_state m s)))"
  by (simp add: state_io_rel_def)

lemma io_ret: "state_io_rel R (ret x)"
  by (simp add: io_iff refl)

lemma io_bind:
  assumes "state_io_rel R m" and "\<And>x. state_io_rel R (f x)"
  shows "state_io_rel R (State_Monad.bind m f)"
  unfolding io_iff
proof
  fix s
  obtain x t where m: "run_state m s = (x, t)" by fastforce
  have "R s t" using assms(1) m by (simp add: io_iff) (metis snd_conv)
  moreover have "R t (snd (run_state (f x) t))" using assms(2) by (simp add: io_iff)
  ultimately show "R s (snd (run_state (State_Monad.bind m f) s))" by (simp add: m trans)
qed

lemma io_andthen:
  "state_io_rel R m \<Longrightarrow> (\<And>x. state_io_rel R (f x)) \<Longrightarrow> state_io_rel R (andthen m f)"
  unfolding andthen_def by (rule io_bind) (auto split: outcome.split intro: io_ret)

lemma io_wrap_err: "state_io_rel R m \<Longrightarrow> state_io_rel R (wrap_err msg m)"
  unfolding wrap_err_def by (rule io_bind) (auto intro: io_ret)

lemma io_for_each:
  "(\<And>x. x \<in> set xs \<Longrightarrow> state_io_rel R (f x)) \<Longrightarrow> state_io_rel R (for_each f xs)"
  by (induction xs) (auto intro: io_ret io_andthen)

end

text \<open>An invariant of the state that the body keeps is kept by the loop.\<close>

lemma for_each_inv:
  assumes "P s" and "\<And>x s. x \<in> set xs \<Longrightarrow> P s \<Longrightarrow> P (snd (run_state (f x) s))"
  shows "P (snd (run_state (for_each f xs) s))"
  using for_each_rel [of "\<lambda>s t. P s \<longrightarrow> P t" xs f s] assms by blast

section \<open>Lists\<close>

fun find_index_of :: "'a \<Rightarrow> 'a list \<Rightarrow> nat option" where
  "find_index_of x [] = None"
| "find_index_of x (y # ys) = (if x = y then Some 0 else map_option Suc (find_index_of x ys))"

lemma find_index_of_nth:
  "distinct xs \<Longrightarrow> n < length xs \<Longrightarrow> find_index_of (xs ! n) xs = Some n"
proof (induction xs arbitrary: n)
  case Nil
  then show ?case by simp
next
  case (Cons x xs)
  then show ?case by (cases n) auto
qed

lemma find_index_of_None: "find_index_of x xs = None \<longleftrightarrow> x \<notin> set xs"
  by (induction xs) auto

lemma find_index_of_Some: "find_index_of x xs = Some n \<Longrightarrow> n < length xs \<and> xs ! n = x"
  by (induction xs arbitrary: n) (auto split: if_splits)

text \<open>Joining with a separator: Go's \<open>strings.Join\<close> and \<open>bytes.Join\<close>.\<close>

fun str_join :: "'a list list \<Rightarrow> 'a list \<Rightarrow> 'a list" where
  "str_join [] sep = []"
| "str_join [x] sep = x"
| "str_join (x # y # xs) sep = x @ sep @ str_join (y # xs) sep"

lemma str_join_Cons: "xs \<noteq> [] \<Longrightarrow> str_join (x # xs) sep = x @ sep @ str_join xs sep"
  by (cases xs) auto

lemma set_str_join_subset: "set (str_join xs sep) \<subseteq> set (concat xs) \<union> set sep"
  by (induction xs sep rule: str_join.induct) auto

end
