(* ===== verification/Go_Strings.thy ===== *)
theory Go_Strings
  imports Prelude
begin

text \<open>
  The parts of Go's standard library that the program uses on strings: \<open>strings\<close>
  (\<open>HasPrefix\<close>, \<open>Index\<close>, \<open>LastIndex\<close>, \<open>Split\<close>, \<open>SplitN\<close>, \<open>Join\<close>, \<open>Replace\<close>, \<open>Repeat\<close>,
  \<open>TrimSpace\<close>, \<open>NewReplacer\<close> with one-byte patterns), \<open>strconv\<close>'s decimal formatting and the
  lexical part of \<open>path/filepath\<close> (\<open>Clean\<close>, \<open>Join\<close>, \<open>Base\<close>, \<open>Ext\<close>). A Go string is a sequence of
  bytes; HOL's \<open>char\<close> has exactly 256 values, so \<open>string\<close> is that type. \<open>[]byte\<close> is the same type.
\<close>

section \<open>Searching\<close>

definition has_prefix :: "string \<Rightarrow> string \<Rightarrow> bool" where
  "has_prefix s p \<longleftrightarrow> take (length p) s = p"

definition has_suffix :: "string \<Rightarrow> string \<Rightarrow> bool" where
  "has_suffix s p \<longleftrightarrow> has_prefix (rev s) (rev p)"

lemma has_prefix_append [simp]: "has_prefix (p @ s) p"
  by (simp add: has_prefix_def)

lemma has_prefix_iff: "has_prefix s p \<longleftrightarrow> (\<exists>r. s = p @ r)"
  by (metis append_take_drop_id has_prefix_append has_prefix_def)

lemma has_prefix_length: "has_prefix s p \<Longrightarrow> length p \<le> length s"
  by (auto simp: has_prefix_iff)

lemma has_prefix_Nil [simp]: "has_prefix s []"
  by (simp add: has_prefix_def)

lemma has_prefix_Cons [simp]:
  "has_prefix [] (c # p) = False"
  "has_prefix (d # s) (c # p) = (d = c \<and> has_prefix s p)"
  by (auto simp: has_prefix_def)

text \<open>\<open>strings.Index\<close>: the first position where the pattern occurs.\<close>

fun str_index :: "string \<Rightarrow> string \<Rightarrow> nat option" where
  "str_index [] p = (if p = [] then Some 0 else None)"
| "str_index (c # s) p =
     (if has_prefix (c # s) p then Some 0 else map_option Suc (str_index s p))"

text \<open>\<open>strings.LastIndex\<close> for a one-byte pattern.\<close>

definition last_index_byte :: "string \<Rightarrow> char \<Rightarrow> nat option" where
  "last_index_byte s c = map_option (\<lambda>i. length s - 1 - i) (str_index (rev s) [c])"

definition contains_byte :: "string \<Rightarrow> char \<Rightarrow> bool" where
  "contains_byte s c \<longleftrightarrow> c \<in> set s"

lemma str_index_bound: "str_index s p = Some i \<Longrightarrow> i + length p \<le> length s"
proof (induction s arbitrary: i)
  case Nil
  then show ?case by (simp split: if_splits)
next
  case (Cons c s)
  show ?case
  proof (cases "has_prefix (c # s) p")
    case True
    then have "i = 0" using Cons.prems by simp
    then show ?thesis using has_prefix_length [OF True] by simp
  next
    case False
    then obtain j where "str_index s p = Some j" "i = Suc j" using Cons.prems by auto
    then show ?thesis using Cons.IH by simp
  qed
qed

lemma str_index_drop_less:
  "str_index s p = Some i \<Longrightarrow> p \<noteq> [] \<Longrightarrow> length s - (i + length p) < length s"
  using str_index_bound [of s p i] by (cases p) auto

text \<open>For a one-byte pattern, the text before the hit is free of the byte.\<close>

lemma str_index_byte_None [go_simps]: "str_index s [c] = None \<longleftrightarrow> c \<notin> set s"
  by (induction s) auto

lemma str_index_byte_Some:
  "str_index s [c] = Some i \<Longrightarrow> s = take i s @ c # drop (Suc i) s \<and> c \<notin> set (take i s)"
proof (induction s arbitrary: i)
  case Nil
  then show ?case by simp
next
  case (Cons d s)
  then show ?case by (cases i) (auto split: if_splits)
qed

lemma str_index_byte_app [simp]: "c \<notin> set a \<Longrightarrow> str_index (a @ c # b) [c] = Some (length a)"
  by (induction a) auto

lemma last_index_byte_None [go_simps]: "last_index_byte s c = None \<longleftrightarrow> c \<notin> set s"
  by (simp add: last_index_byte_def str_index_byte_None)

lemma last_index_byte_app: "c \<notin> set b \<Longrightarrow> last_index_byte (a @ c # b) c = Some (length a)"
  by (simp add: last_index_byte_def)

section \<open>Splitting and joining\<close>

text \<open>
  The width of the UTF-8 sequence at the front of a byte string, as \<open>utf8.DecodeRuneInString\<close>
  reports it: an invalid or truncated sequence has width 1.
\<close>

definition byte :: "char \<Rightarrow> nat" where
  "byte c = of_char c"

definition cont :: "char \<Rightarrow> bool" where
  "cont c \<longleftrightarrow> 128 \<le> byte c \<and> byte c < 192"

fun rune_width :: "string \<Rightarrow> nat" where
  "rune_width [] = 0"
| "rune_width (c # s) =
     (let b = byte c in
      if b < 194 \<or> 244 < b then 1
      else if b < 224 then (case s of c1 # _ \<Rightarrow> if cont c1 then 2 else 1 | _ \<Rightarrow> 1)
      else if b < 240 then
        (case s of
           c1 # c2 # _ \<Rightarrow>
             if cont c1 \<and> cont c2 \<and> (b = 224 \<longrightarrow> 160 \<le> byte c1) \<and> (b = 237 \<longrightarrow> byte c1 < 160)
             then 3 else 1
         | _ \<Rightarrow> 1)
      else
        (case s of
           c1 # c2 # c3 # _ \<Rightarrow>
             if cont c1 \<and> cont c2 \<and> cont c3 \<and> (b = 240 \<longrightarrow> 144 \<le> byte c1) \<and> (b = 244 \<longrightarrow> byte c1 < 144)
             then 4 else 1
         | _ \<Rightarrow> 1))"

lemma rune_width_pos: "s \<noteq> [] \<Longrightarrow> 0 < rune_width s"
  by (cases s) (auto simp: Let_def split: list.splits)

text \<open>\<open>strings.explode\<close>: the runes of a string, each as its bytes.\<close>

function str_explode :: "string \<Rightarrow> string list" where
  "str_explode s =
     (if s = [] then [] else take (rune_width s) s # str_explode (drop (rune_width s) s))"
  by pat_completeness auto
termination
  by (relation "measure length") (auto simp: rune_width_pos)

declare str_explode.simps [simp del]

text \<open>\<open>strings.Split\<close>; the empty separator splits into runes.\<close>

function split_on :: "string \<Rightarrow> string \<Rightarrow> string list" where
  "split_on s sep =
     (if sep = [] then [s]
      else (case str_index s sep of
              None \<Rightarrow> [s]
            | Some i \<Rightarrow> take i s # split_on (drop (i + length sep) s) sep))"
  by pat_completeness auto
termination
  by (relation "measure (\<lambda>(s, sep). length s)") (auto simp: str_index_drop_less)

declare split_on.simps [simp del]

definition str_split :: "string \<Rightarrow> string \<Rightarrow> string list" where
  "str_split s sep = (if sep = [] then str_explode s else split_on s sep)"

text \<open>\<open>strings.SplitN(s, sep, 2)\<close> for a non-empty separator.\<close>

definition str_split2 :: "string \<Rightarrow> string \<Rightarrow> string list" where
  "str_split2 s sep =
     (case str_index s sep of None \<Rightarrow> [s] | Some i \<Rightarrow> [take i s, drop (i + length sep) s])"

lemma split_on_ne [simp]: "split_on s sep \<noteq> []"
  by (subst split_on.simps) (simp split: option.splits)

lemma split_on_byte_Nil [simp]: "split_on [] [c] = [[]]"
  by (subst split_on.simps) simp

lemma split_on_byte_Cons:
  "split_on (d # s) [c] =
     (if d = c then [] # split_on s [c]
      else (d # hd (split_on s [c])) # tl (split_on s [c]))"
  by (subst (1 3 4) split_on.simps) (auto split: option.splits)

lemma split_on_byte_notin: "c \<notin> set s \<Longrightarrow> split_on s [c] = [s]"
  by (subst split_on.simps) (simp add: str_index_byte_None [THEN iffD2])

lemma split_on_byte_app:
  "c \<notin> set a \<Longrightarrow> split_on (a @ c # b) [c] = a # split_on b [c]"
  by (subst split_on.simps) simp

text \<open>Splitting is inverted by joining.\<close>

lemma str_index_take_drop:
  "str_index s p = Some i \<Longrightarrow> take i s @ p @ drop (i + length p) s = s"
proof (induction s arbitrary: i)
  case Nil
  then show ?case by (simp split: if_splits)
next
  case (Cons c s)
  show ?case
  proof (cases "has_prefix (c # s) p")
    case True
    then have "i = 0" using Cons.prems by simp
    then show ?thesis using True by (metis append_take_drop_id has_prefix_def take0 add_0 append_Nil)
  next
    case False
    then obtain j where "str_index s p = Some j" "i = Suc j" using Cons.prems by auto
    then show ?thesis using Cons.IH by simp
  qed
qed

lemma join_split_on: "str_join (split_on s sep) sep = s"
proof (induction s sep rule: split_on.induct)
  case (1 s sep)
  show ?case
  proof (cases "sep = [] \<or> str_index s sep = None")
    case True
    then show ?thesis by (subst split_on.simps) auto
  next
    case False
    then obtain i where i: "str_index s sep = Some i" by auto
    then have "str_join (split_on (drop (i + length sep) s) sep) sep = drop (i + length sep) s"
      using 1 False by auto
    then show ?thesis
      using i False by (subst split_on.simps) (simp add: str_join_Cons str_index_take_drop)
  qed
qed

text \<open>No piece of a split on a byte contains the byte.\<close>

lemma split_on_byte_pieces: "p \<in> set (split_on s [c]) \<Longrightarrow> c \<notin> set p"
proof (induction s "[c]" arbitrary: p rule: split_on.induct)
  case (1 s)
  show ?case
  proof (cases "str_index s [c]")
    case None
    then have "split_on s [c] = [s]" by (subst split_on.simps) simp
    then show ?thesis using 1 None by (simp add: str_index_byte_None)
  next
    case (Some i)
    then have "split_on s [c] = take i s # split_on (drop (Suc i) s) [c]"
      by (subst split_on.simps) simp
    then show ?thesis using 1 Some str_index_byte_Some [OF Some] by auto
  qed
qed

section \<open>Replacing\<close>

text \<open>
  \<open>strings.Replace(s, old, new, -1)\<close>: non-overlapping occurrences from the left; with an empty
  \<open>old\<close> the replacement goes before every rune and at the end.
\<close>

definition str_replace :: "string \<Rightarrow> string \<Rightarrow> string \<Rightarrow> string" where
  "str_replace s old new =
     (if old = new then s
      else if old = [] then concat (map (\<lambda>r. new @ r) (str_explode s)) @ new
      else str_join (split_on s old) new)"

text \<open>Replacing one byte by a string acts on each byte.\<close>

lemma join_split_byte:
  "str_join (split_on s [c]) new = concat (map (\<lambda>d. if d = c then new else [d]) s)"
proof (induction s)
  case Nil
  then show ?case by simp
next
  case (Cons d s)
  obtain p ps where p: "split_on s [c] = p # ps" by (cases "split_on s [c]") auto
  have "str_join ((d # p) # ps) new = d # str_join (p # ps) new" by (cases ps) auto
  then show ?case using Cons p by (simp add: split_on_byte_Cons)
qed

lemma str_replace_byte:
  "str_replace s [c] new = concat (map (\<lambda>d. if d = c then new else [d]) s)"
proof (cases "[c] = new")
  case True
  have "concat (map (\<lambda>d. if d = c then [c] else [d]) s) = s" by (induction s) auto
  then show ?thesis using True by (auto simp: str_replace_def)
next
  case False
  then show ?thesis by (simp add: str_replace_def join_split_byte)
qed

text \<open>\<open>strings.NewReplacer(old1, new1, ...)\<close> with one-byte \<open>old\<close>s; the first pair of a byte wins.\<close>

definition byte_replacer :: "(char \<times> string) list \<Rightarrow> string \<Rightarrow> string" where
  "byte_replacer ps s =
     concat (map (\<lambda>c. case map_of ps c of Some r \<Rightarrow> r | None \<Rightarrow> [c]) s)"

lemma byte_replacer_simps [simp]:
  "byte_replacer ps [] = []"
  "byte_replacer ps (c # s) = (case map_of ps c of Some r \<Rightarrow> r | None \<Rightarrow> [c]) @ byte_replacer ps s"
  by (simp_all add: byte_replacer_def)

lemma byte_replacer_append: "byte_replacer ps (s @ t) = byte_replacer ps s @ byte_replacer ps t"
  by (simp add: byte_replacer_def)

section \<open>Other string functions\<close>

fun str_repeat :: "string \<Rightarrow> nat \<Rightarrow> string" where
  "str_repeat s 0 = []"
| "str_repeat s (Suc n) = s @ str_repeat s n"

lemma str_repeat_byte: "str_repeat [c] n = replicate n c"
  by (induction n) auto

text \<open>
  \<open>strings.TrimSpace\<close>: the runes at both ends that \<open>unicode.IsSpace\<close> accepts are cut. A rune is
  its UTF-8 bytes.
\<close>

definition is_space_rune :: "string \<Rightarrow> bool" where
  "is_space_rune r \<longleftrightarrow>
     (case map byte r of
        [b] \<Rightarrow> b \<in> {9, 10, 11, 12, 13, 32}
      | [a, b] \<Rightarrow> a = 194 \<and> b \<in> {133, 160}
      | [a, b, c] \<Rightarrow>
          (a = 225 \<and> b = 154 \<and> c = 128)
          \<or> (a = 226 \<and> b = 128 \<and> (128 \<le> c \<and> c \<le> 138 \<or> c \<in> {168, 169, 175}))
          \<or> (a = 226 \<and> b = 129 \<and> c = 159)
          \<or> (a = 227 \<and> b = 128 \<and> c = 128)
      | _ \<Rightarrow> False)"

definition trim_space :: "string \<Rightarrow> string" where
  "trim_space s =
     concat (rev (dropWhile is_space_rune (rev (dropWhile is_space_rune (str_explode s)))))"

text \<open>Decimal formatting of a natural number (\<open>%d\<close>, \<open>strconv.FormatInt(_, 10)\<close>).\<close>

definition digit_char :: "nat \<Rightarrow> char" where
  "digit_char d = ''0123456789'' ! d"

fun dec_str :: "nat \<Rightarrow> string" where
  "dec_str n = (if n < 10 then [digit_char n] else dec_str (n div 10) @ [digit_char (n mod 10)])"

declare dec_str.simps [simp del]

lemma dec_str_nonempty: "dec_str n \<noteq> []"
  by (subst dec_str.simps) simp

section \<open>Lexical paths\<close>

text \<open>
  \<open>filepath.Clean\<close> on a path given by its elements: empty elements and \<open>.\<close> vanish, \<open>..\<close> removes
  the element before it, is dropped at the root and is kept at the start of a relative path. The
  accumulator holds the elements already kept, last first.
\<close>

fun clean_elems :: "bool \<Rightarrow> string list \<Rightarrow> string list \<Rightarrow> string list" where
  "clean_elems rooted acc [] = rev acc"
| "clean_elems rooted acc (e # es) =
     (if e = [] \<or> e = ''.'' then clean_elems rooted acc es
      else if e = ''..'' then
        (case acc of
           [] \<Rightarrow> clean_elems rooted (if rooted then [] else [e]) es
         | a # as \<Rightarrow> if a = ''..'' then clean_elems rooted (e # acc) es else clean_elems rooted as es)
      else clean_elems rooted (e # acc) es)"

definition path_clean :: "string \<Rightarrow> string" where
  "path_clean p =
     (let rooted = has_prefix p ''/'';
          body = str_join (clean_elems rooted [] (split_on p ''/'')) ''/''
      in if rooted then ''/'' @ body else if body = [] then ''.'' else body)"

text \<open>\<open>filepath.Join\<close>: the non-empty elements joined by a slash and cleaned.\<close>

definition path_join :: "string list \<Rightarrow> string" where
  "path_join es =
     (case filter (\<lambda>e. e \<noteq> []) es of [] \<Rightarrow> [] | es' \<Rightarrow> path_clean (str_join es' ''/''))"

text \<open>\<open>filepath.Base\<close> and \<open>filepath.Ext\<close>.\<close>

definition path_base :: "string \<Rightarrow> string" where
  "path_base p =
     (if p = [] then ''.''
      else (let q = rev (dropWhile (\<lambda>c. c = CHR ''/'') (rev p)) in
            if q = [] then ''/'' else rev (takeWhile (\<lambda>c. c \<noteq> CHR ''/'') (rev q))))"

definition path_ext :: "string \<Rightarrow> string" where
  "path_ext p =
     (let e = takeWhile (\<lambda>c. c \<noteq> CHR ''/'') (rev p) in
      case str_index e ''.'' of None \<Rightarrow> [] | Some i \<Rightarrow> rev (take (Suc i) e))"

end
