(* ===== verification/Go_Base64.thy ===== *)
theory Go_Base64
  imports Go_Strings
begin

text \<open>
  Go's \<open>encoding/base64\<close> as far as the program uses it: \<open>EncodeToString\<close> and \<open>DecodeString\<close> of the
  standard encoding (padded) and of the raw URL encoding (no padding), non-strict. Decoding skips
  carriage returns and newlines and reports the position of the first bad input byte. The locale
  \<open>codec\<close> states what the clients rely on: decoding inverts encoding.
\<close>

section \<open>Encodings\<close>

record encoding =
  alphabet :: string
  padChar :: "char option"

definition common_alphabet :: string where
  "common_alphabet = ''ABCDEFGHIJKLMNOPQRSTUVWXYZabcdefghijklmnopqrstuvwxyz0123456789''"

definition StdEncoding :: encoding where
  "StdEncoding = \<lparr>alphabet = common_alphabet @ ''+/'', padChar = Some (CHR ''='')\<rparr>"

definition RawURLEncoding :: encoding where
  "RawURLEncoding = \<lparr>alphabet = common_alphabet @ ''-_'', padChar = None\<rparr>"

definition padding :: "encoding \<Rightarrow> nat \<Rightarrow> string" where
  "padding E n = (case padChar E of None \<Rightarrow> [] | Some p \<Rightarrow> replicate n p)"

text \<open>The character of a sextet, and the sextet of a character.\<close>

definition enc_char :: "encoding \<Rightarrow> nat \<Rightarrow> char" where
  "enc_char E n = alphabet E ! n"

definition dec_char :: "encoding \<Rightarrow> char \<Rightarrow> nat option" where
  "dec_char E c = find_index_of c (alphabet E)"

section \<open>Encoding\<close>

fun b64_encode :: "encoding \<Rightarrow> string \<Rightarrow> string" where
  "b64_encode E [] = []"
| "b64_encode E [a] =
     [enc_char E (byte a div 4), enc_char E (byte a mod 4 * 16)] @ padding E 2"
| "b64_encode E [a, b] =
     [enc_char E (byte a div 4), enc_char E (byte a mod 4 * 16 + byte b div 16),
      enc_char E (byte b mod 16 * 4)] @ padding E 1"
| "b64_encode E (a # b # c # s) =
     [enc_char E (byte a div 4), enc_char E (byte a mod 4 * 16 + byte b div 16),
      enc_char E (byte b mod 16 * 4 + byte c div 64), enc_char E (byte c mod 64)] @ b64_encode E s"

section \<open>Decoding\<close>

text \<open>The bytes of a full or partial quantum of sextets.\<close>

fun quantum :: "nat list \<Rightarrow> string" where
  "quantum [p, q, r, s] =
     [char_of (p * 4 + q div 16), char_of (q mod 16 * 16 + r div 4), char_of (r mod 4 * 64 + s)]"
| "quantum [p, q, r] = [char_of (p * 4 + q div 16), char_of (q mod 16 * 16 + r div 4)]"
| "quantum [p, q] = [char_of (p * 4 + q div 16)]"
| "quantum _ = []"

definition is_nl :: "char \<Rightarrow> bool" where
  "is_nl c \<longleftrightarrow> byte c = 10 \<or> byte c = 13"

text \<open>What may follow the padding: newlines only. The result is an error position or the bytes.\<close>

definition b64_finish :: "string \<Rightarrow> nat \<Rightarrow> nat list \<Rightarrow> string \<Rightarrow> nat + string" where
  "b64_finish rest si q out =
     (let nl = takeWhile is_nl rest in
      if length nl < length rest then Inl (si + length nl) else Inr (out @ quantum q))"

text \<open>
  \<open>decodeQuantum\<close> iterated: \<open>si\<close> is the position of the rest of the input, \<open>q\<close> the sextets of the
  quantum read so far, \<open>out\<close> the bytes decoded.
\<close>

fun b64_decode :: "encoding \<Rightarrow> string \<Rightarrow> nat \<Rightarrow> nat list \<Rightarrow> string \<Rightarrow> nat + string" where
  "b64_decode E [] si q out =
     (if q = [] then Inr out
      else if length q = 1 \<or> padChar E \<noteq> None then Inl (si - length q)
      else Inr (out @ quantum q))"
| "b64_decode E (c # cs) si q out =
     (case dec_char E c of
        Some d \<Rightarrow>
          if length q = 3 then b64_decode E cs (si + 1) [] (out @ quantum (q @ [d]))
          else b64_decode E cs (si + 1) (q @ [d]) out
      | None \<Rightarrow>
          if is_nl c then b64_decode E cs (si + 1) q out
          else if padChar E \<noteq> Some c then Inl si
          else if length q < 2 then Inl si
          else if length q = 2 then
            (let nl = takeWhile is_nl cs; rest = drop (length nl) cs; sj = si + 1 + length nl in
             (case rest of
                [] \<Rightarrow> Inl sj
              | d # ds \<Rightarrow> if d \<noteq> c then Inl (sj - 1) else b64_finish ds (sj + 1) q out))
          else b64_finish cs (si + 1) q out)"

definition EncodeToString :: "encoding \<Rightarrow> string \<Rightarrow> string" where
  "EncodeToString E v = b64_encode E v"

text \<open>\<open>DecodeString\<close>; the error is \<open>base64.CorruptInputError\<close>, kept with its message.\<close>

definition DecodeString :: "encoding \<Rightarrow> string \<Rightarrow> string + string" where
  "DecodeString E v =
     (case b64_decode E v 0 [] [] of
        Inl n \<Rightarrow> Inl (''illegal base64 data at input byte '' @ dec_str n)
      | Inr s \<Rightarrow> Inr s)"

section \<open>Decoding inverts encoding\<close>

text \<open>An encoding with 64 distinct characters, none of them a newline or the padding.\<close>

definition good_encoding :: "encoding \<Rightarrow> bool" where
  "good_encoding E \<longleftrightarrow>
     length (alphabet E) = 64 \<and> distinct (alphabet E)
     \<and> (\<forall>p. padChar E = Some p \<longrightarrow> p \<notin> set (alphabet E) \<and> \<not> is_nl p)"

lemma good_StdEncoding: "good_encoding StdEncoding"
  by (simp add: good_encoding_def StdEncoding_def common_alphabet_def is_nl_def byte_def)

lemma good_RawURLEncoding: "good_encoding RawURLEncoding"
  by (simp add: good_encoding_def RawURLEncoding_def common_alphabet_def)

lemma byte_bound: "byte c < 256"
  unfolding byte_def by (metis of_char_mod_256 mod_less_divisor zero_less_numeral)

lemma char_of_byte [simp]: "char_of (byte c) = c"
  by (simp add: byte_def)

lemma dec_enc_char: "good_encoding E \<Longrightarrow> n < 64 \<Longrightarrow> dec_char E (enc_char E n) = Some n"
  by (simp add: good_encoding_def dec_char_def enc_char_def find_index_of_nth)

lemma enc_char_in: "good_encoding E \<Longrightarrow> n < 64 \<Longrightarrow> enc_char E n \<in> set (alphabet E)"
  by (simp add: good_encoding_def enc_char_def)

text \<open>Two digits packed into one number and read back.\<close>

lemma pack_div: "(k::nat) < n \<Longrightarrow> (m * n + k) div n = m"
  by simp

lemma pack_mod: "(k::nat) < n \<Longrightarrow> (m * n + k) mod n = k"
  by simp

lemma pack_bound: "(m::nat) < p \<Longrightarrow> k < n \<Longrightarrow> m * n + k < p * n"
proof -
  assume "m < p" "k < n"
  then have "m * n + k < Suc m * n" by simp
  also have "\<dots> \<le> p * n" using \<open>m < p\<close> by (intro mult_right_mono) auto
  finally show ?thesis .
qed

lemma byte_div: "byte a div 4 < 64" "byte a div 16 < 16" "byte a div 64 < 4"
  using byte_bound [of a] by (auto intro!: less_mult_imp_div_less)

lemma sextet_bounds:
  "byte a div 4 < 64" "byte a mod 4 * 16 + byte b div 16 < 64" "byte a mod 4 * 16 < 64"
  "byte b mod 16 * 4 + byte c div 64 < 64" "byte b mod 16 * 4 < 64" "byte c mod 64 < 64"
  using byte_div pack_bound [of "byte a mod 4" 4 "byte b div 16" 16]
    pack_bound [of "byte a mod 4" 4 0 16] pack_bound [of "byte b mod 16" 16 "byte c div 64" 4]
    pack_bound [of "byte b mod 16" 16 0 4]
  by simp_all

lemma div_mult_mod: "(n::nat) div k * k + n mod k = n"
  by simp

lemma sextets_first: "byte a div 4 * 4 + (byte a mod 4 * 16 + byte b div 16) div 16 = byte a"
  by (simp only: pack_div byte_div div_mult_mod)

lemma sextets_second:
  "(byte a mod 4 * 16 + byte b div 16) mod 16 * 16 + (byte b mod 16 * 4 + byte c div 64) div 4 = byte b"
  by (simp only: pack_div pack_mod byte_div div_mult_mod)

lemma sextets_third: "(byte b mod 16 * 4 + byte c div 64) mod 4 * 64 + byte c mod 64 = byte c"
  by (simp only: pack_mod byte_div div_mult_mod)

lemma quantum_three:
  "quantum [byte a div 4, byte a mod 4 * 16 + byte b div 16, byte b mod 16 * 4 + byte c div 64, byte c mod 64]
     = [a, b, c]"
  by (simp only: quantum.simps sextets_first sextets_second sextets_third char_of_byte)

lemma quantum_two:
  "quantum [byte a div 4, byte a mod 4 * 16 + byte b div 16, byte b mod 16 * 4] = [a, b]"
proof -
  have "byte b mod 16 * 4 div 4 = byte b mod 16" by simp
  then show ?thesis
    by (simp only: quantum.simps sextets_first pack_mod byte_div div_mult_mod char_of_byte)
qed

lemma quantum_one: "quantum [byte a div 4, byte a mod 4 * 16] = [a]"
proof -
  have "byte a mod 4 * 16 div 16 = byte a mod 4" by simp
  then show ?thesis by (simp only: quantum.simps div_mult_mod char_of_byte)
qed

lemma dec_char_pad: "good_encoding E \<Longrightarrow> padChar E = Some p \<Longrightarrow> dec_char E p = None \<and> \<not> is_nl p"
  by (simp add: good_encoding_def dec_char_def find_index_of_None)

lemma b64_decode_encode:
  assumes "good_encoding E"
  shows "b64_decode E (b64_encode E v) si [] out = Inr (out @ v)"
  using assms
proof (induction E v arbitrary: si out rule: b64_encode.induct)
  case (1 E)
  then show ?case by simp
next
  case (2 E a)
  then show ?case
    using dec_char_pad [OF 2]
    by (cases "padChar E")
      (simp_all add: padding_def dec_enc_char sextet_bounds quantum_one b64_finish_def
        numeral_2_eq_2 del: quantum.simps)
next
  case (3 E a b)
  then show ?case
    using dec_char_pad [OF 3]
    by (cases "padChar E")
      (simp_all add: padding_def dec_enc_char sextet_bounds quantum_two b64_finish_def
        del: quantum.simps)
next
  case (4 E a b c s)
  then show ?case
    by (simp add: dec_enc_char sextet_bounds quantum_three del: quantum.simps)
qed

section \<open>The codec contract\<close>

locale codec =
  fixes enc :: "string \<Rightarrow> string"
    and dec :: "string \<Rightarrow> string + string"
  assumes dec_enc: "dec (enc v) = Inr v"
begin

lemma enc_inj: "enc v = enc w \<Longrightarrow> v = w"
  by (metis dec_enc sum.inject(2))

lemma dec_enc_case: "(case dec (enc v) of Inl m \<Rightarrow> f m | Inr s \<Rightarrow> g s) = g v"
  by (simp add: dec_enc)

end

interpretation std_codec: codec "EncodeToString StdEncoding" "DecodeString StdEncoding"
  by unfold_locales
    (simp add: EncodeToString_def DecodeString_def b64_decode_encode good_StdEncoding)

interpretation url_codec: codec "EncodeToString RawURLEncoding" "DecodeString RawURLEncoding"
  by unfold_locales
    (simp add: EncodeToString_def DecodeString_def b64_decode_encode good_RawURLEncoding)

text \<open>What an encoded string consists of: characters of the alphabet and padding.\<close>

lemma b64_encode_chars:
  assumes "good_encoding E"
  shows "set (b64_encode E v) \<subseteq> set (alphabet E) \<union> set_option (padChar E)"
  using assms
proof (induction E v rule: b64_encode.induct)
  case (1 E)
  then show ?case by simp
next
  case (2 E a)
  then show ?case
    by (cases "padChar E") (auto simp: padding_def enc_char_in sextet_bounds)
next
  case (3 E a b)
  then show ?case
    by (cases "padChar E") (auto simp: padding_def enc_char_in sextet_bounds)
next
  case (4 E a b c s)
  then show ?case by (auto simp: enc_char_in sextet_bounds)
qed

end
