(* ===== verification/Util_Strings.thy ===== *)
theory Util_Strings
  imports Go_Base64
begin

text \<open>
  pkg/util/strings.go and pkg/util/template.go: safe identifiers, URL-safe base64, removal of
  duplicates, and the functions a manifest template may call. The engine \<open>text/template\<close> itself
  is a parameter (parse a template against a set of function names, execute it against a function
  map and a data value); what \<open>ParseTemplate\<close> gives it and does with its results is modelled.
\<close>

section \<open>pkg/util/strings.go\<close>

definition SafeId :: "string \<Rightarrow> string" where
  "SafeId s =
     byte_replacer [(CHR '' '', ''-''), (CHR '':'', ''-''), (CHR ''/'', ''-''), (CHR ''.'', ''-'')] s"

definition URL64encode :: "string \<Rightarrow> string" where
  "URL64encode v = EncodeToString RawURLEncoding v"

definition URL64decode :: "string \<Rightarrow> string" where
  "URL64decode v = (case DecodeString RawURLEncoding v of Inl _ \<Rightarrow> [] | Inr data \<Rightarrow> data)"

text \<open>The loop of \<open>RemoveDuplicates\<close>: \<open>processed\<close> is the set of strings seen, \<open>res\<close> the result.\<close>

fun RemoveDuplicates_loop :: "(string \<Rightarrow> unit option) \<Rightarrow> string list \<Rightarrow> string list \<Rightarrow> string list" where
  "RemoveDuplicates_loop processed res [] = res"
| "RemoveDuplicates_loop processed res (s # rest) =
     (if processed s = None
      then RemoveDuplicates_loop (processed(s \<mapsto> ())) (res @ [s]) rest
      else RemoveDuplicates_loop processed res rest)"

definition RemoveDuplicates :: "string list \<Rightarrow> string list" where
  "RemoveDuplicates xs = RemoveDuplicates_loop Map.empty [] xs"

subsection \<open>SafeId\<close>

definition unsafe_chars :: "char set" where
  "unsafe_chars = {CHR '' '', CHR '':'', CHR ''/'', CHR ''.''}"

lemma SafeId_map: "SafeId s = map (\<lambda>c. if c \<in> unsafe_chars then CHR ''-'' else c) s"
  by (induction s) (auto simp: SafeId_def unsafe_chars_def)

text \<open>
  \<open>SafeId\<close> keeps the length and every safe byte at its position, leaves no unsafe byte, and
  applying it again changes nothing.
\<close>

theorem SafeId_safe:
  "length (SafeId s) = length s
   \<and> set (SafeId s) \<inter> unsafe_chars = {}
   \<and> list_all2 (\<lambda>c d. d = (if c \<in> unsafe_chars then CHR ''-'' else c)) s (SafeId s)
   \<and> SafeId (SafeId s) = SafeId s"
  by (auto simp: SafeId_map unsafe_chars_def list_all2_conv_all_nth)

subsection \<open>URL-safe base64\<close>

text \<open>
  C38. Decoding inverts encoding for every byte string, and an encoded string consists of letters,
  digits, minus and underscore only, so it can stand in a URL.
\<close>

theorem url64_roundtrip:
  "URL64decode (URL64encode v) = v
   \<and> set (URL64encode v) \<subseteq> set (common_alphabet @ ''-_'')"
proof
  show "URL64decode (URL64encode v) = v"
    by (simp add: URL64decode_def URL64encode_def url_codec.dec_enc)
  show "set (URL64encode v) \<subseteq> set (common_alphabet @ ''-_'')"
    using b64_encode_chars [OF good_RawURLEncoding, of v]
    by (simp add: URL64encode_def EncodeToString_def RawURLEncoding_def)
qed

subsection \<open>RemoveDuplicates\<close>

lemma RemoveDuplicates_loop_eq:
  assumes "\<And>s. processed s \<noteq> None \<longleftrightarrow> s \<in> set res"
  shows "RemoveDuplicates_loop processed res xs =
           res @ rev (remdups (rev (filter (\<lambda>x. x \<notin> set res) xs)))"
  using assms
proof (induction xs arbitrary: processed res)
  case Nil
  then show ?case by simp
next
  case (Cons x xs)
  show ?case
  proof (cases "x \<in> set res")
    case True
    then obtain u where "processed x = Some u" using Cons.prems by blast
    then show ?thesis using True Cons.IH [OF Cons.prems] by simp
  next
    case False
    then have none: "processed x = None" using Cons.prems by blast
    have dom: "(processed(x \<mapsto> ())) s \<noteq> None \<longleftrightarrow> s \<in> set (res @ [x])" for s
      using Cons.prems by simp
    have snoc: "rev (remdups (ys @ [x])) = x # rev (remdups (filter (\<lambda>y. y \<noteq> x) ys))" for ys
      by (induction ys) auto
    have "RemoveDuplicates_loop processed res (x # xs) =
        (res @ [x]) @ rev (remdups (rev (filter (\<lambda>y. y \<notin> set (res @ [x])) xs)))"
      by (simp only: RemoveDuplicates_loop.simps none Cons.IH [OF dom] simp_thms if_True)
    then show ?thesis
      using False by (simp add: snoc rev_filter filter_filter conj_commute)
  qed
qed

text \<open>
  C20. \<open>RemoveDuplicates\<close> keeps exactly the first occurrence of every string, in the order of the
  input: it is \<open>remdups\<close> (which keeps last occurrences) seen from the other end. So the result has
  no duplicates and the same elements as the input.
\<close>

theorem RemoveDuplicates_first_occurrences:
  "RemoveDuplicates xs = rev (remdups (rev xs))
   \<and> distinct (RemoveDuplicates xs) \<and> set (RemoveDuplicates xs) = set xs"
  by (simp add: RemoveDuplicates_def RemoveDuplicates_loop_eq)

lemma RemoveDuplicates_eq: "RemoveDuplicates xs = rev (remdups (rev xs))"
  by (simp add: RemoveDuplicates_def RemoveDuplicates_loop_eq)

lemma RemoveDuplicates_distinct [simp]: "distinct (RemoveDuplicates xs)"
  by (simp add: RemoveDuplicates_eq)

lemma RemoveDuplicates_set [simp]: "set (RemoveDuplicates xs) = set xs"
  by (simp add: RemoveDuplicates_eq)

text \<open>
  The inputs and expected outputs of strings_test.go. The test itself shows less: its comparison compares
  a list with itself.
\<close>

lemma RemoveDuplicates_test:
  "RemoveDuplicates [''aaa'', ''bbb'', ''ccc''] = [''aaa'', ''bbb'', ''ccc'']"
  "RemoveDuplicates [''aaa'', ''bbb'', ''ccc'', ''bbb'', ''c''] = [''aaa'', ''bbb'', ''ccc'', ''c'']"
  by (simp_all add: RemoveDuplicates_def)

lemma RemoveDuplicates_id: "distinct xs \<Longrightarrow> RemoveDuplicates xs = xs"
  by (simp add: RemoveDuplicates_eq distinct_remdups_id)

section \<open>pkg/util/template.go: the template functions\<close>

text \<open>A value passed to a template function.\<close>

datatype tval = TStr string | TInt int

definition nl :: char where
  "nl = CHR 0x0A"

definition indent :: "int \<Rightarrow> string \<Rightarrow> string outcome" where
  "indent spaces v =
     (if spaces < 0 then Panic ''strings: negative Repeat count''
      else (let pad = str_repeat '' '' (nat spaces) in Ok (str_replace v [nl] ([nl] @ pad))))"

definition tmpl_replace :: "string \<Rightarrow> string \<Rightarrow> string \<Rightarrow> string" where
  "tmpl_replace old new src = str_replace src old new"

definition base64encode :: "string \<Rightarrow> string" where
  "base64encode v = EncodeToString StdEncoding v"

definition base64decode :: "string \<Rightarrow> string" where
  "base64decode v = (case DecodeString StdEncoding v of Inl err \<Rightarrow> err | Inr data \<Rightarrow> data)"

definition backslash :: char where
  "backslash = CHR 0x5C"

definition safePath :: "string \<Rightarrow> string" where
  "safePath v =
     byte_replacer [(CHR '' '', [backslash, CHR '' '']), (CHR '':'', [backslash, CHR '':''])] v"

text \<open>
  \<open>funcMap\<close>: each template function, applied to the values the engine evaluated. The engine checks
  the number and the types of the arguments before the call, which is the \<open>Err\<close> case here.
\<close>

definition bad_args :: "string \<Rightarrow> string outcome" where
  "bad_args f = Err (Plain (''wrong arguments for '' @ f))"

definition unary :: "string \<Rightarrow> (string \<Rightarrow> string) \<Rightarrow> tval list \<Rightarrow> string outcome" where
  "unary name f args = (case args of [TStr v] \<Rightarrow> Ok (f v) | _ \<Rightarrow> bad_args name)"

definition funcMap :: "(string \<times> (tval list \<Rightarrow> string outcome)) list" where
  "funcMap =
     [(''indent'', \<lambda>args. case args of [TInt n, TStr v] \<Rightarrow> indent n v | _ \<Rightarrow> bad_args ''indent''),
      (''replace'', \<lambda>args. case args of
                       [TStr old, TStr new, TStr src] \<Rightarrow> Ok (tmpl_replace old new src)
                     | _ \<Rightarrow> bad_args ''replace''),
      (''base64encode'', unary ''base64encode'' base64encode),
      (''base64decode'', unary ''base64decode'' base64decode),
      (''url64encode'', unary ''url64encode'' URL64encode),
      (''url64decode'', unary ''url64decode'' URL64decode),
      (''safeYAMLId'', unary ''safeYAMLId'' SafeId),
      (''safePath'', unary ''safePath'' safePath)]"

text \<open>
  The template engine: parsing knows the names of the functions, execution their meaning. A template
  is of type \<open>'t\<close>, the data it is executed against of type \<open>'d\<close>.
\<close>

record ('t, 'd) template_engine =
  tmpl_parse :: "string list \<Rightarrow> string \<Rightarrow> goerr + 't"
  tmpl_execute :: "(string \<times> (tval list \<Rightarrow> string outcome)) list \<Rightarrow> 't \<Rightarrow> 'd \<Rightarrow> string outcome"

definition ParseTemplate :: "('t, 'd) template_engine \<Rightarrow> string \<Rightarrow> 'd \<Rightarrow> string outcome" where
  "ParseTemplate T templateStr replacements =
     (case tmpl_parse T (map fst funcMap) templateStr of
        Inl err \<Rightarrow> Err (Wrapped ''error when parsing template'' err)
      | Inr tmpl \<Rightarrow>
          (case tmpl_execute T funcMap tmpl replacements of
             Err err \<Rightarrow> Err (Wrapped ''error when executing template'' err)
           | Ok contents \<Rightarrow> Ok contents
           | Panic p \<Rightarrow> Panic p))"

subsection \<open>What the template functions compute\<close>

text \<open>The lines of a text.\<close>

definition text_lines :: "string \<Rightarrow> string list" where
  "text_lines v = split_on v [nl]"

lemma split_join_byte:
  assumes "ps \<noteq> []" and "\<And>p. p \<in> set ps \<Longrightarrow> c \<notin> set p"
  shows "split_on (str_join ps [c]) [c] = ps"
  using assms
proof (induction ps)
  case Nil
  then show ?case by simp
next
  case (Cons p ps)
  show ?case
  proof (cases "ps = []")
    case True
    then show ?thesis using Cons.prems by (simp add: split_on_byte_notin)
  next
    case False
    then show ?thesis
      using Cons by (simp add: str_join_Cons split_on_byte_app)
  qed
qed

lemma join_pad: "str_join (p # ps) (c # pad) = str_join (p # map (\<lambda>l. pad @ l) ps) [c]"
proof (induction ps arbitrary: p)
  case Nil
  then show ?case by simp
next
  case (Cons q ps)
  have "str_join ((pad @ q) # map (\<lambda>l. pad @ l) ps) [c] = pad @ str_join (q # map (\<lambda>l. pad @ l) ps) [c]"
    by (cases ps) auto
  then show ?case using Cons.IH [of q] by simp
qed

text \<open>
  \<open>indent\<close> works line by line: the first line is unchanged, every later line is prefixed with
  exactly \<open>n\<close> spaces, and no line is added or lost.
\<close>

theorem indent_lines:
  assumes "0 \<le> n"
  shows "\<exists>r. indent n v = Ok r
           \<and> text_lines r =
               hd (text_lines v) # map (\<lambda>l. replicate (nat n) (CHR '' '') @ l) (tl (text_lines v))"
proof -
  define pad where "pad = replicate (nat n) (CHR '' '')"
  obtain p ps where ps: "split_on v [nl] = p # ps" by (cases "split_on v [nl]") auto
  have "str_replace v [nl] (nl # pad) = str_join (split_on v [nl]) (nl # pad)"
    by (simp only: str_replace_byte join_split_byte)
  then have r: "str_replace v [nl] (nl # pad) = str_join (p # map (\<lambda>l. pad @ l) ps) [nl]"
    using join_pad [of p ps nl pad] by (simp only: ps)
  have clean: "nl \<notin> set l" if "l \<in> set (p # map (\<lambda>l. pad @ l) ps)" for l
    using that split_on_byte_pieces [of _ v nl] ps by (auto simp: pad_def nl_def)
  have "indent n v = Ok (str_join (p # map (\<lambda>l. pad @ l) ps) [nl])"
    using assms r by (simp add: indent_def Let_def str_repeat_byte pad_def)
  moreover have "text_lines (str_join (p # map (\<lambda>l. pad @ l) ps) [nl]) = p # map (\<lambda>l. pad @ l) ps"
    unfolding text_lines_def by (rule split_join_byte) (simp, rule clean)
  ultimately show ?thesis using ps by (simp add: text_lines_def pad_def)
qed

theorem indent_lines_witness:
  "\<exists>r. indent 2 ''ab'' = Ok r
     \<and> text_lines r =
         hd (text_lines ''ab'') # map (\<lambda>l. replicate (nat 2) (CHR '' '') @ l) (tl (text_lines ''ab''))"
  by (rule indent_lines) simp

text \<open>An escaped path never starts with a character that needs escaping.\<close>

lemma safePath_Nil [simp]: "safePath [] = []"
  by (simp add: safePath_def)

lemma safePath_Cons [simp]:
  "safePath (c # s) = (if c = CHR '' '' \<or> c = CHR '':'' then [backslash, c] else [c]) @ safePath s"
  by (simp add: safePath_def)

lemma safePath_hd: "safePath t = c # r \<Longrightarrow> c \<noteq> CHR '' '' \<and> c \<noteq> CHR '':''"
  by (cases t) (auto simp: backslash_def split: if_splits)

text \<open>
  \<open>safePath\<close> loses nothing: two different paths are never escaped to the same string, although
  the backslash itself is not escaped.
\<close>

theorem safePath_injective: "safePath s = safePath t \<longleftrightarrow> s = t"
proof
  assume "safePath s = safePath t"
  then show "s = t"
  proof (induction s arbitrary: t)
    case Nil
    then show ?case by (cases t) (auto split: if_splits)
  next
    case (Cons c s)
    then obtain d t' where t: "t = d # t'" by (cases t) (auto split: if_splits)
    have "c = d \<and> safePath s = safePath t'"
    proof (cases "(c = CHR '' '' \<or> c = CHR '':'') = (d = CHR '' '' \<or> d = CHR '':'')")
      case True
      then show ?thesis using Cons.prems t by (auto split: if_splits)
    next
      case False
      then have "safePath t' = c # safePath s \<and> (c = CHR '' '' \<or> c = CHR '':'')
          \<or> safePath s = d # safePath t' \<and> (d = CHR '' '' \<or> d = CHR '':'')"
        using Cons.prems t by (auto split: if_splits)
      then show ?thesis using safePath_hd by blast
    qed
    then show ?case using Cons.IH t by blast
  qed
qed simp

lemma template_base64_roundtrip: "base64decode (base64encode v) = v"
  by (simp add: base64decode_def base64encode_def std_codec.dec_enc)

end
