(* ===== verification/Flannel_Manifests.thy ===== *)
theory Flannel_Manifests
  imports Util_Strings
begin

text \<open>
  pkg/cni/flannel/manifests.go: the two templates of the flannel driver, line by line (a constant is its
  lines joined by newlines), and the fields they ask for.
\<close>

section \<open>Templates\<close>

definition FlannelConfigMap19_lines :: "string list" where
  \<open>FlannelConfigMap19_lines =
     [[],
      ''kind: ConfigMap'',
      ''apiVersion: v1'',
      ''metadata:'',
      ''  name: flannel-plugin-config-map'',
      ''  namespace: kube-system'',
      ''  labels:'',
      ''    tier: node'',
      ''    app: flannel'',
      ''data:'',
      ''  cni-conf.json: |'',
      ''    {'',
      ''      "name":"cbr0",'',
      ''      "cniVersion":"0.3.1",'',
      ''      "plugins":['',
      ''        {'',
      ''          "type":"flannel",'',
      ''          "delegate":{'',
      ''              "forceAddress":true,'',
      ''              "isDefaultGateway":true'',
      ''          }'',
      ''        },'',
      ''        {'',
      ''          "type":"portmap",'',
      ''          "capabilities":{'',
      ''            "portMappings":true'',
      ''          }'',
      ''        }'',
      ''      ]'',
      ''    }'',
      ''  net-conf.json: |'',
      ''    {'',
      ''      "Network": "{{ .Network }}",'',
      ''      "Backend":'',
      ''      {'',
      ''        "Type": "{{ .Backend }}"'',
      ''      }'',
      ''    }'',
      []]\<close>

definition FlannelConfigMap19 :: string where
  "FlannelConfigMap19 = str_join FlannelConfigMap19_lines [nl]"

definition FlannelDaemonSet19_lines :: "string list" where
  \<open>FlannelDaemonSet19_lines =
     [[],
      ''apiVersion: apps/v1'',
      ''kind: DaemonSet'',
      ''metadata:'',
      ''  name: kube-flannel'',
      ''  namespace: kube-system'',
      ''  labels:'',
      ''    tier: node'',
      ''    k8s-app: flannel'',
      ''spec:'',
      ''  selector:'',
      ''    matchLabels:'',
      ''      tier: node'',
      ''      k8s-app: flannel'',
      ''  template:'',
      ''    metadata:'',
      ''      labels:'',
      ''        tier: node'',
      ''        k8s-app: flannel'',
      ''    spec:'',
      ''      serviceAccountName: {{ .ServiceAccount }}'',
      ''      initContainers:'',
      ''      - name: install-cni-conf'',
      ''        image: {{ .Image }}'',
      ''        command:'',
      ''          - /bin/sh'',
      ''          - "-c"'',
      ''          - "cp -f /etc/kube-flannel/cni-conf.json /host/etc/cni/net.d/10-flannel.conflist"'',
      ''        volumeMounts:'',
      ''        - name: flannel-plugin-config'',
      ''          mountPath: /etc/kube-flannel/'',
      ''        - name: host-cni-conf'',
      ''          mountPath: /host/etc/cni/net.d'',
      ''      - name: install-cni-bin'',
      ''        image: {{ .Image }}'',
      ''        command:'',
      ''          - /bin/sh'',
      ''          - "-c"'',
      ''          - "cp -f /usr/lib/cni/* /host/opt/cni/bin/"'',
      ''        volumeMounts:'',
      ''        - name: host-cni-bin'',
      ''          mountPath: /host/opt/cni/bin/'',
      ''      containers:'',
      ''      - name: kube-flannel'',
      ''        image: {{ .Image }}'',
      ''        command:'',
      ''          - /usr/sbin/flanneld'',
      ''          - "--ip-masq"'',
      ''          - "--kube-subnet-mgr"'',
      ''          - "--v={{ .LogLevel }}"'',
      ''          - "--iface=$(POD_IP)"'',
      ''          - "--healthz-ip=$(POD_IP)"'',
      ''          - "--healthz-port={{ .HealthzPort }}"'',
      ''        securityContext:'',
      ''          privileged: true'',
      ''        ports:'',
      ''        - name: healthz'',
      ''          containerPort: {{ .HealthzPort }}'',
      ''        readinessProbe:'',
      ''          httpGet:'',
      ''            path: /healthz'',
      ''            port: healthz'',
      ''        livenessProbe:'',
      ''          initialDelaySeconds: 10'',
      ''          timeoutSeconds: 10'',
      ''          httpGet:'',
      ''            path: /healthz'',
      ''            port: healthz'',
      ''        env:'',
      ''        - name: POD_IP'',
      ''          valueFrom:'',
      ''            fieldRef:'',
      ''              fieldPath: status.podIP'',
      ''        - name: POD_NAME'',
      ''          valueFrom:'',
      ''            fieldRef:'',
      ''              fieldPath: metadata.name'',
      ''        - name: POD_NAMESPACE'',
      ''          valueFrom:'',
      ''            fieldRef:'',
      ''              fieldPath: metadata.namespace'',
      ''        - name: NODE_NAME'',
      ''          valueFrom:'',
      ''            fieldRef:'',
      ''              fieldPath: spec.nodeName'',
      ''        volumeMounts:'',
      ''        - name: run'',
      ''          mountPath: /run'',
      ''        - name: host-cni-conf'',
      ''          mountPath: /etc/cni/net.d'',
      ''        - name: flannel-plugin-config'',
      ''          mountPath: /etc/kube-flannel/'',
      ''      hostNetwork: true'',
      ''      nodeSelector:'',
      ''        beta.kubernetes.io/arch: amd64'',
      ''      tolerations:'',
      ''        # Allow the pod to run on the master.  This is required for'',
      ''        # the master to communicate with pods.'',
      ''        - key: node-role.kubernetes.io/master'',
      ''          operator: Exists'',
      ''          effect: NoSchedule'',
      ''        # Mark the pod as a critical add-on for rescheduling.'',
      ''        - key: "CriticalAddonsOnly"'',
      ''          operator: "Exists"'',
      ''      volumes:'',
      ''        - name: run'',
      ''          hostPath:'',
      ''            path: /run'',
      ''        - name: host-cni-conf'',
      ''          hostPath:'',
      ''            path: {{ .ConfDir }}'',
      ''        - name: flannel-plugin-config'',
      ''          configMap:'',
      ''            name: flannel-plugin-config-map'',
      ''        - name: host-cni-bin'',
      ''          hostPath:'',
      ''            path: {{ .BinDir }}'',
      ''  updateStrategy:'',
      ''    rollingUpdate:'',
      ''      maxUnavailable: 1'',
      ''    type: RollingUpdate'',
      []]\<close>

definition FlannelDaemonSet19 :: string where
  "FlannelDaemonSet19 = str_join FlannelDaemonSet19_lines [nl]"

section \<open>Fields\<close>

text \<open>The fields that the actions of a template, all of the form \<open>{{ .Field }}\<close>, refer to.\<close>

fun template_fields :: "string \<Rightarrow> string list" where
  "template_fields [] = []"
| "template_fields (c # s) =
     (if c = CHR ''{'' then
        (if has_prefix s ''{ .'' then takeWhile (\<lambda>x. x \<noteq> CHR '' '') (drop 3 s) # template_fields s
         else template_fields s)
      else template_fields s)"

text \<open>A line that holds its actions completely can be looked at alone.\<close>

definition closed_line :: "string \<Rightarrow> bool" where
  "closed_line l \<longleftrightarrow> (\<forall>r. template_fields (l @ nl # r) = template_fields l @ template_fields r)"

lemma no_brace_fields: "CHR ''{'' \<notin> set l \<Longrightarrow> template_fields (l @ r) = template_fields r"
  by (induction l) auto

lemma no_brace_line: "CHR ''{'' \<notin> set l \<Longrightarrow> closed_line l \<and> template_fields l = []"
  using no_brace_fields [of l] no_brace_fields [of l "[]"] by (simp add: closed_line_def nl_def)

lemma fields_join:
  "list_all closed_line ls \<Longrightarrow> template_fields (str_join ls [nl]) = concat (map template_fields ls)"
proof (induction ls "[nl]" rule: str_join.induct)
  case (3 x y xs)
  then show ?case by (simp add: closed_line_def)
qed simp_all

lemma fields_braces:
  assumes "filter (\<lambda>l. CHR ''{'' \<in> set l) ls = bs" and "list_all closed_line bs"
  shows "template_fields (str_join ls [nl]) = concat (map template_fields bs)"
proof -
  have "list_all closed_line ls"
    using assms no_brace_line by (auto simp: list_all_iff)
  moreover have "concat (map template_fields ls) = concat (map template_fields (filter (\<lambda>l. CHR ''{'' \<in> set l) ls))"
    using no_brace_line by (induction ls) auto
  ultimately show ?thesis using fields_join assms(1) by simp
qed

lemma config_map_braces:
  \<open>filter (\<lambda>l. CHR ''{'' \<in> set l) FlannelConfigMap19_lines =
     [''    {'',
      ''        {'',
      ''          "delegate":{'',
      ''        {'',
      ''          "capabilities":{'',
      ''    {'',
      ''      "Network": "{{ .Network }}",'',
      ''      {'',
      ''        "Type": "{{ .Backend }}"'']\<close>
  by (simp add: FlannelConfigMap19_lines_def)

lemma daemon_set_braces:
  \<open>filter (\<lambda>l. CHR ''{'' \<in> set l) FlannelDaemonSet19_lines =
     [''      serviceAccountName: {{ .ServiceAccount }}'',
      ''        image: {{ .Image }}'',
      ''        image: {{ .Image }}'',
      ''        image: {{ .Image }}'',
      ''          - "--v={{ .LogLevel }}"'',
      ''          - "--healthz-port={{ .HealthzPort }}"'',
      ''          containerPort: {{ .HealthzPort }}'',
      ''            path: {{ .ConfDir }}'',
      ''            path: {{ .BinDir }}'']\<close>
  by (simp add: FlannelDaemonSet19_lines_def)

lemma config_map_fields: "template_fields FlannelConfigMap19 = [''Network'', ''Backend'']"
  unfolding FlannelConfigMap19_def
  by (subst fields_braces [OF config_map_braces]) (simp_all add: closed_line_def nl_def)

lemma daemon_set_fields:
  "template_fields FlannelDaemonSet19 =
     [''ServiceAccount'', ''Image'', ''Image'', ''Image'', ''LogLevel'', ''HealthzPort'', ''HealthzPort'',
      ''ConfDir'', ''BinDir'']"
  unfolding FlannelDaemonSet19_def
  by (subst fields_braces [OF daemon_set_braces]) (simp_all add: closed_line_def nl_def)

end
