(* ===== verification/Util_Names.thy ===== *)
theory Util_Names
  imports Go_Strings
begin

text \<open>
  pkg/util/names.go: names qualified by a namespace, and the \<open>ObjNamespacer\<close> interface. A Go
  interface is modelled as its method table, a record of functions on the implementing type; the
  functions that take an interface value take the table and the object. The locale
  \<open>namespaced_objects\<close> is the contract every implementation in the program is shown to keep.
\<close>

section \<open>Namespaced names\<close>

record NamespacedName =
  Name :: string
  Namespace :: string

record ObjectMeta =
  metaName :: string
  metaNamespace :: string

text \<open>\<open>metav1.NamespaceSystem\<close>.\<close>

definition NamespaceSystem :: string where
  "NamespaceSystem = ''kube-system''"

definition defaultNamespace :: string where
  "defaultNamespace = NamespaceSystem"

definition NewNamespacedName :: "string \<Rightarrow> string \<Rightarrow> NamespacedName" where
  "NewNamespacedName name namespace = \<lparr>Name = name, Namespace = namespace\<rparr>"

definition NamespacedNameToString :: "NamespacedName \<Rightarrow> string" where
  "NamespacedNameToString ns =
     (if 0 < length (Namespace ns) then Namespace ns @ ''/'' @ Name ns else Name ns)"

definition StringToNamespacedName :: "string \<Rightarrow> NamespacedName" where
  "StringToNamespacedName name =
     (let res = str_split2 name ''/'' in
      if length res = 2 then \<lparr>Name = res ! 1, Namespace = res ! 0\<rparr>
      else \<lparr>Name = res ! 0, Namespace = defaultNamespace\<rparr>)"

section \<open>The ObjNamespacer interface\<close>

record 'o ObjNamespacer =
  GetName :: "'o \<Rightarrow> string"
  GetNamespace :: "'o \<Rightarrow> string"

definition NamespacedObjToNamespacedName :: "'o ObjNamespacer \<Rightarrow> 'o \<Rightarrow> NamespacedName" where
  "NamespacedObjToNamespacedName I obj = \<lparr>Name = GetName I obj, Namespace = GetNamespace I obj\<rparr>"

definition NamaspacedObjToMeta :: "'o ObjNamespacer \<Rightarrow> 'o \<Rightarrow> ObjectMeta" where
  "NamaspacedObjToMeta I obj =
     (let ns = NamespacedObjToNamespacedName I obj in
      \<lparr>metaName = Name ns, metaNamespace = Namespace ns\<rparr>)"

definition NamespacedObjToString :: "'o ObjNamespacer \<Rightarrow> 'o \<Rightarrow> string" where
  "NamespacedObjToString I obj =
     (if 0 < length (GetNamespace I obj) then GetNamespace I obj @ ''/'' @ GetName I obj
      else GetName I obj)"

section \<open>Parsing and printing\<close>

lemma StringToNamespacedName_plain:
  "CHR ''/'' \<notin> set s \<Longrightarrow> StringToNamespacedName s = \<lparr>Name = s, Namespace = defaultNamespace\<rparr>"
  by (simp add: StringToNamespacedName_def str_split2_def str_index_byte_None [THEN iffD2])

lemma StringToNamespacedName_slash:
  "CHR ''/'' \<notin> set a \<Longrightarrow> StringToNamespacedName (a @ CHR ''/'' # b) = \<lparr>Name = b, Namespace = a\<rparr>"
  by (simp add: StringToNamespacedName_def str_split2_def Let_def)

lemma StringToNamespacedName_namespace_no_slash:
  "CHR ''/'' \<notin> set (Namespace (StringToNamespacedName s))"
proof (cases "CHR ''/'' \<in> set s")
  case True
  then obtain a b where "s = a @ CHR ''/'' # b" "CHR ''/'' \<notin> set a"
    by (meson split_list_first)
  then show ?thesis by (simp add: StringToNamespacedName_slash)
next
  case False
  then show ?thesis
    by (simp add: StringToNamespacedName_plain defaultNamespace_def NamespaceSystem_def)
qed

text \<open>
  Parsing inverts printing: for a name in a namespace that is non-empty and has no slash,
  \<open>StringToNamespacedName\<close> reads back exactly the name and the namespace that
  \<open>NamespacedNameToString\<close> printed, whatever the name (slashes included).
\<close>

theorem namespaced_name_roundtrip:
  assumes "Namespace ns \<noteq> []" and "CHR ''/'' \<notin> set (Namespace ns)"
  shows "StringToNamespacedName (NamespacedNameToString ns) = ns"
proof -
  have "NamespacedNameToString ns = Namespace ns @ CHR ''/'' # Name ns"
    using assms by (simp add: NamespacedNameToString_def)
  then show ?thesis using StringToNamespacedName_slash [OF assms(2)] by simp
qed

theorem namespaced_name_roundtrip_witness:
  "StringToNamespacedName (NamespacedNameToString (NewNamespacedName ''a/b'' ''dex'')) =
     NewNamespacedName ''a/b'' ''dex''"
  by (rule namespaced_name_roundtrip) (simp_all add: NewNamespacedName_def)

text \<open>
  Printing inverts parsing up to the default namespace: a string with a slash and something
  before it is printed back unchanged, a string without a slash comes back qualified with
  \<open>kube-system\<close>, and a string that starts with a slash loses it.
\<close>

theorem string_roundtrip:
  "NamespacedNameToString (StringToNamespacedName s) =
     (if CHR ''/'' \<notin> set s then ''kube-system/'' @ s
      else if hd s = CHR ''/'' then tl s
      else s)"
proof (cases "CHR ''/'' \<in> set s")
  case True
  then obtain a b where s: "s = a @ CHR ''/'' # b" "CHR ''/'' \<notin> set a"
    by (meson split_list_first)
  have p: "StringToNamespacedName s = \<lparr>Name = b, Namespace = a\<rparr>"
    using s by (simp add: StringToNamespacedName_slash)
  show ?thesis
    unfolding p NamespacedNameToString_def using s by (cases a) auto
next
  case False
  then show ?thesis
    by (simp add: StringToNamespacedName_plain NamespacedNameToString_def
        defaultNamespace_def NamespaceSystem_def)
qed

section \<open>The contract of namespaced objects\<close>

text \<open>
  An object type with a constructor from a name and a namespace. The law says that the getters
  return what the constructor was given, for the names and namespaces it accepts.
\<close>

locale namespaced_objects =
  fixes I :: "'o ObjNamespacer"
    and mk :: "string \<Rightarrow> string \<Rightarrow> 'o"
    and accepts :: "string \<Rightarrow> string \<Rightarrow> bool"
  assumes get_name: "accepts n ns \<Longrightarrow> GetName I (mk n ns) = n"
    and get_namespace: "accepts n ns \<Longrightarrow> GetNamespace I (mk n ns) = ns"
begin

lemma to_namespaced_name:
  "accepts n ns \<Longrightarrow> NamespacedObjToNamespacedName I (mk n ns) = NewNamespacedName n ns"
  by (simp add: NamespacedObjToNamespacedName_def NewNamespacedName_def get_name get_namespace)

lemma to_meta:
  "accepts n ns \<Longrightarrow> NamaspacedObjToMeta I (mk n ns) = \<lparr>metaName = n, metaNamespace = ns\<rparr>"
  by (simp add: NamaspacedObjToMeta_def to_namespaced_name NewNamespacedName_def)

lemma to_string:
  "accepts n ns \<Longrightarrow> NamespacedObjToString I (mk n ns) = NamespacedNameToString (NewNamespacedName n ns)"
  by (simp only: NamespacedObjToString_def NamespacedNameToString_def NewNamespacedName_def
      get_name get_namespace NamespacedName.simps)

text \<open>Distinct objects of the type have distinct metadata, and distinct printed keys.\<close>

lemma to_meta_inj:
  assumes "accepts n ns" and "accepts n' ns'"
    and "NamaspacedObjToMeta I (mk n ns) = NamaspacedObjToMeta I (mk n' ns')"
  shows "n = n' \<and> ns = ns'"
  using assms by (simp add: to_meta)

lemma to_string_inj:
  assumes "accepts n ns" and "accepts n' ns'"
    and "ns \<noteq> []" and "CHR ''/'' \<notin> set ns" and "ns' \<noteq> []" and "CHR ''/'' \<notin> set ns'"
    and "NamespacedObjToString I (mk n ns) = NamespacedObjToString I (mk n' ns')"
  shows "n = n' \<and> ns = ns'"
proof -
  have rt: "StringToNamespacedName (NamespacedObjToString I (mk m ms)) = \<lparr>Name = m, Namespace = ms\<rparr>"
    if "accepts m ms" "ms \<noteq> []" "CHR ''/'' \<notin> set ms" for m ms
  proof -
    have "NamespacedObjToString I (mk m ms) = ms @ CHR ''/'' # m"
      using that(2) by (simp add: to_string [OF that(1)] NamespacedNameToString_def NewNamespacedName_def)
    then show ?thesis using StringToNamespacedName_slash [OF that(3)] by simp
  qed
  have "\<lparr>Name = n, Namespace = ns\<rparr> = \<lparr>Name = n', Namespace = ns'\<rparr>"
    by (rule trans [OF rt [OF assms(1,3,4), unfolded assms(7), symmetric] rt [OF assms(2,5,6)]])
  then show ?thesis by simp
qed

end

text \<open>API objects carry their metadata; the getters read it.\<close>

definition ObjectMetaNamer :: "ObjectMeta ObjNamespacer" where
  "ObjectMetaNamer = \<lparr>GetName = metaName, GetNamespace = metaNamespace\<rparr>"

interpretation object_meta: namespaced_objects ObjectMetaNamer
  "\<lambda>n ns. \<lparr>metaName = n, metaNamespace = ns\<rparr>" "\<lambda>_ _. True"
  by unfold_locales (simp_all add: ObjectMetaNamer_def)

end
