(* ===== verification/World.thy ===== *)
theory World
  imports Util_Names "HOL-Library.Sublist"
begin

text \<open>
  The outside world as the program sees it: the Kubernetes objects it exchanges with the API server,
  the external calls it makes, and the program state, which is the history of those calls and the one
  package variable the program mutates (\<open>config.DefaultKubeletSettings\<close>). Object specifications that
  the program only copies or compares are opaque, a \<open>string\<close> standing for their value.
\<close>

section \<open>API objects\<close>

type_synonym opaque = string

record secret =
  secMeta :: ObjectMeta
  secType :: string
  secData :: "(string \<times> string) list"

datatype cond_type = CertificateApproved | CertificateDenied

record csr_condition =
  condType :: cond_type
  condReason :: string
  condMessage :: string

record csr =
  csrMeta :: ObjectMeta
  csrGroups :: "string list"
  csrRequest :: string
  csrUsages :: "string list"
  csrConditions :: "csr_condition list"
  csrCertificate :: string

text \<open>Pods, jobs and network policies: metadata, the \<open>Spec\<close>, and the rest (status and such).\<close>

record kobj =
  objMeta :: ObjectMeta
  objSpec :: opaque
  objRest :: opaque

record service_spec =
  svcType :: string
  svcPorts :: opaque
  svcSpecRest :: opaque

record service =
  svcMeta :: ObjectMeta
  svcSpec :: service_spec
  svcRest :: opaque

record config_map =
  cmMeta :: ObjectMeta
  cmLabels :: "(string \<times> string) list"
  cmData :: "(string \<times> string) list"

record policy_rule =
  ruleAPIGroups :: "string list"
  ruleResources :: "string list"
  ruleVerbs :: "string list"

record cluster_role =
  roleMeta :: ObjectMeta
  roleRules :: "policy_rule list"

record role_ref =
  refAPIGroup :: string
  refKind :: string
  refName :: string

record rbac_subject =
  subjKind :: string
  subjName :: string
  subjNamespace :: string

record cluster_role_binding =
  bindMeta :: ObjectMeta
  bindRoleRef :: role_ref
  bindSubjects :: "rbac_subject list"

record crd =
  crdMeta :: ObjectMeta
  crdGroup :: string
  crdVersion :: string
  crdKind :: string
  crdPlural :: string
  crdValidation :: opaque
  crdRest :: opaque

record unstr =
  unGroupVersionKind :: string
  unMeta :: ObjectMeta
  unBody :: opaque

datatype api_obj =
    OSecret secret
  | OCsr csr
  | OPod kobj
  | OJob kobj
  | OService service
  | ONetworkPolicy kobj
  | OConfigMap config_map
  | ODaemonSet kobj
  | OServiceAccount ObjectMeta
  | OClusterRole cluster_role
  | OClusterRoleBinding cluster_role_binding
  | OCRD crd
  | OUnstructured unstr

datatype kind =
    KSecret | KCsr | KPod | KJob | KService | KNetworkPolicy | KConfigMap | KDaemonSet
  | KServiceAccount | KClusterRole | KClusterRoleBinding | KCRD | KUnstructured

section \<open>External calls\<close>

text \<open>
  API calls carry what is sent: \<open>ApiDelete k ns n fg\<close> has \<open>fg\<close> set for foreground deletion.
  \<open>ApiCreateOrUpdate\<close> is kubeadm's \<open>apiclient.CreateOrUpdate...\<close>.
\<close>

datatype call =
    OsStat string
  | OsReadFile string
  | OsReadDir string
  | OsGlob string
  | OsLookupEnv string
  | OsTempFile string
  | OsWriteTemp string string
  | OsRemove string
  | OsExec string "string list"
  | NetChooseHostInterface
  | NetChooseBindAddress "string option"
  | TimeSleep nat
  | TimeSleepMs nat
  | RandIntn nat
  | RsaGenerateKey nat
  | HttpGet string
  | RestGet string
  | LoadKubeconfig string string
  | LoadInCluster
  | CurrentUser
  | ApiConnect string
  | ApiGet kind string string
  | ApiCreate api_obj
  | ApiUpdate api_obj
  | ApiCreateOrUpdate api_obj
  | ApiUpdateApproval csr
  | ApiDelete kind string string bool
  | ApiDiscover string

record world =
  history :: "call list"
  kubelet_settings :: "(string \<times> string) list"

text \<open>One external call: the answer depends on the history, and the call is recorded.\<close>

definition perform :: "(call list \<Rightarrow> 'r) \<Rightarrow> call \<Rightarrow> (world, 'r) state" where
  "perform f c = State (\<lambda>w. (f (history w), w\<lparr>history := history w @ [c]\<rparr>))"

lemma run_perform [simp]:
  "run_state (perform f c) w = (f (history w), w\<lparr>history := history w @ [c]\<rparr>)"
  by (simp add: perform_def)

section \<open>The operating system\<close>

text \<open>
  The answers of the operating system to the calls the program makes, each a function of the history.
  \<open>os_stat\<close> tells a missing path (\<open>os.IsNotExist\<close>) from other failures.
\<close>

datatype stat_result = StatOk | StatNotExist | StatErr goerr

record os_env =
  os_stat :: "call list \<Rightarrow> string \<Rightarrow> stat_result"
  os_read_file :: "call list \<Rightarrow> string \<Rightarrow> goerr + string"
  os_read_dir :: "call list \<Rightarrow> string \<Rightarrow> goerr + string list"
  os_glob :: "call list \<Rightarrow> string \<Rightarrow> goerr + string list"
  os_lookup_env :: "call list \<Rightarrow> string \<Rightarrow> string option"
  os_temp_file :: "call list \<Rightarrow> string \<Rightarrow> goerr + string"
  os_exec :: "call list \<Rightarrow> string \<Rightarrow> string list \<Rightarrow> goerr option"
  os_host_interface :: "call list \<Rightarrow> goerr + string"

definition Stat :: "os_env \<Rightarrow> string \<Rightarrow> (world, stat_result) state" where
  "Stat E p = perform (\<lambda>h. os_stat E h p) (OsStat p)"

definition ReadFile :: "os_env \<Rightarrow> string \<Rightarrow> (world, string outcome) state" where
  "ReadFile E p = perform (\<lambda>h. of_sum (os_read_file E h p)) (OsReadFile p)"

definition ReadDir :: "os_env \<Rightarrow> string \<Rightarrow> (world, string list outcome) state" where
  "ReadDir E p = perform (\<lambda>h. of_sum (os_read_dir E h p)) (OsReadDir p)"

definition Glob :: "os_env \<Rightarrow> string \<Rightarrow> (world, string list outcome) state" where
  "Glob E p = perform (\<lambda>h. of_sum (os_glob E h p)) (OsGlob p)"

definition LookupEnv :: "os_env \<Rightarrow> string \<Rightarrow> (world, string option) state" where
  "LookupEnv E v = perform (\<lambda>h. os_lookup_env E h v) (OsLookupEnv v)"

definition ChooseHostInterface :: "os_env \<Rightarrow> (world, string outcome) state" where
  "ChooseHostInterface E = perform (\<lambda>h. of_sum (os_host_interface E h)) NetChooseHostInterface"

lemmas os_ops = Stat_def ReadFile_def ReadDir_def Glob_def LookupEnv_def ChooseHostInterface_def

section \<open>What a computation may call\<close>

text \<open>
  \<open>calls_only P m\<close>: whatever the environment answers, \<open>m\<close> only appends calls that satisfy \<open>P\<close> to the
  history. It is compositional, so it is proved by following
  the structure of a function.
\<close>

definition hist_ext :: "(call \<Rightarrow> bool) \<Rightarrow> world \<Rightarrow> world \<Rightarrow> bool" where
  "hist_ext P w w' \<longleftrightarrow>
     (\<exists>cs. history w' = history w @ cs \<and> list_all P cs)"

definition calls_only :: "(call \<Rightarrow> bool) \<Rightarrow> (world, 'a) state \<Rightarrow> bool" where
  "calls_only P m \<longleftrightarrow> state_io_rel (hist_ext P) m"

named_theorems calls_intros

lemma hist_ext_refl [simp]: "hist_ext P w w"
  by (simp add: hist_ext_def exI [of _ "[]"])

lemma hist_ext_trans: "hist_ext P u v \<Longrightarrow> hist_ext P v w \<Longrightarrow> hist_ext P u w"
  unfolding hist_ext_def by (metis append.assoc list_all_append)

lemma hist_ext_mono: "hist_ext P u v \<Longrightarrow> (\<And>c. P c \<Longrightarrow> Q c) \<Longrightarrow> hist_ext Q u v"
  unfolding hist_ext_def by (metis list.pred_mono_strong)

lemma calls_onlyD: "calls_only P m \<Longrightarrow> run_state m w = (r, w') \<Longrightarrow> hist_ext P w w'"
  by (auto simp: calls_only_def)

lemma calls_only_iff: "calls_only P m \<longleftrightarrow> (\<forall>w. hist_ext P w (snd (run_state m w)))"
  by (simp add: calls_only_def state_io_rel_def)

interpretation calls: io_relation "hist_ext P" for P
  by unfold_locales (auto intro: hist_ext_trans)

lemma calls_only_perform [calls_intros]: "P c \<Longrightarrow> calls_only P (perform f c)"
  by (auto simp: calls_only_iff hist_ext_def)

lemmas calls_only_return [calls_intros] = calls.io_ret [folded calls_only_def]
lemmas calls_only_bind [calls_intros] = calls.io_bind [folded calls_only_def]
lemmas calls_only_andthen [calls_intros] = calls.io_andthen [folded calls_only_def]
lemmas calls_only_wrap_err [calls_intros] = calls.io_wrap_err [folded calls_only_def]
lemmas calls_only_for_each [calls_intros] = calls.io_for_each [folded calls_only_def]

lemma calls_only_if [calls_intros]:
  "calls_only P m \<Longrightarrow> calls_only P n \<Longrightarrow> calls_only P (if b then m else n)"
  by simp

lemma calls_only_mono: "calls_only P m \<Longrightarrow> (\<And>c. P c \<Longrightarrow> Q c) \<Longrightarrow> calls_only Q m"
  unfolding calls_only_iff using hist_ext_mono by blast

text \<open>
  Worlds are ordered by what has been done in them, and every computation moves forward. With the class
  instance, chains of runs are chains of \<open>\<le>\<close>.
\<close>

instantiation world_ext :: (type) preorder
begin

definition less_eq_world_ext :: "'a world_scheme \<Rightarrow> 'a world_scheme \<Rightarrow> bool" where
  "less_eq_world_ext w w' \<longleftrightarrow> prefix (history w) (history w')"

definition less_world_ext :: "'a world_scheme \<Rightarrow> 'a world_scheme \<Rightarrow> bool" where
  "less_world_ext w w' \<longleftrightarrow> strict_prefix (history w) (history w')"

instance
  by standard
    (auto simp: less_eq_world_ext_def less_world_ext_def strict_prefix_def prefix_order.eq_iff
      intro: prefix_order.trans)

end

lemma hist_ext_le: "hist_ext P w w' \<Longrightarrow> w \<le> w'"
  by (auto simp: hist_ext_def less_eq_world_ext_def)

lemma calls_only_le: "calls_only P m \<Longrightarrow> run_state m w = (r, w') \<Longrightarrow> w \<le> w'"
  by (rule hist_ext_le) (rule calls_onlyD)

text \<open>The same for the package variable: most computations leave it alone.\<close>

definition same_settings :: "world \<Rightarrow> world \<Rightarrow> bool" where
  "same_settings w w' \<longleftrightarrow> kubelet_settings w' = kubelet_settings w"

definition keeps_settings :: "(world, 'a) state \<Rightarrow> bool" where
  "keeps_settings m \<longleftrightarrow> state_io_rel same_settings m"

named_theorems settings_intros

interpretation settings: io_relation same_settings
  by unfold_locales (simp_all add: same_settings_def)

lemma keeps_settingsD:
  "keeps_settings m \<Longrightarrow> run_state m w = (r, w') \<Longrightarrow> kubelet_settings w' = kubelet_settings w"
  by (auto simp: keeps_settings_def same_settings_def)

lemma keeps_settings_perform [settings_intros]: "keeps_settings (perform f c)"
  by (simp add: keeps_settings_def settings.io_iff same_settings_def)

lemmas [settings_intros] =
  settings.io_ret [folded keeps_settings_def] settings.io_bind [folded keeps_settings_def]
  settings.io_andthen [folded keeps_settings_def] settings.io_wrap_err [folded keeps_settings_def]
  settings.io_for_each [folded keeps_settings_def]

text \<open>Reading off the calls made by a run.\<close>

definition calls_of :: "(world, 'a) state \<Rightarrow> world \<Rightarrow> call list" where
  "calls_of m w = drop (length (history w)) (history (snd (run_state m w)))"

lemma calls_of_only: "calls_only P m \<Longrightarrow> list_all P (calls_of m w)"
  by (auto simp: calls_of_def calls_only_iff hist_ext_def dest!: spec [of _ w])

end
