(* ===== verification/Secrets.thy ===== *)
theory Secrets
  imports World
begin

text \<open>
  The Secrets interface of the API server, which both kinds of credentials use. It is a parameter:
  \<open>secrets_api\<close> holds its answers, and \<open>secret_store\<close> states the documented behaviour of the server
  as an object store, for the properties that need it.
\<close>

text \<open>
  \<open>Get\<close> returns a pointer and an error, and the pointer may be set even with an error, as client-go
  does. \<open>CreateOrUpdateSecret\<close> is kubeadm's helper; deletion reports an error or nothing.
\<close>

record secrets_api =
  secrets_get :: "call list \<Rightarrow> string \<Rightarrow> string \<Rightarrow> secret option \<times> goerr option"
  secrets_create_or_update :: "call list \<Rightarrow> secret \<Rightarrow> goerr option"
  secrets_delete :: "call list \<Rightarrow> string \<Rightarrow> string \<Rightarrow> goerr option"

definition of_err :: "goerr option \<Rightarrow> unit outcome" where
  "of_err e = (case e of None \<Rightarrow> Ok () | Some err \<Rightarrow> Err err)"

definition Secrets_Get :: "secrets_api \<Rightarrow> string \<Rightarrow> string \<Rightarrow> (world, secret option \<times> goerr option) state" where
  "Secrets_Get A ns n = perform (\<lambda>h. secrets_get A h ns n) (ApiGet KSecret ns n)"

definition Secrets_Delete :: "secrets_api \<Rightarrow> string \<Rightarrow> string \<Rightarrow> (world, goerr option) state" where
  "Secrets_Delete A ns n = perform (\<lambda>h. secrets_delete A h ns n) (ApiDelete KSecret ns n False)"

definition CreateOrUpdateSecret :: "secrets_api \<Rightarrow> secret \<Rightarrow> (world, unit outcome) state" where
  "CreateOrUpdateSecret A s =
     perform (\<lambda>h. of_err (secrets_create_or_update A h s)) (ApiCreateOrUpdate (OSecret s))"

lemma of_err_simps [simp]: "of_err None = Ok ()" "of_err (Some e) = Err e"
  by (simp_all add: of_err_def)

lemma of_err_iff [simp]:
  "of_err e = Ok u \<longleftrightarrow> e = None" "of_err e = Err x \<longleftrightarrow> e = Some x" "of_err e \<noteq> Panic p"
  by (auto simp: of_err_def split: option.splits)

text \<open>
  \<open>secret_store A \<sigma>\<close>: the server behaves as an object store whose content after a history \<open>h\<close> is
  \<open>\<sigma> h\<close>. Reading tells the content, a missing object is reported as \<open>NotFound\<close>, a successful write or
  deletion has its effect, and calls on other objects leave the secrets alone.
\<close>

definition secret_key :: "secret \<Rightarrow> string \<times> string" where
  "secret_key s = (metaNamespace (secMeta s), metaName (secMeta s))"

definition secret_store :: "secrets_api \<Rightarrow> (call list \<Rightarrow> string \<times> string \<Rightarrow> secret option) \<Rightarrow> bool" where
  "secret_store A \<sigma> \<longleftrightarrow>
     (\<forall>h ns n. case \<sigma> h (ns, n) of
                 Some s \<Rightarrow> secrets_get A h ns n = (Some s, None)
               | None \<Rightarrow> \<exists>p c. secrets_get A h ns n = (p, Some (StatusErr NotFound c)))
     \<and> (\<forall>h s. secrets_create_or_update A h s = None \<longrightarrow>
                \<sigma> (h @ [ApiCreateOrUpdate (OSecret s)]) = (\<sigma> h)(secret_key s \<mapsto> s))
     \<and> (\<forall>h ns n b. secrets_delete A h ns n = None \<longrightarrow>
                \<sigma> (h @ [ApiDelete KSecret ns n b]) = (\<sigma> h)((ns, n) := None))
     \<and> (\<forall>h k ns n. \<sigma> (h @ [ApiGet k ns n]) = \<sigma> h)"

lemma secret_store_get:
  assumes "secret_store A \<sigma>" and "\<sigma> h (ns, n) = Some s"
  shows "secrets_get A h ns n = (Some s, None)"
proof -
  have "case \<sigma> h (ns, n) of
          Some s \<Rightarrow> secrets_get A h ns n = (Some s, None)
        | None \<Rightarrow> \<exists>p c. secrets_get A h ns n = (p, Some (StatusErr NotFound c))"
    using assms(1) unfolding secret_store_def by blast
  then show ?thesis by (simp add: assms(2))
qed

lemma secret_store_put:
  "secret_store A \<sigma> \<Longrightarrow> secrets_create_or_update A h s = None \<Longrightarrow>
     \<sigma> (h @ [ApiCreateOrUpdate (OSecret s)]) = (\<sigma> h)(secret_key s \<mapsto> s)"
  by (simp add: secret_store_def)

lemma secret_store_absent:
  assumes "secret_store A \<sigma>" and "\<sigma> h (ns, n) = None"
  shows "\<exists>p c. secrets_get A h ns n = (p, Some (StatusErr NotFound c))"
proof -
  have "case \<sigma> h (ns, n) of
          Some s \<Rightarrow> secrets_get A h ns n = (Some s, None)
        | None \<Rightarrow> \<exists>p c. secrets_get A h ns n = (p, Some (StatusErr NotFound c))"
    using assms(1) unfolding secret_store_def by blast
  then show ?thesis by (simp add: assms(2))
qed

lemma secret_store_read: "secret_store A \<sigma> \<Longrightarrow> \<sigma> (h @ [ApiGet k ns n]) = \<sigma> h"
  by (simp add: secret_store_def)

text \<open>A server that never fails: the content is recomputed from the history.\<close>

fun replay_call :: "call \<Rightarrow> (string \<times> string \<Rightarrow> secret option) \<Rightarrow> string \<times> string \<Rightarrow> secret option" where
  "replay_call (ApiCreateOrUpdate (OSecret s)) st = st(secret_key s \<mapsto> s)"
| "replay_call (ApiDelete KSecret ns n b) st = st((ns, n) := None)"
| "replay_call _ st = st"

definition replay :: "call list \<Rightarrow> string \<times> string \<Rightarrow> secret option" where
  "replay h = fold replay_call h Map.empty"

definition replay_api :: secrets_api where
  "replay_api =
     \<lparr>secrets_get = \<lambda>h ns n. (case replay h (ns, n) of
                               Some s \<Rightarrow> (Some s, None)
                             | None \<Rightarrow> (None, Some (StatusErr NotFound 404))),
      secrets_create_or_update = \<lambda>_ _. None,
      secrets_delete = \<lambda>h ns n. (case replay h (ns, n) of
                               Some s \<Rightarrow> None
                             | None \<Rightarrow> Some (StatusErr NotFound 404))\<rparr>"

lemma replay_api_sel [simp]:
  "secrets_get replay_api h ns n =
     (case replay h (ns, n) of
        Some s \<Rightarrow> (Some s, None) | None \<Rightarrow> (None, Some (StatusErr NotFound 404)))"
  "secrets_create_or_update replay_api h s = None"
  "secrets_delete replay_api h ns n =
     (case replay h (ns, n) of Some s \<Rightarrow> None | None \<Rightarrow> Some (StatusErr NotFound 404))"
  by (simp_all add: replay_api_def)

lemma replay_snoc [simp]: "replay (h @ [c]) = replay_call c (replay h)" "replay [] = Map.empty"
  by (simp_all add: replay_def)

lemma replay_api_store: "secret_store replay_api replay"
  by (auto simp: secret_store_def split: option.split)

end
