(* ===== verification/AutoCert.thy ===== *)
theory AutoCert
  imports Secrets
begin

text \<open>
  pkg/crypto/service_cert.go: certificates for services, signed by the Kubernetes CA through a
  CertificateSigningRequest that the program approves itself, and kept in a Secret. Key generation, the
  encoding of requests and keys, and the API server are parameters. The request waits for the signature
  in a loop without a bound, so it is a partial function: \<open>None\<close> stands for a request that never returns.
  Time stamps of conditions are left out.
\<close>

section \<open>Data\<close>

definition defaultCertificateUsages :: "string list" where
  "defaultCertificateUsages =
     [''digital signature'', ''key encipherment'', ''server auth'', ''client auth'']"

record AutoCert =
  acIPs :: "string list"
  acNames :: "string list"
  acSecretName :: string
  acSecretNamespace :: string
  acCurrent :: "secret option"

record cert_template =
  tmplCommonName :: string
  tmplDNSNames :: "string list"
  tmplIPAddresses :: "string list"

text \<open>
  The answers of the server on signing requests (client-go may return an object along with an error),
  and the cryptographic library.
\<close>

record csr_api =
  csr_create :: "call list \<Rightarrow> csr \<Rightarrow> csr option \<times> goerr option"
  csr_get :: "call list \<Rightarrow> string \<Rightarrow> csr option \<times> goerr option"
  csr_update_approval :: "call list \<Rightarrow> csr \<Rightarrow> goerr option"
  csr_delete :: "call list \<Rightarrow> string \<Rightarrow> goerr option"

record crypto_lib =
  generate_key :: "call list \<Rightarrow> nat \<Rightarrow> goerr + string"
  create_request :: "call list \<Rightarrow> cert_template \<Rightarrow> string \<Rightarrow> goerr + string"
  pem_encode :: "string \<Rightarrow> string \<Rightarrow> string"
  encode_key :: "string \<Rightarrow> string"

record cert_deps =
  dep_secrets :: secrets_api
  dep_csrs :: csr_api
  dep_crypto :: crypto_lib

definition Csr_Get :: "csr_api \<Rightarrow> string \<Rightarrow> (world, csr option \<times> goerr option) state" where
  "Csr_Get A n = perform (\<lambda>h. csr_get A h n) (ApiGet KCsr [] n)"

definition Csr_Create :: "csr_api \<Rightarrow> csr \<Rightarrow> (world, csr option \<times> goerr option) state" where
  "Csr_Create A c = perform (\<lambda>h. csr_create A h c) (ApiCreate (OCsr c))"

definition Csr_UpdateApproval :: "csr_api \<Rightarrow> csr \<Rightarrow> (world, unit outcome) state" where
  "Csr_UpdateApproval A c = perform (\<lambda>h. of_err (csr_update_approval A h c)) (ApiUpdateApproval c)"

definition Csr_Delete :: "csr_api \<Rightarrow> string \<Rightarrow> (world, goerr option) state" where
  "Csr_Delete A n = perform (\<lambda>h. csr_delete A h n) (ApiDelete KCsr [] n False)"

definition GenerateKey :: "crypto_lib \<Rightarrow> nat \<Rightarrow> (world, string outcome) state" where
  "GenerateKey L bits = perform (\<lambda>h. of_sum (generate_key L h bits)) (RsaGenerateKey bits)"

definition CreateCertificateRequest :: "crypto_lib \<Rightarrow> cert_template \<Rightarrow> string \<Rightarrow> (world, string outcome) state" where
  "CreateCertificateRequest L t key = State (\<lambda>w. (of_sum (create_request L (history w) t key), w))"

definition Sleep :: "nat \<Rightarrow> (world, unit) state" where
  "Sleep secs = perform (\<lambda>_. ()) (TimeSleep secs)"

section \<open>Operations without a wait\<close>

definition NewAutoCert :: "string list \<Rightarrow> string list \<Rightarrow> string \<Rightarrow> string \<Rightarrow> AutoCert" where
  "NewAutoCert ips names name namespace =
     (let namespace = (if length namespace = 0 then NamespaceSystem else namespace) in
      \<lparr>acIPs = ips, acNames = names, acSecretName = name, acSecretNamespace = namespace, acCurrent = None\<rparr>)"

definition NewServiceCertFromReference :: "NamespacedName \<Rightarrow> AutoCert" where
  "NewServiceCertFromReference ref =
     \<lparr>acIPs = [], acNames = [], acSecretName = Name ref, acSecretNamespace = Namespace ref, acCurrent = None\<rparr>"

definition autocert_GetName :: "AutoCert \<Rightarrow> string" where
  "autocert_GetName ac = acSecretName ac"

definition autocert_GetNamespace :: "AutoCert \<Rightarrow> string" where
  "autocert_GetNamespace ac = acSecretNamespace ac"

definition AutoCertNamer :: "AutoCert ObjNamespacer" where
  "AutoCertNamer = \<lparr>GetName = autocert_GetName, GetNamespace = autocert_GetNamespace\<rparr>"

definition autocert_Delete :: "cert_deps \<Rightarrow> AutoCert \<Rightarrow> (world, unit outcome) state" where
  "autocert_Delete D ac = do {
     e \<leftarrow> Secrets_Delete (dep_secrets D) (metaNamespace (NamaspacedObjToMeta AutoCertNamer ac))
           (metaName (NamaspacedObjToMeta AutoCertNamer ac));
     ret (case e of Some err \<Rightarrow> if IsNotFound err then Ok () else Err err | None \<Rightarrow> Ok ())
   }"

section \<open>Requesting a certificate\<close>

definition csr_name :: "AutoCert \<Rightarrow> string" where
  "csr_name ac = acSecretName ac @ ''-csr''"

definition cert_request :: "AutoCert \<Rightarrow> string \<Rightarrow> csr" where
  "cert_request ac bytes =
     \<lparr>csrMeta = \<lparr>metaName = csr_name ac, metaNamespace = acSecretNamespace ac\<rparr>,
      csrGroups = [''system:authenticated''], csrRequest = bytes, csrUsages = defaultCertificateUsages,
      csrConditions = [], csrCertificate = []\<rparr>"

definition auto_approved :: csr_condition where
  "auto_approved =
     \<lparr>condType = CertificateApproved, condReason = ''AutoApproved'',
      condMessage = ''This CSR was approved by the Kubcic Service certificates generator.''\<rparr>"

text \<open>Submitting the request, or taking over the one that exists already.\<close>

definition submit_csr :: "cert_deps \<Rightarrow> string \<Rightarrow> csr \<Rightarrow> (world, csr outcome) state" where
  "submit_csr D name c = do {
     r \<leftarrow> Csr_Create (dep_csrs D) c;
     (case r of
        (_, Some err) \<Rightarrow>
          if IsAlreadyExists err then do {
            r \<leftarrow> Csr_Get (dep_csrs D) name;
            ret (case r of (_, Some err) \<Rightarrow> Err err | (Some c, None) \<Rightarrow> Ok c | (None, None) \<Rightarrow> nil_deref)
          }
          else ret (Err (Wrapped ''unable to create the certificate signing request: %s'' err))
      | (Some c, None) \<Rightarrow> ret (Ok c)
      | (None, None) \<Rightarrow> ret nil_deref)
   }"

text \<open>The part before the wait: it returns the private key.\<close>

definition request_submit :: "cert_deps \<Rightarrow> AutoCert \<Rightarrow> (world, string outcome) state" where
  "request_submit D ac =
     andthen (wrap_err ''unable to genarate the private key: %s'' (GenerateKey (dep_crypto D) 1024)) (\<lambda>key.
       case acNames ac of
         [] \<Rightarrow> ret (Panic ''index out of range'')
       | cn # _ \<Rightarrow>
           andthen (wrap_err ''unable to generate the CSR: %s''
             (CreateCertificateRequest (dep_crypto D)
               \<lparr>tmplCommonName = cn, tmplDNSNames = acNames ac, tmplIPAddresses = acIPs ac\<rparr> key)) (\<lambda>bytes.
           andthen (submit_csr D (csr_name ac)
             (cert_request ac (pem_encode (dep_crypto D) ''CERTIFICATE REQUEST'' bytes))) (\<lambda>c.
           andthen (wrap_err ''error updating approval for CSR: %v''
             (Csr_UpdateApproval (dep_csrs D) (c\<lparr>csrConditions := csrConditions c @ [auto_approved]\<rparr>))) (\<lambda>_.
           ret (Ok key)))))"

text \<open>A poll ends the wait when the first condition says approved and a certificate is there.\<close>

definition csr_ready :: "csr \<Rightarrow> bool" where
  "csr_ready c =
     (case csrConditions c of
        [] \<Rightarrow> False
      | c1 # _ \<Rightarrow> condType c1 = CertificateApproved \<and> 0 < length (csrCertificate c))"

definition finish_csr :: "csr_api \<Rightarrow> string \<Rightarrow> csr \<Rightarrow> (world, string outcome) state" where
  "finish_csr A name c = do {
     e \<leftarrow> Csr_Delete A name;
     ret (case e of
            Some err \<Rightarrow> if IsNotFound err then Ok (csrCertificate c)
                        else Err (Wrapped ''error removing CSR: %v'' err)
          | None \<Rightarrow> Ok (csrCertificate c))
   }"

partial_function (option) wait_loop :: "csr_api \<Rightarrow> string \<Rightarrow> world \<Rightarrow> (string outcome \<times> world) option" where
  "wait_loop A name w =
     (case run_state (Csr_Get A name) w of
        ((p, Some err), w1) \<Rightarrow> wait_loop A name (snd (run_state (Sleep 5) w1))
      | ((None, None), w1) \<Rightarrow> Some (nil_deref, w1)
      | ((Some c, None), w1) \<Rightarrow>
          if csr_ready c then Some (run_state (finish_csr A name c) w1)
          else wait_loop A name (snd (run_state (Sleep 5) w1)))"

text \<open>The part after the wait: the secret is uploaded and read back into the cache.\<close>

definition tls_secret :: "cert_deps \<Rightarrow> AutoCert \<Rightarrow> string \<Rightarrow> string \<Rightarrow> secret" where
  "tls_secret D ac certificate key =
     \<lparr>secMeta = NamaspacedObjToMeta AutoCertNamer ac, secType = ''kubernetes.io/tls'',
      secData = [(''tls.crt'', certificate), (''tls.key'', encode_key (dep_crypto D) key)]\<rparr>"

definition request_store :: "cert_deps \<Rightarrow> AutoCert \<Rightarrow> string \<Rightarrow> string \<Rightarrow> (world, secret outcome \<times> AutoCert) state" where
  "request_store D ac certificate key = do {
     let s = tls_secret D ac certificate key;
     r \<leftarrow> CreateOrUpdateSecret (dep_secrets D) s;
     (case r of
        Err err \<Rightarrow> ret (Err err, ac\<lparr>acCurrent := None\<rparr>)
      | Panic p \<Rightarrow> ret (Panic p, ac)
      | Ok _ \<Rightarrow> do {
          (p, e) \<leftarrow> Secrets_Get (dep_secrets D) (metaNamespace (secMeta s)) (metaName (secMeta s));
          ret (case e of Some err \<Rightarrow> Err err | None \<Rightarrow> Ok s, ac\<lparr>acCurrent := p\<rparr>)
        })
   }"

definition Request :: "cert_deps \<Rightarrow> AutoCert \<Rightarrow> world \<Rightarrow> ((secret outcome \<times> AutoCert) \<times> world) option" where
  "Request D ac w =
     (case run_state (request_submit D ac) w of
        (Err err, w1) \<Rightarrow> Some ((Err err, ac), w1)
      | (Panic p, w1) \<Rightarrow> Some ((Panic p, ac), w1)
      | (Ok key, w1) \<Rightarrow>
          (case wait_loop (dep_csrs D) (csr_name ac) w1 of
             None \<Rightarrow> None
           | Some (Err err, w2) \<Rightarrow> Some ((Err err, ac), w2)
           | Some (Panic p, w2) \<Rightarrow> Some ((Panic p, ac), w2)
           | Some (Ok certificate, w2) \<Rightarrow> Some (run_state (request_store D ac certificate key) w2)))"

text \<open>
  \<open>GetOrRequest\<close> assigns what the server returned to the cache before it looks at the error, and logs
  the name of the cached object at the end (a nil object would crash there).
\<close>

definition GetOrRequest :: "cert_deps \<Rightarrow> AutoCert \<Rightarrow> world \<Rightarrow> ((secret outcome \<times> AutoCert) \<times> world) option" where
  "GetOrRequest D ac w =
     (case acCurrent ac of
        Some s \<Rightarrow> Some ((Ok s, ac), w)
      | None \<Rightarrow>
          (case run_state (Secrets_Get (dep_secrets D) (metaNamespace (NamaspacedObjToMeta AutoCertNamer ac))
              (metaName (NamaspacedObjToMeta AutoCertNamer ac))) w of
             ((None, None), w1) \<Rightarrow> Some ((nil_deref, ac), w1)
           | ((Some s, None), w1) \<Rightarrow> Some ((Ok s, ac\<lparr>acCurrent := Some s\<rparr>), w1)
           | ((p, Some err), w1) \<Rightarrow>
               if IsNotFound err then
                 (case Request D (ac\<lparr>acCurrent := p\<rparr>) w1 of
                    None \<Rightarrow> None
                  | Some ((Ok s, ac'), w2) \<Rightarrow> Some ((Ok s, ac'\<lparr>acCurrent := Some s\<rparr>), w2)
                  | Some ((Err err, ac'), w2) \<Rightarrow> Some ((Err err, ac'\<lparr>acCurrent := None\<rparr>), w2)
                  | Some ((Panic x, ac'), w2) \<Rightarrow> Some ((Panic x, ac'), w2))
               else Some ((Err err, ac\<lparr>acCurrent := p\<rparr>), w1)))"

definition autocert_Refresh :: "cert_deps \<Rightarrow> AutoCert \<Rightarrow> world \<Rightarrow> ((secret outcome \<times> AutoCert) \<times> world) option" where
  "autocert_Refresh D ac w = GetOrRequest D (ac\<lparr>acCurrent := None\<rparr>) w"


section \<open>Names\<close>

text \<open>A certificate keeps the name and the namespace it was created with.\<close>

interpretation auto_cert: namespaced_objects AutoCertNamer "NewAutoCert ips names" "\<lambda>n ns. ns \<noteq> []"
  for ips names
  by unfold_locales
    (simp_all add: AutoCertNamer_def autocert_GetName_def autocert_GetNamespace_def NewAutoCert_def)

lemma autocert_meta [simp]:
  "NamaspacedObjToMeta AutoCertNamer ac = \<lparr>metaName = acSecretName ac, metaNamespace = acSecretNamespace ac\<rparr>"
  by (simp add: NamaspacedObjToMeta_def NamespacedObjToNamespacedName_def AutoCertNamer_def
      autocert_GetName_def autocert_GetNamespace_def)

section \<open>The wait\<close>

text \<open>The state after \<open>k\<close> polls that did not end the wait, and whether the next poll ends it.\<close>

definition poll_world :: "string \<Rightarrow> nat \<Rightarrow> world \<Rightarrow> world" where
  "poll_world name k w =
     w\<lparr>history := history w @ concat (replicate k [ApiGet KCsr [] name, TimeSleep 5])\<rparr>"

definition poll_stops :: "csr_api \<Rightarrow> string \<Rightarrow> world \<Rightarrow> bool" where
  "poll_stops A name w =
     (case csr_get A (history w) name of
        (_, Some err) \<Rightarrow> False | (None, None) \<Rightarrow> True | (Some c, None) \<Rightarrow> csr_ready c)"

definition poll_result :: "csr_api \<Rightarrow> string \<Rightarrow> world \<Rightarrow> string outcome \<times> world" where
  "poll_result A name w =
     (let w1 = w\<lparr>history := history w @ [ApiGet KCsr [] name]\<rparr> in
      case fst (csr_get A (history w) name) of
        None \<Rightarrow> (nil_deref, w1) | Some c \<Rightarrow> run_state (finish_csr A name c) w1)"

lemma poll_world_0 [simp]: "poll_world name 0 w = w"
  by (simp add: poll_world_def)

lemma poll_world_Suc: "poll_world name (Suc k) w = poll_world name k (poll_world name 1 w)"
  by (simp add: poll_world_def)

lemma wait_loop_step:
  "wait_loop A name w =
     (if poll_stops A name w then Some (poll_result A name w) else wait_loop A name (poll_world name 1 w))"
  by (subst wait_loop.simps)
    (auto simp: Csr_Get_def Sleep_def poll_stops_def poll_result_def poll_world_def Let_def
      split: prod.split option.split)

lemma wait_loop_returns:
  assumes "poll_stops A name (poll_world name k w)"
    and "\<And>j. j < k \<Longrightarrow> \<not> poll_stops A name (poll_world name j w)"
  shows "wait_loop A name w = Some (poll_result A name (poll_world name k w))"
  using assms
proof (induction k arbitrary: w)
  case 0
  then show ?case by (subst wait_loop_step) simp
next
  case (Suc k)
  have "\<not> poll_stops A name w" using Suc.prems(2) [of 0] by simp
  then have "wait_loop A name w = wait_loop A name (poll_world name 1 w)"
    by (subst wait_loop_step) simp
  also have "\<dots> = Some (poll_result A name (poll_world name k (poll_world name 1 w)))"
  proof (rule Suc.IH)
    show "poll_stops A name (poll_world name k (poll_world name 1 w))"
      using Suc.prems(1) by (simp only: poll_world_Suc)
    show "\<not> poll_stops A name (poll_world name j (poll_world name 1 w))" if "j < k" for j
      using Suc.prems(2) [of "Suc j"] that by (simp only: poll_world_Suc Suc_less_eq not_False_eq_True)
  qed
  finally show ?case by (simp only: poll_world_Suc)
qed

lemma wait_loop_SomeD:
  assumes "wait_loop A name w = Some r"
  shows "\<exists>k. poll_stops A name (poll_world name k w)"
  using assms
proof (induction rule: wait_loop.raw_induct [rotated 1, consumes 1, case_names step])
  case (step loop A name w r)
  show ?case
  proof (cases "poll_stops A name w")
    case True
    then show ?thesis by (intro exI [of _ 0]) simp
  next
    case False
    then have "loop A name (poll_world name 1 w) = Some r"
      using step.hyps
      by (auto simp: Csr_Get_def Sleep_def poll_stops_def poll_world_def split: prod.splits option.splits if_splits)
    from step.IH [OF this] obtain k where "poll_stops A name (poll_world name (Suc k) w)"
      unfolding poll_world_Suc by blast
    then show ?thesis by blast
  qed
qed

text \<open>
  C27. The wait for a signature returns exactly when some poll, with five seconds of sleep before each
  further one, finds a request whose first condition is \<open>Approved\<close> and that carries a certificate (or
  no object at all); its result is then determined by the first such poll. Failed polls are retried.
\<close>

theorem wait_loop_closed:
  "wait_loop A name w =
     (if \<exists>k. poll_stops A name (poll_world name k w)
      then Some (poll_result A name (poll_world name (LEAST k. poll_stops A name (poll_world name k w)) w))
      else None)"
proof (cases "\<exists>k. poll_stops A name (poll_world name k w)")
  case True
  have "wait_loop A name w =
      Some (poll_result A name (poll_world name (LEAST k. poll_stops A name (poll_world name k w)) w))"
  proof (rule wait_loop_returns)
    show "poll_stops A name (poll_world name (LEAST k. poll_stops A name (poll_world name k w)) w)"
      using True by (rule LeastI_ex)
    show "\<not> poll_stops A name (poll_world name j w)"
      if "j < (LEAST k. poll_stops A name (poll_world name k w))" for j
      using that by (rule not_less_Least)
  qed
  then show ?thesis by (simp only: True if_True)
next
  case False
  then have "wait_loop A name w = None" using wait_loop_SomeD by (cases "wait_loop A name w") blast+
  then show ?thesis by (simp only: False if_False)
qed

text \<open>A request that every answer shows as denied is waited for forever.\<close>

definition csr_denied :: "csr \<Rightarrow> bool" where
  "csr_denied c = (case csrConditions c of [] \<Rightarrow> False | c1 # _ \<Rightarrow> condType c1 = CertificateDenied)"

lemma wait_loop_denied:
  assumes "\<And>h. case csr_get A h name of (Some c, None) \<Rightarrow> csr_denied c | (_, e) \<Rightarrow> e \<noteq> None"
  shows "wait_loop A name w = None"
proof -
  have "\<not> poll_stops A name w" for w
    using assms [of "history w"]
    by (auto simp: poll_stops_def csr_denied_def csr_ready_def split: prod.splits option.splits list.splits)
  then show ?thesis using wait_loop_SomeD by (cases "wait_loop A name w") blast+
qed

section \<open>Results of a request\<close>

lemma finish_csr_Ok:
  "run_state (finish_csr A name c) w = (Ok cert, w') \<Longrightarrow>
     cert = csrCertificate c \<and> w' = w\<lparr>history := history w @ [ApiDelete KCsr [] name False]\<rparr>"
  by (auto simp: finish_csr_def Csr_Delete_def split: option.splits if_splits)

lemma wait_loop_Ok:
  assumes "wait_loop A name w = Some (Ok cert, w')"
  shows "\<exists>k c. csr_get A (history (poll_world name k w)) name = (Some c, None)
    \<and> csr_ready c \<and> cert = csrCertificate c
    \<and> history w' = history (poll_world name k w) @ [ApiGet KCsr [] name, ApiDelete KCsr [] name False]"
proof -
  obtain k where k: "poll_stops A name (poll_world name k w)"
    and r: "poll_result A name (poll_world name k w) = (Ok cert, w')"
  proof -
    let ?k = "LEAST k. poll_stops A name (poll_world name k w)"
    have ex: "\<exists>k. poll_stops A name (poll_world name k w)" by (rule wait_loop_SomeD [OF assms])
    then have stops: "poll_stops A name (poll_world name ?k w)" by (rule LeastI_ex)
    have "wait_loop A name w = Some (poll_result A name (poll_world name ?k w))"
      by (rule wait_loop_returns [OF stops]) (rule not_less_Least)
    then show thesis using that [OF stops] assms by simp
  qed
  then show ?thesis
    by (cases "csr_get A (history (poll_world name k w)) name")
      (auto simp: poll_stops_def poll_result_def nil_deref_def Let_def split: option.splits dest!: finish_csr_Ok
        intro!: exI [of _ k])
qed

lemma request_store_Ok:
  assumes "run_state (request_store D ac cert key) w = ((Ok s, ac'), w')"
  shows "s = tls_secret D ac cert key"
    and "history w' = history w @ [ApiCreateOrUpdate (OSecret s),
           ApiGet KSecret (acSecretNamespace ac) (acSecretName ac)]"
  using assms
  by (auto simp: request_store_def CreateOrUpdateSecret_def Secrets_Get_def tls_secret_def Let_def
      split: outcome.splits prod.splits option.splits)

lemma run_request_store:
  assumes "\<And>h s. secrets_create_or_update (dep_secrets D) h s = None"
    and "\<And>h ns n. snd (secrets_get (dep_secrets D) h ns n) = None"
  shows "fst (fst (run_state (request_store D ac cert key) w)) = Ok (tls_secret D ac cert key)"
  using assms
  by (simp add: request_store_def CreateOrUpdateSecret_def Secrets_Get_def Let_def case_prod_unfold)

lemma request_submit_Ok:
  "run_state (request_submit D ac) w = (Ok key, w1) \<Longrightarrow>
     generate_key (dep_crypto D) (history w) 1024 = Inr key"
  by (auto simp: request_submit_def run_andthen run_wrap_err GenerateKey_def of_sum_def
      split: prod.splits outcome.splits sum.splits list.splits)

lemma Request_OkE:
  assumes "Request D ac w = Some ((Ok s, ac'), w')"
  obtains key w1 cert w2 where "run_state (request_submit D ac) w = (Ok key, w1)"
    and "wait_loop (dep_csrs D) (csr_name ac) w1 = Some (Ok cert, w2)"
    and "run_state (request_store D ac cert key) w2 = ((Ok s, ac'), w')"
  using assms by (auto simp: Request_def split: prod.splits outcome.splits option.splits)

text \<open>
  C28. What a successful request leaves behind: the secret returned is the TLS secret of the freshly
  generated key together with the certificate of a signing request that some poll found ready, and the
  last three calls delete that signing request, upload the secret and read it back.
\<close>

theorem Request_result:
  assumes "Request D ac w = Some ((Ok s, ac'), w')"
  shows "\<exists>key h c. generate_key (dep_crypto D) (history w) 1024 = Inr key
    \<and> csr_get (dep_csrs D) h (csr_name ac) = (Some c, None) \<and> csr_ready c
    \<and> s = tls_secret D ac (csrCertificate c) key
    \<and> history w' = h @ [ApiGet KCsr [] (csr_name ac), ApiDelete KCsr [] (csr_name ac) False,
        ApiCreateOrUpdate (OSecret s), ApiGet KSecret (acSecretNamespace ac) (acSecretName ac)]"
  using assms
proof (rule Request_OkE)
  fix key w1 cert w2
  assume submit: "run_state (request_submit D ac) w = (Ok key, w1)"
    and wait: "wait_loop (dep_csrs D) (csr_name ac) w1 = Some (Ok cert, w2)"
    and store: "run_state (request_store D ac cert key) w2 = ((Ok s, ac'), w')"
  obtain k c where c: "csr_get (dep_csrs D) (history (poll_world (csr_name ac) k w1)) (csr_name ac) = (Some c, None)"
    and ready: "csr_ready c" and cert: "cert = csrCertificate c"
    and w2: "history w2 = history (poll_world (csr_name ac) k w1) @
        [ApiGet KCsr [] (csr_name ac), ApiDelete KCsr [] (csr_name ac) False]"
    using wait_loop_Ok [OF wait] by blast
  show ?thesis
    using request_submit_Ok [OF submit] c ready request_store_Ok [OF store]
    unfolding w2 cert by (intro exI conjI) simp_all
qed

text \<open>
  C39. A denied request is never given up: when the request was submitted and every poll shows a request
  whose first condition is \<open>Denied\<close> (the program's own approval is appended after it), \<open>Request\<close> does not
  return.
\<close>

theorem Request_denied_never_returns:
  assumes "run_state (request_submit D ac) w = (Ok key, w1)"
    and "\<And>h. case csr_get (dep_csrs D) h (csr_name ac) of
                 (Some c, None) \<Rightarrow> csr_denied c | (_, e) \<Rightarrow> e \<noteq> None"
  shows "Request D ac w = None"
  using assms(1) wait_loop_denied [OF assms(2)] by (simp add: Request_def)

text \<open>
  C40. A name clash stores a key that does not belong to the certificate: when the signing request
  already exists, whatever bytes it was made from, and is ready, the secret combines its certificate
  with the newly generated key.
\<close>

theorem Request_takes_over_foreign_csr:
  assumes "acNames ac = cn # names"
    and "generate_key (dep_crypto D) (history w) 1024 = Inr key"
    and "\<And>h t. create_request (dep_crypto D) h t key = Inr bytes"
    and "\<And>h c. csr_create (dep_csrs D) h c = (Some c, Some (StatusErr AlreadyExists 409))"
    and "\<And>h. csr_get (dep_csrs D) h (csr_name ac) = (Some foreign, None)" and "csr_ready foreign"
    and "\<And>h c. csr_update_approval (dep_csrs D) h c = None"
    and "\<And>h n. csr_delete (dep_csrs D) h n = None"
    and "\<And>h s. secrets_create_or_update (dep_secrets D) h s = None"
    and "\<And>h ns n. snd (secrets_get (dep_secrets D) h ns n) = None"
  shows "map_option (fst \<circ> fst) (Request D ac w) =
           Some (Ok (tls_secret D ac (csrCertificate foreign) key))"
proof -
  have "fst (run_state (request_submit D ac) w) = Ok key"
    by (simp add: request_submit_def run_andthen run_wrap_err GenerateKey_def CreateCertificateRequest_def
        submit_csr_def Csr_Create_def Csr_Get_def Csr_UpdateApproval_def assms(1-5,7))
  then obtain w1 where submit: "run_state (request_submit D ac) w = (Ok key, w1)"
    by (cases "run_state (request_submit D ac) w") simp
  have "poll_stops (dep_csrs D) (csr_name ac) w1" by (simp add: poll_stops_def assms(5,6))
  then have wait: "\<exists>w2. wait_loop (dep_csrs D) (csr_name ac) w1 = Some (Ok (csrCertificate foreign), w2)"
    by (subst wait_loop_step) (simp add: poll_result_def finish_csr_def Csr_Delete_def assms(5,8))
  then obtain w2 where "wait_loop (dep_csrs D) (csr_name ac) w1 = Some (Ok (csrCertificate foreign), w2)" ..
  then show ?thesis by (simp add: Request_def submit run_request_store [OF assms(9,10)])
qed

section \<open>The cache\<close>

text \<open>
  A certificate obtained once is served from the cache: after a successful \<open>GetOrRequest\<close>, further
  ones return the same secret in every state of the world, without a call, and change nothing.
\<close>

theorem GetOrRequest_cached:
  assumes "GetOrRequest D ac w = Some ((Ok s, ac'), w')"
  shows "GetOrRequest D ac' v = Some ((Ok s, ac'), v)"
proof -
  have "acCurrent ac' = Some s"
    using assms
    by (auto simp: GetOrRequest_def nil_deref_def split: option.splits prod.splits if_splits outcome.splits)
  then show ?thesis by (simp add: GetOrRequest_def)
qed

text \<open>
  A failed read poisons the cache: when the server reports an error other than \<open>NotFound\<close>, the object
  returned along with the error (client-go returns an empty one) is kept, and the next \<open>GetOrRequest\<close>
  returns it as the certificate without an error.
\<close>

theorem GetOrRequest_caches_failed_read:
  assumes "acCurrent ac = None"
    and "secrets_get (dep_secrets D) (history w) (acSecretNamespace ac) (acSecretName ac) = (Some p, Some err)"
    and "\<not> IsNotFound err"
  shows "GetOrRequest D ac w =
           Some ((Err err, ac\<lparr>acCurrent := Some p\<rparr>),
             w\<lparr>history := history w @ [ApiGet KSecret (acSecretNamespace ac) (acSecretName ac)]\<rparr>)
    \<and> GetOrRequest D (ac\<lparr>acCurrent := Some p\<rparr>) v = Some ((Ok p, ac\<lparr>acCurrent := Some p\<rparr>), v)"
  using assms by (simp add: GetOrRequest_def Secrets_Get_def)

text \<open>
  A certificate made from a reference cannot be requested: it has no names, so when its secret does
  not exist and a key could be generated, \<open>GetOrRequest\<close> panics instead of reporting the missing secret.
\<close>

theorem cert_from_reference_panics:
  assumes "secrets_get (dep_secrets D) (history w) (Namespace ref) (Name ref) = (p, Some (StatusErr NotFound c))"
    and "\<And>h. generate_key (dep_crypto D) h 1024 = Inr key"
  shows "map_option (fst \<circ> fst) (GetOrRequest D (NewServiceCertFromReference ref) w) =
           Some (Panic ''index out of range'')"
  using assms
  by (cases p) (simp_all add: GetOrRequest_def Secrets_Get_def NewServiceCertFromReference_def Request_def
      request_submit_def run_andthen run_wrap_err GenerateKey_def)

section \<open>Concrete certificates\<close>

definition demo_cert :: AutoCert where
  "demo_cert = NewAutoCert [] [''dex.kube-system.svc''] ''dex-cert'' []"

definition demo_csr :: "cond_type \<Rightarrow> csr" where
  "demo_csr t = (cert_request demo_cert ''FOREIGN'')
     \<lparr>csrConditions := [\<lparr>condType = t, condReason = [], condMessage = []\<rparr>, auto_approved],
      csrCertificate := ''CERT''\<rparr>"

definition demo_cert_deps :: "secret option \<times> goerr option \<Rightarrow> csr \<Rightarrow> cert_deps" where
  "demo_cert_deps r c =
     \<lparr>dep_secrets = \<lparr>secrets_get = \<lambda>_ _ _. r, secrets_create_or_update = \<lambda>_ _. None, secrets_delete = \<lambda>_ _ _. None\<rparr>,
      dep_csrs = \<lparr>csr_create = \<lambda>_ c. (Some c, Some (StatusErr AlreadyExists 409)), csr_get = \<lambda>_ _. (Some c, None),
                  csr_update_approval = \<lambda>_ _. None, csr_delete = \<lambda>_ _. None\<rparr>,
      dep_crypto = \<lparr>generate_key = \<lambda>_ _. Inr ''KEY'', create_request = \<lambda>_ _ _. Inr ''REQ'',
                    pem_encode = \<lambda>t b. t @ b, encode_key = \<lambda>k. k\<rparr>\<rparr>"

definition empty_world :: world where
  "empty_world = \<lparr>history = [], kubelet_settings = []\<rparr>"

lemma demo_cert_sel [simp]:
  "secrets_get (dep_secrets (demo_cert_deps r c)) = (\<lambda>_ _ _. r)"
  "secrets_create_or_update (dep_secrets (demo_cert_deps r c)) = (\<lambda>_ _. None)"
  "csr_create (dep_csrs (demo_cert_deps r c)) = (\<lambda>_ c. (Some c, Some (StatusErr AlreadyExists 409)))"
  "csr_get (dep_csrs (demo_cert_deps r c)) = (\<lambda>_ _. (Some c, None))"
  "csr_update_approval (dep_csrs (demo_cert_deps r c)) = (\<lambda>_ _. None)"
  "csr_delete (dep_csrs (demo_cert_deps r c)) = (\<lambda>_ _. None)"
  "generate_key (dep_crypto (demo_cert_deps r c)) = (\<lambda>_ _. Inr ''KEY'')"
  "create_request (dep_crypto (demo_cert_deps r c)) = (\<lambda>_ _ _. Inr ''REQ'')"
  "acNames demo_cert = [''dex.kube-system.svc'']" "acCurrent demo_cert = None"
  by (simp_all add: demo_cert_deps_def demo_cert_def NewAutoCert_def)

lemma demo_csr_sel [simp]:
  "csr_ready (demo_csr t) \<longleftrightarrow> t = CertificateApproved" "csr_denied (demo_csr t) \<longleftrightarrow> t = CertificateDenied"
  by (simp_all add: csr_ready_def csr_denied_def demo_csr_def)

abbreviation demo_deps_ok :: cert_deps where
  "demo_deps_ok \<equiv> demo_cert_deps (None, None) (demo_csr CertificateApproved)"

lemma demo_submit:
  "\<exists>w. run_state (request_submit (demo_cert_deps r c) demo_cert) empty_world = (Ok ''KEY'', w)"
  by (simp add: request_submit_def run_andthen run_wrap_err GenerateKey_def CreateCertificateRequest_def
      submit_csr_def Csr_Create_def Csr_Get_def Csr_UpdateApproval_def)

lemma demo_request:
  "\<exists>ac' w'. Request demo_deps_ok demo_cert empty_world =
     Some ((Ok (tls_secret demo_deps_ok demo_cert (csrCertificate (demo_csr CertificateApproved)) ''KEY''), ac'), w')"
proof -
  obtain w where w: "run_state (request_submit demo_deps_ok demo_cert) empty_world = (Ok ''KEY'', w)"
    using demo_submit by blast
  show ?thesis
    by (simp add: Request_def w)
      (subst wait_loop_step, simp add: poll_stops_def poll_result_def finish_csr_def Csr_Delete_def
        request_store_def CreateOrUpdateSecret_def Secrets_Get_def Let_def)
qed

theorem Request_result_witness:
  "\<exists>s ac' w' h c. Request demo_deps_ok demo_cert empty_world = Some ((Ok s, ac'), w')
     \<and> csr_get (dep_csrs demo_deps_ok) h (csr_name demo_cert) = (Some c, None) \<and> csr_ready c"
proof -
  obtain s ac' w' where r: "Request demo_deps_ok demo_cert empty_world = Some ((Ok s, ac'), w')"
    using demo_request by blast
  from Request_result [OF r] r show ?thesis by blast
qed

theorem Request_denied_never_returns_witness:
  "Request (demo_cert_deps (None, None) (demo_csr CertificateDenied)) demo_cert empty_world = None"
proof -
  obtain w where w: "run_state (request_submit (demo_cert_deps (None, None) (demo_csr CertificateDenied)) demo_cert)
      empty_world = (Ok ''KEY'', w)"
    using demo_submit by blast
  show ?thesis by (rule Request_denied_never_returns [OF w]) simp
qed

theorem Request_takes_over_foreign_csr_witness:
  "map_option (fst \<circ> fst) (Request demo_deps_ok demo_cert empty_world) =
     Some (Ok (tls_secret demo_deps_ok demo_cert (csrCertificate (demo_csr CertificateApproved)) ''KEY''))"
  by (rule Request_takes_over_foreign_csr [where bytes = "''REQ''" and cn = "''dex.kube-system.svc''" and names = "[]"])
    simp_all

theorem GetOrRequest_cached_witness:
  "GetOrRequest (demo_cert_deps (Some (tls_secret demo_deps_ok demo_cert ''C'' ''K''), None) (demo_csr CertificateApproved))
     (demo_cert\<lparr>acCurrent := Some (tls_secret demo_deps_ok demo_cert ''C'' ''K'')\<rparr>) empty_world =
     Some ((Ok (tls_secret demo_deps_ok demo_cert ''C'' ''K''),
       demo_cert\<lparr>acCurrent := Some (tls_secret demo_deps_ok demo_cert ''C'' ''K'')\<rparr>), empty_world)"
  by (rule GetOrRequest_cached
      [where D = "demo_cert_deps (Some (tls_secret demo_deps_ok demo_cert ''C'' ''K''), None) (demo_csr CertificateApproved)"
        and ac = demo_cert and w = empty_world])
    (simp add: GetOrRequest_def Secrets_Get_def)

definition empty_secret :: secret where
  "empty_secret = \<lparr>secMeta = \<lparr>metaName = [], metaNamespace = []\<rparr>, secType = [], secData = []\<rparr>"

theorem GetOrRequest_caches_failed_read_witness:
  "GetOrRequest (demo_cert_deps (Some empty_secret, Some (StatusErr OtherReason 500)) (demo_csr CertificateApproved))
     (demo_cert\<lparr>acCurrent := Some empty_secret\<rparr>) empty_world =
   Some ((Ok empty_secret, demo_cert\<lparr>acCurrent := Some empty_secret\<rparr>), empty_world)"
  by (rule conjunct2 [OF GetOrRequest_caches_failed_read [where w = empty_world and err = "StatusErr OtherReason 500"]]) simp_all

theorem cert_from_reference_panics_witness:
  "map_option (fst \<circ> fst)
     (GetOrRequest (demo_cert_deps (None, Some (StatusErr NotFound 404)) (demo_csr CertificateApproved))
       (NewServiceCertFromReference \<lparr>Name = ''dex-cert'', Namespace = ''kube-system''\<rparr>) empty_world) =
     Some (Panic ''index out of range'')"
  by (rule cert_from_reference_panics [where key = "''KEY''"]) simp_all

end
