(* ===== verification/Client.thy ===== *)
theory Client
  imports AutoCert
begin

text \<open>
  pkg/client/utils.go: finding the API server, creating or updating objects, foreground deletion, and
  waiting for a URL. The answers of the server are parameters, one table per kind of object; so is the
  polling helper of apimachinery, of which only the documented behaviour is used.
\<close>

section \<open>Finding the API server\<close>

text \<open>A client configuration is opaque. Every function is a function of the history.\<close>

record rest_env =
  build_config :: "call list \<Rightarrow> string \<Rightarrow> string \<Rightarrow> goerr + opaque"
  in_cluster_config :: "call list \<Rightarrow> goerr + opaque"
  current_user :: "call list \<Rightarrow> goerr + string"

definition BuildConfigFromFlags :: "rest_env \<Rightarrow> string \<Rightarrow> string \<Rightarrow> (world, opaque outcome) state" where
  "BuildConfigFromFlags N master path =
     perform (\<lambda>h. of_sum (build_config N h master path)) (LoadKubeconfig master path)"

definition InClusterConfig :: "rest_env \<Rightarrow> (world, opaque outcome) state" where
  "InClusterConfig N = perform (\<lambda>h. of_sum (in_cluster_config N h)) LoadInCluster"

definition CurrentUserHome :: "rest_env \<Rightarrow> (world, string outcome) state" where
  "CurrentUserHome N = perform (\<lambda>h. of_sum (current_user N h)) CurrentUser"

text \<open>\<open>os.Getenv\<close> gives the empty string for a variable that is not set.\<close>

definition Getenv :: "os_env \<Rightarrow> string \<Rightarrow> (world, string) state" where
  "Getenv E v = do { r \<leftarrow> LookupEnv E v; ret (case r of None \<Rightarrow> [] | Some s \<Rightarrow> s) }"

text \<open>The package variables \<open>masterURL\<close> and \<open>kubeconfig\<close> are arguments.\<close>

definition default_location :: "rest_env \<Rightarrow> (world, opaque outcome) state" where
  "default_location N = do {
     usr \<leftarrow> CurrentUserHome N;
     (case usr of
        Ok home \<Rightarrow> do {
          c \<leftarrow> BuildConfigFromFlags N [] (path_join [home, ''.kube'', ''config'']);
          ret (case c of Ok cfg \<Rightarrow> Ok cfg | _ \<Rightarrow> Err (Plain ''could not locate a kubeconfig''))
        }
      | _ \<Rightarrow> ret (Err (Plain ''could not locate a kubeconfig'')))
   }"

definition GetConfig :: "os_env \<Rightarrow> rest_env \<Rightarrow> string \<Rightarrow> string \<Rightarrow> (world, opaque outcome) state" where
  "GetConfig E N masterURL kubeconfig =
     (if 0 < length kubeconfig then BuildConfigFromFlags N masterURL kubeconfig
      else do {
        v \<leftarrow> Getenv E ''KUBECONFIG'';
        (if 0 < length v then do {
           v \<leftarrow> Getenv E ''KUBECONFIG'';
           BuildConfigFromFlags N masterURL v
         }
         else do {
           c \<leftarrow> InClusterConfig N;
           (case c of Ok cfg \<Rightarrow> ret (Ok cfg) | _ \<Rightarrow> default_location N)
         })
      })"

section \<open>Objects of a dynamic kind\<close>

record dyn_api =
  new_dynamic :: "opaque \<Rightarrow> goerr option"
  new_discovery :: "opaque \<Rightarrow> goerr option"
  group_resources :: "call list \<Rightarrow> opaque \<Rightarrow> goerr + opaque"
  rest_mapping :: "opaque \<Rightarrow> string \<Rightarrow> goerr + string"
  accessor_name :: "unstr \<Rightarrow> goerr + string"
  accessor_namespace :: "unstr \<Rightarrow> goerr + string"
  resource_nil :: "string \<Rightarrow> bool"
  dyn_create :: "call list \<Rightarrow> unstr \<Rightarrow> goerr option"
  dyn_update :: "call list \<Rightarrow> unstr \<Rightarrow> goerr option"

definition GetAPIGroupResources :: "dyn_api \<Rightarrow> opaque \<Rightarrow> (world, opaque outcome) state" where
  "GetAPIGroupResources Y config = perform (\<lambda>h. of_sum (group_resources Y h config)) (ApiDiscover [])"

definition Dyn_Create :: "dyn_api \<Rightarrow> unstr \<Rightarrow> (world, unit outcome) state" where
  "Dyn_Create Y u = perform (\<lambda>h. of_err (dyn_create Y h u)) (ApiCreate (OUnstructured u))"

definition Dyn_Update :: "dyn_api \<Rightarrow> unstr \<Rightarrow> (world, unit outcome) state" where
  "Dyn_Update Y u = perform (\<lambda>h. of_err (dyn_update Y h u)) (ApiUpdate (OUnstructured u))"

definition CreateOrUpdateFromUnstructured :: "dyn_api \<Rightarrow> opaque \<Rightarrow> unstr \<Rightarrow> (world, unit outcome) state" where
  "CreateOrUpdateFromUnstructured Y config u =
     andthen (wrap_err ''could not create dynamic client: %s'' (ret (of_err (new_dynamic Y config)))) (\<lambda>_.
     andthen (wrap_err ''could not create discovery client: %s'' (ret (of_err (new_discovery Y config)))) (\<lambda>_.
     andthen (wrap_err ''could not get API group resources: %s'' (GetAPIGroupResources Y config)) (\<lambda>groupResources.
     andthen (wrap_err ''could not get restMapping: %s''
       (ret (of_sum (rest_mapping Y groupResources (unGroupVersionKind u))))) (\<lambda>resource.
     andthen (ret (case accessor_name Y u of
        Inl _ \<Rightarrow> Err (Plain ''could not get name for unstr'') | Inr name \<Rightarrow> Ok name)) (\<lambda>name.
     andthen (wrap_err (''couldn't get namespace for unstr '' @ name) (ret (of_sum (accessor_namespace Y u)))) (\<lambda>namespace.
     if resource_nil Y resource then ret (Err (Plain ''failed to get a resource interface''))
     else do {
       r \<leftarrow> Dyn_Create Y u;
       (case r of
          Err err \<Rightarrow>
            if \<not> IsAlreadyExists err then ret (Err (Wrapped ''could not create unstr'' err))
            else Dyn_Update Y u
        | _ \<Rightarrow> ret r)
     }))))))"

section \<open>Objects of a known kind\<close>

text \<open>
  Client-go returns an object exactly when there is no error, and these functions ignore it otherwise.
\<close>

record 'o object_api =
  api_get :: "call list \<Rightarrow> string \<Rightarrow> string \<Rightarrow> goerr + 'o"
  api_create :: "call list \<Rightarrow> 'o \<Rightarrow> goerr + 'o"
  api_update :: "call list \<Rightarrow> 'o \<Rightarrow> goerr + 'o"
  api_delete :: "call list \<Rightarrow> string \<Rightarrow> string \<Rightarrow> goerr option"

definition Api_Get :: "'o object_api \<Rightarrow> kind \<Rightarrow> ObjectMeta \<Rightarrow> (world, 'o outcome) state" where
  "Api_Get A k m =
     perform (\<lambda>h. of_sum (api_get A h (metaNamespace m) (metaName m))) (ApiGet k (metaNamespace m) (metaName m))"

definition Api_Create :: "'o object_api \<Rightarrow> ('o \<Rightarrow> api_obj) \<Rightarrow> 'o \<Rightarrow> (world, 'o outcome) state" where
  "Api_Create A tag x = perform (\<lambda>h. of_sum (api_create A h x)) (ApiCreate (tag x))"

definition Api_Update :: "'o object_api \<Rightarrow> ('o \<Rightarrow> api_obj) \<Rightarrow> 'o \<Rightarrow> (world, 'o outcome) state" where
  "Api_Update A tag x = perform (\<lambda>h. of_sum (api_update A h x)) (ApiUpdate (tag x))"

definition Api_Delete :: "'o object_api \<Rightarrow> kind \<Rightarrow> ObjectMeta \<Rightarrow> (world, unit outcome) state" where
  "Api_Delete A k m =
     perform (\<lambda>h. of_err (api_delete A h (metaNamespace m) (metaName m)))
       (ApiDelete k (metaNamespace m) (metaName m) True)"

definition CreateOrUpdatePod :: "kobj object_api \<Rightarrow> kobj \<Rightarrow> (world, kobj outcome) state" where
  "CreateOrUpdatePod A pod = do {
     r \<leftarrow> Api_Get A KPod (objMeta pod);
     (case r of
        Err err \<Rightarrow> if IsNotFound err then Api_Create A OPod pod else ret (Err err)
      | Ok existing \<Rightarrow>
          if objSpec pod \<noteq> objSpec existing then
            wrap_err ''unable to update Pod: %v'' (Api_Update A OPod (existing\<lparr>objSpec := objSpec pod\<rparr>))
          else ret (Ok existing)
      | Panic p \<Rightarrow> ret (Panic p))
   }"

definition CreateOrUpdateJob :: "kobj object_api \<Rightarrow> kobj \<Rightarrow> (world, kobj outcome) state" where
  "CreateOrUpdateJob A job = do {
     r \<leftarrow> Api_Get A KJob (objMeta job);
     (case r of
        Err err \<Rightarrow> if IsNotFound err then Api_Create A OJob job else ret (Err err)
      | Ok existing \<Rightarrow>
          if objSpec job \<noteq> objSpec existing then
            wrap_err ''unable to update Job: %v'' (Api_Update A OJob (existing\<lparr>objSpec := objSpec job\<rparr>))
          else ret (Ok existing)
      | Panic p \<Rightarrow> ret (Panic p))
   }"

definition merge_service :: "service \<Rightarrow> service \<Rightarrow> service" where
  "merge_service existing s =
     existing\<lparr>svcSpec := (svcSpec existing)\<lparr>svcType := svcType (svcSpec s), svcPorts := svcPorts (svcSpec s)\<rparr>\<rparr>"

definition CreateOrUpdateService :: "service object_api \<Rightarrow> service \<Rightarrow> (world, service outcome) state" where
  "CreateOrUpdateService A s = do {
     r \<leftarrow> Api_Get A KService (svcMeta s);
     (case r of
        Err err \<Rightarrow> if IsNotFound err then Api_Create A OService s else ret (Err err)
      | Ok existing \<Rightarrow>
          if svcSpec s \<noteq> svcSpec existing then
            wrap_err ''unable to update Service: %v'' (Api_Update A OService (merge_service existing s))
          else ret (Ok existing)
      | Panic p \<Rightarrow> ret (Panic p))
   }"

definition DeleteServiceForeground :: "service object_api \<Rightarrow> service \<Rightarrow> (world, unit outcome) state" where
  "DeleteServiceForeground A s = Api_Delete A KService (svcMeta s)"

definition CreateOrUpdateNetworkPolicy :: "kobj object_api \<Rightarrow> kobj \<Rightarrow> (world, kobj outcome) state" where
  "CreateOrUpdateNetworkPolicy A np = do {
     r \<leftarrow> Api_Create A ONetworkPolicy np;
     (case r of
        Err err \<Rightarrow>
          if \<not> IsAlreadyExists err then ret (Err (Wrapped ''unable to create NetworkPolicy: %v'' err))
          else wrap_err ''unable to update NetworkPolicy: %v'' (Api_Update A ONetworkPolicy np)
      | _ \<Rightarrow> ret r)
   }"

definition DeleteNetworkPolicyForeground :: "kobj object_api \<Rightarrow> kobj \<Rightarrow> (world, unit outcome) state" where
  "DeleteNetworkPolicyForeground A np = Api_Delete A KNetworkPolicy (objMeta np)"

section \<open>Waiting\<close>

text \<open>
  \<open>wait.PollImmediate\<close> is a parameter: \<open>poll interval timeout condition\<close>, times in milliseconds. The
  contract \<open>polls_immediately\<close> is its documentation: the condition is run at once and then after each
  interval, until it answers true or fails, and for at least one but only finitely many attempts.
\<close>

type_synonym 's poll_fn = "nat \<Rightarrow> nat \<Rightarrow> ('s, bool outcome) state \<Rightarrow> ('s, unit outcome) state"

definition SleepMs :: "nat \<Rightarrow> (world, unit) state" where
  "SleepMs ms = perform (\<lambda>_. ()) (TimeSleepMs ms)"

fun attempts :: "('s, unit) state \<Rightarrow> nat \<Rightarrow> ('s, bool outcome) state \<Rightarrow> ('s, unit outcome) state" where
  "attempts pause 0 cond = ret (Err (Plain ''timed out waiting for the condition''))"
| "attempts pause (Suc n) cond = do {
     r \<leftarrow> cond;
     (case r of
        Ok True \<Rightarrow> ret (Ok ())
      | Ok False \<Rightarrow> do { _ \<leftarrow> pause; attempts pause n cond }
      | Err e \<Rightarrow> ret (Err e)
      | Panic p \<Rightarrow> ret (Panic p))
   }"

definition polls_immediately :: "(nat \<Rightarrow> ('s, unit) state) \<Rightarrow> 's poll_fn \<Rightarrow> bool" where
  "polls_immediately pause poll \<longleftrightarrow>
     (\<forall>interval timeout cond s. \<exists>n>0.
        run_state (poll interval timeout cond) s = run_state (attempts (pause interval) n cond) s)"

definition pollInterval :: nat where
  "pollInterval = 2 * 1000"

lemma pollInterval_2000: "pollInterval = 2000"
  by (simp add: pollInterval_def)

definition pollTimeout :: nat where
  "pollTimeout = 5 * 60 * 1000"

record rest_client =
  rest_do :: "call list \<Rightarrow> string \<Rightarrow> goerr option \<times> int"

definition url_ready :: "rest_client \<Rightarrow> string \<Rightarrow> (world, bool outcome) state" where
  "url_ready C request = do {
     res \<leftarrow> perform (\<lambda>h. rest_do C h request) (RestGet request);
     ret (case res of
            (Some err, _) \<Rightarrow>
              (case err of
                 StatusErr _ code \<Rightarrow> if code = 404 then Ok False else Err err
               | _ \<Rightarrow> Err err)
          | (None, statusCode) \<Rightarrow>
              if statusCode \<noteq> 200 then Err (Plain ''invalid status code: %d'') else Ok True)
   }"

definition WaitForURL :: "world poll_fn \<Rightarrow> rest_client \<Rightarrow> string \<Rightarrow> (world, unit outcome) state" where
  "WaitForURL poll C request = poll pollInterval pollTimeout (url_ready C request)"

definition WaitForObject :: "world poll_fn \<Rightarrow> rest_client \<Rightarrow> string \<Rightarrow> (world, unit outcome) state" where
  "WaitForObject poll C selfLink = WaitForURL poll C selfLink"

section \<open>Attempts\<close>

text \<open>The state after \<open>k\<close> attempts that answered false.\<close>

fun retried :: "('s, unit) state \<Rightarrow> ('s, bool outcome) state \<Rightarrow> nat \<Rightarrow> 's \<Rightarrow> 's" where
  "retried pause cond 0 s = s"
| "retried pause cond (Suc k) s = retried pause cond k (snd (run_state pause (snd (run_state cond s))))"

lemma attempts_result:
  assumes "run_state (attempts pause n cond) s = (r, s')"
  shows "\<exists>k\<le>n. (\<forall>j<k. fst (run_state cond (retried pause cond j s)) = Ok False)
    \<and> (case r of
         Ok _ \<Rightarrow> run_state cond (retried pause cond k s) = (Ok True, s')
       | Err e \<Rightarrow> run_state cond (retried pause cond k s) = (Err e, s')
           \<or> k = n \<and> s' = retried pause cond n s \<and> e = Plain ''timed out waiting for the condition''
       | Panic p \<Rightarrow> run_state cond (retried pause cond k s) = (Panic p, s'))"
  using assms
proof (induction n arbitrary: s)
  case 0
  then show ?case by auto
next
  case (Suc n)
  obtain r1 s1 where c: "run_state cond s = (r1, s1)" by fastforce
  show ?case
  proof (cases "r1 = Ok False")
    case True
    let ?s = "snd (run_state pause s1)"
    have "run_state (attempts pause n cond) ?s = (r, s')"
      using Suc.prems c True by (simp add: case_prod_unfold)
    from Suc.IH [OF this] obtain k where k: "k \<le> n"
      "\<forall>j<k. fst (run_state cond (retried pause cond j ?s)) = Ok False"
      and r: "case r of
         Ok _ \<Rightarrow> run_state cond (retried pause cond k ?s) = (Ok True, s')
       | Err e \<Rightarrow> run_state cond (retried pause cond k ?s) = (Err e, s')
           \<or> k = n \<and> s' = retried pause cond n ?s \<and> e = Plain ''timed out waiting for the condition''
       | Panic p \<Rightarrow> run_state cond (retried pause cond k ?s) = (Panic p, s')"
      by blast
    have step: "retried pause cond (Suc j) s = retried pause cond j ?s" for j by (simp add: c)
    have "fst (run_state cond (retried pause cond j s)) = Ok False" if "j < Suc k" for j
      using that k(2) c True step by (cases j) auto
    then show ?thesis using k(1) r by (intro exI [of _ "Suc k"]) (simp add: c split: outcome.splits)
  next
    case False
    then show ?thesis
      using Suc.prems c by (intro exI [of _ 0]) (auto split: outcome.splits bool.splits)
  qed
qed

lemma poll_result:
  assumes "polls_immediately pause poll" and "run_state (poll i t cond) s = (r, s')"
  shows "\<exists>n>0. run_state (attempts (pause i) n cond) s = (r, s')"
proof -
  obtain n where "n > 0" "run_state (poll i t cond) s = run_state (attempts (pause i) n cond) s"
    using assms(1) unfolding polls_immediately_def by blast
  then show ?thesis using assms(2) by auto
qed

lemma poll_Ok:
  assumes "polls_immediately pause poll" and "run_state (poll i t cond) s = (Ok (), s')"
  shows "\<exists>k. (\<forall>j<k. fst (run_state cond (retried (pause i) cond j s)) = Ok False)
    \<and> run_state cond (retried (pause i) cond k s) = (Ok True, s')"
proof -
  obtain n where "run_state (attempts (pause i) n cond) s = (Ok (), s')"
    using poll_result [OF assms] by blast
  from attempts_result [OF this] show ?thesis by auto
qed

text \<open>The first attempt decides unless it answers false.\<close>

lemma poll_first:
  assumes "polls_immediately pause poll" and "run_state cond s = (r, s1)" and "r \<noteq> Ok False"
  shows "run_state (poll i t cond) s =
    ((case r of Ok _ \<Rightarrow> Ok () | Err e \<Rightarrow> Err e | Panic p \<Rightarrow> Panic p), s1)"
proof -
  obtain n where n: "n > 0" "run_state (poll i t cond) s = run_state (attempts (pause i) n cond) s"
    using assms(1) unfolding polls_immediately_def by blast
  then obtain m where "n = Suc m" by (cases n) auto
  then show ?thesis using assms(2,3) n(2) by (cases r) (auto split: bool.splits)
qed

lemma poll_Ok_immediately:
  assumes "polls_immediately pause poll" and "run_state cond s = (Ok True, s1)"
  shows "run_state (poll i t cond) s = (Ok (), s1)"
  using poll_first [OF assms] by simp

lemma attempts_polls_immediately: "polls_immediately pause (\<lambda>i t. attempts (pause i) (Suc (t div i)))"
  by (auto simp: polls_immediately_def intro!: exI [of _ "Suc _"])

lemma attempts_calls:
  "calls_only P pause \<Longrightarrow> calls_only P cond \<Longrightarrow> calls_only P (attempts pause n cond)"
proof (induction n)
  case 0
  then show ?case by (simp add: calls_only_return)
next
  case (Suc n)
  then show ?case by (auto intro!: calls_intros split: outcome.split bool.split)
qed

lemma poll_calls:
  assumes "polls_immediately pause poll" and "calls_only P (pause i)" and "calls_only P cond"
  shows "calls_only P (poll i t cond)"
  unfolding calls_only_iff
proof
  fix w
  obtain n where "run_state (poll i t cond) w = run_state (attempts (pause i) n cond) w"
    using assms(1) unfolding polls_immediately_def by blast
  moreover have "calls_only P (attempts (pause i) n cond)" using assms(2,3) by (rule attempts_calls)
  ultimately show "hist_ext P w (snd (run_state (poll i t cond) w))" by (simp add: calls_only_iff)
qed

section \<open>The server as an object store\<close>

text \<open>
  \<open>object_store A k tag meta same \<sigma>\<close>: the server keeps, for one kind of object, a map from names to
  objects, \<open>\<sigma> h\<close> after the history \<open>h\<close>. Reading tells it and does not change it; a successful write
  stores and returns what the server makes of the object sent, as \<open>same\<close> relates them (it fills in defaults
  and the rest); what is stored is complete: sent again it would be made into itself.
\<close>

definition object_store :: "'o object_api \<Rightarrow> kind \<Rightarrow> ('o \<Rightarrow> api_obj) \<Rightarrow> ('o \<Rightarrow> ObjectMeta) \<Rightarrow> ('o \<Rightarrow> 'o \<Rightarrow> bool) \<Rightarrow>
    (call list \<Rightarrow> ObjectMeta \<Rightarrow> 'o option) \<Rightarrow> bool" where
  "object_store A k tag meta same \<sigma> \<longleftrightarrow>
     (\<forall>h m x. api_get A h (metaNamespace m) (metaName m) = Inr x \<longrightarrow> \<sigma> h m = Some x \<and> meta x = m \<and> same x x)
     \<and> (\<forall>h ns n. \<sigma> (h @ [ApiGet k ns n]) = \<sigma> h)
     \<and> (\<forall>h x. \<sigma> (h @ [ApiCreate (tag x)]) =
          (case api_create A h x of Inl _ \<Rightarrow> \<sigma> h | Inr y \<Rightarrow> (\<sigma> h)(meta x \<mapsto> y)))
     \<and> (\<forall>h x. \<sigma> (h @ [ApiUpdate (tag x)]) =
          (case api_update A h x of Inl _ \<Rightarrow> \<sigma> h | Inr y \<Rightarrow> (\<sigma> h)(meta x \<mapsto> y)))
     \<and> (\<forall>h x y. api_create A h x = Inr y \<or> api_update A h x = Inr y \<longrightarrow> same x y)"

lemma object_storeD:
  assumes "object_store A k tag meta same \<sigma>"
  shows "api_get A h (metaNamespace m) (metaName m) = Inr x \<Longrightarrow> \<sigma> h m = Some x \<and> meta x = m \<and> same x x"
    and "\<sigma> (h @ [ApiGet k ns n]) = \<sigma> h"
    and "api_create A h x = Inr y \<Longrightarrow> \<sigma> (h @ [ApiCreate (tag x)]) = (\<sigma> h)(meta x \<mapsto> y) \<and> same x y"
    and "api_update A h x = Inr y \<Longrightarrow> \<sigma> (h @ [ApiUpdate (tag x)]) = (\<sigma> h)(meta x \<mapsto> y) \<and> same x y"
    and "api_create A h x = Inl e \<Longrightarrow> \<sigma> (h @ [ApiCreate (tag x)]) = \<sigma> h"
  using assms unfolding object_store_def by (auto split: sum.splits)

text \<open>
  The contract of the create-or-update functions: a successful call leaves an object under the name that
  has what was wanted, it is the object returned, and objects of other names are left alone.
\<close>

locale upsert =
  fixes op :: "'o object_api \<Rightarrow> 'o \<Rightarrow> (world, 'o outcome) state"
    and knd :: kind and tag :: "'o \<Rightarrow> api_obj" and meta :: "'o \<Rightarrow> ObjectMeta"
    and same :: "'o \<Rightarrow> 'o \<Rightarrow> bool" and wanted :: "'o \<Rightarrow> 'o \<Rightarrow> bool"
  assumes op_Ok: "object_store A knd tag meta same \<sigma> \<Longrightarrow> run_state (op A x) w = (Ok y, w') \<Longrightarrow>
      \<sigma> (history w') = (\<sigma> (history w))(meta x \<mapsto> y) \<and> wanted x y"
begin

lemma stored:
  assumes "object_store A knd tag meta same \<sigma>" and "run_state (op A x) w = (Ok y, w')"
  shows "\<exists>z. \<sigma> (history w') (meta x) = Some z \<and> wanted x z"
  using op_Ok [OF assms] by simp

lemma frame:
  assumes "object_store A knd tag meta same \<sigma>" and "run_state (op A x) w = (Ok y, w')" and "m \<noteq> meta x"
  shows "\<sigma> (history w') m = \<sigma> (history w) m"
  using op_Ok [OF assms(1,2)] assms(3) by simp

text \<open>Publishing objects of different names one after the other leaves all of them stored.\<close>

lemma all_stored:
  assumes "object_store A knd tag meta same \<sigma>" and "distinct (map meta xs)"
    and "run_state (for_each (\<lambda>x. andthen (op A x) (\<lambda>_. ret (Ok ()))) xs) w = (Ok (), w')"
  shows "list_all (\<lambda>x. \<exists>z. \<sigma> (history w') (meta x) = Some z \<and> wanted x z) xs
    \<and> (\<forall>m. m \<notin> meta ` set xs \<longrightarrow> \<sigma> (history w') m = \<sigma> (history w) m)"
  using assms(2,3)
proof (induction xs arbitrary: w)
  case Nil
  then show ?case by simp
next
  case (Cons x xs)
  from Cons.prems(2) obtain y w1 where x: "run_state (op A x) w = (Ok y, w1)"
    and rest: "run_state (for_each (\<lambda>x. andthen (op A x) (\<lambda>_. ret (Ok ()))) xs) w1 = (Ok (), w')"
    by (auto elim!: andthen_OkE)
  have new: "meta x \<notin> meta ` set xs" and xs: "distinct (map meta xs)" using Cons.prems(1) by auto
  note ih = Cons.IH [OF xs rest]
  have "\<exists>z. \<sigma> (history w') (meta x) = Some z \<and> wanted x z"
    using stored [OF assms(1) x] ih new by simp
  moreover have "\<sigma> (history w') m = \<sigma> (history w) m" if "m \<notin> meta ` set (x # xs)" for m
    using frame [OF assms(1) x, of m] ih that by simp
  ultimately show ?case using ih by simp
qed

end

text \<open>The server completes specifications by \<open>dflt\<close>.\<close>

definition made_kobj :: "(opaque \<Rightarrow> opaque) \<Rightarrow> kobj \<Rightarrow> kobj \<Rightarrow> bool" where
  "made_kobj dflt x y \<longleftrightarrow> objMeta y = objMeta x \<and> objSpec y = dflt (objSpec x)"

definition made_service :: "(service_spec \<Rightarrow> service_spec) \<Rightarrow> service \<Rightarrow> service \<Rightarrow> bool" where
  "made_service dflt x y \<longleftrightarrow> svcMeta y = svcMeta x \<and> svcSpec y = dflt (svcSpec x)"

lemmas api_ops = Api_Get_def Api_Create_def Api_Update_def of_sum_def

text \<open>The three functions that read first have the same shape.\<close>

definition read_then_write :: "'o object_api \<Rightarrow> kind \<Rightarrow> ('o \<Rightarrow> api_obj) \<Rightarrow> ('o \<Rightarrow> ObjectMeta) \<Rightarrow>
    ('o \<Rightarrow> 'o \<Rightarrow> bool) \<Rightarrow> ('o \<Rightarrow> 'o \<Rightarrow> 'o) \<Rightarrow> string \<Rightarrow> 'o \<Rightarrow> (world, 'o outcome) state" where
  "read_then_write A k tag meta differs merge msg x = do {
     r \<leftarrow> Api_Get A k (meta x);
     (case r of
        Err err \<Rightarrow> if IsNotFound err then Api_Create A tag x else ret (Err err)
      | Ok existing \<Rightarrow>
          if differs x existing then wrap_err msg (Api_Update A tag (merge existing x)) else ret (Ok existing)
      | Panic p \<Rightarrow> ret (Panic p))
   }"

lemma read_then_write_Ok:
  assumes store: "object_store A k tag meta same \<sigma>"
    and run: "run_state (read_then_write A k tag meta differs merge msg x) w = (Ok y, w')"
    and merge: "\<And>e. meta e = meta x \<Longrightarrow> meta (merge e x) = meta x"
  shows "\<sigma> (history w') = (\<sigma> (history w))(meta x \<mapsto> y)
    \<and> (same x y \<or> (\<exists>e. meta e = meta x \<and> (if differs x e then same (merge e x) y else y = e \<and> same e e)))"
proof -
  note D = object_storeD [OF store]
  let ?h = "history w @ [ApiGet k (metaNamespace (meta x)) (metaName (meta x))]"
  show ?thesis
  proof (cases "api_get A (history w) (metaNamespace (meta x)) (metaName (meta x))")
    case (Inl e)
    have c: "api_create A ?h x = Inr y" and w': "history w' = ?h @ [ApiCreate (tag x)]"
      using run Inl by (auto simp: read_then_write_def api_ops split: if_splits sum.splits)
    show ?thesis using D(3) [OF c] unfolding w' D(2) by blast
  next
    case (Inr e)
    have e: "\<sigma> (history w) (meta x) = Some e" "meta e = meta x" "same e e" using D(1) [OF Inr] by blast+
    show ?thesis
    proof (cases "differs x e")
      case True
      have u: "api_update A ?h (merge e x) = Inr y" and w': "history w' = ?h @ [ApiUpdate (tag (merge e x))]"
        using run Inr True by (auto simp: read_then_write_def api_ops run_wrap_err split: sum.splits)
      show ?thesis using D(4) [OF u] e(2) True unfolding w' D(2) merge [OF e(2)] by auto
    next
      case False
      have y: "y = e" and w': "history w' = ?h"
        using run Inr False by (auto simp: read_then_write_def api_ops)
      show ?thesis using e False unfolding w' D(2) y by auto
    qed
  qed
qed

interpretation pod: upsert CreateOrUpdatePod KPod OPod objMeta "made_kobj dflt" "\<lambda>x y. objSpec y = dflt (objSpec x)" for dflt
proof
  fix A :: "kobj object_api" and \<sigma> x w y w'
  assume store: "object_store A KPod OPod objMeta (made_kobj dflt) \<sigma>" and run: "run_state (CreateOrUpdatePod A x) w = (Ok y, w')"
  have "CreateOrUpdatePod A x = read_then_write A KPod OPod objMeta (\<lambda>x e. objSpec x \<noteq> objSpec e)
      (\<lambda>e x. e\<lparr>objSpec := objSpec x\<rparr>) ''unable to update Pod: %v'' x"
    unfolding CreateOrUpdatePod_def read_then_write_def ..
  from read_then_write_Ok [OF store run [unfolded this]]
  show "\<sigma> (history w') = (\<sigma> (history w))(objMeta x \<mapsto> y) \<and> objSpec y = dflt (objSpec x)"
    by (auto simp: made_kobj_def split: if_splits)
qed

interpretation job: upsert CreateOrUpdateJob KJob OJob objMeta "made_kobj dflt" "\<lambda>x y. objSpec y = dflt (objSpec x)" for dflt
proof
  fix A :: "kobj object_api" and \<sigma> x w y w'
  assume store: "object_store A KJob OJob objMeta (made_kobj dflt) \<sigma>" and run: "run_state (CreateOrUpdateJob A x) w = (Ok y, w')"
  have "CreateOrUpdateJob A x = read_then_write A KJob OJob objMeta (\<lambda>x e. objSpec x \<noteq> objSpec e)
      (\<lambda>e x. e\<lparr>objSpec := objSpec x\<rparr>) ''unable to update Job: %v'' x"
    unfolding CreateOrUpdateJob_def read_then_write_def ..
  from read_then_write_Ok [OF store run [unfolded this]]
  show "\<sigma> (history w') = (\<sigma> (history w))(objMeta x \<mapsto> y) \<and> objSpec y = dflt (objSpec x)"
    by (auto simp: made_kobj_def split: if_splits)
qed

interpretation network_policy: upsert CreateOrUpdateNetworkPolicy KNetworkPolicy ONetworkPolicy objMeta
  "made_kobj dflt" "\<lambda>x y. objSpec y = dflt (objSpec x)" for dflt
proof
  fix A :: "kobj object_api" and \<sigma> x w y w'
  assume store: "object_store A KNetworkPolicy ONetworkPolicy objMeta (made_kobj dflt) \<sigma>"
    and run: "run_state (CreateOrUpdateNetworkPolicy A x) w = (Ok y, w')"
  note D = object_storeD [OF store]
  let ?h = "history w @ [ApiCreate (ONetworkPolicy x)]"
  show "\<sigma> (history w') = (\<sigma> (history w))(objMeta x \<mapsto> y) \<and> objSpec y = dflt (objSpec x)"
  proof (cases "api_create A (history w) x")
    case (Inl e)
    have u: "api_update A ?h x = Inr y" and w': "history w' = ?h @ [ApiUpdate (ONetworkPolicy x)]"
      using run Inl by (auto simp: CreateOrUpdateNetworkPolicy_def api_ops run_wrap_err split: if_splits sum.splits)
    show ?thesis using D(4) [OF u] unfolding w' D(5) [OF Inl] made_kobj_def by blast
  next
    case (Inr z)
    have y: "y = z" and w': "history w' = ?h"
      using run Inr by (auto simp: CreateOrUpdateNetworkPolicy_def api_ops)
    show ?thesis using D(3) [OF Inr] unfolding w' y made_kobj_def by blast
  qed
qed

text \<open>For services only the type and the ports are promised: the rest is that of whatever was there.\<close>

definition has_type_and_ports :: "(service_spec \<Rightarrow> service_spec) \<Rightarrow> service \<Rightarrow> service \<Rightarrow> bool" where
  "has_type_and_ports dflt x y \<longleftrightarrow>
     (\<exists>s. svcSpec y = dflt s \<and> svcType s = svcType (svcSpec x) \<and> svcPorts s = svcPorts (svcSpec x))"

interpretation service: upsert CreateOrUpdateService KService OService svcMeta "made_service dflt"
  "has_type_and_ports dflt" for dflt
proof
  fix A :: "service object_api" and \<sigma> x w y w'
  assume store: "object_store A KService OService svcMeta (made_service dflt) \<sigma>"
    and run: "run_state (CreateOrUpdateService A x) w = (Ok y, w')"
  have "CreateOrUpdateService A x = read_then_write A KService OService svcMeta (\<lambda>x e. svcSpec x \<noteq> svcSpec e)
      merge_service ''unable to update Service: %v'' x"
    unfolding CreateOrUpdateService_def read_then_write_def ..
  note run' = run [unfolded this]
  have res: "\<sigma> (history w') = (\<sigma> (history w))(svcMeta x \<mapsto> y)
    \<and> (made_service dflt x y \<or> (\<exists>e. svcMeta e = svcMeta x
        \<and> (if svcSpec x \<noteq> svcSpec e then made_service dflt (merge_service e x) y else y = e \<and> made_service dflt e e)))"
    by (rule read_then_write_Ok [OF store run']) (simp add: merge_service_def)
  then consider "svcSpec y = dflt (svcSpec x)" | e where "svcSpec y = dflt (svcSpec (merge_service e x))"
    by (auto simp: made_service_def split: if_splits)
  then have "has_type_and_ports dflt x y"
    by cases (auto simp: has_type_and_ports_def merge_service_def)
  then show "\<sigma> (history w') = (\<sigma> (history w))(svcMeta x \<mapsto> y) \<and> has_type_and_ports dflt x y"
    using conjunct1 [OF res] by blast
qed

section \<open>Properties\<close>

text \<open>
  C29. Creating or updating a pod refines an update of the server's map: on a server that stores objects
  with their specifications completed by \<open>dflt\<close>, a successful call stores the object that it returns
  under the pod's name, with the completed specification of the pod, whether the pod was created, updated or
  already right, and changes no other pod.
\<close>

theorem CreateOrUpdatePod_refines_store:
  assumes "object_store A KPod OPod objMeta (made_kobj dflt) \<sigma>"
    and "run_state (CreateOrUpdatePod A pod) w = (Ok stored, w')"
  shows "\<sigma> (history w') = (\<sigma> (history w))(objMeta pod \<mapsto> stored) \<and> objSpec stored = dflt (objSpec pod)"
  using assms by (rule pod.op_Ok)

text \<open>
  A pod whose specification the server completes is never found right: the comparison is with the
  completed one, so the next call sends an update although nothing was changed.
\<close>

lemma completed_pod_sent_again:
  assumes "object_store A KPod OPod objMeta (made_kobj dflt) \<sigma>"
    and "run_state (CreateOrUpdatePod A pod) w = (Ok stored, w')" and "dflt (objSpec pod) \<noteq> objSpec pod"
    and "api_get A (history w') (metaNamespace (objMeta pod)) (metaName (objMeta pod)) = Inr stored"
  shows "calls_of (CreateOrUpdatePod A pod) w' =
    [ApiGet KPod (metaNamespace (objMeta pod)) (metaName (objMeta pod)),
     ApiUpdate (OPod (stored\<lparr>objSpec := objSpec pod\<rparr>))]"
proof -
  have "objSpec stored = dflt (objSpec pod)" using pod.op_Ok [OF assms(1,2)] ..
  then show ?thesis using assms(3,4)
    by (auto simp: calls_of_def CreateOrUpdatePod_def api_ops run_wrap_err split: sum.split)
qed

text \<open>
  Updating a service loses everything but its type and ports: when the existing service differs from
  the wanted one elsewhere in the specification only (the selector, say), the update sends the existing
  object back unchanged.
\<close>

theorem CreateOrUpdateService_loses_rest:
  assumes "api_get A (history w) (metaNamespace (svcMeta s)) (metaName (svcMeta s)) = Inr existing"
    and "svcType (svcSpec s) = svcType (svcSpec existing)"
    and "svcPorts (svcSpec s) = svcPorts (svcSpec existing)"
    and "svcSpecRest (svcSpec s) \<noteq> svcSpecRest (svcSpec existing)"
  shows "calls_of (CreateOrUpdateService A s) w =
    [ApiGet KService (metaNamespace (svcMeta s)) (metaName (svcMeta s)), ApiUpdate (OService existing)]"
proof -
  have "svcSpec s \<noteq> svcSpec existing" using assms(4) by auto
  moreover have "merge_service existing s = existing" by (simp add: merge_service_def assms(2,3))
  ultimately show ?thesis
    by (simp add: calls_of_def CreateOrUpdateService_def api_ops run_wrap_err assms(1) split: sum.split)
qed

text \<open>
  A manifest object is created, and updated exactly when the server says that it exists: once the
  client and the mapping of its kind are there, the discovery is followed by the creation and, after
  \<open>AlreadyExists\<close> only, by the update, whose answer is the result; any other refusal is the result, wrapped.
\<close>

theorem CreateOrUpdateFromUnstructured_result:
  assumes "new_dynamic Y config = None" and "new_discovery Y config = None"
    and "group_resources Y (history w) config = Inr res" and "rest_mapping Y res (unGroupVersionKind u) = Inr rsc"
    and "accessor_name Y u = Inr n" and "accessor_namespace Y u = Inr ns" and "\<not> resource_nil Y rsc"
  shows "(let h1 = history w @ [ApiDiscover []]; h2 = h1 @ [ApiCreate (OUnstructured u)] in
    run_state (CreateOrUpdateFromUnstructured Y config u) w =
      (case dyn_create Y h1 u of
         None \<Rightarrow> (Ok (), w\<lparr>history := h2\<rparr>)
       | Some err \<Rightarrow>
           if IsAlreadyExists err
           then (of_err (dyn_update Y h2 u), w\<lparr>history := h2 @ [ApiUpdate (OUnstructured u)]\<rparr>)
           else (Err (Wrapped ''could not create unstr'' err), w\<lparr>history := h2\<rparr>)))"
  using assms
  by (simp add: CreateOrUpdateFromUnstructured_def GetAPIGroupResources_def Dyn_Create_def Dyn_Update_def
      run_andthen run_wrap_err Let_def split: option.split)

text \<open>
  The precedence of client configurations: the flag, else the environment variable (which is read
  twice), else the configuration inside a cluster if it can be loaded, else the file in the home
  directory. A file named by the flag or the variable is final, its error included; the errors of the
  last two are replaced.
\<close>

theorem GetConfig_precedence:
  "fst (run_state (GetConfig E N master flag) w) =
    (let h0 = history w; h1 = h0 @ [OsLookupEnv ''KUBECONFIG'']; h2 = h1 @ [OsLookupEnv ''KUBECONFIG''];
         env = (\<lambda>h. case os_lookup_env E h ''KUBECONFIG'' of None \<Rightarrow> [] | Some v \<Rightarrow> v);
         h3 = h1 @ [LoadInCluster]; h4 = h3 @ [CurrentUser];
         home = build_config N h4 [] (path_join [projr (current_user N h3), ''.kube'', ''config'']) in
     if flag \<noteq> [] then of_sum (build_config N h0 master flag)
     else if env h0 \<noteq> [] then of_sum (build_config N h2 master (env h1))
     else if isl (in_cluster_config N h1) then
       (if isl (current_user N h3) \<or> isl home then Err (Plain ''could not locate a kubeconfig'')
        else Ok (projr home))
     else Ok (projr (in_cluster_config N h1)))"
proof (cases "flag = []")
  case False
  then show ?thesis by (simp add: GetConfig_def BuildConfigFromFlags_def Let_def)
next
  case True
  then show ?thesis
    by (cases "in_cluster_config N (history w @ [OsLookupEnv ''KUBECONFIG''])";
        cases "current_user N (history w @ [OsLookupEnv ''KUBECONFIG'', LoadInCluster])")
      (simp_all add: GetConfig_def BuildConfigFromFlags_def InClusterConfig_def default_location_def
        CurrentUserHome_def Getenv_def LookupEnv_def of_sum_def Let_def split: option.split sum.split)
qed

lemma run_url_ready:
  "run_state (url_ready C u) w =
     ((case rest_do C (history w) u of
         (Some err, _) \<Rightarrow>
           (case err of StatusErr _ code \<Rightarrow> if code = 404 then Ok False else Err err | _ \<Rightarrow> Err err)
       | (None, code) \<Rightarrow> if code \<noteq> 200 then Err (Plain ''invalid status code: %d'') else Ok True),
      w\<lparr>history := history w @ [RestGet u]\<rparr>)"
  by (simp add: url_ready_def)

lemma retried_url:
  "retried (SleepMs i) (url_ready C u) k w =
     w\<lparr>history := history w @ concat (replicate k [RestGet u, TimeSleepMs i])\<rparr>"
  by (induction k arbitrary: w) (simp_all add: run_url_ready SleepMs_def)

lemma url_ready_True:
  "fst (run_state (url_ready C u) w) = Ok True \<longleftrightarrow> rest_do C (history w) u = (None, 200)"
  by (auto simp: run_url_ready split: prod.splits option.splits goerr.splits if_splits)

lemma url_ready_False:
  "fst (run_state (url_ready C u) w) = Ok False \<longleftrightarrow>
     (\<exists>r x. rest_do C (history w) u = (Some (StatusErr r 404), x))"
  by (auto simp: run_url_ready split: prod.splits option.splits goerr.splits if_splits)

text \<open>
  Waiting for a URL succeeds only on a plain 200: under the documented behaviour of the polling
  helper, when \<open>WaitForURL\<close> returns without an error the last answer was status 200 without an error and
  every answer before it was a 404 of the server, two seconds apart; nothing but these requests was made.
\<close>

theorem WaitForURL_Ok:
  assumes "polls_immediately SleepMs poll" and "run_state (WaitForURL poll C u) w = (Ok (), w')"
  shows "\<exists>k. (let h = (\<lambda>j. history w @ concat (replicate j [RestGet u, TimeSleepMs 2000])) in
      (\<forall>j<k. \<exists>r x. rest_do C (h j) u = (Some (StatusErr r 404), x))
      \<and> rest_do C (h k) u = (None, 200) \<and> w' = w\<lparr>history := h k @ [RestGet u]\<rparr>)"
proof -
  obtain k where k: "\<forall>j<k. fst (run_state (url_ready C u) (retried (SleepMs 2000) (url_ready C u) j w)) = Ok False"
    and r: "run_state (url_ready C u) (retried (SleepMs 2000) (url_ready C u) k w) = (Ok True, w')"
    using poll_Ok [OF assms(1) assms(2) [unfolded WaitForURL_def]] by (auto simp: pollInterval_def)
  have "rest_do C (history (retried (SleepMs 2000) (url_ready C u) k w)) u = (None, 200)"
    using r url_ready_True [of C u] by (metis fst_conv)
  moreover have "w' = w\<lparr>history := history (retried (SleepMs 2000) (url_ready C u) k w) @ [RestGet u]\<rparr>"
    using r by (auto simp: run_url_ready retried_url)
  ultimately show ?thesis
    using k unfolding url_ready_False Let_def by (intro exI [of _ k]) (simp add: retried_url)
qed

section \<open>A concrete server\<close>

text \<open>
  A server that never refuses and marks what it has completed: the pods are recomputed from the history.
\<close>

definition demo_dflt :: "opaque \<Rightarrow> opaque" where
  "demo_dflt s = takeWhile (\<lambda>c. c \<noteq> CHR ''+'') s @ ''+''"

lemma demo_dflt_idem: "demo_dflt (demo_dflt s) = demo_dflt s"
proof -
  have "takeWhile P (takeWhile P s @ c # t) = takeWhile P s" if "\<not> P c" for P and c :: char and t
    using that by (induction s) auto
  then show ?thesis by (simp add: demo_dflt_def)
qed

definition completed :: "kobj \<Rightarrow> kobj" where
  "completed x = x\<lparr>objSpec := demo_dflt (objSpec x)\<rparr>"

fun replay_pod :: "call \<Rightarrow> (ObjectMeta \<Rightarrow> kobj option) \<Rightarrow> ObjectMeta \<Rightarrow> kobj option" where
  "replay_pod (ApiCreate (OPod x)) st = st(objMeta x \<mapsto> completed x)"
| "replay_pod (ApiUpdate (OPod x)) st = st(objMeta x \<mapsto> completed x)"
| "replay_pod _ st = st"

definition pods_after :: "call list \<Rightarrow> ObjectMeta \<Rightarrow> kobj option" where
  "pods_after h = fold replay_pod h Map.empty"

definition pod_server :: "kobj object_api" where
  "pod_server =
     \<lparr>api_get = \<lambda>h ns n. (case pods_after h \<lparr>metaName = n, metaNamespace = ns\<rparr> of
                           Some x \<Rightarrow> Inr x | None \<Rightarrow> Inl (StatusErr NotFound 404)),
      api_create = \<lambda>_ x. Inr (completed x), api_update = \<lambda>_ x. Inr (completed x), api_delete = \<lambda>_ _ _. None\<rparr>"

lemma pods_after_snoc [simp]: "pods_after (h @ [c]) = replay_pod c (pods_after h)" "pods_after [] = Map.empty"
  by (simp_all add: pods_after_def)

lemma pods_after_name: "pods_after h m = Some x \<Longrightarrow> objMeta x = m \<and> objSpec x = demo_dflt (objSpec x)"
proof (induction h arbitrary: m x rule: rev_induct)
  case Nil
  then show ?case by simp
next
  case (snoc c h)
  then show ?case
    by (cases "(c, pods_after h)" rule: replay_pod.cases) (auto simp: completed_def demo_dflt_idem split: if_splits)
qed

lemma meta_eta [simp]: "\<lparr>metaName = metaName m, metaNamespace = metaNamespace m\<rparr> = (m :: ObjectMeta)"
  by simp

lemma pod_server_store: "object_store pod_server KPod OPod objMeta (made_kobj demo_dflt) pods_after"
  by (auto simp: object_store_def pod_server_def made_kobj_def completed_def split: option.splits dest: pods_after_name)

definition demo_pod :: "string \<Rightarrow> kobj" where
  "demo_pod spec = \<lparr>objMeta = \<lparr>metaName = ''dex'', metaNamespace = ''kube-system''\<rparr>, objSpec = spec, objRest = []\<rparr>"

theorem CreateOrUpdatePod_refines_store_witness:
  "pods_after [ApiCreate (OPod (demo_pod ''v1'')), ApiGet KPod ''kube-system'' ''dex'',
       ApiUpdate (OPod (demo_pod ''v2''))] (objMeta (demo_pod ''v2'')) = Some (demo_pod ''v2+'')"
proof -
  let ?w = "\<lparr>history = [ApiCreate (OPod (demo_pod ''v1''))], kubelet_settings = []\<rparr>"
  let ?h = "[ApiCreate (OPod (demo_pod ''v1'')), ApiGet KPod ''kube-system'' ''dex'', ApiUpdate (OPod (demo_pod ''v2''))]"
  have "run_state (CreateOrUpdatePod pod_server (demo_pod ''v2'')) ?w =
      (Ok (demo_pod ''v2+''), ?w\<lparr>history := ?h\<rparr>)"
    by (simp add: CreateOrUpdatePod_def api_ops run_wrap_err pod_server_def pods_after_def demo_pod_def completed_def demo_dflt_def)
  from conjunct1 [OF CreateOrUpdatePod_refines_store [OF pod_server_store this]] show ?thesis by (simp add: demo_pod_def)
qed

definition demo_service :: "string \<Rightarrow> service" where
  "demo_service selector =
     \<lparr>svcMeta = \<lparr>metaName = ''dex'', metaNamespace = ''kube-system''\<rparr>,
      svcSpec = \<lparr>svcType = ''NodePort'', svcPorts = ''5556'', svcSpecRest = selector\<rparr>, svcRest = []\<rparr>"

definition service_server :: "service object_api" where
  "service_server =
     \<lparr>api_get = \<lambda>_ _ _. Inr (demo_service ''app=old''), api_create = \<lambda>_ x. Inr x, api_update = \<lambda>_ x. Inr x,
      api_delete = \<lambda>_ _ _. None\<rparr>"

theorem CreateOrUpdateService_loses_rest_witness:
  "calls_of (CreateOrUpdateService service_server (demo_service ''app=new'')) empty_world =
     [ApiGet KService ''kube-system'' ''dex'', ApiUpdate (OService (demo_service ''app=old''))]"
  by (subst CreateOrUpdateService_loses_rest [where existing = "demo_service ''app=old''"])
    (simp_all add: service_server_def demo_service_def)

definition demo_dyn :: dyn_api where
  "demo_dyn =
     \<lparr>new_dynamic = \<lambda>_. None, new_discovery = \<lambda>_. None, group_resources = \<lambda>_ _. Inr ''resources'',
      rest_mapping = \<lambda>_ k. Inr k, accessor_name = \<lambda>u. Inr (metaName (unMeta u)),
      accessor_namespace = \<lambda>u. Inr (metaNamespace (unMeta u)), resource_nil = \<lambda>_. False,
      dyn_create = \<lambda>_ _. Some (StatusErr AlreadyExists 409), dyn_update = \<lambda>_ _. None\<rparr>"

definition demo_unstr :: "string \<Rightarrow> unstr" where
  "demo_unstr n =
     \<lparr>unGroupVersionKind = ''apps/v1/Deployment'', unMeta = \<lparr>metaName = n, metaNamespace = ''kube-system''\<rparr>,
      unBody = n\<rparr>"

lemma demo_dyn_sel [simp]:
  "new_dynamic demo_dyn = (\<lambda>_. None)" "new_discovery demo_dyn = (\<lambda>_. None)"
  "group_resources demo_dyn = (\<lambda>_ _. Inr ''resources'')" "rest_mapping demo_dyn = (\<lambda>_ k. Inr k)"
  "accessor_name demo_dyn = (\<lambda>u. Inr (metaName (unMeta u)))"
  "accessor_namespace demo_dyn = (\<lambda>u. Inr (metaNamespace (unMeta u)))"
  "resource_nil demo_dyn = (\<lambda>_. False)"
  "dyn_create demo_dyn = (\<lambda>_ _. Some (StatusErr AlreadyExists 409))" "dyn_update demo_dyn = (\<lambda>_ _. None)"
  by (simp_all add: demo_dyn_def)

theorem CreateOrUpdateFromUnstructured_result_witness:
  "run_state (CreateOrUpdateFromUnstructured demo_dyn ''cfg'' (demo_unstr ''dex'')) empty_world =
     (Ok (), empty_world\<lparr>history :=
        [ApiDiscover [], ApiCreate (OUnstructured (demo_unstr ''dex'')),
         ApiUpdate (OUnstructured (demo_unstr ''dex''))]\<rparr>)"
  using CreateOrUpdateFromUnstructured_result
    [of demo_dyn "''cfg''" empty_world "''resources''" "demo_unstr ''dex''" "''apps/v1/Deployment''" "''dex''" "''kube-system''"]
  by (simp add: demo_unstr_def empty_world_def Let_def)

text \<open>A client whose URL answers 404 once and then 200.\<close>

definition demo_rest :: rest_client where
  "demo_rest = \<lparr>rest_do = \<lambda>h u. if h = [] then (Some (StatusErr NotFound 404), 404) else (None, 200)\<rparr>"

theorem WaitForURL_Ok_witness:
  "\<exists>(w' :: world) k. w' = empty_world\<lparr>history :=
     concat (replicate k [RestGet ''/role'', TimeSleepMs 2000]) @ [RestGet ''/role'']\<rparr>
     \<and> rest_do demo_rest (concat (replicate k [RestGet ''/role'', TimeSleepMs 2000])) ''/role'' = (None, 200)"
proof -
  let ?poll = "\<lambda>i t. attempts (SleepMs i) (Suc (t div i))"
  have "\<exists>w'. run_state (attempts (SleepMs 2000) (Suc (Suc n)) (url_ready demo_rest ''/role'')) empty_world = (Ok (), w')" for n
    by (simp add: url_ready_def demo_rest_def SleepMs_def empty_world_def)
  moreover have "Suc (pollTimeout div pollInterval) = Suc (Suc 149)"
    by (simp add: pollInterval_def pollTimeout_def)
  ultimately obtain w' where run: "run_state (WaitForURL ?poll demo_rest ''/role'') empty_world = (Ok (), w')"
    unfolding WaitForURL_def by (metis pollInterval_2000)
  from WaitForURL_Ok [OF attempts_polls_immediately run] show ?thesis
    by (auto simp: Let_def empty_world_def)
qed

end
