(* ===== verification/Go_URL.thy ===== *)
theory Go_URL
  imports Go_Strings
begin

text \<open>
  Go's \<open>net/url\<close> as the configuration loader uses it: \<open>url.Parse\<close> with the accessors \<open>Hostname\<close>
  and \<open>Port\<close>, following the library of Go 1.11, the release the repository was built with. The
  user information of a URL is checked but not kept.
\<close>

section \<open>Characters\<close>

definition in_range :: "nat \<Rightarrow> nat \<Rightarrow> char \<Rightarrow> bool" where
  "in_range lo hi c \<longleftrightarrow> lo \<le> byte c \<and> byte c \<le> hi"

definition is_alpha :: "char \<Rightarrow> bool" where
  "is_alpha c \<longleftrightarrow> in_range 97 122 c \<or> in_range 65 90 c"

definition is_digit :: "char \<Rightarrow> bool" where
  "is_digit c \<longleftrightarrow> in_range 48 57 c"

definition unhex :: "char \<Rightarrow> nat option" where
  "unhex c =
     (if is_digit c then Some (byte c - 48)
      else if in_range 97 102 c then Some (byte c - 87)
      else if in_range 65 70 c then Some (byte c - 55)
      else None)"

definition to_lower :: "string \<Rightarrow> string" where
  "to_lower s = map (\<lambda>c. if in_range 65 90 c then char_of (byte c + 32) else c) s"

section \<open>Percent decoding\<close>

datatype url_mode = encodePath | encodeUserPassword | encodeHost | encodeZone | encodeFragment

text \<open>\<open>shouldEscape\<close> for the host and zone modes, the only ones the parser asks for.\<close>

definition shouldEscape_host :: "char \<Rightarrow> bool" where
  "shouldEscape_host c \<longleftrightarrow>
     \<not> (is_alpha c \<or> is_digit c
        \<or> byte c \<in> {33, 36, 38, 39, 40, 41, 42, 43, 44, 59, 61, 58, 91, 93, 60, 62, 34}
        \<or> c \<in> set ''-_.~'')"

definition cons_res :: "'a \<Rightarrow> goerr + 'a list \<Rightarrow> goerr + 'a list" where
  "cons_res c r = (case r of Inl e \<Rightarrow> Inl e | Inr s \<Rightarrow> Inr (c # s))"

fun url_unescape :: "url_mode \<Rightarrow> string \<Rightarrow> goerr + string" where
  "url_unescape m [] = Inr []"
| "url_unescape m (c # s) =
     (if c = CHR ''%'' then
        (case s of
           h1 # h2 # r \<Rightarrow>
             (case (unhex h1, unhex h2) of
                (Some a, Some b) \<Rightarrow>
                  (if m = encodeHost \<and> a < 8 \<and> [h1, h2] \<noteq> ''25'' then Inl (Plain ''invalid URL escape'')
                   else if m = encodeZone \<and> [h1, h2] \<noteq> ''25'' \<and> 16 * a + b \<noteq> 32
                           \<and> shouldEscape_host (char_of (16 * a + b))
                   then Inl (Plain ''invalid URL escape'')
                   else cons_res (char_of (16 * a + b)) (url_unescape m r))
              | _ \<Rightarrow> Inl (Plain ''invalid URL escape''))
         | _ \<Rightarrow> Inl (Plain ''invalid URL escape''))
      else if (m = encodeHost \<or> m = encodeZone) \<and> byte c < 128 \<and> shouldEscape_host c
      then Inl (Plain ''invalid character in host name'')
      else cons_res c (url_unescape m s))"

section \<open>Parsing\<close>

record goURL =
  urlScheme :: string
  urlOpaque :: string
  urlHost :: string
  urlPath :: string
  urlRawQuery :: string
  urlFragment :: string

text \<open>\<open>split(s, c, cutc)\<close> of net/url.\<close>

definition url_split :: "string \<Rightarrow> char \<Rightarrow> bool \<Rightarrow> string \<times> string" where
  "url_split s c cutc =
     (case str_index s [c] of
        None \<Rightarrow> (s, [])
      | Some i \<Rightarrow> (take i s, drop (if cutc then i + 1 else i) s))"

fun getscheme_from :: "nat \<Rightarrow> string \<Rightarrow> string \<Rightarrow> goerr + string \<times> string" where
  "getscheme_from i raw [] = Inr ([], raw)"
| "getscheme_from i raw (c # cs) =
     (if is_alpha c then getscheme_from (i + 1) raw cs
      else if is_digit c \<or> c \<in> set ''+-.'' then
        (if i = 0 then Inr ([], raw) else getscheme_from (i + 1) raw cs)
      else if c = CHR '':'' then
        (if i = 0 then Inl (Plain ''missing protocol scheme'') else Inr (take i raw, cs))
      else Inr ([], raw))"

definition getscheme :: "string \<Rightarrow> goerr + string \<times> string" where
  "getscheme raw = getscheme_from 0 raw raw"

definition validOptionalPort :: "string \<Rightarrow> bool" where
  "validOptionalPort port \<longleftrightarrow> port = [] \<or> hd port = CHR '':'' \<and> list_all is_digit (tl port)"

definition validUserinfo :: "string \<Rightarrow> bool" where
  "validUserinfo s \<longleftrightarrow>
     list_all (\<lambda>c. is_alpha c \<or> is_digit c
                 \<or> byte c \<in> {45, 46, 95, 58, 126, 33, 36, 38, 39, 40, 41, 42, 43, 44, 59, 61, 37, 64}) s"

definition parseHost :: "string \<Rightarrow> goerr + string" where
  "parseHost host =
     (if has_prefix host ''['' then
        (case last_index_byte host (CHR '']'') of
           None \<Rightarrow> Inl (Plain ''missing ] in host'')
         | Some i \<Rightarrow>
             if \<not> validOptionalPort (drop (i + 1) host) then Inl (Plain ''invalid port after host'')
             else
               (case str_index (take i host) ''%25'' of
                  None \<Rightarrow> url_unescape encodeHost host
                | Some z \<Rightarrow>
                    (case url_unescape encodeHost (take z host) of
                       Inl e \<Rightarrow> Inl e
                     | Inr h1 \<Rightarrow>
                         (case url_unescape encodeZone (drop z (take i host)) of
                            Inl e \<Rightarrow> Inl e
                          | Inr h2 \<Rightarrow>
                              (case url_unescape encodeHost (drop i host) of
                                 Inl e \<Rightarrow> Inl e
                               | Inr h3 \<Rightarrow> Inr (h1 @ h2 @ h3))))))
      else url_unescape encodeHost host)"

definition check_userinfo :: "string \<Rightarrow> goerr option" where
  "check_userinfo u =
     (if \<not> validUserinfo u then Some (Plain ''net/url: invalid userinfo'')
      else
        (let (user, password) = url_split u (CHR '':'') True in
         (case url_unescape encodeUserPassword user of
            Inl e \<Rightarrow> Some e
          | Inr _ \<Rightarrow> (case url_unescape encodeUserPassword password of Inl e \<Rightarrow> Some e | Inr _ \<Rightarrow> None))))"

definition parseAuthority :: "string \<Rightarrow> goerr + string" where
  "parseAuthority authority =
     (case last_index_byte authority (CHR ''@'') of
        None \<Rightarrow> parseHost authority
      | Some i \<Rightarrow>
          (case parseHost (drop (i + 1) authority) of
             Inl e \<Rightarrow> Inl e
           | Inr host \<Rightarrow>
               (case check_userinfo (take i authority) of Some e \<Rightarrow> Inl e | None \<Rightarrow> Inr host)))"

definition emptyURL :: goURL where
  "emptyURL = \<lparr>urlScheme = [], urlOpaque = [], urlHost = [], urlPath = [], urlRawQuery = [], urlFragment = []\<rparr>"

text \<open>The part of \<open>parse\<close> after the scheme and the query have been cut off.\<close>

definition parse_rest :: "string \<Rightarrow> string \<Rightarrow> string \<Rightarrow> goerr + goURL" where
  "parse_rest scheme rest query =
     (let u = emptyURL\<lparr>urlScheme := scheme, urlRawQuery := query\<rparr> in
      if \<not> has_prefix rest ''/'' \<and> scheme \<noteq> [] then Inr (u\<lparr>urlOpaque := rest\<rparr>)
      else if \<not> has_prefix rest ''/'' \<and> contains_byte (takeWhile (\<lambda>c. c \<noteq> CHR ''/'') rest) (CHR '':'')
      then Inl (Plain ''first path segment in URL cannot contain colon'')
      else
        (let (host, path) =
               (if (scheme \<noteq> [] \<or> \<not> has_prefix rest ''///'') \<and> has_prefix rest ''//''
                then (let (authority, r) = url_split (drop 2 rest) (CHR ''/'') False
                      in (parseAuthority authority, r))
                else (Inr [], rest))
         in (case host of
               Inl e \<Rightarrow> Inl e
             | Inr h \<Rightarrow>
                 (case url_unescape encodePath path of
                    Inl e \<Rightarrow> Inl e
                  | Inr p \<Rightarrow> Inr (u\<lparr>urlHost := h, urlPath := p\<rparr>)))))"

definition url_parse :: "string \<Rightarrow> goerr + goURL" where
  "url_parse rawurl =
     (if rawurl = ''*'' then Inr (emptyURL\<lparr>urlPath := ''*''\<rparr>)
      else
        (case getscheme rawurl of
           Inl e \<Rightarrow> Inl e
         | Inr (scheme0, rest) \<Rightarrow>
             (let scheme = to_lower scheme0 in
              if has_suffix rest ''?'' \<and> count_list rest (CHR ''?'') = 1
              then parse_rest scheme (butlast rest) []
              else (let (r, q) = url_split rest (CHR ''?'') True in parse_rest scheme r q))))"

definition Parse :: "string \<Rightarrow> goerr + goURL" where
  "Parse rawurl =
     (let (u, frag) = url_split rawurl (CHR ''#'') True in
      (case url_parse u of
         Inl e \<Rightarrow> Inl (Wrapped ''parse'' e)
       | Inr url \<Rightarrow>
           if frag = [] then Inr url
           else
             (case url_unescape encodeFragment frag of
                Inl e \<Rightarrow> Inl (Wrapped ''parse'' e)
              | Inr f \<Rightarrow> Inr (url\<lparr>urlFragment := f\<rparr>))))"

section \<open>Accessors\<close>

definition Hostname :: "goURL \<Rightarrow> string" where
  "Hostname u =
     (let hostport = urlHost u in
      (case str_index hostport '':'' of
         None \<Rightarrow> hostport
       | Some colon \<Rightarrow>
           (case str_index hostport '']'' of
              Some i \<Rightarrow> (let h = take i hostport in if has_prefix h ''['' then tl h else h)
            | None \<Rightarrow> take colon hostport)))"

definition Port :: "goURL \<Rightarrow> string" where
  "Port u =
     (let hostport = urlHost u in
      (case str_index hostport '':'' of
         None \<Rightarrow> []
       | Some colon \<Rightarrow>
           (case str_index hostport '']:'' of
              Some i \<Rightarrow> drop (i + 2) hostport
            | None \<Rightarrow> if contains_byte hostport (CHR '']'') then [] else drop (colon + 1) hostport)))"

section \<open>Plain addresses\<close>

text \<open>The characters of DNS names, IPv4 addresses and port numbers.\<close>

definition addr_char :: "char \<Rightarrow> bool" where
  "addr_char c \<longleftrightarrow> is_alpha c \<or> is_digit c \<or> c = CHR ''.'' \<or> c = CHR ''-''"

definition addr :: "string \<Rightarrow> bool" where
  "addr s \<longleftrightarrow> list_all addr_char s"

lemma addr_simps [simp]:
  "addr []" "addr (c # s) \<longleftrightarrow> addr_char c \<and> addr s" "addr (s @ t) \<longleftrightarrow> addr s \<and> addr t"
  by (auto simp: addr_def)

lemma not_addr_chars:
  "\<not> addr_char (CHR '':'')" "\<not> addr_char (CHR ''/'')" "\<not> addr_char (CHR ''#'')"
  "\<not> addr_char (CHR ''?'')" "\<not> addr_char (CHR ''@'')" "\<not> addr_char (CHR ''['')"
  "\<not> addr_char (CHR '']'')" "\<not> addr_char (CHR ''%'')" "\<not> addr_char (CHR ''*'')"
  by (simp_all add: addr_char_def is_alpha_def is_digit_def in_range_def byte_def)

lemma addr_notin: "addr s \<Longrightarrow> \<not> addr_char c \<Longrightarrow> c \<notin> set s"
  by (auto simp: addr_def list_all_iff)

lemmas addr_notins = addr_notin [OF _ not_addr_chars(1)] addr_notin [OF _ not_addr_chars(2)]
  addr_notin [OF _ not_addr_chars(3)] addr_notin [OF _ not_addr_chars(4)]
  addr_notin [OF _ not_addr_chars(5)] addr_notin [OF _ not_addr_chars(6)]
  addr_notin [OF _ not_addr_chars(7)] addr_notin [OF _ not_addr_chars(8)]
  addr_notin [OF _ not_addr_chars(9)]

text \<open>An optional port: nothing, or a colon and a plain string.\<close>

definition port_suffix :: "string \<Rightarrow> bool" where
  "port_suffix s \<longleftrightarrow> s = [] \<or> hd s = CHR '':'' \<and> addr (tl s)"

lemma port_suffixE:
  assumes "port_suffix s"
  obtains "s = []" | p where "s = CHR '':'' # p" "addr p"
  using assms by (cases s) (auto simp: port_suffix_def)

lemma addr_char_not_escaped: "addr_char c \<Longrightarrow> \<not> shouldEscape_host c"
  unfolding addr_char_def shouldEscape_host_def by (elim disjE) simp_all

lemma colon_not_escaped: "\<not> shouldEscape_host (CHR '':'')"
  by (simp add: shouldEscape_host_def byte_def)

lemma host_char_ok: "addr_char c \<or> c = CHR '':'' \<Longrightarrow> \<not> shouldEscape_host c \<and> c \<noteq> CHR ''%''"
  using addr_char_not_escaped colon_not_escaped not_addr_chars(8) by auto

lemma url_unescape_host:
  "list_all (\<lambda>c. \<not> shouldEscape_host c \<and> c \<noteq> CHR ''%'') s \<Longrightarrow> url_unescape encodeHost s = Inr s"
  by (induction s) (simp_all add: cons_res_def)

lemma url_unescape_addr:
  "list_all (\<lambda>c. addr_char c \<or> c = CHR '':'') s \<Longrightarrow> url_unescape encodeHost s = Inr s"
  by (rule url_unescape_host) (use host_char_ok in \<open>auto simp: list_all_iff\<close>)

text \<open>Host and port of a plain address after an explicit scheme.\<close>

lemma addr_port_chars:
  assumes "addr h" and "port_suffix s"
  shows "list_all (\<lambda>c. addr_char c \<or> c = CHR '':'') (h @ s)"
  using assms by (auto simp: addr_def list_all_iff elim!: port_suffixE)

lemma addr_port_notin:
  assumes "addr h" and "port_suffix s" and "\<not> addr_char c" and "c \<noteq> CHR '':''"
  shows "c \<notin> set (h @ s)"
  using addr_port_chars [OF assms(1,2)] assms(3,4) by (auto simp: list_all_iff)

lemma url_split_notin: "c \<notin> set s \<Longrightarrow> url_split s c b = (s, [])"
  by (simp add: url_split_def str_index_byte_None [THEN iffD2])

lemma parseAuthority_addr:
  assumes "addr h" and "port_suffix s"
  shows "parseAuthority (h @ s) = Inr (h @ s)"
proof -
  have "CHR ''@'' \<notin> set (h @ s)" "CHR ''['' \<notin> set (h @ s)"
    using addr_port_notin [OF assms] not_addr_chars by auto
  moreover from this(2) have "\<not> has_prefix (h @ s) ''[''" by (cases "h @ s") auto
  moreover have "url_unescape encodeHost (h @ s) = Inr (h @ s)"
    by (rule url_unescape_addr [OF addr_port_chars [OF assms]])
  ultimately show ?thesis
    by (simp add: parseAuthority_def parseHost_def last_index_byte_None [THEN iffD2])
qed

lemma has_suffix_last: "has_suffix s [c] \<Longrightarrow> c \<in> set s"
  by (cases "rev s") (auto simp: has_suffix_def dest: arg_cong [where f = set])

text \<open>A URL that is a scheme and a host.\<close>

lemma Parse_host:
  assumes "parseAuthority a = Inr a"
    and no: "CHR ''#'' \<notin> set a" "CHR ''?'' \<notin> set a" "CHR ''/'' \<notin> set a"
    and pre: "pre = ''http'' \<or> pre = ''https''"
  shows "\<exists>u. Parse (pre @ ''://'' @ a) = Inr u \<and> urlHost u = a"
proof -
  have frag: "url_split (pre @ ''://'' @ a) (CHR ''#'') True = (pre @ ''://'' @ a, [])"
    using no pre by (intro url_split_notin) auto
  have gs: "getscheme (pre @ ''://'' @ a) = Inr (pre, ''//'' @ a)"
    using pre by (auto simp: getscheme_def is_alpha_def is_digit_def in_range_def byte_def)
  have low: "to_lower pre = pre"
    using pre by (auto simp: to_lower_def in_range_def byte_def)
  have q: "\<not> has_suffix (''//'' @ a) ''?''" "url_split (''//'' @ a) (CHR ''?'') True = (''//'' @ a, [])"
    using no has_suffix_last [of "''//'' @ a" "CHR ''?''"] by (auto intro!: url_split_notin)
  have auth: "url_split a (CHR ''/'') False = (a, [])"
    using no by (intro url_split_notin) auto
  have ne: "pre @ ''://'' @ a \<noteq> ''*''" "pre \<noteq> []" using pre by auto
  have rest: "parse_rest pre (''//'' @ a) [] =
      Inr (emptyURL\<lparr>urlScheme := pre, urlRawQuery := [], urlHost := a, urlPath := []\<rparr>)"
    using ne auth assms(1) by (simp add: parse_rest_def Let_def)
  have "url_parse (pre @ ''://'' @ a) =
      Inr (emptyURL\<lparr>urlScheme := pre, urlRawQuery := [], urlHost := a, urlPath := []\<rparr>)"
    unfolding url_parse_def gs using ne q rest by (simp add: low Let_def)
  then show ?thesis unfolding Parse_def frag by simp
qed

lemma Parse_addr:
  assumes "addr h" and "port_suffix s" and "pre = ''http'' \<or> pre = ''https''"
  shows "\<exists>u. Parse (pre @ ''://'' @ h @ s) = Inr u \<and> urlHost u = h @ s"
  using addr_port_notin [OF assms(1,2)] not_addr_chars assms(3)
  by (intro Parse_host parseAuthority_addr assms(1,2)) auto

lemma Hostname_addr:
  "addr h \<Longrightarrow> port_suffix s \<Longrightarrow> urlHost u = h @ s \<Longrightarrow> Hostname u = h"
  by (erule port_suffixE)
    (auto simp: Hostname_def Let_def str_index_byte_None [THEN iffD2] addr_notins)

lemma str_index_sub_None: "c \<notin> set s \<Longrightarrow> str_index s (c # p) = None"
  by (induction s) auto

lemma Port_addr:
  "addr h \<Longrightarrow> port_suffix s \<Longrightarrow> urlHost u = h @ s \<Longrightarrow> Port u = tl s"
  by (erule port_suffixE)
    (auto simp: Port_def Let_def str_index_byte_None [THEN iffD2] addr_notins
      str_index_sub_None contains_byte_def)

text \<open>A plain address without a scheme whose name is itself a legal scheme has no host part.\<close>

lemma getscheme_from_addr:
  "addr cs \<Longrightarrow> 0 < i \<Longrightarrow> getscheme_from i raw cs = Inr ([], raw)"
  by (induction cs arbitrary: i) (auto simp: addr_char_def)

lemma getscheme_from_addr_colon:
  "addr cs \<Longrightarrow> 0 < i \<Longrightarrow> getscheme_from i raw (cs @ CHR '':'' # r) = Inr (take (i + length cs) raw, r)"
proof (induction cs arbitrary: i)
  case Nil
  then show ?case by (simp add: is_alpha_def is_digit_def in_range_def byte_def)
next
  case (Cons c cs)
  then have "getscheme_from (i + 1) raw (cs @ CHR '':'' # r) = Inr (take (i + 1 + length cs) raw, r)"
    by simp
  then show ?case using Cons.prems by (auto simp: addr_char_def)
qed

end
