(* ===== verification/Config.thy ===== *)
theory Config
  imports World Go_URL
begin

text \<open>
  pkg/config: the configuration structures with their defaults (config.go, defaults.go), loading a
  configuration from a file and the environment, setting single variables, and the derived values
  (role of the node, bind address, public address, service names). The YAML library and the
  structure walker are parameters, collected in \<open>config_deps\<close>; the operating system is \<open>os_env\<close>.
\<close>

section \<open>Structures\<close>

record TypeMeta =
  Kind :: string
  APIVersion :: string

record CniConfiguration =
  BinDir :: string
  ConfDir :: string
  Driver :: string
  Image :: string

record ClusterFormationConfiguration =
  Seeder :: string
  Token :: string
  AutoApprove :: bool

record OIDCConfiguration =
  Issuer :: string
  ClientID :: string
  CA :: string
  Username :: string
  Groups :: string

record AuthConfiguration =
  OIDC :: OIDCConfiguration

record CertsConfiguration =
  Directory :: string
  CaHash :: string

record DNSConfiguration =
  Domain :: string
  ExternalFqdn :: string

record ProxyConfiguration =
  Http :: string
  Https :: string
  NoProxy :: string
  SystemWide :: bool

record BindConfiguration =
  Address :: string
  Interface :: string

record PathsConfigration =
  Kubeadm :: string

record LocalEtcdConfiguration =
  ServerCertSANs :: "string list"
  PeerCertSANs :: "string list"

record EtcdConfiguration =
  LocalEtcd :: "LocalEtcdConfiguration option"

record NetworkConfiguration =
  Bind :: BindConfiguration
  Cni :: CniConfiguration
  Dns :: DNSConfiguration
  Proxy :: ProxyConfiguration
  PodSubnet :: string
  ServiceSubnet :: string

record RuntimeConfiguration =
  Engine :: string

record FeaturesConfiguration =
  PSP :: bool

type_synonym ServicesConfiguration = unit

record KubicInitConfiguration =
  typeMeta :: TypeMeta
  Network :: NetworkConfiguration
  Paths :: PathsConfigration
  ClusterFormation :: ClusterFormationConfiguration
  Certificates :: CertsConfiguration
  Etcd :: EtcdConfiguration
  Runtime :: RuntimeConfiguration
  Features :: FeaturesConfiguration
  Services :: ServicesConfiguration
  Auth :: AuthConfiguration

section \<open>Defaults\<close>

definition DefaultAPIServerPort :: nat where
  "DefaultAPIServerPort = 6443"

definition DefaultKubernetesVersion :: string where
  "DefaultKubernetesVersion = ''1.12.2''"

definition DefaultEnvVarSeeder :: string where
  "DefaultEnvVarSeeder = ''SEEDER''"

definition DefaultEnvVarToken :: string where
  "DefaultEnvVarToken = ''TOKEN''"

definition DefaultEnvVarManager :: string where
  "DefaultEnvVarManager = ''MANAGER_IMAGE''"

definition DefaultRuntimeEngine :: string where
  "DefaultRuntimeEngine = ''crio''"

definition DefaultCriSocket :: "(string \<times> string) list" where
  "DefaultCriSocket =
     [(''docker'', ''/var/run/dockershim.sock''),
      (''crio'', ''/var/run/crio/crio.sock''),
      (''containerd'', ''/var/run/containerd/containerd.sock'')]"

definition DefaultCniDriver :: string where
  "DefaultCniDriver = ''flannel''"

definition DefaultCniImage :: string where
  "DefaultCniImage =
     ''registry.opensuse.org/devel/caasp/kubic-container/container/kubic/flannel:0.9.1''"

definition DefaultCniBinDir :: string where
  "DefaultCniBinDir = ''/var/lib/kubelet/cni/bin''"

definition DefaultCniConfDir :: string where
  "DefaultCniConfDir = ''/etc/cni/net.d''"

definition DefaultPodSubnet :: string where
  "DefaultPodSubnet = ''172.16.0.0/13''"

definition DefaultServiceSubnet :: string where
  "DefaultServiceSubnet = ''172.24.0.0/16''"

definition DefaultDNSDomain :: string where
  "DefaultDNSDomain = ''cluster.local''"

definition DefaultEtdcImageRepo :: string where
  "DefaultEtdcImageRepo = ''registry.opensuse.org/devel/kubic/containers/container/kubic''"

definition DefaultEtdcImageTag :: string where
  "DefaultEtdcImageTag = ''3.3''"

definition DefaultKubicInitImage :: string where
  "DefaultKubicInitImage = ''kubic-init:latest''"

definition DefaultKubeadmPath :: string where
  "DefaultKubeadmPath = ''/usr/bin/kubeadm''"

text \<open>
  The values of \<open>kubeadmapiv1alpha3.DefaultCertificatesDir\<close> and \<open>DefaultCACertPath\<close>, constants of
  kubeadm.
\<close>

definition DefaultCertsDirectory :: string where
  "DefaultCertsDirectory = ''/etc/kubernetes/pki''"

definition DefaultCertCA :: string where
  "DefaultCertCA = ''/etc/kubernetes/pki/ca.crt''"

definition DefaultKubicInitExeInstallPath :: string where
  "DefaultKubicInitExeInstallPath = ''/usr/local/bin/kubic-init''"

definition DefaultKubicInitConfig :: string where
  "DefaultKubicInitConfig = ''/etc/kubic/kubic-init.yaml''"

definition DefaultKubicInitConfigmap :: string where
  "DefaultKubicInitConfigmap = ''kubic-init-config-seeder''"

definition DefaultKubicManifestsDir :: string where
  "DefaultKubicManifestsDir = ''/etc/kubic/manifests''"

definition DefaultKubicCRDDir :: string where
  "DefaultKubicCRDDir = ''/etc/kubic/crds''"

definition DefaultKubicRBACDir :: string where
  "DefaultKubicRBACDir = ''/etc/kubic/rbac''"

definition DefaultKubicKubeconfig :: string where
  "DefaultKubicKubeconfig = ''/etc/kubernetes/admin.conf''"

definition DefaultDexIssuerPort :: nat where
  "DefaultDexIssuerPort = 32000"

definition DefaultOIDCClientID :: string where
  "DefaultOIDCClientID = ''kubernetes''"

definition DefaultOIDCUsernameClaim :: string where
  "DefaultOIDCUsernameClaim = ''email''"

definition DefaultOIDCGroupsClaim :: string where
  "DefaultOIDCGroupsClaim = ''group''"

definition DefaultManifestsDirs :: "string list" where
  "DefaultManifestsDirs =
     [''/usr/lib/kubic/config/manifests'', ''/usr/lib/kubic/manifests'',
      ''/usr/local/etc/kubic/config/manifests'', ''/usr/local/etc/kubic/manifests'',
      ''config/manifests'']"

definition DefaultRBACDirs :: "string list" where
  "DefaultRBACDirs =
     [''/usr/lib/kubic/config/rbac'', ''/usr/lib/kubic/rbac'', ''/usr/local/kubic/config/rbac'',
      ''/usr/local/kubic/rbac'', ''config/rbac'']"

definition DefaultCRDsDirs :: "string list" where
  "DefaultCRDsDirs =
     [''/usr/lib/kubic/config/crds'', ''/usr/lib/kubic/crds'', ''/usr/local/kubic/config/crds'',
      ''/usr/local/kubic/crds'', ''config/crds'']"

definition DefaultClusterAdminRole :: string where
  "DefaultClusterAdminRole = ''cluster-admin''"

text \<open>The initial value of the package variable \<open>DefaultKubeletSettings\<close>.\<close>

definition DefaultKubeletSettings :: "(string \<times> string) list" where
  "DefaultKubeletSettings =
     [(''network-plugin'', ''cni''), (''cni-conf-dir'', DefaultCniConfDir),
      (''cni-bin-dir'', DefaultCniBinDir)]"

definition DefaultIgnoredPreflightErrors :: "string list" where
  "DefaultIgnoredPreflightErrors =
     [''Service-Docker'', ''Swap'', ''FileExisting-crictl'', ''Port-10250'', ''SystemVerification'',
      ''IsPrivilegedUser'']"

definition DefaultFeatureGates :: string where
  "DefaultFeatureGates = []"

definition defaultConfiguration :: KubicInitConfiguration where
  "defaultConfiguration =
     \<lparr>typeMeta = \<lparr>Kind = [], APIVersion = []\<rparr>,
      Network =
        \<lparr>Bind = \<lparr>Address = [], Interface = []\<rparr>,
         Cni = \<lparr>BinDir = DefaultCniBinDir, ConfDir = DefaultCniConfDir, Driver = DefaultCniDriver,
                Image = DefaultCniImage\<rparr>,
         Dns = \<lparr>Domain = DefaultDNSDomain, ExternalFqdn = []\<rparr>,
         Proxy = \<lparr>Http = [], Https = [], NoProxy = [], SystemWide = False\<rparr>,
         PodSubnet = DefaultPodSubnet,
         ServiceSubnet = DefaultServiceSubnet\<rparr>,
      Paths = \<lparr>Kubeadm = DefaultKubeadmPath\<rparr>,
      ClusterFormation = \<lparr>Seeder = [], Token = [], AutoApprove = True\<rparr>,
      Certificates = \<lparr>Directory = DefaultCertsDirectory, CaHash = []\<rparr>,
      Etcd = \<lparr>LocalEtcd = Some \<lparr>ServerCertSANs = [], PeerCertSANs = []\<rparr>\<rparr>,
      Runtime = \<lparr>Engine = DefaultRuntimeEngine\<rparr>,
      Features = \<lparr>PSP = True\<rparr>,
      Services = (),
      Auth = \<lparr>OIDC = \<lparr>Issuer = [], ClientID = [], CA = [], Username = [], Groups = []\<rparr>\<rparr>\<rparr>"

end
