(* ===== verification/Config_Ops.thy ===== *)
theory Config_Ops
  imports Config
begin

text \<open>
  The operations of pkg/config/config.go on a configuration: loading with defaults and environment
  overrides, normalising the seeder address, \<open>SetVars\<close>, \<open>IsSeeder\<close>, \<open>GetPublicAPIAddress\<close>,
  \<open>GetServiceDNSName\<close>. The fresh copy that \<open>DeepCopy\<close> makes of the defaults is the value itself, which
  theory Deep_Copy_Props justifies.
\<close>

section \<open>Libraries\<close>

text \<open>
  \<open>yaml_unmarshal\<close> decodes bytes into an existing configuration through a pointer to a pointer: a
  null document leaves a nil pointer, here \<open>None\<close>. \<open>swalker_write\<close> assigns the field at a path.
\<close>

record config_deps =
  verbosity :: int
  yaml_unmarshal :: "string \<Rightarrow> KubicInitConfiguration \<Rightarrow> goerr + KubicInitConfiguration option"
  yaml_marshal :: "KubicInitConfiguration \<Rightarrow> goerr + string"
  swalker_write :: "string \<Rightarrow> KubicInitConfiguration \<Rightarrow> string \<Rightarrow> KubicInitConfiguration \<times> goerr option"

definition glog_V :: "config_deps \<Rightarrow> int \<Rightarrow> bool" where
  "glog_V D level \<longleftrightarrow> level \<le> verbosity D"

section \<open>Loading\<close>

text \<open>
  Lines 184 to 202. The result of \<open>os.Stat\<close> is discarded (\<open>err\<close> in the condition is the outer,
  still nil, variable), so a missing file is reported by \<open>ReadFile\<close>.
\<close>

definition load_file :: "config_deps \<Rightarrow> os_env \<Rightarrow> string \<Rightarrow> (world, KubicInitConfiguration option outcome) state" where
  "load_file D E cfgPath =
     (if 0 < length cfgPath then do {
        _ \<leftarrow> Stat E cfgPath;
        andthen (wrap_err ''unable to read config'' (ReadFile E cfgPath)) (\<lambda>b.
          wrap_err ''unable to decode config from bytes''
            (ret (of_sum (yaml_unmarshal D b defaultConfiguration))))
      }
      else ret (Ok (Some defaultConfiguration)))"

definition set_seeder :: "string \<Rightarrow> KubicInitConfiguration \<Rightarrow> KubicInitConfiguration" where
  "set_seeder v c = c\<lparr>ClusterFormation := (ClusterFormation c)\<lparr>Seeder := v\<rparr>\<rparr>"

definition set_token :: "string \<Rightarrow> KubicInitConfiguration \<Rightarrow> KubicInitConfiguration" where
  "set_token v c = c\<lparr>ClusterFormation := (ClusterFormation c)\<lparr>Token := v\<rparr>\<rparr>"

text \<open>Lines 205 to 213: one environment override; writing through a nil pointer panics.\<close>

definition override :: "os_env \<Rightarrow> string \<Rightarrow> (string \<Rightarrow> KubicInitConfiguration \<Rightarrow> KubicInitConfiguration) \<Rightarrow>
    KubicInitConfiguration option \<Rightarrow> (world, KubicInitConfiguration option outcome) state" where
  "override E var assign p = do {
     v \<leftarrow> LookupEnv E var;
     ret (case v of
            None \<Rightarrow> Ok p
          | Some s \<Rightarrow> (case p of None \<Rightarrow> nil_deref | Some c \<Rightarrow> Ok (Some (assign s c))))
   }"

text \<open>Lines 215 to 233: the seeder as \<open>host:port\<close>.\<close>

definition normalise_seeder :: "string \<Rightarrow> goerr + string" where
  "normalise_seeder s =
     (if 0 < length s then
        (let seeder = (if \<not> has_prefix s ''http'' then ''https://'' @ s else s) in
         (case Parse seeder of
            Inl err \<Rightarrow> Inl err
          | Inr u \<Rightarrow>
              (let port = (if length (Port u) = 0 then dec_str DefaultAPIServerPort else Port u)
               in Inr (Hostname u @ '':'' @ port))))
      else Inr s)"

definition normalise_config :: "KubicInitConfiguration option \<Rightarrow> KubicInitConfiguration outcome" where
  "normalise_config p =
     (case p of
        None \<Rightarrow> nil_deref
      | Some c \<Rightarrow>
          (case normalise_seeder (Seeder (ClusterFormation c)) of
             Inl err \<Rightarrow> Err err
           | Inr s \<Rightarrow> Ok (set_seeder s c)))"

text \<open>
  Lines 235 to 241 and 297 to 303: at log level 8 the configuration is marshalled for the log, and a
  failure to marshal is returned.
\<close>

definition log_config :: "config_deps \<Rightarrow> KubicInitConfiguration \<Rightarrow> KubicInitConfiguration outcome" where
  "log_config D c =
     (if glog_V D 8 then (case yaml_marshal D c of Inl err \<Rightarrow> Err err | Inr _ \<Rightarrow> Ok c) else Ok c)"

definition ConfigFileAndDefaultsToKubicInitConfig ::
    "config_deps \<Rightarrow> os_env \<Rightarrow> string \<Rightarrow> (world, KubicInitConfiguration outcome) state" where
  "ConfigFileAndDefaultsToKubicInitConfig D E cfgPath =
     andthen (load_file D E cfgPath) (\<lambda>p0.
     andthen (override E DefaultEnvVarSeeder set_seeder p0) (\<lambda>p1.
     andthen (override E DefaultEnvVarToken set_token p1) (\<lambda>p2.
     andthen (ret (normalise_config p2)) (\<lambda>c.
     ret (log_config D c)))))"

section \<open>Setting variables\<close>

text \<open>
  \<open>SetVars\<close>: the assignments already made stay when a later one fails, so the configuration is
  returned together with the error.
\<close>

fun set_vars_loop :: "config_deps \<Rightarrow> KubicInitConfiguration \<Rightarrow> string list \<Rightarrow> KubicInitConfiguration \<times> unit outcome" where
  "set_vars_loop D c [] = (c, Ok ())"
| "set_vars_loop D c (v # vs) =
     (let components = str_split v ''='' in
      if length components \<noteq> 2 then (c, Err (Plain (''cannot parse '' @ v @ '' as an assignment'')))
      else
        (case swalker_write D (components ! 0) c (components ! 1) of
           (c', Some err) \<Rightarrow> (c', Err err)
         | (c', None) \<Rightarrow> set_vars_loop D c' vs))"

definition SetVars :: "config_deps \<Rightarrow> KubicInitConfiguration \<Rightarrow> string list \<Rightarrow> KubicInitConfiguration \<times> unit outcome" where
  "SetVars D c vars =
     (if 0 < length vars then
        (case set_vars_loop D c vars of
           (c', Ok _) \<Rightarrow> (c', case log_config D c' of Err err \<Rightarrow> Err err | _ \<Rightarrow> Ok ())
         | r \<Rightarrow> r)
      else (c, Ok ()))"

section \<open>Derived values\<close>

definition IsSeeder :: "KubicInitConfiguration \<Rightarrow> bool" where
  "IsSeeder c \<longleftrightarrow> length (Seeder (ClusterFormation c)) = 0"

definition GetPublicAPIAddress :: "os_env \<Rightarrow> KubicInitConfiguration \<Rightarrow> (world, string outcome) state" where
  "GetPublicAPIAddress E c =
     (if 0 < length (ExternalFqdn (Dns (Network c))) then ret (Ok (ExternalFqdn (Dns (Network c))))
      else if IsSeeder c then ChooseHostInterface E
      else ret (Err (Plain ''cannot determine an public DNS name or address for the API server'')))"

definition GetServiceDNSName :: "'o ObjNamespacer \<Rightarrow> KubicInitConfiguration \<Rightarrow> 'o \<Rightarrow> string" where
  "GetServiceDNSName I c obj =
     (let domain = Domain (Dns (Network c)) in
      if 0 < length (GetNamespace I obj)
      then GetName I obj @ ''.'' @ GetNamespace I obj @ ''.svc.'' @ domain
      else GetName I obj @ ''.svc.'' @ domain)"

section \<open>A concrete environment\<close>

text \<open>
  A small environment for evaluating the model: the seeder is given in the environment, every file
  reads as its own name, and the configuration library decodes the text \<open>null\<close> to a nil pointer and
  everything else to the defaults. The walker sets the token.
\<close>

definition demo_os :: os_env where
  "demo_os =
     \<lparr>os_stat = \<lambda>_ _. StatOk,
      os_read_file = \<lambda>_ p. Inr p,
      os_read_dir = \<lambda>_ _. Inr [],
      os_glob = \<lambda>_ _. Inr [],
      os_lookup_env = \<lambda>_ v. if v = ''SEEDER'' then Some ''master'' else None,
      os_temp_file = \<lambda>_ _. Inr ''/tmp/kubic-kubeadm.1.yaml'',
      os_exec = \<lambda>_ _ _. None,
      os_host_interface = \<lambda>_. Inr ''10.0.0.1''\<rparr>"

definition demo_deps :: config_deps where
  "demo_deps =
     \<lparr>verbosity = 3,
      yaml_unmarshal = \<lambda>b c. if b = ''null'' then Inr None else Inr (Some c),
      yaml_marshal = \<lambda>c. Inr (Seeder (ClusterFormation c)),
      swalker_write = \<lambda>path c v. (set_token v c, None)\<rparr>"

definition demo_world :: world where
  "demo_world = \<lparr>history = [], kubelet_settings = DefaultKubeletSettings\<rparr>"

lemma demo_sel [simp]:
  "os_stat demo_os h p = StatOk" "os_read_file demo_os h p = Inr p"
  "os_lookup_env demo_os h v = (if v = ''SEEDER'' then Some ''master'' else None)"
  "os_temp_file demo_os h p = Inr ''/tmp/kubic-kubeadm.1.yaml''" "os_exec demo_os h p as = None"
  "os_host_interface demo_os h = Inr ''10.0.0.1''"
  "verbosity demo_deps = 3"
  "yaml_unmarshal demo_deps b c = (if b = ''null'' then Inr None else Inr (Some c))"
  "yaml_marshal demo_deps c = Inr (Seeder (ClusterFormation c))"
  "swalker_write demo_deps path c v = (set_token v c, None)"
  "history demo_world = []" "kubelet_settings demo_world = DefaultKubeletSettings"
  by (simp_all add: demo_os_def demo_deps_def demo_world_def)

section \<open>Properties of the seeder address\<close>

lemma dec_str_port: "dec_str DefaultAPIServerPort = ''6443''"
  by (simp add: DefaultAPIServerPort_def dec_str.simps digit_char_def)

text \<open>An address as users write it: an optional scheme, a plain host, an optional port.\<close>

definition addr_port :: "string \<Rightarrow> string" where
  "addr_port s = (if length s \<le> 1 then ''6443'' else tl s)"

lemma has_prefix_before:
  assumes "has_prefix (h @ s) p" and "c \<notin> set p" and "s = [] \<or> hd s = c"
  shows "has_prefix h p"
  using assms
proof (induction h arbitrary: p)
  case Nil
  then show ?case by (cases p; cases s) auto
next
  case (Cons d h)
  then show ?case by (cases p) auto
qed

text \<open>With a scheme or without, what is parsed is a URL of the address.\<close>

lemma seeder_scheme:
  assumes "\<not> has_prefix a ''http''" and "pre = [] \<or> pre = ''http://'' \<or> pre = ''https://''"
  obtains scheme where "scheme = ''http'' \<or> scheme = ''https''"
    and "(if \<not> has_prefix (pre @ a) ''http'' then ''https://'' @ (pre @ a) else pre @ a) = scheme @ ''://'' @ a"
  using assms by fastforce

lemma run_normalise_seeder:
  assumes "addr h" and "h \<noteq> []" and "\<not> has_prefix h ''http''" and "port_suffix s"
    and "pre = [] \<or> pre = ''http://'' \<or> pre = ''https://''"
  shows "normalise_seeder (pre @ h @ s) = Inr (h @ '':'' @ addr_port s)"
proof -
  have nohttp: "\<not> has_prefix (h @ s) ''http''"
    using has_prefix_before [of h s "''http''" "CHR '':''"] assms(3,4) by (auto simp: port_suffix_def)
  obtain scheme where scheme: "scheme = ''http'' \<or> scheme = ''https''"
    and eq: "(if \<not> has_prefix (pre @ h @ s) ''http'' then ''https://'' @ (pre @ h @ s) else pre @ h @ s)
             = scheme @ ''://'' @ h @ s"
    by (rule seeder_scheme [OF nohttp assms(5)])
  obtain u where u: "Parse (scheme @ ''://'' @ h @ s) = Inr u" "urlHost u = h @ s"
    using Parse_addr [OF assms(1,4) scheme] by blast
  have hp: "Hostname u = h" "Port u = tl s"
    using Hostname_addr [OF assms(1,4) u(2)] Port_addr [OF assms(1,4) u(2)] by auto
  have "normalise_seeder (pre @ h @ s) =
      Inr (h @ '':'' @ (if length (tl s) = 0 then dec_str DefaultAPIServerPort else tl s))"
    using assms(2) unfolding normalise_seeder_def Let_def eq u(1) by (simp add: hp)
  then show ?thesis
    by (cases s) (auto simp: addr_port_def dec_str_port)
qed

text \<open>
  C22. A plain seeder address is normalised to \<open>host:port\<close>, with port 6443 when none is given,
  whether or not it is written with a scheme.
\<close>

theorem seeder_normalised:
  assumes "addr h" and "h \<noteq> []" and "\<not> has_prefix h ''http''" and "port_suffix s"
    and "pre = [] \<or> pre = ''http://'' \<or> pre = ''https://''"
  shows "normalise_seeder (pre @ h @ s) = Inr (h @ '':'' @ addr_port s)"
  using assms by (rule run_normalise_seeder)

theorem seeder_normalised_witness:
  "normalise_seeder ('''' @ ''master.example.com'' @ '''') = Inr (''master.example.com'' @ '':'' @ addr_port '''')
   \<and> normalise_seeder (''https://'' @ ''10.0.0.1'' @ '':8443'') = Inr (''10.0.0.1'' @ '':'' @ addr_port '':8443'')"
proof
  show "normalise_seeder ('''' @ ''master.example.com'' @ '''') = Inr (''master.example.com'' @ '':'' @ addr_port '''')"
    by (rule seeder_normalised)
      (simp_all add: addr_char_def is_alpha_def is_digit_def in_range_def byte_def port_suffix_def)
  show "normalise_seeder (''https://'' @ ''10.0.0.1'' @ '':8443'') = Inr (''10.0.0.1'' @ '':'' @ addr_port '':8443'')"
    by (rule seeder_normalised)
      (simp_all add: addr_char_def is_alpha_def is_digit_def in_range_def byte_def port_suffix_def)
qed

lemma url_unescape_path_addr: "addr s \<Longrightarrow> url_unescape encodePath s = Inr s"
proof (induction s)
  case (Cons c s)
  then show ?case using not_addr_chars(8) by (auto simp: cons_res_def)
qed simp

lemma Parse_http_name:
  assumes "addr h" and "has_prefix h ''http''" and "port_suffix s"
  shows "\<exists>u. Parse (h @ s) = Inr u \<and> urlHost u = []"
proof -
  obtain cs where h: "h = CHR ''h'' # cs" and cs: "addr cs"
    using assms(1,2) by (cases h) auto
  have no: "CHR ''#'' \<notin> set (h @ s)" "CHR ''?'' \<notin> set (h @ s)" "CHR ''/'' \<notin> set (h @ s)"
    using addr_port_notin [OF assms(1,3)] not_addr_chars by auto
  have frag: "url_split (h @ s) (CHR ''#'') True = (h @ s, [])"
    by (rule url_split_notin [OF no(1)])
  have star: "h @ s \<noteq> ''*''" using h by simp
  have alpha: "is_alpha (CHR ''h'')" by (simp add: is_alpha_def in_range_def byte_def)
  from assms(3) have "\<exists>u. url_parse (h @ s) = Inr u \<and> urlHost u = []"
  proof (cases rule: port_suffixE)
    case 1
    have gs: "getscheme (h @ s) = Inr ([], h)"
      using 1 cs by (simp add: h getscheme_def alpha getscheme_from_addr)
    have q: "\<not> has_suffix h ''?''" "url_split h (CHR ''?'') True = (h, [])"
      using no 1 has_suffix_last [of h "CHR ''?''"] by (auto intro!: url_split_notin)
    have "CHR '':'' \<notin> set h" by (rule addr_notins(1) [OF assms(1)])
    then have nc: "\<not> contains_byte (takeWhile (\<lambda>c. c \<noteq> CHR ''/'') h) (CHR '':'')"
      by (auto simp: contains_byte_def dest: set_takeWhileD)
    have np: "\<not> has_prefix h ''/''" "\<not> has_prefix h ''//''" by (simp_all add: h)
    have "parse_rest [] h [] = Inr (emptyURL\<lparr>urlHost := [], urlPath := h\<rparr>)"
      using nc np url_unescape_path_addr [OF assms(1)] by (simp add: parse_rest_def emptyURL_def)
    then show ?thesis
      using star gs q by (simp add: url_parse_def to_lower_def emptyURL_def)
  next
    case (2 p)
    have gs: "getscheme (h @ s) = Inr (h, p)"
      using 2 cs by (simp add: h getscheme_def alpha getscheme_from_addr_colon)
    have q: "\<not> has_suffix p ''?''" "url_split p (CHR ''?'') True = (p, [])"
      using no 2 has_suffix_last [of p "CHR ''?''"] by (auto intro!: url_split_notin)
    have np: "\<not> has_prefix p ''/''" using addr_notins(2) [OF 2(2)] by (cases p) auto
    have "to_lower h \<noteq> []" by (simp add: h to_lower_def)
    then show ?thesis
      using star gs q np by (simp add: url_parse_def parse_rest_def emptyURL_def)
  qed
  then show ?thesis unfolding Parse_def frag by auto
qed

text \<open>
  A seeder whose host name begins with \<open>http\<close> and is written without a scheme loses its name and
  its port: the loader takes the name for a URL scheme, and the node is told to join \<open>:6443\<close>.
\<close>

theorem seeder_http_name_lost:
  assumes "addr h" and "has_prefix h ''http''" and "port_suffix s"
  shows "normalise_seeder (h @ s) = Inr '':6443''"
proof -
  obtain u where u: "Parse (h @ s) = Inr u" "urlHost u = []"
    using Parse_http_name [OF assms] by blast
  have "has_prefix (h @ s) ''http''" "h @ s \<noteq> []"
    using assms(2) by (auto simp: has_prefix_iff)
  then show ?thesis
    using u by (simp add: normalise_seeder_def Let_def Hostname_def Port_def dec_str_port)
qed

theorem seeder_http_name_lost_witness:
  "normalise_seeder (''httpd.example.com'' @ '':7443'') = Inr '':6443''"
  by (rule seeder_http_name_lost)
    (simp_all add: addr_char_def is_alpha_def is_digit_def in_range_def byte_def port_suffix_def)

section \<open>Properties of loading\<close>

lemma set_seeder_sel [simp]:
  "Seeder (ClusterFormation (set_seeder v c)) = v"
  "Token (ClusterFormation (set_seeder v c)) = Token (ClusterFormation c)"
  by (simp_all add: set_seeder_def)

lemma set_token_sel [simp]:
  "Token (ClusterFormation (set_token v c)) = v"
  "Seeder (ClusterFormation (set_token v c)) = Seeder (ClusterFormation c)"
  by (simp_all add: set_token_def)

lemma normalise_seeder_nonempty: "normalise_seeder s = Inr t \<Longrightarrow> t = [] \<longleftrightarrow> s = []"
  by (auto simp: normalise_seeder_def Let_def split: sum.splits if_splits)

lemma log_config_Ok: "log_config D c = Ok c' \<Longrightarrow> c' = c"
  by (auto simp: log_config_def split: if_splits sum.splits)

text \<open>The configuration after the two environment overrides.\<close>

definition overridden :: "os_env \<Rightarrow> call list \<Rightarrow> KubicInitConfiguration \<Rightarrow> KubicInitConfiguration" where
  "overridden E h c =
     (let c1 = (case os_lookup_env E h ''SEEDER'' of None \<Rightarrow> c | Some s \<Rightarrow> set_seeder s c) in
      (case os_lookup_env E (h @ [OsLookupEnv ''SEEDER'']) ''TOKEN'' of None \<Rightarrow> c1 | Some t \<Rightarrow> set_token t c1))"

lemma run_load_config:
  assumes "run_state (load_file D E cfgPath) w = (Ok (Some c), w1)"
  shows "run_state (ConfigFileAndDefaultsToKubicInitConfig D E cfgPath) w =
           ((case normalise_seeder (Seeder (ClusterFormation (overridden E (history w1) c))) of
               Inl e \<Rightarrow> Err e
             | Inr s \<Rightarrow> log_config D (set_seeder s (overridden E (history w1) c))),
            w1\<lparr>history := history w1 @ [OsLookupEnv ''SEEDER'', OsLookupEnv ''TOKEN'']\<rparr>)"
  using assms
  by (simp add: ConfigFileAndDefaultsToKubicInitConfig_def run_andthen override_def LookupEnv_def
      DefaultEnvVarSeeder_def DefaultEnvVarToken_def overridden_def normalise_config_def Let_def
      split: option.split sum.split)

text \<open>
  C30. What loading returns: the token is the environment's when \<open>TOKEN\<close> is set, else the file's;
  the node is the seeder exactly when the seeder it was given is empty, where a set \<open>SEEDER\<close> variable
  (even an empty one) replaces the file's value; and everything outside the seeder and the token is as
  the file and the defaults have it.
\<close>

theorem load_config_result:
  assumes "run_state (load_file D E cfgPath) w = (Ok (Some c), w1)"
    and "run_state (ConfigFileAndDefaultsToKubicInitConfig D E cfgPath) w = (Ok c', w')"
  shows "(IsSeeder c' \<longleftrightarrow>
            (case os_lookup_env E (history w1) ''SEEDER'' of
               None \<Rightarrow> IsSeeder c | Some s \<Rightarrow> s = []))
    \<and> Token (ClusterFormation c') =
        (case os_lookup_env E (history w1 @ [OsLookupEnv ''SEEDER'']) ''TOKEN'' of
           None \<Rightarrow> Token (ClusterFormation c) | Some t \<Rightarrow> t)
    \<and> set_token [] (set_seeder [] c') = set_token [] (set_seeder [] c)"
proof -
  let ?o = "overridden E (history w1) c"
  obtain s where s: "normalise_seeder (Seeder (ClusterFormation ?o)) = Inr s"
    and c': "c' = set_seeder s ?o"
    using assms(2) run_load_config [OF assms(1)]
    by (auto split: sum.splits dest: log_config_Ok)
  have "Seeder (ClusterFormation c') = [] \<longleftrightarrow> Seeder (ClusterFormation ?o) = []"
    using normalise_seeder_nonempty [OF s] by (simp add: c')
  then show ?thesis
    unfolding c'
    by (auto simp: IsSeeder_def overridden_def Let_def set_seeder_def set_token_def split: option.splits)
qed

lemma demo_load:
  "run_state (load_file demo_deps demo_os []) demo_world = (Ok (Some defaultConfiguration), demo_world)"
  by (simp add: load_file_def)

lemma demo_seeder: "normalise_seeder ''master'' = Inr ''master:6443''"
  using run_normalise_seeder [of "''master''" "[]" "[]"]
  by (simp add: addr_char_def is_alpha_def is_digit_def in_range_def byte_def port_suffix_def addr_port_def)

lemma demo_config:
  "run_state (ConfigFileAndDefaultsToKubicInitConfig demo_deps demo_os []) demo_world =
     (Ok (set_seeder ''master:6443'' (set_seeder ''master'' defaultConfiguration)),
      demo_world\<lparr>history := [OsLookupEnv ''SEEDER'', OsLookupEnv ''TOKEN'']\<rparr>)"
  by (simp add: run_load_config [OF demo_load] overridden_def demo_seeder log_config_def glog_V_def)

theorem load_config_result_witness:
  "\<not> IsSeeder (set_seeder ''master:6443'' (set_seeder ''master'' defaultConfiguration))"
  using load_config_result [OF demo_load demo_config] by simp

text \<open>
  A configuration file that is a null YAML document crashes the program with a nil pointer
  dereference, whatever the environment holds.
\<close>

theorem load_null_document_panics:
  assumes "cfgPath \<noteq> []"
    and "os_read_file E (history w @ [OsStat cfgPath]) cfgPath = Inr b"
    and "yaml_unmarshal D b defaultConfiguration = Inr None"
  shows "\<exists>p. fst (run_state (ConfigFileAndDefaultsToKubicInitConfig D E cfgPath) w) = Panic p"
  using assms
  by (simp add: ConfigFileAndDefaultsToKubicInitConfig_def load_file_def run_andthen run_wrap_err
      Stat_def ReadFile_def override_def LookupEnv_def normalise_config_def nil_deref_def
      split: option.split)

theorem load_null_document_panics_witness:
  "\<exists>p. fst (run_state (ConfigFileAndDefaultsToKubicInitConfig demo_deps demo_os ''null'') demo_world) = Panic p"
  by (rule load_null_document_panics [where b = "''null''"]) simp_all

text \<open>The check for a missing file never fires: the answer of \<open>os.Stat\<close> plays no part.\<close>

lemma load_file_ignores_stat:
  "fst (run_state (load_file D (E\<lparr>os_stat := f\<rparr>) cfgPath) w) = fst (run_state (load_file D E cfgPath) w)"
  by (simp add: load_file_def run_andthen run_wrap_err Stat_def ReadFile_def split: outcome.split)

section \<open>Properties of SetVars\<close>

lemma length_split_on_byte: "length (split_on s [c]) = Suc (count_list s c)"
proof (induction s)
  case (Cons d s)
  then show ?case by (cases "split_on s [c]") (auto simp: split_on_byte_Cons)
qed simp

lemma set_vars_loop_append:
  "set_vars_loop D c (xs @ ys) =
     (case set_vars_loop D c xs of (c', Ok _) \<Rightarrow> set_vars_loop D c' ys | r \<Rightarrow> r)"
  by (induction D c xs rule: set_vars_loop.induct) (auto simp: Let_def split: prod.splits option.splits)

lemma set_vars_loop_malformed:
  "count_list v (CHR ''='') \<noteq> 1 \<Longrightarrow>
     set_vars_loop D c (v # vs) = (c, Err (Plain (''cannot parse '' @ v @ '' as an assignment'')))"
  by (simp add: Let_def str_split_def length_split_on_byte)

text \<open>
  \<open>SetVars\<close> stops at the first assignment that does not have exactly one equals sign (so a value
  may not contain one): the assignments before it stay in the configuration, those after it are never
  tried, and the error names it.
\<close>

theorem SetVars_stops_at_malformed:
  assumes "set_vars_loop D c good = (c', Ok ())" and "count_list bad (CHR ''='') \<noteq> 1"
  shows "SetVars D c (good @ bad # rest) =
           (c', Err (Plain (''cannot parse '' @ bad @ '' as an assignment'')))"
proof -
  have "set_vars_loop D c (good @ bad # rest) =
      (c', Err (Plain (''cannot parse '' @ bad @ '' as an assignment'')))"
    using assms by (simp add: set_vars_loop_append set_vars_loop_malformed del: set_vars_loop.simps)
  then show ?thesis by (simp add: SetVars_def)
qed

lemma demo_vars: "set_vars_loop demo_deps c [''Token=x''] = (set_token ''x'' c, Ok ())"
  by (simp add: str_split_def split_on_byte_Cons)

theorem SetVars_stops_at_malformed_witness:
  "SetVars demo_deps defaultConfiguration ([''Token=x''] @ ''Token=a=b'' # [''Token=y'']) =
     (set_token ''x'' defaultConfiguration,
      Err (Plain (''cannot parse '' @ ''Token=a=b'' @ '' as an assignment'')))"
  by (rule SetVars_stops_at_malformed [OF demo_vars]) simp





end
