(* ===== verification/Loader.thy ===== *)
theory Loader
  imports Client Config_Ops Util_Strings
begin

text \<open>
  pkg/loader: the assets read from directories and installed in the cluster, RBAC rules (rbac.go) and
  manifests (manifests.go), with the file loading they share (loader.go). Decoders, the template
  engine, HTTP and the server are parameters.
\<close>

section \<open>Files\<close>

fun read_files :: "os_env \<Rightarrow> string list \<Rightarrow> (world, string list outcome) state" where
  "read_files E [] = ret (Ok [])"
| "read_files E (f # fs) =
     andthen (wrap_err (''unable to read file '' @ f) (ReadFile E f)) (\<lambda>b.
     andthen (read_files E fs) (\<lambda>res. ret (Ok (b # res))))"

definition loadFilesIn :: "os_env \<Rightarrow> string \<Rightarrow> string \<Rightarrow> (world, string list outcome) state" where
  "loadFilesIn E directory glob =
     andthen (Glob E (path_join [directory, glob])) (\<lambda>files. read_files E files)"

text \<open>The options for manifests and for RBAC have the same fields.\<close>

record install_options =
  InstallPaths :: "string list"
  ErrorIfPathMissing :: bool

type_synonym RBACInstallOptions = install_options

text \<open>
  The loop over the directories: duplicates are visited once, and a missing one is skipped unless the
  option asks for an error.
\<close>

definition skip_path :: "os_env \<Rightarrow> bool \<Rightarrow> string \<Rightarrow> (world, bool) state" where
  "skip_path E error_if_missing path = do {
     r \<leftarrow> Stat E path;
     ret (\<not> error_if_missing \<and> r = StatNotExist)
   }"

definition for_paths :: "os_env \<Rightarrow> install_options \<Rightarrow> (string \<Rightarrow> (world, unit outcome) state) \<Rightarrow> (world, unit outcome) state" where
  "for_paths E options body =
     for_each (\<lambda>path. do {
       skip \<leftarrow> skip_path E (ErrorIfPathMissing options) path;
       (if skip then ret (Ok ()) else body path)
     }) (RemoveDuplicates (InstallPaths options))"

section \<open>RBAC\<close>

definition roleFileGlob :: string where
  "roleFileGlob = ''*_role.yaml''"

definition roleBindingFileGlob :: string where
  "roleBindingFileGlob = ''*_role_binding.yaml''"

definition assetsNamespace :: string where
  "assetsNamespace = NamespaceSystem"

text \<open>
  Decoding a file gives the object and the self link written in it, empty in a file that does not say.
  The upserts are kubeadm's \<open>apiclient\<close>.
\<close>

record rbac_lib =
  new_clientset :: "opaque \<Rightarrow> goerr option"
  decode_role :: "string \<Rightarrow> goerr + (cluster_role \<times> string)"
  decode_binding :: "string \<Rightarrow> goerr + (cluster_role_binding \<times> string)"
  upsert_role :: "call list \<Rightarrow> cluster_role \<Rightarrow> goerr option"
  upsert_binding :: "call list \<Rightarrow> cluster_role_binding \<Rightarrow> goerr option"

definition CreateOrUpdateClusterRole :: "rbac_lib \<Rightarrow> cluster_role \<Rightarrow> (world, unit outcome) state" where
  "CreateOrUpdateClusterRole R role =
     perform (\<lambda>h. of_err (upsert_role R h role)) (ApiCreateOrUpdate (OClusterRole role))"

definition CreateOrUpdateClusterRoleBinding :: "rbac_lib \<Rightarrow> cluster_role_binding \<Rightarrow> (world, unit outcome) state" where
  "CreateOrUpdateClusterRoleBinding R b =
     perform (\<lambda>h. of_err (upsert_binding R h b)) (ApiCreateOrUpdate (OClusterRoleBinding b))"

record load_deps =
  ld_os :: os_env
  ld_rbac :: rbac_lib
  ld_poll :: "world poll_fn"
  ld_rest :: rest_client

definition install_role :: "load_deps \<Rightarrow> string \<Rightarrow> (world, unit outcome) state" where
  "install_role L buffer =
     andthen (wrap_err ''unable to decode Role: %v'' (ret (of_sum (decode_role (ld_rbac L) buffer)))) (\<lambda>(role, link).
       let role = role\<lparr>roleMeta := (roleMeta role)\<lparr>metaNamespace := assetsNamespace\<rparr>\<rparr> in
       andthen (wrap_err ''Failed to create new Role: %v'' (CreateOrUpdateClusterRole (ld_rbac L) role)) (\<lambda>_.
       WaitForObject (ld_poll L) (ld_rest L) link))"

definition install_role_binding :: "load_deps \<Rightarrow> string \<Rightarrow> (world, unit outcome) state" where
  "install_role_binding L buffer =
     andthen (wrap_err ''unable to decode Role bindings: %v'' (ret (of_sum (decode_binding (ld_rbac L) buffer)))) (\<lambda>(b, link).
       let b = b\<lparr>bindMeta := (bindMeta b)\<lparr>metaNamespace := assetsNamespace\<rparr>\<rparr> in
       andthen (wrap_err ''Failed to create new Role bindings: %v'' (CreateOrUpdateClusterRoleBinding (ld_rbac L) b)) (\<lambda>_.
       WaitForObject (ld_poll L) (ld_rest L) link))"

definition InstallRBAC :: "load_deps \<Rightarrow> opaque \<Rightarrow> RBACInstallOptions \<Rightarrow> (world, unit outcome) state" where
  "InstallRBAC L config options =
     andthen (ret (of_err (new_clientset (ld_rbac L) config))) (\<lambda>_.
     for_paths (ld_os L) options (\<lambda>path.
       andthen (loadFilesIn (ld_os L) path roleFileGlob) (\<lambda>roles.
       andthen (for_each (install_role L) roles) (\<lambda>_.
       andthen (loadFilesIn (ld_os L) path roleBindingFileGlob) (\<lambda>bindings.
       for_each (install_role_binding L) bindings)))))"

section \<open>Manifests\<close>

definition yamlFileGlob :: string where
  "yamlFileGlob = ''*.yaml''"

definition urlFileGlob :: string where
  "urlFileGlob = ''*.url''"

text \<open>The structure that templates are executed against.\<close>

record replacements =
  KubicCfg :: KubicInitConfiguration

record 't manifest_lib =
  ml_engine :: "('t, replacements) template_engine"
  to_json :: "string \<Rightarrow> goerr + string"
  unmarshal_json :: "string \<Rightarrow> goerr + unstr"
  http_get :: "call list \<Rightarrow> string \<Rightarrow> goerr + (goerr + string)"
  ml_dyn :: dyn_api

text \<open>
  One document of a file: \<open>None\<close> when it is skipped, which every failure does, a panic of a template
  function apart.
\<close>

definition document_object :: "'t manifest_lib \<Rightarrow> KubicInitConfiguration \<Rightarrow> string \<Rightarrow> unstr option outcome" where
  "document_object M c f =
     (if f = [nl] \<or> f = [] then Ok None
      else
        (case ParseTemplate (ml_engine M) f \<lparr>KubicCfg = c\<rparr> of
           Err err \<Rightarrow> Ok None
         | Panic p \<Rightarrow> Panic p
         | Ok fReplaced \<Rightarrow>
             (if length fReplaced = 0 then Ok None
              else
                (case to_json M fReplaced of
                   Inl err \<Rightarrow> Ok None
                 | Inr fJSON \<Rightarrow>
                     (if length fJSON = 0 then Ok None
                      else (case unmarshal_json M fJSON of Inl err \<Rightarrow> Ok None | Inr us \<Rightarrow> Ok (Some us)))))))"

fun documents_loop :: "'t manifest_lib \<Rightarrow> KubicInitConfiguration \<Rightarrow> unstr list \<Rightarrow> string list \<Rightarrow> unstr list outcome" where
  "documents_loop M c res [] = Ok res"
| "documents_loop M c res (f # fs) =
     (case document_object M c f of
        Ok None \<Rightarrow> documents_loop M c res fs
      | Ok (Some us) \<Rightarrow> documents_loop M c (res @ [us]) fs
      | Err e \<Rightarrow> Err e
      | Panic p \<Rightarrow> Panic p)"

definition getUnstructuredInYAMLFile :: "'t manifest_lib \<Rightarrow> KubicInitConfiguration \<Rightarrow> string \<Rightarrow> unstr list outcome" where
  "getUnstructuredInYAMLFile M c fileContents = documents_loop M c [] (str_split fileContents ''---'')"

definition getUnstructuredFromURL :: "'t manifest_lib \<Rightarrow> KubicInitConfiguration \<Rightarrow> string \<Rightarrow> (world, unstr list outcome) state" where
  "getUnstructuredFromURL M c url =
     (let url = trim_space url in do {
        resp \<leftarrow> perform (\<lambda>h. http_get M h url) (HttpGet url);
        ret (case resp of
               Inl err \<Rightarrow> Ok []
             | Inr (Inl err) \<Rightarrow> Ok []
             | Inr (Inr body) \<Rightarrow> getUnstructuredInYAMLFile M c body)
      })"

definition ignore_error :: "(world, unit outcome) state \<Rightarrow> (world, unit outcome) state" where
  "ignore_error m = do { r \<leftarrow> m; ret (case r of Panic p \<Rightarrow> Panic p | _ \<Rightarrow> Ok ()) }"

definition load_objects :: "'t manifest_lib \<Rightarrow> opaque \<Rightarrow> unstr list \<Rightarrow> (world, unit outcome) state" where
  "load_objects M config = for_each (\<lambda>u. ignore_error (CreateOrUpdateFromUnstructured (ml_dyn M) config u))"

definition install_manifests_in :: "os_env \<Rightarrow> 't manifest_lib \<Rightarrow> KubicInitConfiguration \<Rightarrow> opaque \<Rightarrow> string \<Rightarrow>
    (world, unit outcome) state" where
  "install_manifests_in E M c config path =
     andthen (loadFilesIn E path yamlFileGlob) (\<lambda>files.
     andthen (for_each (\<lambda>f. andthen (ret (getUnstructuredInYAMLFile M c f)) (load_objects M config)) files) (\<lambda>_.
     andthen (loadFilesIn E path urlFileGlob) (\<lambda>urls.
     for_each (\<lambda>u. andthen (getUnstructuredFromURL M c u) (load_objects M config)) urls)))"

definition InstallManifests :: "os_env \<Rightarrow> 't manifest_lib \<Rightarrow> KubicInitConfiguration \<Rightarrow> opaque \<Rightarrow> install_options \<Rightarrow>
    (world, unit outcome) state" where
  "InstallManifests E M c config options = for_paths E options (install_manifests_in E M c config)"

section \<open>Documents of a manifest file\<close>

text \<open>
  A document is separable when no separator occurs in it, not even one that uses dashes at its end.
\<close>

definition separable :: "string \<Rightarrow> bool" where
  "separable d \<longleftrightarrow> str_index (d @ ''--'') ''---'' = None"

lemma has_prefix_take: "length p \<le> length s \<Longrightarrow> has_prefix (s @ t) p = has_prefix s p"
  by (simp add: has_prefix_def)

lemma separable_index: "separable d \<Longrightarrow> str_index (d @ ''---'' @ b) ''---'' = Some (length d)"
  unfolding separable_def
proof (induction d)
  case Nil
  then show ?case by simp
next
  case (Cons c d)
  have p: "\<not> has_prefix ((c # d) @ ''--'') ''---''" and rest: "str_index (d @ ''--'') ''---'' = None"
    using Cons.prems by (auto split: if_splits)
  have "has_prefix (((c # d) @ ''--'') @ CHR ''-'' # b) ''---'' = has_prefix ((c # d) @ ''--'') ''---''"
    by (rule has_prefix_take) simp
  then have "\<not> has_prefix ((c # d) @ ''---'' @ b) ''---''" using p by simp
  then show ?case using Cons.IH [OF rest] by simp
qed

lemma split_separable: "separable d \<Longrightarrow> split_on (d @ ''---'' @ b) ''---'' = d # split_on b ''---''"
  by (subst split_on.simps) (simp add: separable_index [simplified])

lemma split_last: "str_index d ''---'' = None \<Longrightarrow> split_on d ''---'' = [d]"
  by (subst split_on.simps) simp

lemma split_documents:
  assumes "list_all separable ds" and "str_index d ''---'' = None"
  shows "str_split (str_join (ds @ [d]) ''---'') ''---'' = ds @ [d]"
proof -
  have "split_on (str_join (ds @ [d]) ''---'') ''---'' = ds @ [d]"
    using assms
  proof (induction ds)
    case Nil
    then show ?case by (simp add: split_last)
  next
    case (Cons e ds)
    have "str_join ((e # ds) @ [d]) ''---'' = e @ ''---'' @ str_join (ds @ [d]) ''---''"
      using str_join_Cons [of "ds @ [d]" e "''---''"] by simp
    then show ?case using Cons split_separable [of e] by simp
  qed
  then show ?thesis by (simp add: str_split_def)
qed

definition objects_of :: "'t manifest_lib \<Rightarrow> KubicInitConfiguration \<Rightarrow> string \<Rightarrow> unstr list" where
  "objects_of M c d = (case document_object M c d of Ok (Some u) \<Rightarrow> [u] | _ \<Rightarrow> [])"

lemma document_object_no_error: "document_object M c d \<noteq> Err e"
  by (simp add: document_object_def split: outcome.split sum.split)

lemma documents_loop_Ok:
  "list_all (\<lambda>d. is_Ok (document_object M c d)) ds \<Longrightarrow>
     documents_loop M c res ds = Ok (res @ concat (map (objects_of M c) ds))"
  by (induction ds arbitrary: res) (auto simp: is_Ok_iff objects_of_def split: option.splits)

text \<open>
  C35. Reading a manifest file made of documents joined by separators gives the objects of the documents
  in order; a document that is empty, cannot be rendered, converted or unmarshalled is left out and does
  not affect the others.
\<close>

theorem manifest_documents:
  assumes "list_all separable ds" and "str_index d ''---'' = None"
    and "list_all (\<lambda>d. is_Ok (document_object M c d)) (ds @ [d])"
  shows "getUnstructuredInYAMLFile M c (str_join (ds @ [d]) ''---'') =
    Ok (concat (map (objects_of M c) (ds @ [d])))"
  unfolding getUnstructuredInYAMLFile_def split_documents [OF assms(1,2)] documents_loop_Ok [OF assms(3)]
  by simp

text \<open>
  The separator is looked for everywhere, not at line starts: a marker of five dashes inside a
  document, as the ones that surround certificates and keys, cuts it, and the file is read as the two
  halves \<open>a\<close> and \<open>--b\<close>.
\<close>

theorem dashes_cut_document:
  assumes "separable a" and "CHR ''-'' \<notin> set b"
  shows "getUnstructuredInYAMLFile M c (a @ ''-----'' @ b) = documents_loop M c [] [a, ''--'' @ b]"
proof -
  have "str_index b ''---'' = None" using assms(2) by (induction b) auto
  moreover have "\<not> has_prefix (CHR ''-'' # b) ''---''" "\<not> has_prefix (CHR ''-'' # CHR ''-'' # b) ''---''"
    using assms(2) by (cases b; auto)+
  ultimately have "str_index (''--'' @ b) ''---'' = None" by simp
  then have "split_on (a @ ''---'' @ (''--'' @ b)) ''---'' = [a, ''--'' @ b]"
    using split_separable [OF assms(1)] split_last by simp
  then show ?thesis by (simp add: getUnstructuredInYAMLFile_def str_split_def)
qed

section \<open>Calls\<close>

definition file_call :: "call \<Rightarrow> bool" where
  "file_call c = (case c of OsStat _ \<Rightarrow> True | OsGlob _ \<Rightarrow> True | OsReadFile _ \<Rightarrow> True | OsReadDir _ \<Rightarrow> True | _ \<Rightarrow> False)"

definition rbac_call :: "call \<Rightarrow> bool" where
  "rbac_call c =
     (case c of
        ApiCreateOrUpdate obj \<Rightarrow>
          (case obj of
             OClusterRole r \<Rightarrow> metaNamespace (roleMeta r) = ''kube-system''
           | OClusterRoleBinding b \<Rightarrow> metaNamespace (bindMeta b) = ''kube-system''
           | _ \<Rightarrow> False)
      | RestGet _ \<Rightarrow> True | TimeSleepMs _ \<Rightarrow> True | _ \<Rightarrow> file_call c)"

definition manifest_call :: "call \<Rightarrow> bool" where
  "manifest_call c =
     (case c of
        ApiCreate obj \<Rightarrow> (case obj of OUnstructured _ \<Rightarrow> True | _ \<Rightarrow> False)
      | ApiUpdate obj \<Rightarrow> (case obj of OUnstructured _ \<Rightarrow> True | _ \<Rightarrow> False)
      | ApiDiscover _ \<Rightarrow> True | HttpGet _ \<Rightarrow> True | _ \<Rightarrow> file_call c)"

lemma read_files_calls: "calls_only file_call (read_files E fs)"
  by (induction fs) (auto simp: ReadFile_def file_call_def intro!: calls_intros)

lemma loadFilesIn_calls: "calls_only file_call (loadFilesIn E d g)"
  unfolding loadFilesIn_def Glob_def
  by (intro calls_intros read_files_calls) (simp add: file_call_def)

lemma skip_path_calls: "calls_only file_call (skip_path E b p)"
  unfolding skip_path_def Stat_def by (intro calls_intros) (simp add: file_call_def)

lemma file_calls:
  assumes "\<And>c. file_call c \<Longrightarrow> P c"
  shows "calls_only P (loadFilesIn E d g)" "calls_only P (skip_path E b p)"
  by (rule calls_only_mono [OF loadFilesIn_calls assms], assumption)
    (rule calls_only_mono [OF skip_path_calls assms], assumption)

lemma for_paths_calls:
  assumes "\<And>c. file_call c \<Longrightarrow> P c" and "\<And>p. calls_only P (body p)"
  shows "calls_only P (for_paths E options body)"
  unfolding for_paths_def by (intro calls_intros file_calls(2) assms)

lemma file_call_rbac: "file_call c \<Longrightarrow> rbac_call c"
  by (cases c) (auto simp: rbac_call_def file_call_def)

lemma file_call_manifest: "file_call c \<Longrightarrow> manifest_call c"
  by (cases c) (auto simp: manifest_call_def file_call_def)

lemma WaitForObject_calls:
  assumes "polls_immediately SleepMs poll" and "\<And>u. P (RestGet u)" and "\<And>n. P (TimeSleepMs n)"
  shows "calls_only P (WaitForObject poll C link)"
  unfolding WaitForObject_def WaitForURL_def
  by (rule poll_calls [OF assms(1)])
    (auto simp: SleepMs_def url_ready_def intro!: calls_intros assms(2,3))

lemma install_role_calls:
  assumes "polls_immediately SleepMs (ld_poll L)"
  shows "calls_only rbac_call (install_role L b)"
  unfolding install_role_def CreateOrUpdateClusterRole_def Let_def
  by (auto split: prod.split intro!: calls_intros WaitForObject_calls [OF assms])
    (simp_all add: rbac_call_def assetsNamespace_def NamespaceSystem_def)

lemma install_role_binding_calls:
  assumes "polls_immediately SleepMs (ld_poll L)"
  shows "calls_only rbac_call (install_role_binding L b)"
  unfolding install_role_binding_def CreateOrUpdateClusterRoleBinding_def Let_def
  by (auto split: prod.split intro!: calls_intros WaitForObject_calls [OF assms])
    (simp_all add: rbac_call_def assetsNamespace_def NamespaceSystem_def)

lemma InstallRBAC_calls_only:
  assumes "polls_immediately SleepMs (ld_poll L)"
  shows "calls_only rbac_call (InstallRBAC L config options)"
  unfolding InstallRBAC_def
  by (intro calls_intros for_paths_calls file_calls(1) install_role_calls install_role_binding_calls assms
      file_call_rbac)

lemma manifest_call_http: "manifest_call (HttpGet u)"
  by (simp add: manifest_call_def)

lemma unstructured_calls: "calls_only manifest_call (CreateOrUpdateFromUnstructured Y config u)"
  unfolding CreateOrUpdateFromUnstructured_def GetAPIGroupResources_def Dyn_Create_def Dyn_Update_def
  by (auto intro!: calls_intros simp: manifest_call_def split: outcome.split)

lemma load_objects_calls: "calls_only manifest_call (load_objects M config us)"
  unfolding load_objects_def ignore_error_def by (intro calls_intros unstructured_calls)

lemma InstallManifests_calls_only: "calls_only manifest_call (InstallManifests E M c config options)"
  unfolding InstallManifests_def install_manifests_in_def getUnstructuredFromURL_def Let_def
  by (intro calls_intros for_paths_calls file_calls(1) load_objects_calls)
    (simp_all add: file_call_manifest manifest_call_http)

text \<open>
  Installing RBAC rules only ever reads files, waits, and creates or updates cluster roles and
  bindings, all of them stamped with the namespace \<open>kube-system\<close> whatever their file said: no other kind
  of object is touched and nothing is deleted.
\<close>

theorem InstallRBAC_calls:
  assumes "polls_immediately SleepMs (ld_poll L)"
  shows "list_all rbac_call (calls_of (InstallRBAC L config options) w)"
  by (rule calls_of_only [OF InstallRBAC_calls_only [OF assms]])

section \<open>Success in spite of errors\<close>

definition always_ok :: "('s, 'a outcome) state \<Rightarrow> bool" where
  "always_ok m \<longleftrightarrow> (\<forall>s. is_Ok (fst (run_state m s)))"

named_theorems ok_intros

lemma always_ok_return [ok_intros]: "always_ok (ret (Ok x))"
  by (simp add: always_ok_def)

lemma always_ok_andthen [ok_intros]:
  assumes "always_ok m" and "\<And>x. always_ok (f x)"
  shows "always_ok (andthen m f)"
  unfolding always_ok_def
proof
  fix s
  obtain x s' where "run_state m s = (Ok x, s')"
    using assms(1) unfolding always_ok_def is_Ok_iff by (metis prod.collapse)
  then show "is_Ok (fst (run_state (andthen m f) s))"
    using assms(2) [of x] by (simp add: always_ok_def)
qed

lemma always_ok_bind [ok_intros]: "(\<And>x. always_ok (f x)) \<Longrightarrow> always_ok (State_Monad.bind m f)"
  by (simp add: always_ok_def case_prod_unfold)

lemma always_ok_for_each [ok_intros]: "(\<And>x. always_ok (f x)) \<Longrightarrow> always_ok (for_each f xs)"
  by (induction xs) (auto intro: ok_intros)

lemma always_ok_if [ok_intros]: "always_ok m \<Longrightarrow> always_ok n \<Longrightarrow> always_ok (if b then m else n)"
  by simp

definition never_panics :: "(world, 'a outcome) state \<Rightarrow> bool" where
  "never_panics m \<longleftrightarrow> (\<forall>w p w'. run_state m w \<noteq> (Panic p, w'))"

lemma unstructured_never_panics: "never_panics (CreateOrUpdateFromUnstructured Y config u)"
  by (auto simp: never_panics_def CreateOrUpdateFromUnstructured_def GetAPIGroupResources_def Dyn_Create_def
      Dyn_Update_def run_andthen run_wrap_err of_sum_def
      split: prod.splits outcome.splits if_splits sum.splits)

lemma ignore_error_ok: "never_panics m \<Longrightarrow> always_ok (ignore_error m)"
  by (auto simp: always_ok_def never_panics_def ignore_error_def case_prod_unfold split: outcome.splits)
    (metis prod.collapse)

lemma load_objects_ok [ok_intros]: "always_ok (load_objects M config us)"
  unfolding load_objects_def by (intro ok_intros ignore_error_ok unstructured_never_panics)

lemma loadFilesIn_ok:
  assumes "\<And>h p. \<not> isl (os_glob E h p)" and "\<And>h p. \<not> isl (os_read_file E h p)"
  shows "always_ok (loadFilesIn E d g)"
proof -
  have "always_ok (read_files E fs)" for fs
  proof (induction fs)
    case Nil
    then show ?case by (simp add: always_ok_return)
  next
    case (Cons f fs)
    have "always_ok (wrap_err msg (ReadFile E f))" for msg
      using assms(2) by (auto simp: always_ok_def run_wrap_err ReadFile_def of_sum_def split: sum.split)
        (metis isl_def)
    then show ?case using Cons by (auto intro: ok_intros)
  qed
  moreover have "always_ok (Glob E p)" for p
    using assms(1) by (auto simp: always_ok_def Glob_def of_sum_def split: sum.split) (metis isl_def)
  ultimately show ?thesis unfolding loadFilesIn_def by (intro ok_intros)
qed

lemma documents_loop_no_panic:
  assumes "\<And>d. is_Ok (document_object M c d)"
  shows "is_Ok (getUnstructuredInYAMLFile M c f)"
proof -
  have "list_all (\<lambda>d. is_Ok (document_object M c d)) ds" for ds
    using assms by (simp add: list_all_iff)
  then show ?thesis by (simp add: getUnstructuredInYAMLFile_def documents_loop_Ok)
qed

text \<open>
  When every file can be read and no template panics, \<open>InstallManifests\<close> succeeds, whatever the server and
  the remote URLs answer, from call to call.
\<close>

theorem InstallManifests_succeeds:
  assumes "\<And>h p. \<not> isl (os_glob E h p)" and "\<And>h p. \<not> isl (os_read_file E h p)"
    and "\<And>d. is_Ok (document_object M c d)"
  shows "fst (run_state (InstallManifests E M c config options) w) = Ok ()"
proof -
  note files = loadFilesIn_ok [OF assms(1,2)]
  have "always_ok (ret (getUnstructuredInYAMLFile M c f))" for f
    using documents_loop_no_panic [OF assms(3)] by (simp add: always_ok_def)
  moreover have "always_ok (getUnstructuredFromURL M c u)" for u
    using documents_loop_no_panic [OF assms(3)]
    by (auto simp: always_ok_def getUnstructuredFromURL_def Let_def split: sum.split)
  ultimately have "always_ok (install_manifests_in E M c config path)" for path
    unfolding install_manifests_in_def by (intro ok_intros files)
  then have "always_ok (InstallManifests E M c config options)"
    unfolding InstallManifests_def for_paths_def by (intro ok_intros)
  then show ?thesis by (auto simp: always_ok_def is_Ok_iff)
qed

lemma unreadable_directory_aborts:
  assumes "RemoveDuplicates (InstallPaths options) = path # paths"
    and "os_stat E (history w) path = StatOk"
    and "\<And>h. os_glob E h (path_join [path, ''*.yaml'']) = Inl err"
  shows "fst (run_state (InstallManifests E M c config options) w) = Err err"
  using assms
  by (simp add: InstallManifests_def for_paths_def skip_path_def Stat_def install_manifests_in_def
      loadFilesIn_def Glob_def yamlFileGlob_def run_andthen)

section \<open>Concrete assets\<close>

definition demo_manifest :: "string manifest_lib" where
  "demo_manifest =
     \<lparr>ml_engine = \<lparr>tmpl_parse = \<lambda>_ t. Inr t, tmpl_execute = \<lambda>_ t _. Ok t\<rparr>,
      to_json = \<lambda>y. Inr y,
      unmarshal_json = \<lambda>j. if j = ''bad'' then Inl (Plain ''bad'') else Inr (demo_unstr j),
      http_get = \<lambda>_ _. Inl (Plain ''timeout''), ml_dyn = demo_dyn\<rparr>"

lemma demo_document [simp]:
  "document_object demo_manifest c d =
     (if d = [nl] \<or> d = [] \<or> d = ''bad'' then Ok None else Ok (Some (demo_unstr d)))"
  by (simp add: document_object_def demo_manifest_def ParseTemplate_def)

theorem manifest_documents_witness:
  "getUnstructuredInYAMLFile demo_manifest defaultConfiguration ''a---bad---b'' =
     Ok [demo_unstr ''a'', demo_unstr ''b'']"
  using manifest_documents [of "[''a'', ''bad'']" "''b''" demo_manifest defaultConfiguration]
  by (simp add: separable_def objects_of_def nl_def)

theorem dashes_cut_document_witness:
  "getUnstructuredInYAMLFile demo_manifest defaultConfiguration ''ca: -----BEGIN'' =
     Ok [demo_unstr ''ca: '', demo_unstr ''--BEGIN'']"
  using dashes_cut_document [of "''ca: ''" "''BEGIN''" demo_manifest defaultConfiguration]
  by (simp add: separable_def nl_def)

definition demo_load :: load_deps where
  "demo_load =
     \<lparr>ld_os = demo_os\<lparr>os_glob := \<lambda>_ g. Inr [g]\<rparr>,
      ld_rbac =
        \<lparr>new_clientset = \<lambda>_. None,
         decode_role = \<lambda>b. Inr (\<lparr>roleMeta = \<lparr>metaName = b, metaNamespace = []\<rparr>, roleRules = []\<rparr>, []),
         decode_binding = \<lambda>b. Inl (Plain b), upsert_role = \<lambda>_ _. None, upsert_binding = \<lambda>_ _. None\<rparr>,
      ld_poll = (\<lambda>i t. attempts (SleepMs i) (Suc (t div i))),
      ld_rest = \<lparr>rest_do = \<lambda>_ _. (None, 200)\<rparr>\<rparr>"

theorem InstallRBAC_calls_witness:
  "list_all rbac_call (calls_of (InstallRBAC demo_load ''cfg''
     \<lparr>InstallPaths = [''config/rbac''], ErrorIfPathMissing = False\<rparr>) empty_world)"
proof -
  have poll: "polls_immediately SleepMs (ld_poll demo_load)"
    using attempts_polls_immediately [of SleepMs] by (simp add: demo_load_def del: attempts.simps)
  show ?thesis by (rule InstallRBAC_calls [OF poll])
qed

end
