(* ===== verification/Cni.thy ===== *)
theory Cni
  imports Flannel_Manifests Loader
begin

text \<open>
  pkg/cni/plugins.go (the registry of drivers), pkg/cni/flannel/flannel.go (the only driver that
  registers itself), pkg/cluster/bootstrap.go, and the upload of the configuration
  (\<open>ToConfigMap\<close> of pkg/config/config.go). Kubeadm's upserts, the decoders and the template function
  of kubeadm are parameters.
\<close>

section \<open>The registry\<close>

type_synonym CniPlugin = "KubicInitConfiguration \<Rightarrow> (world, unit outcome) state"
type_synonym CniRegistry = "string \<rightharpoonup> CniPlugin"

definition Register :: "CniRegistry \<Rightarrow> string \<Rightarrow> CniPlugin \<Rightarrow> CniRegistry" where
  "Register registry name plugin = registry(name \<mapsto> plugin)"

definition Has :: "CniRegistry \<Rightarrow> string \<Rightarrow> bool" where
  "Has registry name = (case registry name of None \<Rightarrow> False | Some _ \<Rightarrow> True)"

text \<open>A missing entry is a nil function, whose call panics.\<close>

definition Load :: "CniRegistry \<Rightarrow> string \<Rightarrow> KubicInitConfiguration \<Rightarrow> (world, unit outcome) state" where
  "Load registry name c = (case registry name of None \<Rightarrow> ret nil_deref | Some plugin \<Rightarrow> plugin c)"

text \<open>The contract of a registry of plugins.\<close>

locale plugin_registry =
  fixes reg :: "'r \<Rightarrow> string \<Rightarrow> CniPlugin \<Rightarrow> 'r"
    and has :: "'r \<Rightarrow> string \<Rightarrow> bool"
    and load :: "'r \<Rightarrow> string \<Rightarrow> KubicInitConfiguration \<Rightarrow> (world, unit outcome) state"
    and empty :: 'r
  assumes has_empty: "\<not> has empty n"
    and has_reg: "has (reg r n p) m \<longleftrightarrow> m = n \<or> has r m"
    and load_reg: "load (reg r n p) m c = (if m = n then p c else load r m c)"
    and load_missing: "\<not> has r n \<Longrightarrow> load r n c = ret nil_deref"
begin

lemma load_only: "load (reg empty n p) m c = (if m = n then p c else ret nil_deref)"
  by (simp add: load_reg load_missing has_empty)

lemma reg_twice: "load (reg (reg r n p) n q) m c = load (reg r n q) m c"
  by (simp add: load_reg)

end

interpretation cni: plugin_registry Register Has Load Map.empty
  by unfold_locales (auto simp: Register_def Has_def Load_def split: option.split)

section \<open>The API server as kubeadm's helpers see it\<close>

record kube_api =
  ka_rbac :: rbac_lib
  upsert_config_map :: "call list \<Rightarrow> config_map \<Rightarrow> goerr option"
  upsert_daemon_set :: "call list \<Rightarrow> kobj \<Rightarrow> goerr option"
  upsert_service_account :: "call list \<Rightarrow> ObjectMeta \<Rightarrow> goerr option"
  delete_binding :: "call list \<Rightarrow> string \<Rightarrow> goerr option"

definition CreateOrUpdateConfigMap :: "kube_api \<Rightarrow> config_map \<Rightarrow> (world, unit outcome) state" where
  "CreateOrUpdateConfigMap A m =
     perform (\<lambda>h. of_err (upsert_config_map A h m)) (ApiCreateOrUpdate (OConfigMap m))"

definition CreateOrUpdateDaemonSet :: "kube_api \<Rightarrow> kobj \<Rightarrow> (world, unit outcome) state" where
  "CreateOrUpdateDaemonSet A d =
     perform (\<lambda>h. of_err (upsert_daemon_set A h d)) (ApiCreateOrUpdate (ODaemonSet d))"

definition CreateOrUpdateServiceAccount :: "kube_api \<Rightarrow> ObjectMeta \<Rightarrow> (world, unit outcome) state" where
  "CreateOrUpdateServiceAccount A m =
     perform (\<lambda>h. of_err (upsert_service_account A h m)) (ApiCreateOrUpdate (OServiceAccount m))"

text \<open>\<open>binding_name\<close> is the constant \<open>NodeAutoApproveBootstrapClusterRoleBinding\<close> of kubeadm.\<close>

definition RemoveAutoApprovalRBAC :: "kube_api \<Rightarrow> string \<Rightarrow> (world, unit outcome) state" where
  "RemoveAutoApprovalRBAC A binding_name =
     perform (\<lambda>h. of_err (delete_binding A h binding_name)) (ApiDelete KClusterRoleBinding [] binding_name True)"

definition ToConfigMap :: "config_deps \<Rightarrow> kube_api \<Rightarrow> KubicInitConfiguration \<Rightarrow> string \<Rightarrow> (string \<times> string) list \<Rightarrow>
    (world, unit outcome) state" where
  "ToConfigMap D A c name extraLabels =
     (let filename = path_base DefaultKubicInitConfig in
      andthen (ret (of_sum (yaml_marshal D c))) (\<lambda>marshalled.
        CreateOrUpdateConfigMap A
          \<lparr>cmMeta = \<lparr>metaName = name, metaNamespace = NamespaceSystem\<rparr>, cmLabels = extraLabels,
           cmData = [(filename, marshalled)]\<rparr>))"

section \<open>Flannel\<close>

definition FlannelClusterRoleName :: string where
  "FlannelClusterRoleName = ''kubic:flannel''"

definition FlannelClusterRoleNamePSP :: string where
  "FlannelClusterRoleNamePSP = ''kubic:psp:flannel''"

definition FlannelServiceAccountName :: string where
  "FlannelServiceAccountName = ''kubic-flannel''"

definition FlannelHealthPort :: int where
  "FlannelHealthPort = 8471"

definition serviceAccount :: ObjectMeta where
  "serviceAccount = \<lparr>metaName = FlannelServiceAccountName, metaNamespace = NamespaceSystem\<rparr>"

definition clusterRole :: cluster_role where
  "clusterRole =
     \<lparr>roleMeta = \<lparr>metaName = FlannelClusterRoleName, metaNamespace = []\<rparr>,
      roleRules =
        [\<lparr>ruleAPIGroups = [''''], ruleResources = [''pods''], ruleVerbs = [''get'']\<rparr>,
         \<lparr>ruleAPIGroups = [''''], ruleResources = [''nodes''], ruleVerbs = [''list'', ''watch'']\<rparr>,
         \<lparr>ruleAPIGroups = [''''], ruleResources = [''nodes/status''], ruleVerbs = [''patch'']\<rparr>]\<rparr>"

text \<open>\<open>rbac.GroupName\<close> and \<open>rbac.ServiceAccountKind\<close> are constants of the Kubernetes API.\<close>

definition flannel_subjects :: "rbac_subject list" where
  "flannel_subjects =
     [\<lparr>subjKind = ''ServiceAccount'', subjName = FlannelServiceAccountName, subjNamespace = NamespaceSystem\<rparr>]"

definition clusterRoleBinding :: cluster_role_binding where
  "clusterRoleBinding =
     \<lparr>bindMeta = \<lparr>metaName = FlannelClusterRoleName, metaNamespace = []\<rparr>,
      bindRoleRef = \<lparr>refAPIGroup = ''rbac.authorization.k8s.io'', refKind = ''ClusterRole'',
                     refName = FlannelClusterRoleName\<rparr>,
      bindSubjects = flannel_subjects\<rparr>"

definition clusterRoleBindingPSP :: cluster_role_binding where
  "clusterRoleBindingPSP =
     \<lparr>bindMeta = \<lparr>metaName = FlannelClusterRoleNamePSP, metaNamespace = []\<rparr>,
      bindRoleRef = \<lparr>refAPIGroup = ''rbac.authorization.k8s.io'', refKind = ''ClusterRole'',
                     refName = ''suse:kubic:psp:privileged''\<rparr>,
      bindSubjects = flannel_subjects\<rparr>"

text \<open>\<open>fl_parse\<close> is kubeadm's \<open>ParseTemplate\<close> on a structure given by its fields.\<close>

record flannel_lib =
  fl_parse :: "string \<Rightarrow> (string \<times> tval) list \<Rightarrow> goerr + string"
  decode_config_map :: "string \<Rightarrow> goerr + config_map"
  decode_daemon_set :: "string \<Rightarrow> goerr + kobj"

definition createServiceAccount :: "kube_api \<Rightarrow> (world, unit outcome) state" where
  "createServiceAccount A = CreateOrUpdateServiceAccount A serviceAccount"

definition createFlannelAddon :: "flannel_lib \<Rightarrow> kube_api \<Rightarrow> string \<Rightarrow> string \<Rightarrow> (world, unit outcome) state" where
  "createFlannelAddon F A configMapBytes daemonSetBytes =
     andthen (wrap_err ''unable to decode flannel configmap %v'' (ret (of_sum (decode_config_map F configMapBytes)))) (\<lambda>m.
     andthen (CreateOrUpdateConfigMap A m) (\<lambda>_.
     andthen (wrap_err ''unable to decode flannel daemonset %v'' (ret (of_sum (decode_daemon_set F daemonSetBytes)))) (\<lambda>d.
     CreateOrUpdateDaemonSet A d)))"

definition createRBACRules :: "kube_api \<Rightarrow> bool \<Rightarrow> (world, unit outcome) state" where
  "createRBACRules A psp =
     andthen (CreateOrUpdateClusterRole (ka_rbac A) clusterRole) (\<lambda>_.
     andthen (CreateOrUpdateClusterRoleBinding (ka_rbac A) clusterRoleBinding) (\<lambda>_.
     if psp then CreateOrUpdateClusterRoleBinding (ka_rbac A) clusterRoleBindingPSP else ret (Ok ())))"

definition config_map_values :: "KubicInitConfiguration \<Rightarrow> (string \<times> tval) list" where
  "config_map_values c = [(''Network'', TStr (PodSubnet (Network c))), (''Backend'', TStr ''vxlan'')]"

definition daemon_set_values :: "KubicInitConfiguration \<Rightarrow> (string \<times> tval) list" where
  "daemon_set_values c =
     [(''Image'', TStr (Image (Cni (Network c)))), (''LogLevel'', TInt 1), (''HealthzPort'', TInt FlannelHealthPort),
      (''ConfDir'', TStr (ConfDir (Cni (Network c)))), (''BinDir'', TStr (BinDir (Cni (Network c)))),
      (''ServiceAccount'', TStr FlannelServiceAccountName)]"

definition EnsureFlannelAddon :: "flannel_lib \<Rightarrow> kube_api \<Rightarrow> CniPlugin" where
  "EnsureFlannelAddon F A c =
     andthen (wrap_err ''error when creating flannel service account: %v'' (createServiceAccount A)) (\<lambda>_.
     andthen (wrap_err ''error when parsing flannel configmap template: %v''
       (ret (of_sum (fl_parse F FlannelConfigMap19 (config_map_values c))))) (\<lambda>configMapBytes.
     andthen (wrap_err ''error when parsing flannel daemonset template: %v''
       (ret (of_sum (fl_parse F FlannelDaemonSet19 (daemon_set_values c))))) (\<lambda>daemonSetBytes.
     andthen (createFlannelAddon F A configMapBytes daemonSetBytes) (\<lambda>_.
     wrap_err ''error when creating flannel RBAC rules: %v'' (createRBACRules A (PSP (Features c)))))))"

text \<open>The package initialisers leave the registry with this one entry.\<close>

definition flannel_init :: "flannel_lib \<Rightarrow> kube_api \<Rightarrow> CniRegistry \<Rightarrow> CniRegistry" where
  "flannel_init F A registry = Register registry ''flannel'' (EnsureFlannelAddon F A)"

definition Registry :: "flannel_lib \<Rightarrow> kube_api \<Rightarrow> CniRegistry" where
  "Registry F A = flannel_init F A Map.empty"

section \<open>Properties\<close>

text \<open>
  Only the driver that registered itself can be loaded: for the name \<open>flannel\<close> the registry runs the
  flannel addon, and any other configured name, such as the \<open>cilium\<close> of the command line help, panics
  on a nil function instead of being reported.
\<close>

theorem Load_registered:
  "Load (Registry F A) name c = (if name = ''flannel'' then EnsureFlannelAddon F A c else ret nil_deref)"
  unfolding Registry_def flannel_init_def by (rule cni.load_only)

text \<open>
  The flannel templates are given exactly the fields they ask for, so rendering them can fail on no
  missing field whatever the configuration.
\<close>

theorem flannel_fields_supplied:
  "set (template_fields FlannelConfigMap19) = set (map fst (config_map_values c))
   \<and> set (template_fields FlannelDaemonSet19) = set (map fst (daemon_set_values c))"
  by (auto simp: config_map_fields daemon_set_fields config_map_values_def daemon_set_values_def)

lemma andthen_wrap_OkE:
  assumes "run_state (andthen (wrap_err msg m) f) s = (Ok y, s'')"
  obtains x s' where "run_state m s = (Ok x, s')" and "run_state (f x) s' = (Ok y, s'')"
  using assms by (auto elim!: andthen_OkE simp: wrap_err_Ok_iff)

lemma createFlannelAddon_Ok:
  assumes "run_state (createFlannelAddon F A b1 b2) w = (Ok (), w')"
  shows "\<exists>m d. decode_config_map F b1 = Inr m \<and> decode_daemon_set F b2 = Inr d
    \<and> history w' = history w @ [ApiCreateOrUpdate (OConfigMap m), ApiCreateOrUpdate (ODaemonSet d)]"
  using assms
  by (auto simp: createFlannelAddon_def CreateOrUpdateConfigMap_def CreateOrUpdateDaemonSet_def of_sum_def run_wrap_err
      elim!: andthen_wrap_OkE andthen_OkE split: sum.splits)

lemma createRBACRules_Ok:
  assumes "run_state (createRBACRules A psp) w = (Ok (), w')"
  shows "history w' = history w @ [ApiCreateOrUpdate (OClusterRole clusterRole),
      ApiCreateOrUpdate (OClusterRoleBinding clusterRoleBinding)] @
    (if psp then [ApiCreateOrUpdate (OClusterRoleBinding clusterRoleBindingPSP)] else [])"
  using assms
  by (auto simp: createRBACRules_def CreateOrUpdateClusterRole_def CreateOrUpdateClusterRoleBinding_def
      elim!: andthen_OkE split: if_splits)

text \<open>
  C32. What a successful deployment of flannel has done: it created or updated, in this order and nothing
  else, the service account, the config map and the daemon set decoded from the rendered templates, the
  cluster role and its binding, and the binding to the privileged pod security policy exactly when the
  configuration enables it.
\<close>

theorem EnsureFlannelAddon_calls:
  assumes "run_state (EnsureFlannelAddon F A c) w = (Ok (), w')"
  shows "\<exists>b1 b2 m d. fl_parse F FlannelConfigMap19 (config_map_values c) = Inr b1
    \<and> fl_parse F FlannelDaemonSet19 (daemon_set_values c) = Inr b2
    \<and> decode_config_map F b1 = Inr m \<and> decode_daemon_set F b2 = Inr d
    \<and> history w' = history w @
        [ApiCreateOrUpdate (OServiceAccount serviceAccount), ApiCreateOrUpdate (OConfigMap m),
         ApiCreateOrUpdate (ODaemonSet d), ApiCreateOrUpdate (OClusterRole clusterRole),
         ApiCreateOrUpdate (OClusterRoleBinding clusterRoleBinding)] @
        (if PSP (Features c) then [ApiCreateOrUpdate (OClusterRoleBinding clusterRoleBindingPSP)] else [])"
proof -
  obtain b1 b2 w1 w2 where sa: "run_state (createServiceAccount A) w = (Ok (), w1)"
    and b1: "fl_parse F FlannelConfigMap19 (config_map_values c) = Inr b1"
    and b2: "fl_parse F FlannelDaemonSet19 (daemon_set_values c) = Inr b2"
    and addon: "run_state (createFlannelAddon F A b1 b2) w1 = (Ok (), w2)"
    and rbac: "run_state (createRBACRules A (PSP (Features c))) w2 = (Ok (), w')"
    using assms unfolding EnsureFlannelAddon_def
    by (auto elim!: andthen_wrap_OkE andthen_OkE simp: wrap_err_Ok_iff of_sum_def split: sum.splits)
  have "history w1 = history w @ [ApiCreateOrUpdate (OServiceAccount serviceAccount)]"
    using sa by (auto simp: createServiceAccount_def CreateOrUpdateServiceAccount_def)
  then show ?thesis using b1 b2 createFlannelAddon_Ok [OF addon] createRBACRules_Ok [OF rbac] by auto
qed

section \<open>A concrete cluster\<close>

definition demo_api :: kube_api where
  "demo_api =
     \<lparr>ka_rbac = ld_rbac demo_load, upsert_config_map = \<lambda>_ _. None, upsert_daemon_set = \<lambda>_ _. None,
      upsert_service_account = \<lambda>_ _. None, delete_binding = \<lambda>_ _. None\<rparr>"

definition demo_flannel :: flannel_lib where
  "demo_flannel =
     \<lparr>fl_parse = \<lambda>t _. Inr t,
      decode_config_map = \<lambda>b. Inr \<lparr>cmMeta = \<lparr>metaName = ''flannel'', metaNamespace = []\<rparr>, cmLabels = [], cmData = []\<rparr>,
      decode_daemon_set = \<lambda>b. Inr (demo_pod b)\<rparr>"

lemma demo_api_sel [simp]:
  "upsert_role (ka_rbac demo_api) = (\<lambda>_ _. None)" "upsert_binding (ka_rbac demo_api) = (\<lambda>_ _. None)"
  "upsert_config_map demo_api = (\<lambda>_ _. None)" "upsert_daemon_set demo_api = (\<lambda>_ _. None)"
  "upsert_service_account demo_api = (\<lambda>_ _. None)" "delete_binding demo_api = (\<lambda>_ _. None)"
  "fl_parse demo_flannel = (\<lambda>t _. Inr t)"
  "decode_config_map demo_flannel =
     (\<lambda>b. Inr \<lparr>cmMeta = \<lparr>metaName = ''flannel'', metaNamespace = []\<rparr>, cmLabels = [], cmData = []\<rparr>)"
  "decode_daemon_set demo_flannel = (\<lambda>b. Inr (demo_pod b))"
  by (simp_all add: demo_api_def demo_flannel_def demo_load_def)

lemma demo_flannel_Ok:
  "\<exists>w'. run_state (EnsureFlannelAddon demo_flannel demo_api c) w = (Ok (), w')"
  by (simp add: EnsureFlannelAddon_def createServiceAccount_def CreateOrUpdateServiceAccount_def
      createFlannelAddon_def CreateOrUpdateConfigMap_def CreateOrUpdateDaemonSet_def createRBACRules_def
      CreateOrUpdateClusterRole_def CreateOrUpdateClusterRoleBinding_def run_andthen run_wrap_err)

theorem EnsureFlannelAddon_calls_witness:
  "\<exists>(w' :: world) pre. history w' = pre @ [ApiCreateOrUpdate (OClusterRoleBinding clusterRoleBindingPSP)]"
proof -
  obtain w' where w': "run_state (EnsureFlannelAddon demo_flannel demo_api defaultConfiguration) empty_world = (Ok (), w')"
    using demo_flannel_Ok by blast
  have "PSP (Features defaultConfiguration)" by (simp add: defaultConfiguration_def)
  then obtain m d where "history w' = history empty_world @
        [ApiCreateOrUpdate (OServiceAccount serviceAccount), ApiCreateOrUpdate (OConfigMap m),
         ApiCreateOrUpdate (ODaemonSet d), ApiCreateOrUpdate (OClusterRole clusterRole),
         ApiCreateOrUpdate (OClusterRoleBinding clusterRoleBinding)] @
        [ApiCreateOrUpdate (OClusterRoleBinding clusterRoleBindingPSP)]"
    using EnsureFlannelAddon_calls [OF w'] by (simp only: if_True) blast
  then have "history w' = (history empty_world @
        [ApiCreateOrUpdate (OServiceAccount serviceAccount), ApiCreateOrUpdate (OConfigMap m),
         ApiCreateOrUpdate (ODaemonSet d), ApiCreateOrUpdate (OClusterRole clusterRole),
         ApiCreateOrUpdate (OClusterRoleBinding clusterRoleBinding)]) @
        [ApiCreateOrUpdate (OClusterRoleBinding clusterRoleBindingPSP)]"
    by (simp only: append.assoc)
  then show ?thesis by blast
qed

end
