(* ===== verification/Crds.thy ===== *)
theory Crds
  imports Loader "HOL-Library.AList"
begin

text \<open>
  pkg/loader/crd.go: reading custom resource definitions, creating them, and waiting until the server
  serves the new resources. A Go map is an association list with distinct keys, and the order in which
  the runtime ranges over one is a parameter, a function of the history and of the keys.
\<close>

section \<open>Options\<close>

type_synonym crdsSet = "(string \<times> crd) list"

record CRDInstallOptions =
  crdPaths :: "string list"
  crdErrorIfPathMissing :: bool
  maxTime :: nat
  pollEvery :: nat

text \<open>Durations in milliseconds.\<close>

definition defaultPollInterval :: nat where
  "defaultPollInterval = 100"

definition defaultMaxWait :: nat where
  "defaultMaxWait = 10 * 1000"

definition defaultCRDOptions :: "CRDInstallOptions \<Rightarrow> CRDInstallOptions" where
  "defaultCRDOptions o1 =
     (let o2 = (if maxTime o1 = 0 then o1\<lparr>maxTime := defaultMaxWait\<rparr> else o1) in
      if pollEvery o2 = 0 then o2\<lparr>pollEvery := defaultPollInterval\<rparr> else o2)"

type_synonym gv = "string \<times> string"
type_synonym waiting = "(gv \<times> string list) list"

record crd_lib =
  crd_os :: os_env
  crd_unmarshal :: "string \<Rightarrow> goerr + crd"
  new_crd_clientset :: "opaque \<Rightarrow> goerr option"
  crd_api :: "crd object_api"
  server_resources :: "call list \<Rightarrow> string \<Rightarrow> goerr + string list"
  range_names :: "call list \<Rightarrow> string list \<Rightarrow> string list"
  range_gvs :: "call list \<Rightarrow> gv list \<Rightarrow> gv list"
  crd_poll :: "(world \<times> waiting) poll_fn"

section \<open>Reading\<close>

definition CrdNamer :: "crd ObjNamespacer" where
  "CrdNamer = \<lparr>GetName = \<lambda>c. metaName (crdMeta c), GetNamespace = \<lambda>c. metaNamespace (crdMeta c)\<rparr>"

definition crdExts :: "string list" where
  "crdExts = [''.json'', ''.yaml'', ''.yml'']"

fun readCRDs_loop :: "crd_lib \<Rightarrow> string \<Rightarrow> crd list \<Rightarrow> string list \<Rightarrow> (world, crd list outcome) state" where
  "readCRDs_loop X path crds [] = ret (Ok crds)"
| "readCRDs_loop X path crds (file # files) =
     (if path_ext file \<notin> set crdExts then readCRDs_loop X path crds files
      else
        andthen (ReadFile (crd_os X) (path_join [path, file])) (\<lambda>b.
        andthen (ret (of_sum (crd_unmarshal X b))) (\<lambda>c.
          if crdKind c = [] \<or> crdGroup c = [] then readCRDs_loop X path crds files
          else readCRDs_loop X path (crds @ [c]) files)))"

definition readCRDs :: "crd_lib \<Rightarrow> string \<Rightarrow> (world, crd list outcome) state" where
  "readCRDs X path = andthen (ReadDir (crd_os X) path) (\<lambda>files. readCRDs_loop X path [] files)"

definition add_crds :: "crd list \<Rightarrow> crdsSet \<Rightarrow> crdsSet" where
  "add_crds new crds = fold (\<lambda>c m. AList.update (NamespacedObjToString CrdNamer c) c m) new crds"

fun readCRDFiles_loop :: "crd_lib \<Rightarrow> bool \<Rightarrow> crdsSet \<Rightarrow> string list \<Rightarrow> (world, crdsSet outcome) state" where
  "readCRDFiles_loop X err_missing crds [] = ret (Ok crds)"
| "readCRDFiles_loop X err_missing crds (path # paths) = do {
     skip \<leftarrow> skip_path (crd_os X) err_missing path;
     (if skip then readCRDFiles_loop X err_missing crds paths
      else andthen (readCRDs X path) (\<lambda>new. readCRDFiles_loop X err_missing (add_crds new crds) paths))
   }"

definition readCRDFiles :: "crd_lib \<Rightarrow> CRDInstallOptions \<Rightarrow> (world, crdsSet outcome) state" where
  "readCRDFiles X options =
     (if 0 < length (crdPaths options)
      then readCRDFiles_loop X (crdErrorIfPathMissing options) [] (RemoveDuplicates (crdPaths options))
      else ret (Ok []))"

section \<open>Creating\<close>

definition crd_key :: "crd \<Rightarrow> ObjectMeta" where
  "crd_key c = \<lparr>metaName = metaName (crdMeta c), metaNamespace = []\<rparr>"

definition create_crd :: "crd_lib \<Rightarrow> crd \<Rightarrow> (world, unit outcome) state" where
  "create_crd X c = do {
     r \<leftarrow> Api_Get (crd_api X) KCRD (crd_key c);
     (case r of
        Err err \<Rightarrow>
          if IsNotFound err then andthen (Api_Create (crd_api X) OCRD c) (\<lambda>_. ret (Ok ()))
          else ret (Err err)
      | Ok existing \<Rightarrow>
          andthen (Api_Update (crd_api X) OCRD (existing\<lparr>crdValidation := crdValidation c\<rparr>)) (\<lambda>_. ret (Ok ()))
      | Panic p \<Rightarrow> ret (Panic p))
   }"

text \<open>The range delivers the keys in some order; a name that is not a key cannot come up.\<close>

definition CreateCRDs :: "crd_lib \<Rightarrow> opaque \<Rightarrow> crdsSet \<Rightarrow> (world, unit outcome) state" where
  "CreateCRDs X restCfg crds =
     andthen (ret (of_err (new_crd_clientset X restCfg))) (\<lambda>_. do {
       names \<leftarrow> State (\<lambda>w. (range_names X (history w) (map fst crds), w));
       for_each (\<lambda>name. case map_of crds name of None \<Rightarrow> ret (Ok ()) | Some c \<Rightarrow> create_crd X c) names
     })"

section \<open>Waiting\<close>

definition insert_waiting :: "crd \<Rightarrow> waiting \<Rightarrow> waiting" where
  "insert_waiting c waitingFor =
     (let gv = (crdGroup c, crdVersion c);
          resources = (case map_of waitingFor gv of None \<Rightarrow> [] | Some l \<Rightarrow> l) in
      AList.update gv (List.insert (crdPlural c) resources) waitingFor)"

definition waiting_for :: "crd list \<Rightarrow> waiting" where
  "waiting_for crds = fold insert_waiting crds []"

definition gv_path :: "gv \<Rightarrow> string" where
  "gv_path gv = fst gv @ ''/'' @ snd gv"

definition ServerResources :: "crd_lib \<Rightarrow> gv \<Rightarrow> (world, string list outcome) state" where
  "ServerResources X gv =
     perform (\<lambda>h. of_sum (server_resources X h (gv_path gv))) (ApiDiscover (gv_path gv))"

text \<open>
  One poll: group versions with nothing left are dropped from the map, a failed discovery ends the
  poll, what is found is taken off the sets. \<open>allFound\<close> is the accumulator of the loop.
\<close>

fun poll_loop :: "crd_lib \<Rightarrow> bool \<Rightarrow> waiting \<Rightarrow> gv list \<Rightarrow> (world, bool \<times> waiting) state" where
  "poll_loop X allFound waitingFor [] = ret (allFound, waitingFor)"
| "poll_loop X allFound waitingFor (gv # gvs) =
     (case map_of waitingFor gv of
        None \<Rightarrow> poll_loop X allFound waitingFor gvs
      | Some resources \<Rightarrow>
          if resources = [] then poll_loop X allFound (AList.delete gv waitingFor) gvs
          else do {
            r \<leftarrow> ServerResources X gv;
            (case r of
               Ok found \<Rightarrow>
                 (let left = filter (\<lambda>n. n \<notin> set found) resources in
                  poll_loop X (allFound \<and> left = []) (AList.update gv left waitingFor) gvs)
             | _ \<Rightarrow> ret (False, waitingFor))
          })"

definition poller_poll :: "crd_lib \<Rightarrow> opaque \<Rightarrow> (world \<times> waiting, bool outcome) state" where
  "poller_poll X restCfg = State (\<lambda>(w, waitingFor).
     case new_crd_clientset X restCfg of
       Some err \<Rightarrow> (Err err, (w, waitingFor))
     | None \<Rightarrow>
         (case run_state (poll_loop X True waitingFor (range_gvs X (history w) (map fst waitingFor))) w of
            ((done, waitingFor'), w') \<Rightarrow> (Ok done, (w', waitingFor'))))"

text \<open>\<open>pause_waiting\<close> is the pause between polls on the state of the poller.\<close>

definition pause_waiting :: "nat \<Rightarrow> (world \<times> waiting, unit) state" where
  "pause_waiting ms = State (\<lambda>(w, wt). ((), (snd (run_state (SleepMs ms) w), wt)))"

definition WaitForCRDs :: "crd_lib \<Rightarrow> opaque \<Rightarrow> crdsSet \<Rightarrow> CRDInstallOptions \<Rightarrow> (world, unit outcome) state" where
  "WaitForCRDs X restCfg crds options = State (\<lambda>w.
     let names = range_names X (history w) (map fst crds);
         waitingFor = waiting_for (map (\<lambda>n. the (map_of crds n)) (filter (\<lambda>n. map_of crds n \<noteq> None) names))
     in (case run_state (crd_poll X (pollEvery options) (maxTime options) (poller_poll X restCfg)) (w, waitingFor) of
           (r, (w', _)) \<Rightarrow> (r, w')))"

definition InstallCRDs :: "crd_lib \<Rightarrow> opaque \<Rightarrow> CRDInstallOptions \<Rightarrow> (world, unit outcome) state" where
  "InstallCRDs X restCfg options =
     (let options = defaultCRDOptions options in
      andthen (readCRDFiles X options) (\<lambda>crds.
      andthen (CreateCRDs X restCfg crds) (\<lambda>_.
      WaitForCRDs X restCfg crds options)))"

section \<open>What is read\<close>

interpretation crd_namer: namespaced_objects CrdNamer
  "\<lambda>n ns. \<lparr>crdMeta = \<lparr>metaName = n, metaNamespace = ns\<rparr>, crdGroup = [], crdVersion = [], crdKind = [],
     crdPlural = [], crdValidation = [], crdRest = []\<rparr>" "\<lambda>n ns. True"
  by unfold_locales (simp_all add: CrdNamer_def)

text \<open>A well-formed set of definitions: real definitions, each under its own name, once.\<close>

definition proper_crd :: "crd \<Rightarrow> bool" where
  "proper_crd c \<longleftrightarrow> crdKind c \<noteq> [] \<and> crdGroup c \<noteq> []"

definition proper_set :: "crdsSet \<Rightarrow> bool" where
  "proper_set m \<longleftrightarrow> distinct (map fst m)
     \<and> (\<forall>(k, c) \<in> set m. k = NamespacedObjToString CrdNamer c \<and> proper_crd c)"

lemma AList_update_set: "distinct (map fst m) \<Longrightarrow> set (AList.update k c m) \<subseteq> insert (k, c) (set m)"
  by (induction m) auto

lemma proper_set_update:
  assumes "proper_set m" and "proper_crd c"
  shows "proper_set (AList.update (NamespacedObjToString CrdNamer c) c m)"
  unfolding proper_set_def
proof
  have m: "distinct (map fst m)" using assms(1) by (simp add: proper_set_def)
  then show "distinct (map fst (AList.update (NamespacedObjToString CrdNamer c) c m))"
    by (rule distinct_update)
  show "\<forall>(k, d) \<in> set (AList.update (NamespacedObjToString CrdNamer c) c m).
      k = NamespacedObjToString CrdNamer d \<and> proper_crd d"
    using subsetD [OF AList_update_set [OF m]] assms unfolding proper_set_def by fastforce
qed

lemma add_crds_proper: "proper_set m \<Longrightarrow> list_all proper_crd new \<Longrightarrow> proper_set (add_crds new m)"
  unfolding add_crds_def by (induction new arbitrary: m) (simp_all add: proper_set_update)

lemma readCRDs_loop_proper:
  "run_state (readCRDs_loop X path crds files) w = (Ok r, w') \<Longrightarrow> list_all proper_crd crds \<Longrightarrow>
     list_all proper_crd r"
proof (induction files arbitrary: crds w)
  case Nil
  then show ?case by simp
next
  case (Cons f fs)
  show ?case
  proof (cases "path_ext f \<in> set crdExts")
    case False
    then show ?thesis using Cons by simp
  next
    case True
    then obtain c w1 where "run_state (if crdKind c = [] \<or> crdGroup c = [] then readCRDs_loop X path crds fs
        else readCRDs_loop X path (crds @ [c]) fs) w1 = (Ok r, w')"
      using Cons.prems(1) by (auto elim!: andthen_OkE)
    then show ?thesis
      using Cons.IH [of crds w1] Cons.IH [of "crds @ [c]" w1] Cons.prems(2)
      by (simp add: proper_crd_def split: if_splits)
  qed
qed

lemma readCRDFiles_loop_proper:
  "run_state (readCRDFiles_loop X e crds paths) w = (Ok r, w') \<Longrightarrow> proper_set crds \<Longrightarrow> proper_set r"
proof (induction paths arbitrary: crds w)
  case Nil
  then show ?case by simp
next
  case (Cons path paths)
  obtain skip w1 where s: "run_state (skip_path (crd_os X) e path) w = (skip, w1)" by fastforce
  show ?case
  proof (cases skip)
    case True
    then show ?thesis using Cons s by simp
  next
    case False
    then have "run_state (andthen (readCRDs X path)
        (\<lambda>new. readCRDFiles_loop X e (add_crds new crds) paths)) w1 = (Ok r, w')"
      using Cons.prems(1) s by simp
    then obtain new w2 where new: "run_state (readCRDs X path) w1 = (Ok new, w2)"
      and rest: "run_state (readCRDFiles_loop X e (add_crds new crds) paths) w2 = (Ok r, w')"
      by (rule andthen_OkE)
    have "list_all proper_crd new"
      using new unfolding readCRDs_def by (rule andthen_OkE) (rule readCRDs_loop_proper, auto)
    with Cons.prems(2) show ?thesis by (intro Cons.IH [OF rest] add_crds_proper)
  qed
qed

lemma readCRDFiles_proper_set:
  assumes "run_state (readCRDFiles X options) w = (Ok crds, w')"
  shows "proper_set crds"
proof -
  have "proper_set []" by (simp add: proper_set_def)
  then show ?thesis
    using assms readCRDFiles_loop_proper by (auto simp: readCRDFiles_def split: if_splits)
qed

text \<open>
  Reading the definitions keeps the set well-formed: whatever the directories hold, each entry of
  the result is a definition with a kind and a group, stored under its own name, and no name occurs
  twice; files that are not definitions are left out.
\<close>

theorem readCRDFiles_proper:
  assumes "run_state (readCRDFiles X options) w = (Ok crds, w')"
  shows "distinct (map fst crds)
    \<and> list_all (\<lambda>(k, c). k = NamespacedObjToString CrdNamer c \<and> proper_crd c) crds"
  using readCRDFiles_proper_set [OF assms] by (auto simp: proper_set_def list_all_iff)

section \<open>The wait\<close>

text \<open>
  \<open>seen X h h' gv n\<close>: between the histories \<open>h\<close> and \<open>h'\<close> the discovery of \<open>gv\<close> was asked for and
  listed the resource \<open>n\<close>.
\<close>

definition seen :: "crd_lib \<Rightarrow> call list \<Rightarrow> call list \<Rightarrow> gv \<Rightarrow> string \<Rightarrow> bool" where
  "seen X h h' gv n \<longleftrightarrow>
     (\<exists>g l. prefix h g \<and> prefix (g @ [ApiDiscover (gv_path gv)]) h'
        \<and> server_resources X g (gv_path gv) = Inr l \<and> n \<in> set l)"

lemma seen_mono: "seen X g g' gv n \<Longrightarrow> prefix h g \<Longrightarrow> prefix g' h' \<Longrightarrow> seen X h h' gv n"
  unfolding seen_def by (meson prefix_order.trans)

definition pending :: "waiting \<Rightarrow> gv \<Rightarrow> string \<Rightarrow> bool" where
  "pending wt gv n \<longleftrightarrow> (case map_of wt gv of None \<Rightarrow> False | Some l \<Rightarrow> n \<in> set l)"

definition progress :: "crd_lib \<Rightarrow> world \<times> waiting \<Rightarrow> world \<times> waiting \<Rightarrow> bool" where
  "progress X s t \<longleftrightarrow> prefix (history (fst s)) (history (fst t))
     \<and> (\<forall>gv. map_of (snd s) gv = None \<longrightarrow> map_of (snd t) gv = None)
     \<and> (\<forall>gv n. pending (snd t) gv n \<longrightarrow> pending (snd s) gv n)
     \<and> (\<forall>gv n. pending (snd s) gv n \<longrightarrow> pending (snd t) gv n \<or> seen X (history (fst s)) (history (fst t)) gv n)"

lemma progress_refl: "progress X s s"
  by (simp add: progress_def)

lemma progress_trans: "progress X s t \<Longrightarrow> progress X t u \<Longrightarrow> progress X s u"
  unfolding progress_def by (meson prefix_order.trans prefix_order.refl seen_mono)

lemma progress_seen:
  "progress X s t \<Longrightarrow> pending (snd s) gv n \<Longrightarrow> \<not> pending (snd t) gv n \<Longrightarrow>
     seen X (history (fst s)) (history (fst t)) gv n"
  unfolding progress_def by blast

definition emptied :: "waiting \<Rightarrow> gv \<Rightarrow> bool" where
  "emptied wt gv \<longleftrightarrow> (\<forall>n. \<not> pending wt gv n)"

lemma pending_update: "pending (AList.update gv l wt) gv' n \<longleftrightarrow> (if gv' = gv then n \<in> set l else pending wt gv' n)"
  by (simp add: pending_def update_conv')

lemma pending_delete: "pending (AList.delete gv wt) gv' n \<longleftrightarrow> gv' \<noteq> gv \<and> pending wt gv' n"
  by (simp add: pending_def delete_conv')

lemma progress_delete:
  "map_of wt gv = Some [] \<Longrightarrow> progress X (w, wt) (w, AList.delete gv wt)"
  by (auto simp: progress_def pending_delete delete_conv' pending_def)

lemma progress_discover:
  assumes "map_of wt gv = Some l" and "server_resources X (history w) (gv_path gv) = Inr found"
  shows "progress X (w, wt)
    (w\<lparr>history := history w @ [ApiDiscover (gv_path gv)]\<rparr>, AList.update gv (filter (\<lambda>n. n \<notin> set found) l) wt)"
proof -
  have "seen X (history w) (history w @ [ApiDiscover (gv_path gv)]) gv n" if "n \<in> set found" for n
    unfolding seen_def using assms(2) that by blast
  then show ?thesis
    using assms(1) by (auto simp: progress_def pending_update update_conv' split: if_splits) (auto simp: pending_def)
qed

lemma progress_emptied: "progress X s t \<Longrightarrow> emptied (snd s) gv \<Longrightarrow> emptied (snd t) gv"
  unfolding progress_def emptied_def by blast

text \<open>One entry of the loop, followed by the rest.\<close>

lemma poll_step:
  assumes "progress X (w, wt) (w1, wt1)" and "af \<Longrightarrow> allFound \<and> emptied wt1 gv"
    and "progress X (w1, wt1) (w', wt') \<and> (done \<longrightarrow> af \<and> (\<forall>gv\<in>set gvs. emptied wt' gv))"
  shows "progress X (w, wt) (w', wt') \<and> (done \<longrightarrow> allFound \<and> (\<forall>gv\<in>set (gv # gvs). emptied wt' gv))"
proof -
  have "progress X (w, wt) (w', wt')" by (rule progress_trans [OF assms(1) conjunct1 [OF assms(3)]])
  moreover have "emptied wt' gv" if "done"
    using that assms(2,3) progress_emptied [of X "(w1, wt1)" "(w', wt')" gv] by simp
  ultimately show ?thesis using assms(2,3) by auto
qed

lemma poll_loop_progress:
  assumes "run_state (poll_loop X allFound wt gvs) w = ((done, wt'), w')"
  shows "progress X (w, wt) (w', wt') \<and> (done \<longrightarrow> allFound \<and> (\<forall>gv\<in>set gvs. emptied wt' gv))"
  using assms
proof (induction gvs arbitrary: allFound wt w)
  case Nil
  then show ?case by (simp add: progress_refl)
next
  case (Cons gv gvs)
  note step = poll_step [OF _ _ Cons.IH]
  show ?case
  proof (cases "map_of wt gv")
    case None
    then have "emptied wt gv" by (simp add: emptied_def pending_def)
    then show ?thesis using Cons.prems None by (intro step [of w wt w wt allFound]) (simp_all add: progress_refl)
  next
    case (Some l)
    show ?thesis
    proof (cases "l = []")
      case True
      then show ?thesis
        using Cons.prems Some progress_delete
        by (intro step [of w wt w "AList.delete gv wt" allFound]) (simp_all add: emptied_def pending_delete)
    next
      case False
      show ?thesis
      proof (cases "server_resources X (history w) (gv_path gv)")
        case (Inl e)
        then have "done = False" "wt' = wt" "w' = w\<lparr>history := history w @ [ApiDiscover (gv_path gv)]\<rparr>"
          using Cons.prems Some False by (simp_all add: ServerResources_def)
        then show ?thesis by (simp add: progress_def)
      next
        case (Inr found)
        let ?left = "filter (\<lambda>n. n \<notin> set found) l"
        have rest: "run_state (poll_loop X (allFound \<and> ?left = []) (AList.update gv ?left wt) gvs)
            (w\<lparr>history := history w @ [ApiDiscover (gv_path gv)]\<rparr>) = ((done, wt'), w')"
          using Cons.prems Some False Inr by (simp add: ServerResources_def Let_def)
        show ?thesis
          by (rule step [OF progress_discover [OF Some Inr] _ rest]) (simp add: emptied_def pending_update)
      qed
    qed
  qed
qed

lemma pause_progress: "progress X s (snd (run_state (pause_waiting i) s))"
  by (cases s) (simp add: pause_waiting_def SleepMs_def progress_def)

lemma poller_progress: "progress X s (snd (run_state (poller_poll X cfg) s))"
proof (cases s)
  case (Pair w wt)
  then show ?thesis
    using poll_loop_progress [of X True wt "range_gvs X (history w) (map fst wt)" w]
    by (auto simp: poller_poll_def progress_refl split: option.split prod.split)
qed

lemma retried_progress: "progress X s (retried (pause_waiting i) (poller_poll X cfg) k s)"
proof (induction k arbitrary: s)
  case 0
  then show ?case by (simp add: progress_refl)
next
  case (Suc k)
  then show ?case
    using progress_trans [OF progress_trans [OF poller_progress pause_progress] Suc.IH] by simp
qed

text \<open>A poll that answers true leaves nothing pending, if the range visits every key.\<close>

lemma poller_True:
  assumes "run_state (poller_poll X cfg) (w, wt) = (Ok True, (w', wt'))"
    and "\<And>h l. set (range_gvs X h l) = set l"
  shows "emptied wt' gv"
proof (cases "gv \<in> set (map fst wt)")
  case True
  have "run_state (poll_loop X True wt (range_gvs X (history w) (map fst wt))) w = ((True, wt'), w')"
    using assms(1) by (auto simp: poller_poll_def split: option.splits prod.splits)
  from poll_loop_progress [OF this] show ?thesis unfolding assms(2) using True by blast
next
  case False
  then have "map_of wt gv = None" by (simp add: map_of_eq_None_iff)
  then have "emptied wt gv" by (simp add: emptied_def pending_def)
  then show ?thesis
    using progress_emptied [OF poller_progress [of X "(w, wt)" cfg]] by (simp add: assms(1))
qed

lemma pending_insert: "pending (insert_waiting c wt) gv n \<longleftrightarrow>
    (crdGroup c, crdVersion c) = gv \<and> crdPlural c = n \<or> pending wt gv n"
  by (auto simp: insert_waiting_def Let_def pending_def update_conv' split: option.splits)

lemma pending_waiting_for:
  "pending (waiting_for cs) gv n \<longleftrightarrow> (\<exists>c\<in>set cs. (crdGroup c, crdVersion c) = gv \<and> crdPlural c = n)"
proof -
  have "pending (fold insert_waiting cs wt) gv n \<longleftrightarrow>
      (\<exists>c\<in>set cs. (crdGroup c, crdVersion c) = gv \<and> crdPlural c = n) \<or> pending wt gv n" for wt
    by (induction cs arbitrary: wt) (auto simp: pending_insert)
  then show ?thesis by (simp add: waiting_for_def) (simp add: pending_def)
qed

lemma WaitForCRDs_E:
  assumes "run_state (WaitForCRDs X cfg crds options) w = (r, w')"
  obtains wt' where "run_state (crd_poll X (pollEvery options) (maxTime options) (poller_poll X cfg))
      (w, waiting_for (map (\<lambda>n. the (map_of crds n))
         (filter (\<lambda>n. map_of crds n \<noteq> None) (range_names X (history w) (map fst crds))))) = (r, (w', wt'))"
  using assms by (auto simp: WaitForCRDs_def Let_def split: prod.splits)

lemma WaitForCRDs_seen:
  assumes "polls_immediately pause_waiting (crd_poll X)"
    and "\<And>h l. set (range_names X h l) = set l" and "\<And>h l. set (range_gvs X h l) = set l"
    and "run_state (WaitForCRDs X cfg crds options) w = (Ok (), w')"
    and "map_of crds name = Some c"
  shows "seen X (history w) (history w') (crdGroup c, crdVersion c) (crdPlural c)"
proof -
  let ?wt = "waiting_for (map (\<lambda>n. the (map_of crds n))
      (filter (\<lambda>n. map_of crds n \<noteq> None) (range_names X (history w) (map fst crds))))"
  let ?p = "poller_poll X cfg" and ?i = "pollEvery options"
  obtain wt' where run: "run_state (crd_poll X ?i (maxTime options) ?p) (w, ?wt) = (Ok (), (w', wt'))"
    by (rule WaitForCRDs_E [OF assms(4)])
  obtain k where k: "run_state ?p (retried (pause_waiting ?i) ?p k (w, ?wt)) = (Ok True, (w', wt'))"
    using poll_Ok [OF assms(1) run] by blast
  obtain w1 wt1 where r1: "retried (pause_waiting ?i) ?p k (w, ?wt) = (w1, wt1)" by fastforce
  have gone: "\<not> pending wt' (crdGroup c, crdVersion c) (crdPlural c)"
    using poller_True [OF k [unfolded r1] assms(3)] unfolding emptied_def by blast
  have "name \<in> set (range_names X (history w) (map fst crds))"
    using assms(5) unfolding assms(2) by (force dest: map_of_SomeD)
  then have start: "pending ?wt (crdGroup c, crdVersion c) (crdPlural c)"
    unfolding pending_waiting_for using assms(5) by force
  have "progress X (w, ?wt) (w', wt')"
    using progress_trans [OF retried_progress [of X "(w, ?wt)" ?i cfg k] poller_progress [of X _ cfg]]
    unfolding k snd_conv .
  from progress_seen [OF this, unfolded fst_conv snd_conv, OF start gone] show ?thesis .
qed

text \<open>
  C7. The wait for the definitions is sound: when \<open>WaitForCRDs\<close> succeeds, every definition of the set was
  found in discovery, that is, while it waited the server was asked for the resources of the
  definition's group and version and listed its plural name. The map that the poller shrinks from poll
  to poll, failed polls included, never forgets one that was not found.
\<close>

theorem WaitForCRDs_sound:
  assumes "polls_immediately pause_waiting (crd_poll X)"
    and "\<And>h l. set (range_names X h l) = set l" and "\<And>h l. set (range_gvs X h l) = set l"
    and "run_state (WaitForCRDs X cfg crds options) w = (Ok (), w')"
    and "map_of crds name = Some c"
  shows "seen X (history w) (history w') (crdGroup c, crdVersion c) (crdPlural c)"
  using assms by (rule WaitForCRDs_seen)

section \<open>Properties of the installation\<close>

text \<open>
  An existing definition only gets a new validation schema: when the server has a definition of the
  name, the update sends that one back with its validation replaced, so a new version, kind or plural
  name in the file is not installed.
\<close>

theorem create_crd_keeps_existing:
  assumes "api_get (crd_api X) (history w) [] (metaName (crdMeta c)) = Inr existing"
  shows "calls_of (create_crd X c) w =
    [ApiGet KCRD [] (metaName (crdMeta c)), ApiUpdate (OCRD (existing\<lparr>crdValidation := crdValidation c\<rparr>))]"
  using assms by (simp add: calls_of_def create_crd_def crd_key_def api_ops run_andthen split: sum.split)

definition crd_call :: "call \<Rightarrow> bool" where
  "crd_call c =
     (case c of
        ApiGet k _ _ \<Rightarrow> k = KCRD
      | ApiCreate obj \<Rightarrow> (case obj of OCRD _ \<Rightarrow> True | _ \<Rightarrow> False)
      | ApiUpdate obj \<Rightarrow> (case obj of OCRD _ \<Rightarrow> True | _ \<Rightarrow> False)
      | ApiDiscover _ \<Rightarrow> True | TimeSleepMs _ \<Rightarrow> True | _ \<Rightarrow> file_call c)"

lemma file_call_crd: "file_call c \<Longrightarrow> crd_call c"
  by (cases c) (auto simp: crd_call_def file_call_def)

lemma readCRDs_files: "calls_only file_call (readCRDs X path)"
proof -
  have "calls_only file_call (readCRDs_loop X path crds files)" for crds files
    by (induction files arbitrary: crds)
      (auto simp: ReadFile_def file_call_def intro!: calls_intros)
  then show ?thesis
    unfolding readCRDs_def ReadDir_def by (intro calls_intros) (simp_all add: file_call_def)
qed

lemma readCRDFiles_files: "calls_only file_call (readCRDFiles X options)"
proof -
  have "calls_only file_call (readCRDFiles_loop X e crds paths)" for e crds paths
    by (induction paths arbitrary: crds)
      (auto intro!: calls_intros file_calls(2) readCRDs_files)
  then show ?thesis unfolding readCRDFiles_def by (intro calls_intros)
qed

lemma readCRDFiles_calls: "calls_only crd_call (readCRDFiles X options)"
  using readCRDFiles_files file_call_crd by (rule calls_only_mono)

lemma create_crd_calls: "calls_only crd_call (create_crd X c)"
  unfolding create_crd_def Api_Get_def Api_Create_def Api_Update_def
  by (auto simp: crd_call_def intro!: calls_intros split: outcome.split)

lemma CreateCRDs_calls: "calls_only crd_call (CreateCRDs X cfg crds)"
proof -
  have "calls_only crd_call (State (\<lambda>w. (f w, w)))" for f :: "world \<Rightarrow> string list"
    by (simp add: calls_only_iff)
  then show ?thesis
    unfolding CreateCRDs_def by (intro calls_intros) (auto intro!: calls_intros create_crd_calls split: option.split)
qed

text \<open>A relation that the condition and the pause keep is kept by polling.\<close>

lemma poll_rel:
  assumes "polls_immediately pause poll"
    and "\<And>s. R s s" and "\<And>s t u. R s t \<Longrightarrow> R t u \<Longrightarrow> R s u"
    and "\<And>s. R s (snd (run_state cond s))" and "\<And>s. R s (snd (run_state (pause i) s))"
  shows "R s (snd (run_state (poll i t cond) s))"
proof -
  have att: "R s (snd (run_state (attempts (pause i) n cond) s))" for n s
  proof (induction n arbitrary: s)
    case 0
    then show ?case by (simp add: assms(2))
  next
    case (Suc n)
    have "R s (snd (run_state (attempts (pause i) n cond) (snd (run_state (pause i) (snd (run_state cond s))))))"
      using assms(3) [OF assms(3) [OF assms(4) assms(5)] Suc.IH] .
    then show ?case using assms(4) [of s]
      by (cases "run_state cond s"; cases "fst (run_state cond s)")
        (auto simp: case_prod_unfold split: bool.split)
  qed
  obtain n where "run_state (poll i t cond) s = run_state (attempts (pause i) n cond) s"
    using assms(1) unfolding polls_immediately_def by blast
  then show ?thesis by (simp add: att)
qed

text \<open>While it waits, the program only asks for resources and sleeps.\<close>

definition wait_call :: "call \<Rightarrow> bool" where
  "wait_call c = (case c of ApiDiscover _ \<Rightarrow> True | TimeSleepMs _ \<Rightarrow> True | _ \<Rightarrow> False)"

lemma wait_call_crd: "wait_call c \<Longrightarrow> crd_call c"
  by (cases c) (simp_all add: wait_call_def crd_call_def)

lemma poll_loop_calls: "calls_only wait_call (poll_loop X af wt gvs)"
proof (induction gvs arbitrary: af wt)
  case Nil
  then show ?case by (simp add: calls_only_return)
next
  case (Cons gv gvs)
  then show ?case
    by (auto simp: ServerResources_def Let_def wait_call_def intro!: calls_intros
        split: option.split outcome.split)
qed

lemma poller_waits: "hist_ext wait_call (fst s) (fst (snd (run_state (poller_poll X cfg) s)))"
  using calls_onlyD [OF poll_loop_calls]
  by (cases s) (auto simp: poller_poll_def split: prod.split option.split)

lemma WaitForCRDs_waits:
  assumes "polls_immediately pause_waiting (crd_poll X)"
  shows "calls_only wait_call (WaitForCRDs X cfg crds options)"
  unfolding calls_only_iff
proof
  fix w
  let ?R = "\<lambda>(s :: world \<times> waiting) (t :: world \<times> waiting). hist_ext wait_call (fst s) (fst t)"
  have "?R s (snd (run_state (pause_waiting i) s))" for s i
    by (auto simp: pause_waiting_def SleepMs_def hist_ext_def wait_call_def split: prod.split)
  with poller_waits have keep: "?R s (snd (run_state (crd_poll X i t (poller_poll X cfg)) s))" for s i t
    by (intro poll_rel [OF assms, where R = ?R]) (auto intro: hist_ext_trans)
  obtain r w' where run: "run_state (WaitForCRDs X cfg crds options) w = (r, w')" by fastforce
  obtain wt wt' where
    "run_state (crd_poll X (pollEvery options) (maxTime options) (poller_poll X cfg)) (w, wt) = (r, (w', wt'))"
    by (rule WaitForCRDs_E [OF run])
  then show "hist_ext wait_call w (snd (run_state (WaitForCRDs X cfg crds options) w))"
    using keep [where i = "pollEvery options" and t = "maxTime options" and s = "(w, wt)"] by (simp add: run)
qed

lemma WaitForCRDs_calls:
  assumes "polls_immediately pause_waiting (crd_poll X)"
  shows "calls_only crd_call (WaitForCRDs X cfg crds options)"
  using WaitForCRDs_waits [OF assms] wait_call_crd by (rule calls_only_mono)

lemma InstallCRDs_calls_only:
  assumes "polls_immediately pause_waiting (crd_poll X)"
  shows "calls_only crd_call (InstallCRDs X cfg options)"
  unfolding InstallCRDs_def Let_def
  by (intro calls_intros readCRDFiles_calls CreateCRDs_calls WaitForCRDs_calls assms)

section \<open>Concrete definitions\<close>

definition demo_crd :: crd where
  "demo_crd =
     \<lparr>crdMeta = \<lparr>metaName = ''dexes.kubic'', metaNamespace = []\<rparr>, crdGroup = ''kubic'', crdVersion = ''v1'',
      crdKind = ''Dex'', crdPlural = ''dexes'', crdValidation = ''schema'', crdRest = []\<rparr>"

text \<open>Discovery lists the new resource from the second question on.\<close>

definition demo_crds :: crd_lib where
  "demo_crds =
     \<lparr>crd_os = demo_os\<lparr>os_read_dir := \<lambda>_ _. Inr [''README'', ''dex.yaml'']\<rparr>,
      crd_unmarshal = \<lambda>_. Inr demo_crd, new_crd_clientset = \<lambda>_. None,
      crd_api = \<lparr>api_get = \<lambda>_ _ _. Inr (demo_crd\<lparr>crdVersion := ''v0'', crdValidation := []\<rparr>),
                 api_create = \<lambda>_ x. Inr x, api_update = \<lambda>_ x. Inr x, api_delete = \<lambda>_ _ _. None\<rparr>,
      server_resources = \<lambda>h _. Inr (if ApiDiscover ''kubic/v1'' \<in> set h then [''dexes''] else []),
      range_names = \<lambda>_ l. rev l, range_gvs = \<lambda>_ l. rev l,
      crd_poll = (\<lambda>i t. attempts (pause_waiting i) (Suc (t div i)))\<rparr>"

lemma demo_crds_sel [simp]:
  "crd_os demo_crds = demo_os\<lparr>os_read_dir := \<lambda>_ _. Inr [''README'', ''dex.yaml'']\<rparr>"
  "crd_unmarshal demo_crds = (\<lambda>_. Inr demo_crd)" "new_crd_clientset demo_crds = (\<lambda>_. None)"
  "server_resources demo_crds = (\<lambda>h _. Inr (if ApiDiscover ''kubic/v1'' \<in> set h then [''dexes''] else []))"
  "range_names demo_crds = (\<lambda>_ l. rev l)" "range_gvs demo_crds = (\<lambda>_ l. rev l)"
  "crd_poll demo_crds = (\<lambda>i t. attempts (pause_waiting i) (Suc (t div i)))"
  "crdKind demo_crd = ''Dex''" "crdGroup demo_crd = ''kubic''" "crdVersion demo_crd = ''v1''"
  "crdPlural demo_crd = ''dexes''" "crdMeta demo_crd = \<lparr>metaName = ''dexes.kubic'', metaNamespace = []\<rparr>"
  by (simp_all add: demo_crds_def demo_crd_def)

definition demo_options :: CRDInstallOptions where
  "demo_options = defaultCRDOptions
     \<lparr>crdPaths = [''config/crds''], crdErrorIfPathMissing = False, maxTime = 0, pollEvery = 0\<rparr>"

lemma demo_options_sel [simp]:
  "crdPaths demo_options = [''config/crds'']" "crdErrorIfPathMissing demo_options = False"
  "maxTime demo_options = 10000" "pollEvery demo_options = 100"
  by (simp_all add: demo_options_def defaultCRDOptions_def defaultMaxWait_def defaultPollInterval_def)

theorem readCRDFiles_proper_witness:
  "list_all (\<lambda>(k, c). k = NamespacedObjToString CrdNamer c \<and> proper_crd c) [(''dexes.kubic'', demo_crd)]"
proof -
  have "\<exists>w'. run_state (readCRDFiles demo_crds demo_options) empty_world = (Ok [(''dexes.kubic'', demo_crd)], w')"
    by (simp add: readCRDFiles_def RemoveDuplicates_id skip_path_def Stat_def readCRDs_def ReadDir_def run_andthen
        path_ext_def last_index_byte_def crdExts_def ReadFile_def add_crds_def NamespacedObjToString_def CrdNamer_def)
  then show ?thesis using readCRDFiles_proper by blast
qed

theorem create_crd_keeps_existing_witness:
  "calls_of (create_crd demo_crds demo_crd) empty_world =
     [ApiGet KCRD [] ''dexes.kubic'', ApiUpdate (OCRD (demo_crd\<lparr>crdVersion := ''v0''\<rparr>))]"
  by (subst create_crd_keeps_existing [where existing = "demo_crd\<lparr>crdVersion := ''v0'', crdValidation := []\<rparr>"])
    (simp_all add: demo_crds_def demo_crd_def)

theorem WaitForCRDs_sound_witness:
  "\<exists>w' :: world. seen demo_crds [] (history w') (''kubic'', ''v1'') ''dexes''"
proof -
  have poll: "polls_immediately pause_waiting (crd_poll demo_crds)"
    using attempts_polls_immediately [of pause_waiting] by (simp del: attempts.simps)
  have "\<exists>w'. run_state (attempts (pause_waiting 100) (Suc (Suc n)) (poller_poll demo_crds ''cfg''))
      (empty_world, waiting_for [demo_crd]) = (Ok (), w')" for n
    by (simp add: poller_poll_def waiting_for_def insert_waiting_def ServerResources_def pause_waiting_def
        SleepMs_def gv_path_def empty_world_def)
  moreover have "Suc (10000 div 100) = Suc (Suc 99)" by simp
  ultimately have "\<exists>w'. run_state (attempts (pause_waiting 100) (Suc (10000 div 100)) (poller_poll demo_crds ''cfg''))
      (empty_world, waiting_for [demo_crd]) = (Ok (), w')"
    by (simp only: simp_thms)
  then obtain w' wt' where
    "run_state (attempts (pause_waiting 100) (Suc (10000 div 100)) (poller_poll demo_crds ''cfg''))
      (empty_world, waiting_for [demo_crd]) = (Ok (), (w', wt'))"
    by (metis prod.collapse)
  then have "run_state (WaitForCRDs demo_crds ''cfg'' [(''dexes.kubic'', demo_crd)] demo_options) empty_world = (Ok (), w')"
    by (simp add: WaitForCRDs_def Let_def del: attempts.simps)
  from WaitForCRDs_sound [OF poll _ _ this, of "''dexes.kubic''" demo_crd] show ?thesis
    by (auto simp: empty_world_def)
qed

end
