(* ===== verification/Kubeadm.thy ===== *)
theory Kubeadm
  imports Config_Ops "HOL-Library.AList"
begin

text \<open>
  pkg/kubeadm: running the \<open>kubeadm\<close> command for init, join and reset (common.go, init.go, join.go,
  reset.go). What kubeadm's own packages do (feature gates, validation of the preflight errors, token
  parsing, defaulting and marshalling of its configuration objects) is a parameter. The map
  \<open>config.DefaultKubeletSettings\<close> is shared: the configuration objects alias it, so setting a kubelet
  argument changes the package variable, which is part of the state.
\<close>

section \<open>Configuration objects of kubeadm\<close>

record ClusterConfiguration =
  ControlPlaneEndpoint :: string
  FeatureGates :: "(string \<times> bool) list"
  CertSANs :: "string list"
  apiExtraArgs :: "(string \<times> string) list"
  KubernetesVersion :: string
  ccPodSubnet :: string
  ccServiceSubnet :: string
  DNSDomain :: string
  ccLocalEtcd :: "(string \<times> string) option"

record NodeRegistrationOptions =
  KubeletExtraArgs :: "(string \<times> string) list"
  CRISocket :: string

record InitConfiguration =
  ccCluster :: ClusterConfiguration
  initNodeRegistration :: NodeRegistrationOptions
  AdvertiseAddress :: string
  BootstrapTokens :: "string list"

record BootstrapTokenDiscovery =
  APIServerEndpoint :: string
  discoveryToken :: string
  CACertHashes :: "string list"
  UnsafeSkipCAVerification :: bool

record JoinConfiguration =
  joinNodeRegistration :: NodeRegistrationOptions
  joinBootstrapToken :: BootstrapTokenDiscovery

record kubeadm_lib =
  new_feature_gate :: "string \<Rightarrow> goerr + (string \<times> bool) list"
  validate_preflight :: "string list \<Rightarrow> goerr + string list"
  new_bootstrap_token :: "string \<Rightarrow> goerr + string"
  marshal_init :: "InitConfiguration \<Rightarrow> goerr + string"
  marshal_cluster :: "InitConfiguration \<Rightarrow> goerr + string"
  marshal_join :: "JoinConfiguration \<Rightarrow> goerr + string"
  yaml_separator :: string

section \<open>Running the command\<close>

type_synonym toKubeadmConfig =
  "KubicInitConfiguration \<Rightarrow> (string \<times> bool) list \<Rightarrow> (world, string outcome) state"

definition kubeadmConfigTemplate :: string where
  "kubeadmConfigTemplate = ''kubic-kubeadm.*.yaml''"

definition TempFile :: "os_env \<Rightarrow> string \<Rightarrow> (world, string outcome) state" where
  "TempFile E pat = perform (\<lambda>h. of_sum (os_temp_file E h pat)) (OsTempFile pat)"

definition WriteTemp :: "string \<Rightarrow> string \<Rightarrow> (world, unit) state" where
  "WriteTemp f b = perform (\<lambda>_. ()) (OsWriteTemp f b)"

definition RemoveFile :: "string \<Rightarrow> (world, unit) state" where
  "RemoveFile f = perform (\<lambda>_. ()) (OsRemove f)"

definition Exec :: "os_env \<Rightarrow> string \<Rightarrow> string list \<Rightarrow> (world, unit outcome) state" where
  "Exec E path args =
     perform (\<lambda>h. case os_exec E h path args of None \<Rightarrow> Ok () | Some e \<Rightarrow> Err e) (OsExec path args)"

text \<open>\<open>defer os.Remove(f)\<close>: the deferred call runs on every way out.\<close>

definition deferring_remove :: "string \<Rightarrow> (world, 'a outcome) state \<Rightarrow> (world, 'a outcome) state" where
  "deferring_remove f m = do { r \<leftarrow> m; _ \<leftarrow> RemoveFile f; ret r }"

text \<open>
  An error of \<open>NewFeatureGate\<close> ends the process (\<open>CheckErr\<close>), as the callers in cmd/kubic-init do with every
  error of a command, so it is the \<open>Err\<close> outcome; nothing has been deferred by then. The error of writing the
  file is ignored. Starting kubeadm, copying its output and waiting for it is one call with one answer.
\<close>

definition kubeadmCmd :: "kubeadm_lib \<Rightarrow> os_env \<Rightarrow> string \<Rightarrow> KubicInitConfiguration \<Rightarrow> toKubeadmConfig option \<Rightarrow>
    string list \<Rightarrow> (world, unit outcome) state" where
  "kubeadmCmd K E name c configer args =
     (case new_feature_gate K DefaultFeatureGates of
        Inl err \<Rightarrow> ret (Err err)
      | Inr featureGates \<Rightarrow>
          (let args = [name] @ args; kubeadmPath = Kubeadm (Paths c) in
           case configer of
             None \<Rightarrow> Exec E kubeadmPath args
           | Some conf \<Rightarrow>
               andthen (TempFile E kubeadmConfigTemplate) (\<lambda>configFile.
               deferring_remove configFile
                 (andthen (conf c featureGates) (\<lambda>marshalledBytes. do {
                    _ \<leftarrow> WriteTemp configFile marshalledBytes;
                    Exec E kubeadmPath (args @ [''--config='' @ configFile])
                  })))))"

definition getIgnorePreflightArg :: "kubeadm_lib \<Rightarrow> string outcome" where
  "getIgnorePreflightArg K =
     (case validate_preflight K DefaultIgnoredPreflightErrors of
        Inl err \<Rightarrow> Panic ''invalid preflight errors''
      | Inr l \<Rightarrow> Ok (''--ignore-preflight-errors='' @ str_join l '',''))"

definition getVerboseArg :: string where
  "getVerboseArg = ''--v=3''"

text \<open>
  The part that \<open>toInitConfig\<close> and \<open>toJoinConfig\<close> share: the socket of the container engine, when it is
  known, goes to the node registration and, through the alias, to the package variable.
\<close>

definition set_cri_socket :: "string \<Rightarrow> (world, string) state" where
  "set_cri_socket engine =
     (case map_of DefaultCriSocket engine of
        None \<Rightarrow> ret []
      | Some socket \<Rightarrow> do {
          _ \<leftarrow> State (\<lambda>w. ((), w\<lparr>kubelet_settings :=
                 AList.update ''container-runtime-endpoint'' (''unix://'' @ socket) (kubelet_settings w)\<rparr>));
          ret socket
        })"

definition node_registration :: "string \<Rightarrow> (world, NodeRegistrationOptions) state" where
  "node_registration engine = do {
     socket \<leftarrow> set_cri_socket engine;
     settings \<leftarrow> State (\<lambda>w. (kubelet_settings w, w));
     ret \<lparr>KubeletExtraArgs = settings, CRISocket = socket\<rparr>
   }"

section \<open>kubeadm init\<close>

definition nonEmpty :: "string \<Rightarrow> string \<Rightarrow> string" where
  "nonEmpty a b = (if 0 < length a then a else b)"

definition init_base :: "KubicInitConfiguration \<Rightarrow> (string \<times> bool) list \<Rightarrow> InitConfiguration" where
  "init_base c featureGates =
     \<lparr>ccCluster =
        \<lparr>ControlPlaneEndpoint = ExternalFqdn (Dns (Network c)),
         FeatureGates = featureGates,
         CertSANs = [],
         apiExtraArgs =
           [(''oidc-client-id'', nonEmpty (ClientID (OIDC (Auth c))) DefaultOIDCClientID),
            (''oidc-ca-file'', nonEmpty (CA (OIDC (Auth c))) DefaultCertCA),
            (''oidc-username-claim'', nonEmpty (Username (OIDC (Auth c))) DefaultOIDCUsernameClaim),
            (''oidc-groups-claim'', nonEmpty (Groups (OIDC (Auth c))) DefaultOIDCGroupsClaim)],
         KubernetesVersion = DefaultKubernetesVersion,
         ccPodSubnet = PodSubnet (Network c),
         ccServiceSubnet = ServiceSubnet (Network c),
         DNSDomain = [],
         ccLocalEtcd =
           (case LocalEtcd (Etcd c) of
              None \<Rightarrow> None | Some _ \<Rightarrow> Some (DefaultEtdcImageRepo, DefaultEtdcImageTag))\<rparr>,
      initNodeRegistration = \<lparr>KubeletExtraArgs = [], CRISocket = []\<rparr>,
      AdvertiseAddress = [],
      BootstrapTokens = []\<rparr>"

definition on_cluster :: "(ClusterConfiguration \<Rightarrow> ClusterConfiguration) \<Rightarrow> InitConfiguration \<Rightarrow> InitConfiguration" where
  "on_cluster f i = i\<lparr>ccCluster := f (ccCluster i)\<rparr>"

definition add_san :: "string \<Rightarrow> InitConfiguration \<Rightarrow> InitConfiguration" where
  "add_san s = on_cluster (\<lambda>cc. cc\<lparr>CertSANs := CertSANs cc @ [s]\<rparr>)"

definition init_issuer :: "os_env \<Rightarrow> KubicInitConfiguration \<Rightarrow> (world, string outcome) state" where
  "init_issuer E c =
     (if 0 < length (Issuer (OIDC (Auth c))) then ret (Ok (Issuer (OIDC (Auth c))))
      else andthen (GetPublicAPIAddress E c) (\<lambda>public.
        ret (Ok (''https://'' @ public @ '':'' @ dec_str DefaultDexIssuerPort))))"

definition init_bind :: "KubicInitConfiguration \<Rightarrow> InitConfiguration \<Rightarrow> InitConfiguration" where
  "init_bind c i =
     (let a = Address (Bind (Network c)) in
      if 0 < length a \<and> a \<noteq> ''127.0.0.1'' then add_san a (i\<lparr>AdvertiseAddress := a\<rparr>) else i)"

definition init_token :: "kubeadm_lib \<Rightarrow> KubicInitConfiguration \<Rightarrow> InitConfiguration \<Rightarrow> InitConfiguration outcome" where
  "init_token K c i =
     (if 0 < length (Token (ClusterFormation c)) then
        (case new_bootstrap_token K (Token (ClusterFormation c)) of
           Inl err \<Rightarrow> Err err | Inr t \<Rightarrow> Ok (i\<lparr>BootstrapTokens := [t]\<rparr>))
      else Ok i)"

definition init_dns :: "KubicInitConfiguration \<Rightarrow> InitConfiguration \<Rightarrow> InitConfiguration" where
  "init_dns c i =
     (let d = Dns (Network c);
          i = (if 0 < length (Domain d) then on_cluster (\<lambda>cc. cc\<lparr>DNSDomain := Domain d\<rparr>) i else i) in
      if 0 < length (ExternalFqdn d) then add_san (ExternalFqdn d) i else i)"

definition marshal_init_files :: "kubeadm_lib \<Rightarrow> InitConfiguration \<Rightarrow> string outcome" where
  "marshal_init_files K i =
     (case marshal_init K i of
        Inl err \<Rightarrow> Err err
      | Inr initbytes \<Rightarrow>
          (case marshal_cluster K i of
             Inl err \<Rightarrow> Err err
           | Inr clusterbytes \<Rightarrow> Ok (str_join [initbytes, clusterbytes] (yaml_separator K))))"

text \<open>The object that is marshalled, and its marshalling.\<close>

definition init_configuration :: "kubeadm_lib \<Rightarrow> os_env \<Rightarrow> KubicInitConfiguration \<Rightarrow> (string \<times> bool) list \<Rightarrow>
    (world, InitConfiguration outcome) state" where
  "init_configuration K E c featureGates =
     andthen (init_issuer E c) (\<lambda>url.
     andthen (ret (init_token K c (init_bind c (on_cluster
         (\<lambda>cc. cc\<lparr>apiExtraArgs := AList.update ''oidc-issuer-url'' url (apiExtraArgs cc)\<rparr>)
         (init_base c featureGates))))) (\<lambda>i. do {
       reg \<leftarrow> node_registration (Engine (Runtime c));
       ret (Ok ((init_dns c i)\<lparr>initNodeRegistration := reg\<rparr>))
     }))"

definition toInitConfig :: "kubeadm_lib \<Rightarrow> os_env \<Rightarrow> toKubeadmConfig" where
  "toInitConfig K E c featureGates =
     andthen (init_configuration K E c featureGates) (\<lambda>i. ret (marshal_init_files K i))"

definition NewInit :: "kubeadm_lib \<Rightarrow> os_env \<Rightarrow> KubicInitConfiguration \<Rightarrow> string list \<Rightarrow> (world, unit outcome) state" where
  "NewInit K E c args =
     andthen (ret (getIgnorePreflightArg K)) (\<lambda>ignore.
       kubeadmCmd K E ''init'' c (Some (toInitConfig K E)) (args @ [ignore, getVerboseArg]))"

section \<open>kubeadm join\<close>

definition join_discovery :: "KubicInitConfiguration \<Rightarrow> BootstrapTokenDiscovery" where
  "join_discovery c =
     \<lparr>APIServerEndpoint = Seeder (ClusterFormation c), discoveryToken = Token (ClusterFormation c),
      CACertHashes = [], UnsafeSkipCAVerification = (length (CaHash (Certificates c)) = 0)\<rparr>"

definition join_configuration :: "KubicInitConfiguration \<Rightarrow> (world, JoinConfiguration) state" where
  "join_configuration c = do {
     reg \<leftarrow> node_registration (Engine (Runtime c));
     ret \<lparr>joinNodeRegistration = reg, joinBootstrapToken = join_discovery c\<rparr>
   }"

definition toJoinConfig :: "kubeadm_lib \<Rightarrow> toKubeadmConfig" where
  "toJoinConfig K c featureGates = do {
     j \<leftarrow> join_configuration c;
     ret (of_sum (marshal_join K j))
   }"

definition NewJoin :: "kubeadm_lib \<Rightarrow> os_env \<Rightarrow> KubicInitConfiguration \<Rightarrow> string list \<Rightarrow> (world, unit outcome) state" where
  "NewJoin K E c args =
     andthen (ret (getIgnorePreflightArg K)) (\<lambda>ignore.
       kubeadmCmd K E ''join'' c (Some (toJoinConfig K)) (args @ [ignore, getVerboseArg]))"

section \<open>kubeadm reset\<close>

text \<open>Looking up an unknown engine gives the empty string.\<close>

definition NewReset :: "kubeadm_lib \<Rightarrow> os_env \<Rightarrow> KubicInitConfiguration \<Rightarrow> string list \<Rightarrow> (world, unit outcome) state" where
  "NewReset K E c args =
     (let criSocket = (case map_of DefaultCriSocket (Engine (Runtime c)) of None \<Rightarrow> [] | Some s \<Rightarrow> s);
          pkiDir = Directory (Certificates c) in
      andthen (ret (getIgnorePreflightArg K)) (\<lambda>ignore.
        kubeadmCmd K E ''reset'' c None
          ([''--cri-socket='' @ criSocket, ''--cert-dir='' @ pkiDir, ''--force'', ignore, getVerboseArg] @ args)))"

section \<open>The contract of a configurer\<close>

text \<open>
  What \<open>kubeadmCmd\<close> may rely on in the function that makes the configuration: the only outside
  question it asks is the address of the host, and the only kubelet argument it changes is the endpoint
  of the container engine. Both configurers of the program keep it.
\<close>

definition asks_host :: "call \<Rightarrow> bool" where
  "asks_host c = (c = NetChooseHostInterface)"

definition kubeadm_call :: "string \<Rightarrow> call \<Rightarrow> bool" where
  "kubeadm_call path c =
     (case c of
        OsTempFile _ \<Rightarrow> True | OsWriteTemp _ _ \<Rightarrow> True | OsRemove _ \<Rightarrow> True | OsExec p _ \<Rightarrow> p = path
      | NetChooseHostInterface \<Rightarrow> True | _ \<Rightarrow> False)"

locale kubeadm_configurer =
  fixes conf :: toKubeadmConfig
  assumes conf_calls: "calls_only asks_host (conf c gates)"
    and conf_settings: "k \<noteq> ''container-runtime-endpoint'' \<Longrightarrow>
      map_of (kubelet_settings (snd (run_state (conf c gates) w))) k = map_of (kubelet_settings w) k"
begin

lemma cmd_calls: "calls_only (kubeadm_call (Kubeadm (Paths c))) (kubeadmCmd K E name c (Some conf) args)"
proof -
  have conf: "calls_only (kubeadm_call (Kubeadm (Paths c))) (conf c gates)" for gates
    by (rule calls_only_mono [OF conf_calls]) (simp add: asks_host_def kubeadm_call_def)
  show ?thesis
    unfolding kubeadmCmd_def deferring_remove_def TempFile_def WriteTemp_def RemoveFile_def Exec_def Let_def
    by (auto split: sum.splits simp: kubeadm_call_def intro!: calls_intros conf)
qed

text \<open>
  The life of the configuration file: created first, removed last on every way out, and the command is
  run on it, once, in between.
\<close>

lemma cmd_run:
  assumes "new_feature_gate K DefaultFeatureGates = Inr gates"
    and "os_temp_file E (history w) kubeadmConfigTemplate = Inr f"
    and "run_state (conf c gates) (w\<lparr>history := history w @ [OsTempFile kubeadmConfigTemplate]\<rparr>) = (r, w1)"
  shows "history (snd (run_state (kubeadmCmd K E name c (Some conf) args) w)) =
    history w1 @ (case r of Ok b \<Rightarrow> [OsWriteTemp f b, OsExec (Kubeadm (Paths c)) ([name] @ args @ [''--config='' @ f])]
                          | _ \<Rightarrow> []) @ [OsRemove f]"
  using assms
  by (cases r) (auto simp: kubeadmCmd_def deferring_remove_def TempFile_def WriteTemp_def RemoveFile_def
      Exec_def Let_def)

text \<open>A command that succeeds has made its configuration, and ran on it.\<close>

lemma cmd_Ok:
  assumes "run_state (kubeadmCmd K E name c (Some conf) args) w = (Ok (), w')"
  obtains gates f b w1 where "new_feature_gate K DefaultFeatureGates = Inr gates"
    and "run_state (conf c gates) (w\<lparr>history := history w @ [OsTempFile kubeadmConfigTemplate]\<rparr>) = (Ok b, w1)"
    and "history w' = history w1 @
      [OsWriteTemp f b, OsExec (Kubeadm (Paths c)) ([name] @ args @ [''--config='' @ f]), OsRemove f]"
proof -
  obtain gates f where gates: "new_feature_gate K DefaultFeatureGates = Inr gates"
    and f: "os_temp_file E (history w) kubeadmConfigTemplate = Inr f"
    using assms by (auto simp: kubeadmCmd_def TempFile_def run_andthen of_sum_def Let_def split: sum.splits)
  let ?w = "w\<lparr>history := history w @ [OsTempFile kubeadmConfigTemplate]\<rparr>"
  obtain r w1 where r: "run_state (conf c gates) ?w = (r, w1)" by fastforce
  have "\<exists>b. r = Ok b"
    using assms gates f r
    by (cases r) (auto simp: kubeadmCmd_def TempFile_def deferring_remove_def RemoveFile_def Let_def)
  then obtain b where "r = Ok b" ..
  then show thesis using that [OF gates] r cmd_run [OF gates f r, of name args] assms by simp
qed

lemma cmd_history:
  assumes "new_feature_gate K DefaultFeatureGates = Inr gates"
    and "os_temp_file E (history w) kubeadmConfigTemplate = Inr f"
  shows "\<exists>cs run. history (snd (run_state (kubeadmCmd K E name c (Some conf) args) w)) =
      history w @ [OsTempFile kubeadmConfigTemplate] @ cs @ run @ [OsRemove f]
    \<and> list_all asks_host cs
    \<and> run = (case fst (run_state (conf c gates) (w\<lparr>history := history w @ [OsTempFile kubeadmConfigTemplate]\<rparr>)) of
               Ok b \<Rightarrow> [OsWriteTemp f b, OsExec (Kubeadm (Paths c)) ([name] @ args @ [''--config='' @ f])] | _ \<Rightarrow> [])"
proof -
  let ?w = "w\<lparr>history := history w @ [OsTempFile kubeadmConfigTemplate]\<rparr>"
  obtain r w1 where r: "run_state (conf c gates) ?w = (r, w1)" by fastforce
  obtain cs where cs: "history w1 = history ?w @ cs" "list_all asks_host cs"
    using calls_onlyD [OF conf_calls r] by (auto simp: hist_ext_def)
  show ?thesis using cs unfolding cmd_run [OF assms r] by (auto simp: r split: outcome.split)
qed

lemma cmd_settings:
  assumes "k \<noteq> ''container-runtime-endpoint''"
  shows "map_of (kubelet_settings (snd (run_state (kubeadmCmd K E name c (Some conf) args) w))) k =
    map_of (kubelet_settings w) k"
proof -
  have st: "map_of (kubelet_settings w1) k = map_of (kubelet_settings w0) k"
    if "run_state (conf c gates) w0 = (r, w1)" for gates w0 r w1
    using conf_settings [OF assms, of c gates w0] that by simp
  then show ?thesis
    by (auto simp: kubeadmCmd_def deferring_remove_def TempFile_def WriteTemp_def RemoveFile_def Exec_def
        run_andthen Let_def split: sum.splits prod.splits outcome.splits dest!: st)
qed

end

lemma run_set_cri_socket:
  "run_state (set_cri_socket e) w =
     (case map_of DefaultCriSocket e of
        None \<Rightarrow> ([], w)
      | Some s \<Rightarrow> (s, w\<lparr>kubelet_settings :=
            AList.update ''container-runtime-endpoint'' (''unix://'' @ s) (kubelet_settings w)\<rparr>))"
  by (simp add: set_cri_socket_def split: option.splits)

lemma run_node_registration:
  "run_state (node_registration e) w =
     (case map_of DefaultCriSocket e of
        None \<Rightarrow> (\<lparr>KubeletExtraArgs = kubelet_settings w, CRISocket = []\<rparr>, w)
      | Some s \<Rightarrow>
          (let l = AList.update ''container-runtime-endpoint'' (''unix://'' @ s) (kubelet_settings w) in
           (\<lparr>KubeletExtraArgs = l, CRISocket = s\<rparr>, w\<lparr>kubelet_settings := l\<rparr>)))"
  by (simp add: node_registration_def run_set_cri_socket Let_def split: option.splits)

lemma node_registration_calls [calls_intros]: "calls_only P (node_registration e)"
  by (auto simp: calls_only_iff run_node_registration hist_ext_def Let_def split: option.splits)

lemma node_registration_settings:
  "k \<noteq> ''container-runtime-endpoint'' \<Longrightarrow>
     map_of (kubelet_settings (snd (run_state (node_registration e) w))) k = map_of (kubelet_settings w) k"
  by (simp add: run_node_registration Let_def update_conv' split: option.splits)

lemma init_issuer_calls [calls_intros]: "calls_only asks_host (init_issuer E c)"
  unfolding init_issuer_def GetPublicAPIAddress_def ChooseHostInterface_def
  by (intro calls_intros) (simp add: asks_host_def)

lemma init_issuer_settings [simp]:
  "kubelet_settings (snd (run_state (init_issuer E c) w)) = kubelet_settings w"
  by (simp add: init_issuer_def GetPublicAPIAddress_def ChooseHostInterface_def run_andthen
      split: outcome.splits)

lemma settingsD:
  "run_state (init_issuer E c) w = (r, w') \<Longrightarrow> kubelet_settings w' = kubelet_settings w"
  "run_state (node_registration e) w = (q, w') \<Longrightarrow> k \<noteq> ''container-runtime-endpoint'' \<Longrightarrow>
     map_of (kubelet_settings w') k = map_of (kubelet_settings w) k"
  using init_issuer_settings [of E c w] node_registration_settings [of k e w] by simp_all

interpretation init_configurer: kubeadm_configurer "toInitConfig K E" for K E
proof
  show "calls_only asks_host (toInitConfig K E c gates)" for c gates
    unfolding toInitConfig_def init_configuration_def by (intro calls_intros)
  show "map_of (kubelet_settings (snd (run_state (toInitConfig K E c gates) w))) k = map_of (kubelet_settings w) k"
    if "k \<noteq> ''container-runtime-endpoint''" for k c gates w
    using that
    by (auto simp: toInitConfig_def init_configuration_def run_andthen split: prod.splits outcome.splits
        dest!: settingsD)
qed

interpretation join_configurer: kubeadm_configurer "toJoinConfig K" for K
proof
  show "calls_only asks_host (toJoinConfig K c gates)" for c gates
    unfolding toJoinConfig_def join_configuration_def by (intro calls_intros)
  show "map_of (kubelet_settings (snd (run_state (toJoinConfig K c gates) w))) k = map_of (kubelet_settings w) k"
    if "k \<noteq> ''container-runtime-endpoint''" for k c gates w
    using node_registration_settings [OF that]
    by (simp add: toJoinConfig_def join_configuration_def case_prod_unfold)
qed

section \<open>Properties of the commands\<close>

lemma run_toJoinConfig:
  "run_state (toJoinConfig K c gates) w =
     (let (reg, w1) = run_state (node_registration (Engine (Runtime c))) w in
      (of_sum (marshal_join K \<lparr>joinNodeRegistration = reg, joinBootstrapToken = join_discovery c\<rparr>), w1))"
  by (simp add: toJoinConfig_def join_configuration_def case_prod_unfold Let_def)

lemma init_issuer_Ok:
  assumes "run_state (init_issuer E c) w = (Ok url, w')"
  shows "url = (if Issuer (OIDC (Auth c)) \<noteq> [] then Issuer (OIDC (Auth c))
      else ''https://'' @
        (if ExternalFqdn (Dns (Network c)) \<noteq> [] then ExternalFqdn (Dns (Network c))
         else projr (os_host_interface E (history w))) @ '':32000'')"
proof -
  have "dec_str DefaultDexIssuerPort = ''32000''" by (simp add: DefaultDexIssuerPort_def dec_str.simps digit_char_def)
  then show ?thesis
    using assms
    by (auto simp: init_issuer_def GetPublicAPIAddress_def ChooseHostInterface_def of_sum_def run_andthen
        split: if_splits sum.splits)
qed

lemma init_token_Ok:
  "init_token K c i = Ok j \<Longrightarrow>
     (if Token (ClusterFormation c) = [] then j = i
      else \<exists>t. new_bootstrap_token K (Token (ClusterFormation c)) = Inr t \<and> j = i\<lparr>BootstrapTokens := [t]\<rparr>)"
  by (auto simp: init_token_def split: if_splits sum.splits)

lemma node_registration_history [simp]:
  "history (snd (run_state (node_registration e) w)) = history w"
  by (simp add: run_node_registration Let_def split: option.splits)

lemma run_getIgnorePreflightArg:
  "validate_preflight K DefaultIgnoredPreflightErrors = Inr l \<Longrightarrow>
     getIgnorePreflightArg K = Ok (''--ignore-preflight-errors='' @ str_join l '','')"
  by (simp add: getIgnorePreflightArg_def)

text \<open>
  C24. What joining a cluster does outside: it creates the temporary file, and when the configuration
  can be marshalled writes it there and runs \<open>kubeadm join\<close>, once, with the caller's arguments first and
  the file last; the file is removed at the end in every case. Nothing else happens, in particular no
  call to the API server.
\<close>

theorem NewJoin_calls:
  assumes "new_feature_gate K DefaultFeatureGates = Inr gates"
    and "validate_preflight K DefaultIgnoredPreflightErrors = Inr errs"
  shows "calls_of (NewJoin K E c args) w =
    OsTempFile kubeadmConfigTemplate #
    (case os_temp_file E (history w) kubeadmConfigTemplate of
       Inl e \<Rightarrow> []
     | Inr f \<Rightarrow>
         (case marshal_join K (fst (run_state (join_configuration c) w)) of
            Inl e \<Rightarrow> []
          | Inr b \<Rightarrow>
              [OsWriteTemp f b,
               OsExec (Kubeadm (Paths c)) ([''join''] @ args @
                 [''--ignore-preflight-errors='' @ str_join errs '','', ''--v=3'', ''--config='' @ f])])
         @ [OsRemove f])"
proof (cases "os_temp_file E (history w) kubeadmConfigTemplate")
  case (Inl e)
  then show ?thesis
    using assms
    by (simp add: calls_of_def NewJoin_def run_getIgnorePreflightArg kubeadmCmd_def TempFile_def run_andthen Let_def)
next
  case (Inr f)
  let ?w = "w\<lparr>history := history w @ [OsTempFile kubeadmConfigTemplate]\<rparr>"
  obtain r w1 where r: "run_state (toJoinConfig K c gates) ?w = (r, w1)" by fastforce
  have reg: "run_state (node_registration e) ?w =
      (fst (run_state (node_registration e) w),
       (snd (run_state (node_registration e) w))\<lparr>history := history ?w\<rparr>)" for e
    by (simp add: run_node_registration Let_def split: option.splits)
  have w1: "history w1 = history ?w"
    and rr: "r = of_sum (marshal_join K (fst (run_state (join_configuration c) w)))"
    using r by (auto simp: run_toJoinConfig reg join_configuration_def case_prod_unfold Let_def)
  show ?thesis
    using join_configurer.cmd_run [OF assms(1) Inr r]
    by (simp add: calls_of_def NewJoin_def run_getIgnorePreflightArg [OF assms(2)] run_andthen w1 rr Inr
        getVerboseArg_def split: sum.splits)
qed

text \<open>
  C25. Initialising a cluster cleans up: once the temporary file exists, \<open>NewInit\<close> ends by removing it
  whatever fails in between; before that it asks for the address of the host at most, and it runs
  \<open>kubeadm\<close> at most once, on that file and only after the configuration was written to it.
\<close>

theorem NewInit_temp_file:
  assumes "new_feature_gate K DefaultFeatureGates = Inr gates"
    and "validate_preflight K DefaultIgnoredPreflightErrors = Inr errs"
    and "os_temp_file E (history w) kubeadmConfigTemplate = Inr f"
  shows "\<exists>cs run. calls_of (NewInit K E c args) w = [OsTempFile kubeadmConfigTemplate] @ cs @ run @ [OsRemove f]
    \<and> list_all asks_host cs
    \<and> (run = [] \<or>
       (\<exists>b. run = [OsWriteTemp f b,
           OsExec (Kubeadm (Paths c)) ([''init''] @ args @
             [''--ignore-preflight-errors='' @ str_join errs '','', ''--v=3'', ''--config='' @ f])]))"
proof -
  let ?args = "args @ [''--ignore-preflight-errors='' @ str_join errs '','', getVerboseArg]"
  obtain cs run where "history (snd (run_state (kubeadmCmd K E ''init'' c (Some (toInitConfig K E)) ?args) w)) =
      history w @ [OsTempFile kubeadmConfigTemplate] @ cs @ run @ [OsRemove f]"
    and cs: "list_all asks_host cs"
    and run: "run = (case fst (run_state (toInitConfig K E c gates)
                (w\<lparr>history := history w @ [OsTempFile kubeadmConfigTemplate]\<rparr>)) of
       Ok b \<Rightarrow> [OsWriteTemp f b, OsExec (Kubeadm (Paths c)) ([''init''] @ ?args @ [''--config='' @ f])] | _ \<Rightarrow> [])"
    using init_configurer.cmd_history [OF assms(1,3)] by blast
  then have "calls_of (NewInit K E c args) w = [OsTempFile kubeadmConfigTemplate] @ cs @ run @ [OsRemove f]"
    by (simp add: calls_of_def NewInit_def run_andthen run_getIgnorePreflightArg [OF assms(2)])
  moreover have "run = [] \<or> (\<exists>b. run = [OsWriteTemp f b,
           OsExec (Kubeadm (Paths c)) ([''init''] @ args @
             [''--ignore-preflight-errors='' @ str_join errs '','', ''--v=3'', ''--config='' @ f])])"
    unfolding run by (simp add: getVerboseArg_def split: outcome.split)
  ultimately show ?thesis using cs by blast
qed

lemma run_init_configuration:
  assumes "run_state (init_configuration K E c gates) w = (Ok i, w')"
  shows "\<exists>tokens.
      (if Token (ClusterFormation c) = [] then tokens = []
       else \<exists>t. new_bootstrap_token K (Token (ClusterFormation c)) = Inr t \<and> tokens = [t])
    \<and> i = \<lparr>ccCluster =
            \<lparr>ControlPlaneEndpoint = ExternalFqdn (Dns (Network c)),
             FeatureGates = gates,
             CertSANs =
               (let a = Address (Bind (Network c)) in if a = [] \<or> a = ''127.0.0.1'' then [] else [a]) @
               (let f = ExternalFqdn (Dns (Network c)) in if f = [] then [] else [f]),
             apiExtraArgs =
               [(''oidc-client-id'', let s = ClientID (OIDC (Auth c)) in if s = [] then ''kubernetes'' else s),
                (''oidc-ca-file'', let s = CA (OIDC (Auth c)) in if s = [] then ''/etc/kubernetes/pki/ca.crt'' else s),
                (''oidc-username-claim'', let s = Username (OIDC (Auth c)) in if s = [] then ''email'' else s),
                (''oidc-groups-claim'', let s = Groups (OIDC (Auth c)) in if s = [] then ''group'' else s),
                (''oidc-issuer-url'',
                 if Issuer (OIDC (Auth c)) \<noteq> [] then Issuer (OIDC (Auth c))
                 else ''https://'' @
                   (if ExternalFqdn (Dns (Network c)) \<noteq> [] then ExternalFqdn (Dns (Network c))
                    else projr (os_host_interface E (history w))) @ '':32000'')],
             KubernetesVersion = ''1.12.2'',
             ccPodSubnet = PodSubnet (Network c),
             ccServiceSubnet = ServiceSubnet (Network c),
             DNSDomain = Domain (Dns (Network c)),
             ccLocalEtcd = map_option (\<lambda>_. (DefaultEtdcImageRepo, ''3.3'')) (LocalEtcd (Etcd c))\<rparr>,
           initNodeRegistration =
             \<lparr>KubeletExtraArgs = kubelet_settings w',
              CRISocket = (case map_of DefaultCriSocket (Engine (Runtime c)) of None \<Rightarrow> [] | Some s \<Rightarrow> s)\<rparr>,
           AdvertiseAddress = (let a = Address (Bind (Network c)) in if a = ''127.0.0.1'' then [] else a),
           BootstrapTokens = tokens\<rparr>
    \<and> kubelet_settings w' =
        (case map_of DefaultCriSocket (Engine (Runtime c)) of
           None \<Rightarrow> kubelet_settings w
         | Some s \<Rightarrow> AList.update ''container-runtime-endpoint'' (''unix://'' @ s) (kubelet_settings w))"
proof -
  obtain url w1 where url: "run_state (init_issuer E c) w = (Ok url, w1)"
    and rest: "run_state (andthen (ret (init_token K c (init_bind c (on_cluster
         (\<lambda>cc. cc\<lparr>apiExtraArgs := AList.update ''oidc-issuer-url'' url (apiExtraArgs cc)\<rparr>)
         (init_base c gates))))) (\<lambda>i. do {
       reg \<leftarrow> node_registration (Engine (Runtime c));
       ret (Ok ((init_dns c i)\<lparr>initNodeRegistration := reg\<rparr>))
     })) w1 = (Ok i, w')"
    using assms unfolding init_configuration_def by (rule andthen_OkE)
  have w1: "kubelet_settings w1 = kubelet_settings w" using url by (rule settingsD)
  obtain j where j: "init_token K c (init_bind c (on_cluster
         (\<lambda>cc. cc\<lparr>apiExtraArgs := AList.update ''oidc-issuer-url'' url (apiExtraArgs cc)\<rparr>)
         (init_base c gates))) = Ok j"
    and i: "i = (init_dns c j)\<lparr>initNodeRegistration := fst (run_state (node_registration (Engine (Runtime c))) w1)\<rparr>"
    and w': "w' = snd (run_state (node_registration (Engine (Runtime c))) w1)"
    using rest by (auto simp: run_andthen case_prod_unfold split: outcome.splits)
  have reg: "fst (run_state (node_registration (Engine (Runtime c))) w1) =
      \<lparr>KubeletExtraArgs = kubelet_settings w',
       CRISocket = (case map_of DefaultCriSocket (Engine (Runtime c)) of None \<Rightarrow> [] | Some s \<Rightarrow> s)\<rparr>"
    "kubelet_settings w' = (case map_of DefaultCriSocket (Engine (Runtime c)) of
           None \<Rightarrow> kubelet_settings w
         | Some s \<Rightarrow> AList.update ''container-runtime-endpoint'' (''unix://'' @ s) (kubelet_settings w))"
    unfolding w' by (simp_all add: run_node_registration w1 Let_def split: option.split)
  note defs = init_dns_def init_bind_def init_base_def add_san_def on_cluster_def nonEmpty_def Let_def
    DefaultOIDCClientID_def DefaultCertCA_def DefaultOIDCUsernameClaim_def DefaultOIDCGroupsClaim_def
    DefaultKubernetesVersion_def DefaultEtdcImageTag_def
  obtain tokens where "if Token (ClusterFormation c) = [] then tokens = []
      else \<exists>t. new_bootstrap_token K (Token (ClusterFormation c)) = Inr t \<and> tokens = [t]"
    and "j = (init_bind c (on_cluster
         (\<lambda>cc. cc\<lparr>apiExtraArgs := AList.update ''oidc-issuer-url'' url (apiExtraArgs cc)\<rparr>)
         (init_base c gates)))\<lparr>BootstrapTokens := tokens\<rparr>"
    using init_token_Ok [OF j] by (auto simp: init_bind_def init_base_def add_san_def on_cluster_def Let_def split: if_splits)
  then show ?thesis
    unfolding i reg(1) init_issuer_Ok [OF url, symmetric] using reg(2)
    by (intro exI [of _ tokens] conjI) (auto simp: defs split: option.split)
qed

text \<open>
  C26. The object handed to \<open>kubeadm init\<close>, every field of it: the control plane is reached under the
  external name; the certificate names are the bind address (unless it is empty or the loopback) and then
  the external name; the API server gets the five OIDC arguments, of the configuration where it has
  them, with the issuer falling back to Dex on the external name or on the address of the host; version,
  subnets and domain; the etcd image when a local etcd is configured; the bind address to advertise; the
  parsed token, if there is one; and the socket of a known engine, with the kubelet arguments that name it,
  which are the shared package variable itself.
\<close>

theorem init_configuration_fields:
  assumes "run_state (init_configuration K E c gates) w = (Ok i, w')"
  shows "\<exists>tokens.
      (if Token (ClusterFormation c) = [] then tokens = []
       else \<exists>t. new_bootstrap_token K (Token (ClusterFormation c)) = Inr t \<and> tokens = [t])
    \<and> i = \<lparr>ccCluster =
            \<lparr>ControlPlaneEndpoint = ExternalFqdn (Dns (Network c)),
             FeatureGates = gates,
             CertSANs =
               (let a = Address (Bind (Network c)) in if a = [] \<or> a = ''127.0.0.1'' then [] else [a]) @
               (let f = ExternalFqdn (Dns (Network c)) in if f = [] then [] else [f]),
             apiExtraArgs =
               [(''oidc-client-id'', let s = ClientID (OIDC (Auth c)) in if s = [] then ''kubernetes'' else s),
                (''oidc-ca-file'', let s = CA (OIDC (Auth c)) in if s = [] then ''/etc/kubernetes/pki/ca.crt'' else s),
                (''oidc-username-claim'', let s = Username (OIDC (Auth c)) in if s = [] then ''email'' else s),
                (''oidc-groups-claim'', let s = Groups (OIDC (Auth c)) in if s = [] then ''group'' else s),
                (''oidc-issuer-url'',
                 if Issuer (OIDC (Auth c)) \<noteq> [] then Issuer (OIDC (Auth c))
                 else ''https://'' @
                   (if ExternalFqdn (Dns (Network c)) \<noteq> [] then ExternalFqdn (Dns (Network c))
                    else projr (os_host_interface E (history w))) @ '':32000'')],
             KubernetesVersion = ''1.12.2'',
             ccPodSubnet = PodSubnet (Network c),
             ccServiceSubnet = ServiceSubnet (Network c),
             DNSDomain = Domain (Dns (Network c)),
             ccLocalEtcd = map_option (\<lambda>_. (DefaultEtdcImageRepo, ''3.3'')) (LocalEtcd (Etcd c))\<rparr>,
           initNodeRegistration =
             \<lparr>KubeletExtraArgs = kubelet_settings w',
              CRISocket = (case map_of DefaultCriSocket (Engine (Runtime c)) of None \<Rightarrow> [] | Some s \<Rightarrow> s)\<rparr>,
           AdvertiseAddress = (let a = Address (Bind (Network c)) in if a = ''127.0.0.1'' then [] else a),
           BootstrapTokens = tokens\<rparr>
    \<and> kubelet_settings w' =
        (case map_of DefaultCriSocket (Engine (Runtime c)) of
           None \<Rightarrow> kubelet_settings w
         | Some s \<Rightarrow> AList.update ''container-runtime-endpoint'' (''unix://'' @ s) (kubelet_settings w))"
  using assms by (rule run_init_configuration)

definition with_ca_hash :: "string \<Rightarrow> KubicInitConfiguration \<Rightarrow> KubicInitConfiguration" where
  "with_ca_hash h c = c\<lparr>Certificates := (Certificates c)\<lparr>CaHash := h\<rparr>\<rparr>"

lemma with_ca_hash_sel [simp]:
  "ClusterFormation (with_ca_hash h c) = ClusterFormation c" "Runtime (with_ca_hash h c) = Runtime c"
  "Paths (with_ca_hash h c) = Paths c" "CaHash (Certificates (with_ca_hash h c)) = h"
  by (simp_all add: with_ca_hash_def)

lemma toJoinConfig_hash:
  assumes "h1 \<noteq> []" and "h2 \<noteq> []"
  shows "toJoinConfig K (with_ca_hash h1 c) gates = toJoinConfig K (with_ca_hash h2 c) gates"
  using assms by (simp add: toJoinConfig_def join_configuration_def join_discovery_def)

lemma kubeadmCmd_cong:
  assumes "\<And>g. conf c g = conf' c' g" and "Kubeadm (Paths c) = Kubeadm (Paths c')"
  shows "kubeadmCmd K E name c (Some conf) args = kubeadmCmd K E name c' (Some conf') args"
  unfolding kubeadmCmd_def option.case assms ..

text \<open>
  The certificate hash is never used: configurations that differ in a non-empty \<open>CaHash\<close> only make
  \<open>NewJoin\<close> behave the same in every respect, since the object handed to kubeadm has no hashes; it only
  turns the unverified discovery off.
\<close>

theorem NewJoin_ignores_ca_hash:
  assumes "h1 \<noteq> []" and "h2 \<noteq> []"
  shows "run_state (NewJoin K E (with_ca_hash h1 c) args) w = run_state (NewJoin K E (with_ca_hash h2 c) args) w
    \<and> CACertHashes (join_discovery (with_ca_hash h1 c)) = []
    \<and> \<not> UnsafeSkipCAVerification (join_discovery (with_ca_hash h1 c))"
proof -
  have "kubeadmCmd K E ''join'' (with_ca_hash h1 c) (Some (toJoinConfig K)) as =
      kubeadmCmd K E ''join'' (with_ca_hash h2 c) (Some (toJoinConfig K)) as" for as
    by (rule kubeadmCmd_cong) (simp_all add: toJoinConfig_hash [OF assms])
  then show ?thesis using assms by (simp add: NewJoin_def join_discovery_def)
qed

text \<open>
  Resetting a node runs \<open>kubeadm reset\<close> once and does nothing else: no file is written; the socket is
  the one of the configured engine, and an engine that is not in the table gives an empty
  \<open>--cri-socket=\<close> instead of an error. The caller's arguments come last.
\<close>

theorem NewReset_calls:
  assumes "new_feature_gate K DefaultFeatureGates = Inr gates"
    and "validate_preflight K DefaultIgnoredPreflightErrors = Inr errs"
  shows "calls_of (NewReset K E c args) w =
    [OsExec (Kubeadm (Paths c))
      ([''reset'',
        ''--cri-socket='' @
          (if Engine (Runtime c) = ''docker'' then ''/var/run/dockershim.sock''
           else if Engine (Runtime c) = ''crio'' then ''/var/run/crio/crio.sock''
           else if Engine (Runtime c) = ''containerd'' then ''/var/run/containerd/containerd.sock''
           else []),
        ''--cert-dir='' @ Directory (Certificates c), ''--force'',
        ''--ignore-preflight-errors='' @ str_join errs '','', ''--v=3''] @ args)]"
proof -
  have "(case map_of DefaultCriSocket e of None \<Rightarrow> [] | Some s \<Rightarrow> s) =
      (if e = ''docker'' then ''/var/run/dockershim.sock''
       else if e = ''crio'' then ''/var/run/crio/crio.sock''
       else if e = ''containerd'' then ''/var/run/containerd/containerd.sock''
       else [])" for e
    by (simp add: DefaultCriSocket_def)
  then show ?thesis
    by (simp add: calls_of_def NewReset_def run_getIgnorePreflightArg [OF assms(2)] run_andthen kubeadmCmd_def
        assms(1) Exec_def Let_def getVerboseArg_def)
qed

section \<open>Concrete runs\<close>

definition demo_kubeadm :: kubeadm_lib where
  "demo_kubeadm =
     \<lparr>new_feature_gate = \<lambda>_. Inr [], validate_preflight = \<lambda>l. Inr [''port-10250'', ''swap''],
      new_bootstrap_token = \<lambda>t. Inr t, marshal_init = \<lambda>_. Inr ''init'', marshal_cluster = \<lambda>_. Inr ''cluster'',
      marshal_join = \<lambda>_. Inr ''join'', yaml_separator = ''---''\<rparr>"

lemma demo_kubeadm_sel [simp]:
  "new_feature_gate demo_kubeadm = (\<lambda>_. Inr [])"
  "validate_preflight demo_kubeadm = (\<lambda>l. Inr [''port-10250'', ''swap''])"
  "new_bootstrap_token demo_kubeadm = (\<lambda>t. Inr t)"
  "marshal_join demo_kubeadm = (\<lambda>_. Inr ''join'')"
  by (simp_all add: demo_kubeadm_def)

theorem NewJoin_calls_witness:
  "calls_of (NewJoin demo_kubeadm demo_os defaultConfiguration []) demo_world =
     [OsTempFile kubeadmConfigTemplate, OsWriteTemp ''/tmp/kubic-kubeadm.1.yaml'' ''join'',
      OsExec ''/usr/bin/kubeadm''
        [''join'', ''--ignore-preflight-errors=port-10250,swap'', ''--v=3'',
         ''--config=/tmp/kubic-kubeadm.1.yaml''],
      OsRemove ''/tmp/kubic-kubeadm.1.yaml'']"
  by (subst NewJoin_calls [where gates = "[]" and errs = "[''port-10250'', ''swap'']"])
    (simp_all add: defaultConfiguration_def DefaultKubeadmPath_def)

theorem NewInit_temp_file_witness:
  "\<exists>cs. calls_of (NewInit demo_kubeadm demo_os defaultConfiguration []) demo_world =
     [OsTempFile kubeadmConfigTemplate] @ cs @ [OsRemove ''/tmp/kubic-kubeadm.1.yaml'']"
proof -
  have "new_feature_gate demo_kubeadm DefaultFeatureGates = Inr []"
    and "validate_preflight demo_kubeadm DefaultIgnoredPreflightErrors = Inr [''port-10250'', ''swap'']"
    and "os_temp_file demo_os (history demo_world) kubeadmConfigTemplate = Inr ''/tmp/kubic-kubeadm.1.yaml''"
    by simp_all
  from NewInit_temp_file [OF this, of defaultConfiguration "[]"] show ?thesis by (metis append.assoc)
qed

lemma demo_init:
  "\<exists>i w'. run_state (init_configuration demo_kubeadm demo_os defaultConfiguration []) demo_world = (Ok i, w')"
  by (simp add: init_configuration_def init_issuer_def GetPublicAPIAddress_def IsSeeder_def
      ChooseHostInterface_def init_token_def run_andthen defaultConfiguration_def case_prod_unfold)

theorem init_configuration_fields_witness:
  "\<exists>(i :: InitConfiguration) (w' :: world). CertSANs (ccCluster i) = []
     \<and> map_of (apiExtraArgs (ccCluster i)) ''oidc-issuer-url'' = Some ''https://10.0.0.1:32000''
     \<and> map_of (kubelet_settings w') ''container-runtime-endpoint'' = Some ''unix:///var/run/crio/crio.sock''"
proof -
  obtain i w' where i: "run_state (init_configuration demo_kubeadm demo_os defaultConfiguration []) demo_world = (Ok i, w')"
    using demo_init by blast
  from init_configuration_fields [OF i] obtain tokens where "CertSANs (ccCluster i) = []"
    "map_of (apiExtraArgs (ccCluster i)) ''oidc-issuer-url'' = Some ''https://10.0.0.1:32000''"
    "kubelet_settings w' = AList.update ''container-runtime-endpoint'' ''unix:///var/run/crio/crio.sock'' (kubelet_settings demo_world)"
    by (auto simp: defaultConfiguration_def DefaultCriSocket_def DefaultRuntimeEngine_def)
  then show ?thesis by (intro exI [of _ i] exI [of _ w']) (simp add: update_conv')
qed

theorem NewJoin_ignores_ca_hash_witness:
  "run_state (NewJoin demo_kubeadm demo_os (with_ca_hash ''sha256:1'' defaultConfiguration) []) demo_world =
   run_state (NewJoin demo_kubeadm demo_os (with_ca_hash ''sha256:2'' defaultConfiguration) []) demo_world"
  by (rule conjunct1 [OF NewJoin_ignores_ca_hash]) simp_all

theorem NewReset_calls_witness:
  "calls_of (NewReset demo_kubeadm demo_os
       (defaultConfiguration\<lparr>Runtime := \<lparr>Engine = ''rkt''\<rparr>\<rparr>) []) demo_world =
     [OsExec ''/usr/bin/kubeadm''
        [''reset'', ''--cri-socket='', ''--cert-dir=/etc/kubernetes/pki'', ''--force'',
         ''--ignore-preflight-errors=port-10250,swap'', ''--v=3'']]"
  by (subst NewReset_calls [where gates = "[]" and errs = "[''port-10250'', ''swap'']"])
    (simp_all add: defaultConfiguration_def DefaultKubeadmPath_def DefaultCertsDirectory_def)

end
