(* ===== verification/Bootstrap.thy ===== *)
theory Bootstrap
  imports Cni Crds Kubeadm
begin

text \<open>
  The commands of cmd/kubic-init/main.go and the installation of all assets (\<open>InstallAllAssets\<close> of
  pkg/loader/loader.go). A command is a function of its flags, which theory Commands binds to the command line. An
  error that reaches \<open>CheckErr\<close> ends the process; it is the \<open>Err\<close> outcome of the command. Logging is
  left out.
\<close>

section \<open>All the assets\<close>

definition InstallAllAssets :: "load_deps \<Rightarrow> crd_lib \<Rightarrow> 't manifest_lib \<Rightarrow> opaque \<Rightarrow> KubicInitConfiguration \<Rightarrow>
    string \<Rightarrow> string \<Rightarrow> string \<Rightarrow> (world, unit outcome) state" where
  "InstallAllAssets L X M restCfg c manifDir crdsDir rbacDir =
     (let rbacDir = (if length rbacDir = 0 then DefaultKubicRBACDir else rbacDir);
          crdsDir = (if length crdsDir = 0 then DefaultKubicCRDDir else crdsDir);
          manifDir = (if length manifDir = 0 then DefaultKubicManifestsDir else manifDir) in
      andthen (InstallRBAC L restCfg
        \<lparr>InstallPaths = DefaultRBACDirs @ [rbacDir], ErrorIfPathMissing = False\<rparr>) (\<lambda>_.
      andthen (InstallCRDs X restCfg
        \<lparr>crdPaths = DefaultCRDsDirs @ [crdsDir], crdErrorIfPathMissing = False, maxTime = 0, pollEvery = 0\<rparr>) (\<lambda>_.
      InstallManifests (ld_os L) M c restCfg
        \<lparr>InstallPaths = DefaultManifestsDirs @ [manifDir], ErrorIfPathMissing = False\<rparr>)))"

section \<open>The commands\<close>

text \<open>The version data is set by the build.\<close>

record build_info =
  Version :: string
  Build :: string
  BuildDate :: string
  Branch :: string
  GoVersion :: string

record 't boot_env =
  be_config :: config_deps
  be_os :: os_env
  be_kubeadm :: kubeadm_lib
  be_admin_kubeconfig :: string
  be_connect :: "call list \<Rightarrow> string \<Rightarrow> goerr option"
  be_api :: kube_api
  be_flannel :: flannel_lib
  be_approve_binding :: string
  be_rest :: rest_env
  be_load :: load_deps
  be_crds :: crd_lib
  be_manifests :: "'t manifest_lib"
  be_build :: build_info

record boot_flags =
  kubicCfgFile :: string
  vars :: "string list"
  block :: bool
  deployCNI :: bool
  loadAssets :: bool
  crdsDir :: string
  rbacDir :: string
  postControlManifDir :: string

definition default_flags :: boot_flags where
  "default_flags =
     \<lparr>kubicCfgFile = [], vars = [], block = True, deployCNI = True, loadAssets = True,
      crdsDir = DefaultKubicCRDDir, rbacDir = DefaultKubicRBACDir,
      postControlManifDir = DefaultKubicManifestsDir\<rparr>"

definition load_config :: "'t boot_env \<Rightarrow> string \<Rightarrow> string list \<Rightarrow> (world, KubicInitConfiguration outcome) state" where
  "load_config B file vs =
     andthen (ConfigFileAndDefaultsToKubicInitConfig (be_config B) (be_os B) file) (\<lambda>c.
       ret (case SetVars (be_config B) c vs of
              (c', Ok _) \<Rightarrow> Ok c' | (c', Err e) \<Rightarrow> Err e | (c', Panic p) \<Rightarrow> Panic p))"

definition ClientSetFromFile :: "'t boot_env \<Rightarrow> string \<Rightarrow> (world, unit outcome) state" where
  "ClientSetFromFile B path = perform (\<lambda>h. of_err (be_connect B h path)) (ApiConnect path)"

text \<open>\<open>GetConfig\<close> is called with the package variables empty: no flag sets them.\<close>

definition after_init :: "'t boot_env \<Rightarrow> boot_flags \<Rightarrow> KubicInitConfiguration \<Rightarrow> (world, unit outcome) state" where
  "after_init B F c =
     andthen (ClientSetFromFile B (be_admin_kubeconfig B)) (\<lambda>_.
     andthen (ToConfigMap (be_config B) (be_api B) c DefaultKubicInitConfigmap
       [(''kubic-seeder-version'', Version (be_build B)), (''kubic-seeder-build'', Build (be_build B))]) (\<lambda>_.
     andthen (if \<not> AutoApprove (ClusterFormation c)
              then RemoveAutoApprovalRBAC (be_api B) (be_approve_binding B) else ret (Ok ())) (\<lambda>_.
     andthen (if deployCNI F
              then Load (Registry (be_flannel B) (be_api B)) (Driver (Cni (Network c))) c else ret (Ok ())) (\<lambda>_.
     if loadAssets F then
       andthen (GetConfig (be_os B) (be_rest B) [] []) (\<lambda>kubeconfig.
         InstallAllAssets (be_load B) (be_crds B) (be_manifests B) kubeconfig c
           (postControlManifDir F) (crdsDir F) (rbacDir F))
     else ret (Ok ())))))"

definition seed :: "'t boot_env \<Rightarrow> boot_flags \<Rightarrow> KubicInitConfiguration \<Rightarrow> (world, unit outcome) state" where
  "seed B F c = andthen (NewInit (be_kubeadm B) (be_os B) c []) (\<lambda>_. after_init B F c)"

definition bootstrap_node :: "'t boot_env \<Rightarrow> boot_flags \<Rightarrow> (world, unit outcome) state" where
  "bootstrap_node B F =
     andthen (load_config B (kubicCfgFile F) (vars F)) (\<lambda>c.
       if \<not> IsSeeder c then NewJoin (be_kubeadm B) (be_os B) c [] else seed B F c)"

text \<open>The final loop of the command; \<open>None\<close> is a command that does not return.\<close>

partial_function (option) sleep_forever :: "world \<Rightarrow> (unit outcome \<times> world) option" where
  "sleep_forever w = sleep_forever (snd (run_state (Sleep 1) w))"

definition newCmdBootstrap_run :: "'t boot_env \<Rightarrow> boot_flags \<Rightarrow> world \<Rightarrow> (unit outcome \<times> world) option" where
  "newCmdBootstrap_run B F w =
     (case run_state (bootstrap_node B F) w of
        (Ok _, w1) \<Rightarrow> if block F then sleep_forever w1 else Some (Ok (), w1)
      | (Err e, w1) \<Rightarrow> Some (Err e, w1)
      | (Panic p, w1) \<Rightarrow> Some (Panic p, w1))"

definition newCmdReset_run :: "'t boot_env \<Rightarrow> string \<Rightarrow> string list \<Rightarrow> (world, unit outcome) state" where
  "newCmdReset_run B file vs =
     andthen (load_config B file vs) (\<lambda>c. NewReset (be_kubeadm B) (be_os B) c [])"

definition newCmdVersion_run :: "build_info \<Rightarrow> string" where
  "newCmdVersion_run b =
     ''kubic-init: version: '' @ Version b @ [nl] @
     ''            build:   '' @ Build b @ [nl] @
     ''            date:    '' @ BuildDate b @ [nl] @
     ''            branch:  '' @ Branch b @ [nl] @
     ''            go:      '' @ GoVersion b @ [nl]"

section \<open>What the parts call\<close>

definition local_call :: "call \<Rightarrow> bool" where
  "local_call c =
     (case c of
        OsStat _ \<Rightarrow> True | OsReadFile _ \<Rightarrow> True | OsLookupEnv _ \<Rightarrow> True | OsTempFile _ \<Rightarrow> True
      | OsWriteTemp _ _ \<Rightarrow> True | OsRemove _ \<Rightarrow> True | OsExec _ _ \<Rightarrow> True
      | NetChooseHostInterface \<Rightarrow> True | _ \<Rightarrow> False)"

definition is_delete :: "call \<Rightarrow> bool" where
  "is_delete c = (case c of ApiDelete _ _ _ _ \<Rightarrow> True | _ \<Rightarrow> False)"

definition is_init :: "call \<Rightarrow> bool" where
  "is_init c = (case c of OsExec _ (a # _) \<Rightarrow> a = ''init'' | _ \<Rightarrow> False)"

definition config_call :: "call \<Rightarrow> bool" where
  "config_call c = (case c of OsStat _ \<Rightarrow> True | OsReadFile _ \<Rightarrow> True | OsLookupEnv _ \<Rightarrow> True | _ \<Rightarrow> False)"

lemma config_call_local: "config_call c \<Longrightarrow> local_call c \<and> \<not> is_init c"
  by (cases c) (auto simp: config_call_def local_call_def is_init_def)

lemma kubeadm_call_local: "kubeadm_call p c \<Longrightarrow> local_call c"
  by (cases c) (auto simp: kubeadm_call_def local_call_def)

lemma local_not_delete: "local_call c \<Longrightarrow> \<not> is_delete c"
  by (cases c) (auto simp: is_delete_def local_call_def)

lemma load_config_calls: "calls_only config_call (load_config B file vs)"
  unfolding load_config_def ConfigFileAndDefaultsToKubicInitConfig_def load_file_def override_def
    Stat_def ReadFile_def LookupEnv_def
  by (intro calls_intros) (simp_all add: config_call_def)

lemma NewInit_calls: "calls_only local_call (NewInit K E c args)"
  unfolding NewInit_def
  by (intro calls_intros calls_only_mono [OF init_configurer.cmd_calls kubeadm_call_local])

lemma NewJoin_calls_only: "calls_only local_call (NewJoin K E c args)"
  unfolding NewJoin_def
  by (intro calls_intros calls_only_mono [OF join_configurer.cmd_calls kubeadm_call_local])

text \<open>A successful \<open>kubeadm init\<close> has run the command.\<close>

lemma NewInit_Ok_ran:
  assumes "run_state (NewInit K E c args) w = (Ok (), w')"
  shows "\<exists>cs. history w' = history w @ cs \<and> list_all local_call cs \<and> list_ex is_init cs"
proof -
  obtain ignore where ignore: "getIgnorePreflightArg K = Ok ignore"
    and run: "run_state (kubeadmCmd K E ''init'' c (Some (toInitConfig K E)) (args @ [ignore, getVerboseArg])) w = (Ok (), w')"
    using assms unfolding NewInit_def by (auto elim!: andthen_OkE)
  from run obtain gates f b w1 where
    r: "run_state (toInitConfig K E c gates)
          (w\<lparr>history := history w @ [OsTempFile kubeadmConfigTemplate]\<rparr>) = (Ok b, w1)"
    and "history w' = history w1 @ [OsWriteTemp f b,
      OsExec (Kubeadm (Paths c)) ([''init''] @ (args @ [ignore, getVerboseArg]) @ [''--config='' @ f]), OsRemove f]"
    by (rule init_configurer.cmd_Ok)
  moreover obtain cs where "history w1 = history w @ [OsTempFile kubeadmConfigTemplate] @ cs" "list_all asks_host cs"
    using calls_onlyD [OF init_configurer.conf_calls r] by (auto simp: hist_ext_def)
  moreover have "hist_ext local_call w w'" by (rule calls_onlyD [OF NewInit_calls assms])
  ultimately show ?thesis by (auto simp: hist_ext_def is_init_def)
qed

lemma file_not_delete: "file_call c \<Longrightarrow> \<not> is_delete c"
  by (cases c) (auto simp: file_call_def is_delete_def)

lemma asset_not_delete:
  "rbac_call c \<Longrightarrow> \<not> is_delete c" "crd_call c \<Longrightarrow> \<not> is_delete c" "manifest_call c \<Longrightarrow> \<not> is_delete c"
  by (cases c; auto simp: rbac_call_def crd_call_def manifest_call_def file_call_def is_delete_def)+

lemma InstallAllAssets_no_delete:
  assumes "polls_immediately SleepMs (ld_poll L)" and "polls_immediately pause_waiting (crd_poll X)"
  shows "calls_only (\<lambda>c. \<not> is_delete c) (InstallAllAssets L X M cfg c md cd rd)"
  unfolding InstallAllAssets_def Let_def
  by (intro calls_intros calls_only_mono [OF InstallRBAC_calls_only [OF assms(1)] asset_not_delete(1)]
      calls_only_mono [OF InstallCRDs_calls_only [OF assms(2)] asset_not_delete(2)]
      calls_only_mono [OF InstallManifests_calls_only asset_not_delete(3)])

lemma EnsureFlannelAddon_no_delete: "calls_only (\<lambda>c. \<not> is_delete c) (EnsureFlannelAddon F A c)"
  unfolding EnsureFlannelAddon_def createServiceAccount_def CreateOrUpdateServiceAccount_def
    createFlannelAddon_def CreateOrUpdateConfigMap_def CreateOrUpdateDaemonSet_def createRBACRules_def
    CreateOrUpdateClusterRole_def CreateOrUpdateClusterRoleBinding_def
  by (intro calls_intros) (simp_all add: is_delete_def)

lemma Load_no_delete: "calls_only (\<lambda>c. \<not> is_delete c) (Load (Registry F A) name c)"
proof -
  have "Load (Registry F A) name c = (if name = ''flannel'' then EnsureFlannelAddon F A c else ret nil_deref)"
    unfolding Registry_def flannel_init_def by (rule cni.load_only)
  then show ?thesis using EnsureFlannelAddon_no_delete by (auto intro: calls_intros)
qed

lemma GetConfig_no_delete: "calls_only (\<lambda>c. \<not> is_delete c) (GetConfig E N m k)"
  unfolding GetConfig_def BuildConfigFromFlags_def Getenv_def LookupEnv_def InClusterConfig_def
    default_location_def CurrentUserHome_def
  by (auto intro!: calls_intros split: outcome.split) (simp_all add: is_delete_def)

text \<open>The documented behaviour of the two polling functions of an environment.\<close>

definition polls_ok :: "'t boot_env \<Rightarrow> bool" where
  "polls_ok B \<longleftrightarrow> polls_immediately SleepMs (ld_poll (be_load B))
     \<and> polls_immediately pause_waiting (crd_poll (be_crds B))"

lemma ToConfigMap_no_delete: "calls_only (\<lambda>c. \<not> is_delete c) (ToConfigMap D A c n ls)"
  unfolding ToConfigMap_def CreateOrUpdateConfigMap_def Let_def
  by (intro calls_intros) (simp add: is_delete_def)

lemma ClientSetFromFile_no_delete: "calls_only (\<lambda>c. \<not> is_delete c) (ClientSetFromFile B p)"
  unfolding ClientSetFromFile_def by (intro calls_intros) (simp add: is_delete_def)

lemma after_init_calls:
  assumes "polls_ok B"
  shows "calls_only (\<lambda>x. is_delete x \<longrightarrow>
      \<not> AutoApprove (ClusterFormation c) \<and> x = ApiDelete KClusterRoleBinding [] (be_approve_binding B) True)
    (after_init B F c)"
proof -
  note nodel = ClientSetFromFile_no_delete ToConfigMap_no_delete Load_no_delete GetConfig_no_delete
    InstallAllAssets_no_delete [OF conjunct1 [OF assms [unfolded polls_ok_def]] conjunct2 [OF assms [unfolded polls_ok_def]]]
  show ?thesis
    unfolding after_init_def
    by (auto intro!: calls_intros calls_only_mono [OF nodel(1)] calls_only_mono [OF nodel(2)]
        calls_only_mono [OF nodel(3)] calls_only_mono [OF nodel(4)] calls_only_mono [OF nodel(5)]
        simp: RemoveAutoApprovalRBAC_def)
qed

lemma after_init_extends: "polls_ok B \<Longrightarrow> calls_only (\<lambda>_. True) (after_init B F c)"
  by (rule calls_only_mono [OF after_init_calls]) simp_all

text \<open>The deletions of a run.\<close>

definition deletions :: "call list \<Rightarrow> call list" where
  "deletions cs = filter is_delete cs"

lemma deletions_append [simp]: "deletions (a @ b) = deletions a @ deletions b" "deletions [] = []"
  by (simp_all add: deletions_def)

lemma no_deletions: "hist_ext (\<lambda>c. \<not> is_delete c) w w' \<Longrightarrow> deletions (history w') = deletions (history w)"
  by (auto simp: hist_ext_def deletions_def list_all_iff)

lemma calls_no_deletions:
  "calls_only (\<lambda>c. \<not> is_delete c) m \<Longrightarrow> run_state m w = (r, w') \<Longrightarrow>
     deletions (history w') = deletions (history w)"
  by (rule no_deletions [OF calls_onlyD])

lemma local_no_deletions:
  "calls_only local_call m \<Longrightarrow> run_state m w = (r, w') \<Longrightarrow> deletions (history w') = deletions (history w)"
  by (rule calls_no_deletions [OF calls_only_mono [OF _ local_not_delete]])

lemma after_init_deletions:
  assumes "polls_ok B" and "run_state (after_init B F c) w = (Ok (), w')"
  shows "deletions (history w') = deletions (history w) @
    (if AutoApprove (ClusterFormation c) then []
     else [ApiDelete KClusterRoleBinding [] (be_approve_binding B) True])"
proof -
  note assets = InstallAllAssets_no_delete
    [OF conjunct1 [OF assms(1) [unfolded polls_ok_def]] conjunct2 [OF assms(1) [unfolded polls_ok_def]]]
  obtain w1 w2 w3 w4 where 1: "run_state (ClientSetFromFile B (be_admin_kubeconfig B)) w = (Ok (), w1)"
    and 2: "run_state (ToConfigMap (be_config B) (be_api B) c DefaultKubicInitConfigmap
        [(''kubic-seeder-version'', Version (be_build B)), (''kubic-seeder-build'', Build (be_build B))]) w1 = (Ok (), w2)"
    and 3: "run_state (if \<not> AutoApprove (ClusterFormation c)
        then RemoveAutoApprovalRBAC (be_api B) (be_approve_binding B) else ret (Ok ())) w2 = (Ok (), w3)"
    and 4: "run_state (if deployCNI F
        then Load (Registry (be_flannel B) (be_api B)) (Driver (Cni (Network c))) c else ret (Ok ())) w3 = (Ok (), w4)"
    and 5: "run_state (if loadAssets F then
        andthen (GetConfig (be_os B) (be_rest B) [] []) (\<lambda>kubeconfig.
          InstallAllAssets (be_load B) (be_crds B) (be_manifests B) kubeconfig c
            (postControlManifDir F) (crdsDir F) (rbacDir F))
      else ret (Ok ())) w4 = (Ok (), w')"
    using assms(2) unfolding after_init_def by (elim andthen_OkE) auto
  have "deletions (history w1) = deletions (history w)"
    by (rule calls_no_deletions [OF ClientSetFromFile_no_delete 1])
  moreover have "deletions (history w2) = deletions (history w1)"
    by (rule calls_no_deletions [OF ToConfigMap_no_delete 2])
  moreover have "deletions (history w3) = deletions (history w2) @
      (if AutoApprove (ClusterFormation c) then []
       else [ApiDelete KClusterRoleBinding [] (be_approve_binding B) True])"
    using 3 by (auto simp: RemoveAutoApprovalRBAC_def deletions_def is_delete_def split: if_splits)
  moreover have "deletions (history w4) = deletions (history w3)"
    by (rule calls_no_deletions [OF calls_only_if [OF Load_no_delete calls_only_return] 4])
  moreover have "deletions (history w') = deletions (history w4)"
    by (rule calls_no_deletions [OF calls_only_if [OF calls_only_andthen [OF GetConfig_no_delete assets]
          calls_only_return] 5])
  ultimately show ?thesis by simp
qed

text \<open>The last loop of the command does not end.\<close>

lemma sleep_forever_never_returns: "sleep_forever w = None"
proof -
  have "sleep_forever w = Some y \<Longrightarrow> False" for w y
    by (induction rule: sleep_forever.raw_induct [rotated 1, consumes 1]) assumption
  then show ?thesis by (cases "sleep_forever w") blast+
qed

end
