(* ===== verification/Commands.thy ===== *)
theory Commands
  imports Bootstrap
begin

text \<open>
  The command line of cmd/kubic-init/main.go: the flags the commands register, with the variables they
  are bound to and their defaults, the table of subcommands, and \<open>main\<close> with the exit code of the
  process. The parsers (cobra and pflag) are a parameter: they choose a subcommand and give the final
  value of each flag that occurs on the command line.
\<close>

section \<open>Flags\<close>

datatype flag_value = StrV string | BoolV bool | SliceV "string list"

text \<open>A flag of a command whose variables are the fields of a record \<open>'f\<close>.\<close>

record 'f flag =
  flagName :: string
  flagDefault :: flag_value
  flagUsage :: string
  flagVar :: "flag_value \<Rightarrow> 'f \<Rightarrow> 'f"

fun set_str :: "(string \<Rightarrow> 'f \<Rightarrow> 'f) \<Rightarrow> flag_value \<Rightarrow> 'f \<Rightarrow> 'f" where
  "set_str f (StrV s) F = f s F"
| "set_str f _ F = F"

fun set_bool :: "(bool \<Rightarrow> 'f \<Rightarrow> 'f) \<Rightarrow> flag_value \<Rightarrow> 'f \<Rightarrow> 'f" where
  "set_bool f (BoolV b) F = f b F"
| "set_bool f _ F = F"

fun set_slice :: "(string list \<Rightarrow> 'f \<Rightarrow> 'f) \<Rightarrow> flag_value \<Rightarrow> 'f \<Rightarrow> 'f" where
  "set_slice f (SliceV xs) F = f xs F"
| "set_slice f _ F = F"

definition StringVar :: "(string \<Rightarrow> 'f \<Rightarrow> 'f) \<Rightarrow> string \<Rightarrow> string \<Rightarrow> string \<Rightarrow> 'f flag" where
  "StringVar p name value usage =
     \<lparr>flagName = name, flagDefault = StrV value, flagUsage = usage, flagVar = set_str p\<rparr>"

definition BoolVar :: "(bool \<Rightarrow> 'f \<Rightarrow> 'f) \<Rightarrow> string \<Rightarrow> bool \<Rightarrow> string \<Rightarrow> 'f flag" where
  "BoolVar p name value usage =
     \<lparr>flagName = name, flagDefault = BoolV value, flagUsage = usage, flagVar = set_bool p\<rparr>"

definition StringSliceVar :: "(string list \<Rightarrow> 'f \<Rightarrow> 'f) \<Rightarrow> string \<Rightarrow> string list \<Rightarrow> string \<Rightarrow> 'f flag" where
  "StringSliceVar p name value usage =
     \<lparr>flagName = name, flagDefault = SliceV value, flagUsage = usage, flagVar = set_slice p\<rparr>"

lemmas flag_defs = StringVar_def BoolVar_def StringSliceVar_def

text \<open>Lines 145 to 155; the defaults are the initial values of the variables.\<close>

definition bootstrap_flagset :: "boot_flags flag list" where
  "bootstrap_flagset =
     [StringVar (\<lambda>v. kubicCfgFile_update (\<lambda>_. v)) ''config'' [] ''path to kubic-init config file.'',
      BoolVar (\<lambda>v. block_update (\<lambda>_. v)) ''block'' (block default_flags) ''block after boostrapping'',
      StringSliceVar (\<lambda>v. vars_update (\<lambda>_. v)) ''var'' []
        ''set a configuration variable (ie, Network.Cni.Driver=cilium'',
      BoolVar (\<lambda>v. deployCNI_update (\<lambda>_. v)) ''deploy-cni'' (deployCNI default_flags) ''deploy the CNI driver'',
      BoolVar (\<lambda>v. loadAssets_update (\<lambda>_. v)) ''load-assets'' (loadAssets default_flags)
        ''load the CRDs, RBACs and manifests'',
      StringVar (\<lambda>v. crdsDir_update (\<lambda>_. v)) ''crds-dir'' (crdsDir default_flags)
        ''load CRDs from this directory.'',
      StringVar (\<lambda>v. rbacDir_update (\<lambda>_. v)) ''rbac-dir'' (rbacDir default_flags)
        ''load RBACs from this directory.'',
      StringVar (\<lambda>v. postControlManifDir_update (\<lambda>_. v)) ''manif-dir'' (postControlManifDir default_flags)
        ''load manifests from this directory.'']"

record reset_flags =
  resetCfgFile :: string
  resetVars :: "string list"

definition reset_flagset :: "reset_flags flag list" where
  "reset_flagset =
     [StringVar (\<lambda>v. resetCfgFile_update (\<lambda>_. v)) ''config'' [] ''Path to kubic-init config file.'',
      StringSliceVar (\<lambda>v. resetVars_update (\<lambda>_. v)) ''var'' []
        ''Set a configuration variable (ie, Network.Cni.Driver=cilium'']"

text \<open>
  Registering a flag sets its variable to the default, and the parser sets it to the value given, if
  there is one.
\<close>

definition parse_flags :: "'f flag list \<Rightarrow> (string \<Rightarrow> flag_value option) \<Rightarrow> 'f \<Rightarrow> 'f" where
  "parse_flags fs given F =
     fold (\<lambda>fl. flagVar fl (case given (flagName fl) of None \<Rightarrow> flagDefault fl | Some v \<Rightarrow> v)) fs F"

section \<open>The program\<close>

text \<open>A command returns its outcome and what it prints on its output.\<close>

type_synonym command_run = "(string \<Rightarrow> flag_value option) \<Rightarrow> world \<Rightarrow> ((unit outcome \<times> string) \<times> world) option"

definition cmd_bootstrap :: "'t boot_env \<Rightarrow> command_run" where
  "cmd_bootstrap B given w =
     map_option (\<lambda>(r, w'). ((r, []), w'))
       (newCmdBootstrap_run B (parse_flags bootstrap_flagset given default_flags) w)"

definition cmd_reset :: "'t boot_env \<Rightarrow> command_run" where
  "cmd_reset B given w =
     (let F = parse_flags reset_flagset given \<lparr>resetCfgFile = [], resetVars = []\<rparr>;
          (r, w') = run_state (newCmdReset_run B (resetCfgFile F) (resetVars F)) w
      in Some ((r, []), w'))"

definition cmd_version :: "'t boot_env \<Rightarrow> command_run" where
  "cmd_version B given w = Some ((Ok (), newCmdVersion_run (be_build B)), w)"

text \<open>The fields of \<open>cobra.Command\<close> that the source sets.\<close>

record command =
  cmdUse :: string
  cmdShort :: string
  cmdRun :: command_run

definition newCmdBootstrap :: "'t boot_env \<Rightarrow> command" where
  "newCmdBootstrap B =
     \<lparr>cmdUse = ''bootstrap'',
      cmdShort = ''Bootstrap the node, either as a seeder or as a regular node depending on the '' @
        [CHR 0x27] @ ''seed'' @ [CHR 0x27] @ '' config argument.'',
      cmdRun = cmd_bootstrap B\<rparr>"

definition newCmdReset :: "'t boot_env \<Rightarrow> command" where
  "newCmdReset B =
     \<lparr>cmdUse = ''reset'', cmdShort = ''Run this to revert any changes made to this host by kubic-init.'',
      cmdRun = cmd_reset B\<rparr>"

definition newCmdVersion :: "'t boot_env \<Rightarrow> command" where
  "newCmdVersion B =
     \<lparr>cmdUse = ''version'', cmdShort = ''Print the version of kubic-init'', cmdRun = cmd_version B\<rparr>"

definition subcommands :: "'t boot_env \<Rightarrow> command list" where
  "subcommands B = [newCmdBootstrap B, newCmdReset B, newCmdVersion B]"

text \<open>
  \<open>Execute\<close> returns the error of the parser (or of an unknown subcommand), prints the help when there
  is no subcommand, or runs one. \<open>CheckErr\<close> ends the process inside a command with the code \<open>code e\<close>;
  a panic ends it with code 2. \<open>None\<close> is a process that does not end.
\<close>

definition main :: "'t boot_env \<Rightarrow> (goerr \<Rightarrow> nat) \<Rightarrow>
    (string list \<Rightarrow> goerr + (string \<times> (string \<Rightarrow> flag_value option)) option) \<Rightarrow>
    string list \<Rightarrow> world \<Rightarrow> (nat \<times> string \<times> world) option" where
  "main B code parse args w =
     (case parse args of
        Inl err \<Rightarrow> Some (1, [], w)
      | Inr None \<Rightarrow> Some (0, [], w)
      | Inr (Some (name, given)) \<Rightarrow>
          (case find (\<lambda>c. cmdUse c = name) (subcommands B) of
             None \<Rightarrow> Some (1, [], w)
           | Some cmd \<Rightarrow>
               (case cmdRun cmd given w of
                  None \<Rightarrow> None
                | Some ((r, out), w') \<Rightarrow>
                    Some (case r of Ok _ \<Rightarrow> 0 | Err e \<Rightarrow> code e | Panic _ \<Rightarrow> 2, out, w'))))"

section \<open>Properties of the command line\<close>

text \<open>No flag is registered twice, which would panic.\<close>

lemma flag_names_distinct:
  "distinct (map flagName bootstrap_flagset)" "distinct (map flagName reset_flagset)"
  by (simp_all add: bootstrap_flagset_def reset_flagset_def flag_defs)

lemma default_flags_kept: "parse_flags bootstrap_flagset (\<lambda>_. None) F = default_flags"
  by (simp add: parse_flags_def bootstrap_flagset_def flag_defs default_flags_def)

text \<open>What the parser guarantees: a value has the type its flag was registered with.\<close>

fun same_type :: "flag_value \<Rightarrow> flag_value \<Rightarrow> bool" where
  "same_type (StrV _) (StrV _) = True"
| "same_type (BoolV _) (BoolV _) = True"
| "same_type (SliceV _) (SliceV _) = True"
| "same_type _ _ = False"

definition typed_flags :: "'f flag list \<Rightarrow> (string \<Rightarrow> flag_value option) \<Rightarrow> bool" where
  "typed_flags fs given \<longleftrightarrow>
     list_all (\<lambda>fl. case given (flagName fl) of None \<Rightarrow> True | Some v \<Rightarrow> same_type (flagDefault fl) v) fs"

text \<open>The value of a flag's variable: what was given, or the default.\<close>

definition flag_of :: "(string \<Rightarrow> flag_value option) \<Rightarrow> string \<Rightarrow> flag_value \<Rightarrow> flag_value" where
  "flag_of given name value = (case given name of None \<Rightarrow> value | Some v \<Rightarrow> v)"

lemma parse_flags_Cons [simp]:
  "parse_flags [] given F = F"
  "parse_flags (fl # fs) given F = parse_flags fs given (flagVar fl (flag_of given (flagName fl) (flagDefault fl)) F)"
  by (simp_all add: parse_flags_def flag_of_def)

lemma typed_flags_Cons [simp]:
  "typed_flags [] given"
  "typed_flags (fl # fs) given \<longleftrightarrow> same_type (flagDefault fl) (flag_of given (flagName fl) (flagDefault fl))
     \<and> typed_flags fs given"
  by (cases "flagDefault fl"; auto simp: typed_flags_def flag_of_def split: option.split)+

fun_cases same_type_StrV: "same_type (StrV s) v"
fun_cases same_type_BoolV: "same_type (BoolV b) v"
fun_cases same_type_SliceV: "same_type (SliceV xs) v"

lemmas same_type_cases = same_type_StrV same_type_BoolV same_type_SliceV

text \<open>
  C31. Every flag of the bootstrap command reaches the variable it is meant for, and only that one: a
  variable has the value given for its flag, and its default when the flag is absent, whatever the other
  flags are.
\<close>

theorem bootstrap_flags_bound:
  assumes "typed_flags bootstrap_flagset given" and "F = parse_flags bootstrap_flagset given default_flags"
  shows "StrV (kubicCfgFile F) = flag_of given ''config'' (StrV [])
    \<and> SliceV (vars F) = flag_of given ''var'' (SliceV [])
    \<and> BoolV (block F) = flag_of given ''block'' (BoolV True)
    \<and> BoolV (deployCNI F) = flag_of given ''deploy-cni'' (BoolV True)
    \<and> BoolV (loadAssets F) = flag_of given ''load-assets'' (BoolV True)
    \<and> StrV (crdsDir F) = flag_of given ''crds-dir'' (StrV DefaultKubicCRDDir)
    \<and> StrV (rbacDir F) = flag_of given ''rbac-dir'' (StrV DefaultKubicRBACDir)
    \<and> StrV (postControlManifDir F) = flag_of given ''manif-dir'' (StrV DefaultKubicManifestsDir)"
  using assms unfolding bootstrap_flagset_def flag_defs
  by (auto simp: default_flags_def elim!: same_type_cases)

definition demo_given :: "string \<Rightarrow> flag_value option" where
  "demo_given = [''config'' \<mapsto> StrV ''kubic.yaml'', ''load-assets'' \<mapsto> BoolV False]"

theorem bootstrap_flags_bound_witness:
  "StrV (kubicCfgFile (parse_flags bootstrap_flagset demo_given default_flags)) = StrV ''kubic.yaml''
   \<and> BoolV (loadAssets (parse_flags bootstrap_flagset demo_given default_flags)) = BoolV False
   \<and> BoolV (block (parse_flags bootstrap_flagset demo_given default_flags)) = BoolV True"
proof -
  have "typed_flags bootstrap_flagset demo_given"
    by (simp add: bootstrap_flagset_def flag_defs flag_of_def demo_given_def)
  from bootstrap_flags_bound [OF this refl] show ?thesis by (simp add: flag_of_def demo_given_def)
qed

section \<open>How the process ends\<close>

text \<open>
  C12. The process of the bootstrap command ends exactly when the node did not come up or blocking was
  turned off, and its exit code is 0 exactly when the node came up: a failure is never reported as a
  success, and a success never as a failure.
\<close>

theorem main_bootstrap_exit:
  assumes "parse args = Inr (Some (''bootstrap'', given))" and "\<And>e. code e \<noteq> 0"
    and "F = parse_flags bootstrap_flagset given default_flags"
    and "run_state (bootstrap_node B F) w = (r, w')"
  shows "(main B code parse args w = None \<longleftrightarrow> is_Ok r \<and> block F)
    \<and> (\<forall>n out w1. main B code parse args w = Some (n, out, w1) \<longrightarrow> w1 = w' \<and> (n = 0 \<longleftrightarrow> is_Ok r))"
proof -
  have run: "newCmdBootstrap_run B F w = (if is_Ok r \<and> block F then None else Some (r, w'))"
    using assms(4) by (cases r) (simp_all add: newCmdBootstrap_run_def sleep_forever_never_returns)
  have "main B code parse args w =
      (if is_Ok r \<and> block F then None
       else Some (case r of Ok _ \<Rightarrow> 0 | Err e \<Rightarrow> code e | Panic _ \<Rightarrow> 2, [], w'))"
    using assms(1) run unfolding assms(3)
    by (simp add: main_def subcommands_def newCmdBootstrap_def cmd_bootstrap_def)
  then show ?thesis using assms(2) by (cases r) auto
qed

end
