(* ===== verification/Formation.thy ===== *)
theory Formation
  imports Bootstrap
begin

text \<open>
  Two nodes of one cluster: a seeder and a node that joins it, each with its own configuration and its
  own world. What the two runs of kubeadm are given fits together.
\<close>

section \<open>What a successful run of kubeadm was given\<close>

lemma NewInit_given:
  assumes "run_state (NewInit K E c args) w = (Ok (), w')"
  obtains gates i f b where
    "fst (run_state (init_configuration K E c gates) (w\<lparr>history := history w @ [OsTempFile kubeadmConfigTemplate]\<rparr>)) = Ok i"
    and "marshal_init_files K i = Ok b"
    and "\<exists>cs args'. history w' = history w @ cs @
      [OsWriteTemp f b, OsExec (Kubeadm (Paths c)) (''init'' # args' @ [''--config='' @ f]), OsRemove f]"
proof -
  obtain ignore where
    run: "run_state (kubeadmCmd K E ''init'' c (Some (toInitConfig K E)) (args @ [ignore, getVerboseArg])) w = (Ok (), w')"
    using assms unfolding NewInit_def by (auto elim!: andthen_OkE)
  let ?w = "w\<lparr>history := history w @ [OsTempFile kubeadmConfigTemplate]\<rparr>"
  from run obtain gates f b w1 where r: "run_state (toInitConfig K E c gates) ?w = (Ok b, w1)"
    and h: "history w' = history w1 @ [OsWriteTemp f b,
      OsExec (Kubeadm (Paths c)) ([''init''] @ (args @ [ignore, getVerboseArg]) @ [''--config='' @ f]), OsRemove f]"
    by (rule init_configurer.cmd_Ok)
  from r obtain i where i: "fst (run_state (init_configuration K E c gates) ?w) = Ok i"
    and "marshal_init_files K i = Ok b"
    unfolding toInitConfig_def by (auto elim!: andthen_OkE)
  moreover obtain cs where "history w1 = history w @ cs"
    using calls_onlyD [OF init_configurer.conf_calls r] by (auto simp: hist_ext_def)
  ultimately show thesis using h by (intro that [OF i]) auto
qed

lemma NewJoin_given:
  assumes "run_state (NewJoin K E c args) w = (Ok (), w')"
  obtains f b where "marshal_join K (fst (run_state (join_configuration c) w)) = Inr b"
    and "\<exists>cs args'. history w' = history w @ cs @
      [OsWriteTemp f b, OsExec (Kubeadm (Paths c)) (''join'' # args' @ [''--config='' @ f]), OsRemove f]"
proof -
  obtain ignore where
    run: "run_state (kubeadmCmd K E ''join'' c (Some (toJoinConfig K)) (args @ [ignore, getVerboseArg])) w = (Ok (), w')"
    using assms unfolding NewJoin_def by (auto elim!: andthen_OkE)
  let ?w = "w\<lparr>history := history w @ [OsTempFile kubeadmConfigTemplate]\<rparr>"
  from run obtain gates f b w1 where r: "run_state (toJoinConfig K c gates) ?w = (Ok b, w1)"
    and h: "history w' = history w1 @ [OsWriteTemp f b,
      OsExec (Kubeadm (Paths c)) ([''join''] @ (args @ [ignore, getVerboseArg]) @ [''--config='' @ f]), OsRemove f]"
    by (rule join_configurer.cmd_Ok)
  have "fst (run_state (join_configuration c) ?w) = fst (run_state (join_configuration c) w)"
    by (simp add: join_configuration_def case_prod_unfold run_node_registration Let_def split: option.split)
  then have b: "marshal_join K (fst (run_state (join_configuration c) w)) = Inr b"
    using r by (auto simp: toJoinConfig_def case_prod_unfold of_sum_def split: sum.splits)
  obtain cs where "history w1 = history w @ cs"
    using calls_onlyD [OF join_configurer.conf_calls r] by (auto simp: hist_ext_def)
  then show thesis using h by (intro that [OF b]) auto
qed

lemma load_config_settings: "keeps_settings (load_config B file vs)"
  unfolding load_config_def ConfigFileAndDefaultsToKubicInitConfig_def load_file_def override_def
    Stat_def ReadFile_def LookupEnv_def
  by (auto intro!: settings_intros)

lemma init_issuer_keeps: "keeps_settings (init_issuer E c)"
  unfolding init_issuer_def GetPublicAPIAddress_def ChooseHostInterface_def
  by (auto intro!: settings_intros)

text \<open>Registering a node depends on the engine and on the package variable only.\<close>

lemma node_registration_cong:
  "kubelet_settings w = kubelet_settings v \<Longrightarrow>
     fst (run_state (node_registration e) w) = fst (run_state (node_registration e) v)"
  by (simp add: run_node_registration Let_def split: option.split)

lemma init_registration:
  assumes "fst (run_state (init_configuration K E c gates) w) = Ok i"
  shows "initNodeRegistration i = fst (run_state (node_registration (Engine (Runtime c))) w)"
proof -
  obtain w' where "run_state (init_configuration K E c gates) w = (Ok i, w')"
    using assms by (cases "run_state (init_configuration K E c gates) w") simp
  then obtain url w1 where url: "run_state (init_issuer E c) w = (Ok url, w1)"
    and rest: "run_state (andthen (ret (init_token K c (init_bind c (on_cluster
         (\<lambda>cc. cc\<lparr>apiExtraArgs := AList.update ''oidc-issuer-url'' url (apiExtraArgs cc)\<rparr>)
         (init_base c gates))))) (\<lambda>i. do {
       reg \<leftarrow> node_registration (Engine (Runtime c));
       ret (Ok ((init_dns c i)\<lparr>initNodeRegistration := reg\<rparr>))
     })) w1 = (Ok i, w')"
    unfolding init_configuration_def by (rule andthen_OkE)
  have "fst (run_state (node_registration (Engine (Runtime c))) w1) =
      fst (run_state (node_registration (Engine (Runtime c))) w)"
    by (rule node_registration_cong) (rule keeps_settingsD [OF init_issuer_keeps url])
  then show ?thesis using rest by (auto simp: run_andthen case_prod_unfold split: outcome.splits)
qed

section \<open>A seeder and a node that joins\<close>

text \<open>\<open>kubeadm cmd\<close> was run on a file, just after \<open>b\<close> was written to it.\<close>

definition ran_kubeadm :: "string \<Rightarrow> string \<Rightarrow> string \<Rightarrow> call list \<Rightarrow> bool" where
  "ran_kubeadm path cmd b cs \<longleftrightarrow>
     (\<exists>pre f args suf. cs = pre @ [OsWriteTemp f b, OsExec path (cmd # args @ [''--config='' @ f])] @ suf)"

lemma ran_kubeadmI:
  "history w' = history w @ cs @ [OsWriteTemp f b, OsExec path (cmd # args @ [''--config='' @ f]), OsRemove f] @ suf \<Longrightarrow>
     run_state m w = (r, w') \<Longrightarrow> ran_kubeadm path cmd b (calls_of m w)"
  unfolding ran_kubeadm_def calls_of_def
  by (intro exI [of _ cs] exI [of _ f] exI [of _ args] exI [of _ "OsRemove f # suf"]) simp

lemma seeder_given:
  assumes "polls_ok B" and "run_state (load_config B (kubicCfgFile F) (vars F)) w = (Ok c, w1)" and "IsSeeder c"
    and "run_state (bootstrap_node B F) w = (Ok (), w')"
  obtains i b where "marshal_init_files (be_kubeadm B) i = Ok b"
    and "ran_kubeadm (Kubeadm (Paths c)) ''init'' b (calls_of (bootstrap_node B F) w)"
    and "initNodeRegistration i = fst (run_state (node_registration (Engine (Runtime c))) w)"
    and "if Token (ClusterFormation c) = [] then BootstrapTokens i = []
         else \<exists>t. new_bootstrap_token (be_kubeadm B) (Token (ClusterFormation c)) = Inr t \<and> BootstrapTokens i = [t]"
proof -
  have "run_state (seed B F c) w1 = (Ok (), w')"
    using assms by (simp add: bootstrap_node_def)
  then obtain w2 where init: "run_state (NewInit (be_kubeadm B) (be_os B) c []) w1 = (Ok (), w2)"
    and rest: "run_state (after_init B F c) w2 = (Ok (), w')"
    unfolding seed_def by (auto elim!: andthen_OkE)
  obtain cs1 where cs1: "history w1 = history w @ cs1"
    using calls_onlyD [OF load_config_calls assms(2)] by (auto simp: hist_ext_def)
  obtain cs3 where cs3: "history w' = history w2 @ cs3"
    using calls_onlyD [OF after_init_extends [OF assms(1)] rest] by (auto simp: hist_ext_def)
  let ?w = "w1\<lparr>history := history w1 @ [OsTempFile kubeadmConfigTemplate]\<rparr>"
  from init obtain gates i f b where
    i: "fst (run_state (init_configuration (be_kubeadm B) (be_os B) c gates) ?w) = Ok i"
    and b: "marshal_init_files (be_kubeadm B) i = Ok b"
    and h: "\<exists>cs args'. history w2 = history w1 @ cs @
      [OsWriteTemp f b, OsExec (Kubeadm (Paths c)) (''init'' # args' @ [''--config='' @ f]), OsRemove f]"
    by (rule NewInit_given)
  have "ran_kubeadm (Kubeadm (Paths c)) ''init'' b (calls_of (bootstrap_node B F) w)"
    using h cs1 cs3 assms(4) by (auto intro!: ran_kubeadmI [where suf = cs3])
  moreover have "initNodeRegistration i = fst (run_state (node_registration (Engine (Runtime c))) w)"
    unfolding init_registration [OF i]
    by (rule node_registration_cong) (simp add: keeps_settingsD [OF load_config_settings assms(2)])
  moreover obtain w3 where "run_state (init_configuration (be_kubeadm B) (be_os B) c gates) ?w = (Ok i, w3)"
    using i by (cases "run_state (init_configuration (be_kubeadm B) (be_os B) c gates) ?w") simp
  from run_init_configuration [OF this] have
    "if Token (ClusterFormation c) = [] then BootstrapTokens i = []
     else \<exists>t. new_bootstrap_token (be_kubeadm B) (Token (ClusterFormation c)) = Inr t \<and> BootstrapTokens i = [t]"
    by (elim exE conjE) simp
  ultimately show thesis using b by (intro that)
qed

lemma joiner_given:
  assumes "run_state (load_config B (kubicCfgFile F) (vars F)) w = (Ok c, w1)" and "\<not> IsSeeder c"
    and "run_state (bootstrap_node B F) w = (Ok (), w')"
  obtains j b where "marshal_join (be_kubeadm B) j = Inr b"
    and "ran_kubeadm (Kubeadm (Paths c)) ''join'' b (calls_of (bootstrap_node B F) w)"
    and "joinNodeRegistration j = fst (run_state (node_registration (Engine (Runtime c))) w)"
    and "joinBootstrapToken j = join_discovery c"
proof -
  have "run_state (NewJoin (be_kubeadm B) (be_os B) c []) w1 = (Ok (), w')"
    using assms by (simp add: bootstrap_node_def)
  then obtain f b where b: "marshal_join (be_kubeadm B) (fst (run_state (join_configuration c) w1)) = Inr b"
    and h: "\<exists>cs args'. history w' = history w1 @ cs @
      [OsWriteTemp f b, OsExec (Kubeadm (Paths c)) (''join'' # args' @ [''--config='' @ f]), OsRemove f]"
    by (rule NewJoin_given)
  obtain cs1 where "history w1 = history w @ cs1"
    using calls_onlyD [OF load_config_calls assms(1)] by (auto simp: hist_ext_def)
  then have "ran_kubeadm (Kubeadm (Paths c)) ''join'' b (calls_of (bootstrap_node B F) w)"
    using h assms(3) by (auto intro!: ran_kubeadmI [where suf = "[]"])
  moreover have "fst (run_state (node_registration (Engine (Runtime c))) w1) =
      fst (run_state (node_registration (Engine (Runtime c))) w)"
    by (rule node_registration_cong) (rule keeps_settingsD [OF load_config_settings assms(1)])
  then have "joinNodeRegistration (fst (run_state (join_configuration c) w1)) =
      fst (run_state (node_registration (Engine (Runtime c))) w)"
    and "joinBootstrapToken (fst (run_state (join_configuration c) w1)) = join_discovery c"
    by (simp_all add: join_configuration_def case_prod_unfold)
  ultimately show thesis using b by (intro that)
qed

section \<open>What comes before kubeadm init\<close>

lemma keep_local:
  "list_all local_call cs \<Longrightarrow> list_all local_call (takeWhile (\<lambda>c. \<not> is_init c) cs)"
  by (auto simp: list_all_iff dest: set_takeWhileD)

text \<open>
  The calls of a bootstrap are local ones, and then others only when \<open>kubeadm init\<close> was among the first.
\<close>

lemma seed_calls_split:
  assumes "polls_ok B"
  shows "\<exists>pre post. history (snd (run_state (seed B F c) w)) = history w @ pre @ post
    \<and> list_all local_call pre \<and> (post = [] \<or> list_ex is_init pre)"
proof -
  obtain r w1 where init: "run_state (NewInit (be_kubeadm B) (be_os B) c []) w = (r, w1)" by fastforce
  show ?thesis
  proof (cases "r = Ok ()")
    case False
    obtain cs where "history w1 = history w @ cs" "list_all local_call cs"
      using calls_onlyD [OF NewInit_calls init] by (auto simp: hist_ext_def)
    moreover have "snd (run_state (seed B F c) w) = w1"
      unfolding seed_def using False init by (cases r) simp_all
    ultimately show ?thesis by (intro exI [of _ cs] exI [of _ "[]"]) simp
  next
    case True
    obtain cs where cs: "history w1 = history w @ cs" "list_all local_call cs" "list_ex is_init cs"
      using NewInit_Ok_ran [OF init [unfolded True]] by blast
    have "hist_ext (\<lambda>_. True) w1 (snd (run_state (after_init B F c) w1))"
      using after_init_extends [OF assms] by (simp add: calls_only_iff)
    then obtain ds where "history (snd (run_state (after_init B F c) w1)) = history w1 @ ds"
      by (auto simp: hist_ext_def)
    then show ?thesis using cs init True by (intro exI [of _ cs] exI [of _ ds]) (simp add: seed_def)
  qed
qed

lemma bootstrap_calls_split:
  assumes "polls_ok B"
  shows "\<exists>pre post. calls_of (bootstrap_node B F) w = pre @ post
    \<and> list_all local_call pre \<and> (post = [] \<or> list_ex is_init pre)"
proof -
  obtain r w1 where load: "run_state (load_config B (kubicCfgFile F) (vars F)) w = (r, w1)" by fastforce
  obtain cs where cs: "history w1 = history w @ cs" "list_all local_call cs"
    using calls_onlyD [OF calls_only_mono [OF load_config_calls] load, of local_call]
    by (auto simp: hist_ext_def config_call_local)
  have "\<exists>pre post. history (snd (run_state (bootstrap_node B F) w)) = history w1 @ pre @ post
    \<and> list_all local_call pre \<and> (post = [] \<or> list_ex is_init pre)"
  proof (cases "\<exists>c. r = Ok c")
    case True
    then obtain c where c: "r = Ok c" by blast
    show ?thesis
    proof (cases "IsSeeder c")
      case True
      then show ?thesis using seed_calls_split [OF assms, of F c w1] load c by (simp add: bootstrap_node_def)
    next
      case False
      have "hist_ext local_call w1 (snd (run_state (NewJoin (be_kubeadm B) (be_os B) c []) w1))"
        using NewJoin_calls_only by (simp add: calls_only_iff)
      then obtain ds where "history (snd (run_state (bootstrap_node B F) w)) = history w1 @ ds @ []"
        and "list_all local_call ds"
        using load c False by (auto simp: bootstrap_node_def hist_ext_def)
      then show ?thesis by blast
    qed
  next
    case False
    then show ?thesis using load by (cases r) (auto simp: bootstrap_node_def intro: exI [of _ "[]"])
  qed
  then obtain pre post where "history (snd (run_state (bootstrap_node B F) w)) = history w1 @ pre @ post"
    "list_all local_call pre" "post = [] \<or> list_ex is_init pre"
    by blast
  then show ?thesis using cs by (intro exI [of _ "cs @ pre"] exI [of _ post]) (auto simp: calls_of_def)
qed

end
