(* ===== verification/Password.thy ===== *)
theory Password
  imports Secrets
begin

text \<open>
  pkg/crypto/password.go: random passwords shared through Secrets, and sets of them. The random source
  is a parameter: any function of the history, reduced to the range asked for, as \<open>rand.Intn\<close> does.
\<close>

section \<open>Shared passwords\<close>

record SharedPassword =
  pwName :: string
  pwLength :: int
  pwContents :: string

definition sharedPasswordNamespace :: string where
  "sharedPasswordNamespace = NamespaceSystem"

definition sharedPasswordDefaultLen :: int where
  "sharedPasswordDefaultLen = 16"

definition letterRunes :: string where
  "letterRunes = ''abcdefghijklmnopqrstuvwxyzABCDEFGHIJKLMNOPQRSTUVWXYZ0123456789''"

type_synonym rand_source = "call list \<Rightarrow> nat"

definition Intn :: "rand_source \<Rightarrow> nat \<Rightarrow> (world, nat) state" where
  "Intn R n = perform (\<lambda>h. R h mod n) (RandIntn n)"

fun rand_runes :: "rand_source \<Rightarrow> nat \<Rightarrow> (world, string) state" where
  "rand_runes R 0 = ret []"
| "rand_runes R (Suc n) = do {
     i \<leftarrow> Intn R (length letterRunes);
     b \<leftarrow> rand_runes R n;
     ret (letterRunes ! i # b)
   }"

definition randStringRunes :: "rand_source \<Rightarrow> int \<Rightarrow> (world, string outcome) state" where
  "randStringRunes R n =
     (if n < 0 then ret (Panic ''makeslice: len out of range'')
      else do { b \<leftarrow> rand_runes R (nat n); ret (Ok b) })"

definition NewSharedPassword :: "string \<Rightarrow> string \<Rightarrow> SharedPassword" where
  "NewSharedPassword name namespace =
     (let namespace = (if length namespace = 0 then sharedPasswordNamespace else namespace) in
      \<lparr>pwName = NamespacedNameToString (NewNamespacedName name namespace),
       pwLength = 0, pwContents = []\<rparr>)"

text \<open>\<open>Rand\<close> stores the new contents in its receiver, which is returned with the string.\<close>

definition Rand :: "rand_source \<Rightarrow> SharedPassword \<Rightarrow> int \<Rightarrow> (world, (SharedPassword \<times> string) outcome) state" where
  "Rand R password len =
     andthen (randStringRunes R (if len = 0 then sharedPasswordDefaultLen else len)) (\<lambda>s.
       ret (Ok (password\<lparr>pwContents := s\<rparr>, s)))"

definition password_GetName :: "SharedPassword \<Rightarrow> string" where
  "password_GetName password = Name (StringToNamespacedName (pwName password))"

definition password_GetNamespace :: "SharedPassword \<Rightarrow> string" where
  "password_GetNamespace password = Namespace (StringToNamespacedName (pwName password))"

definition password_String :: "SharedPassword \<Rightarrow> string" where
  "password_String password = pwContents password"

definition SharedPasswordNamer :: "SharedPassword ObjNamespacer" where
  "SharedPasswordNamer = \<lparr>GetName = password_GetName, GetNamespace = password_GetNamespace\<rparr>"

definition password_secret :: "SharedPassword \<Rightarrow> secret" where
  "password_secret password =
     \<lparr>secMeta = NamaspacedObjToMeta SharedPasswordNamer password,
      secType = ''Opaque'',
      secData = [(password_GetName password, pwContents password)]\<rparr>"

definition CreateOrUpdateToSecret :: "secrets_api \<Rightarrow> SharedPassword \<Rightarrow> (world, unit outcome) state" where
  "CreateOrUpdateToSecret A password = CreateOrUpdateSecret A (password_secret password)"

text \<open>Reading a missing key of the data gives the empty string.\<close>

definition GetFromSecret :: "secrets_api \<Rightarrow> SharedPassword \<Rightarrow> (world, SharedPassword outcome) state" where
  "GetFromSecret A password = do {
     r \<leftarrow> Secrets_Get A (password_GetNamespace password) (password_GetName password);
     ret (case r of
            (_, Some err) \<Rightarrow> Err err
          | (None, None) \<Rightarrow> nil_deref
          | (Some found, None) \<Rightarrow>
              Ok (password\<lparr>pwContents :=
                    (case map_of (secData found) (password_GetName password) of
                       None \<Rightarrow> [] | Some b \<Rightarrow> b)\<rparr>))
   }"

definition AsSecretReference :: "SharedPassword \<Rightarrow> NamespacedName" where
  "AsSecretReference password =
     \<lparr>Name = password_GetName password, Namespace = password_GetNamespace password\<rparr>"

definition password_Delete :: "secrets_api \<Rightarrow> SharedPassword \<Rightarrow> (world, unit outcome) state" where
  "password_Delete A password = do {
     e \<leftarrow> Secrets_Delete A (password_GetNamespace password) (password_GetName password);
     ret (case e of Some err \<Rightarrow> if IsNotFound err then Ok () else Err err | None \<Rightarrow> Ok ())
   }"

section \<open>Sets of passwords\<close>

type_synonym SharedPasswordsSet = "string \<rightharpoonup> SharedPassword"

text \<open>The body of the loop of \<open>NewSharedPasswordsSet\<close>: one password is read, or generated.\<close>

definition load_password :: "secrets_api \<Rightarrow> rand_source \<Rightarrow> string \<Rightarrow> string \<Rightarrow> SharedPasswordsSet \<Rightarrow>
    (world, SharedPasswordsSet outcome) state" where
  "load_password A R ns name m = do {
     r \<leftarrow> GetFromSecret A (NewSharedPassword name ns);
     (case r of
        Ok p \<Rightarrow> ret (Ok (m(name \<mapsto> p)))
      | Err e \<Rightarrow>
          if IsNotFound e then
            andthen (Rand R (NewSharedPassword name ns) sharedPasswordDefaultLen)
              (\<lambda>(p, _). ret (Ok (m(name \<mapsto> p))))
          else ret (Err e)
      | Panic x \<Rightarrow> ret (Panic x))
   }"

fun new_passwords_loop :: "secrets_api \<Rightarrow> rand_source \<Rightarrow> string \<Rightarrow> SharedPasswordsSet \<Rightarrow> string list \<Rightarrow>
    (world, SharedPasswordsSet outcome) state" where
  "new_passwords_loop A R ns m [] = ret (Ok m)"
| "new_passwords_loop A R ns m (name # names) =
     andthen (load_password A R ns name m) (\<lambda>m'. new_passwords_loop A R ns m' names)"

text \<open>Without a namespace, passwords are in the one of the system.\<close>

definition password_namespace :: "string \<Rightarrow> string" where
  "password_namespace ns = (if length ns = 0 then sharedPasswordNamespace else ns)"

definition NewSharedPasswordsSet :: "secrets_api \<Rightarrow> rand_source \<Rightarrow> string list \<Rightarrow> string \<Rightarrow>
    (world, SharedPasswordsSet outcome) state" where
  "NewSharedPasswordsSet A R names namespace =
     new_passwords_loop A R (password_namespace namespace) Map.empty names"

text \<open>
  Publishing a set ranges over a Go map: \<open>ks\<close> is the order in which the runtime delivers its keys.
\<close>

definition CreateOrUpdateToSecrets :: "secrets_api \<Rightarrow> string list \<Rightarrow> SharedPasswordsSet \<Rightarrow> (world, unit outcome) state" where
  "CreateOrUpdateToSecrets A ks m =
     for_each (\<lambda>k. case m k of Some p \<Rightarrow> CreateOrUpdateToSecret A p | None \<Rightarrow> ret (Ok ())) ks"

section \<open>Names\<close>

text \<open>A shared password keeps the name and the namespace it was created with.\<close>

interpretation shared_password: namespaced_objects SharedPasswordNamer NewSharedPassword
  "\<lambda>n ns. ns \<noteq> [] \<and> CHR ''/'' \<notin> set ns"
  by unfold_locales
    (simp_all add: SharedPasswordNamer_def password_GetName_def password_GetNamespace_def
      NewSharedPassword_def NamespacedNameToString_def NewNamespacedName_def StringToNamespacedName_slash)

text \<open>The expected names of password_test.go.\<close>

lemma NewSharedPassword_test:
  "pwName (NewSharedPassword ''my-password1'' ''my-namespace'') = ''my-namespace/my-password1''"
  "pwName (NewSharedPassword ''my-password2'' []) = ''kube-system/my-password2''"
  by (simp_all add: NewSharedPassword_def NamespacedNameToString_def NewNamespacedName_def sharedPasswordNamespace_def
      NamespaceSystem_def)

lemma NewSharedPassword_names [simp]:
  assumes "CHR ''/'' \<notin> set ns"
  shows "password_GetName (NewSharedPassword n ns) = n"
    and "password_GetNamespace (NewSharedPassword n ns) = (if ns = [] then ''kube-system'' else ns)"
  using assms
  by (simp_all add: password_GetName_def password_GetNamespace_def NewSharedPassword_def
      NamespacedNameToString_def NewNamespacedName_def StringToNamespacedName_slash
      sharedPasswordNamespace_def NamespaceSystem_def
      StringToNamespacedName_slash [where a = "''kube-system''", simplified])

lemma names_of_update [simp]:
  "password_GetName (p\<lparr>pwContents := c\<rparr>) = password_GetName p"
  "password_GetNamespace (p\<lparr>pwContents := c\<rparr>) = password_GetNamespace p"
  by (simp_all add: password_GetName_def password_GetNamespace_def)

section \<open>Random contents\<close>

lemma length_letterRunes: "length letterRunes = 62"
  by (simp add: letterRunes_def)

lemma run_rand_runes:
  "\<exists>s. run_state (rand_runes R n) w = (s, w\<lparr>history := history w @ replicate n (RandIntn 62)\<rparr>)
       \<and> length s = n \<and> set s \<subseteq> set letterRunes"
proof (induction n arbitrary: w)
  case 0
  then show ?case by simp
next
  case (Suc n)
  let ?w = "w\<lparr>history := history w @ [RandIntn 62]\<rparr>"
  obtain s where s: "run_state (rand_runes R n) ?w =
        (s, ?w\<lparr>history := history ?w @ replicate n (RandIntn 62)\<rparr>)"
      "length s = n" "set s \<subseteq> set letterRunes"
    using Suc [of ?w] by blast
  have "letterRunes ! (R (history w) mod 62) \<in> set letterRunes"
    by (rule nth_mem) (simp add: length_letterRunes)
  then show ?case using s by (simp add: Intn_def length_letterRunes replicate_append_same)
qed

lemma run_Rand:
  assumes "0 \<le> len"
  shows "\<exists>s. run_state (Rand R p len) w =
               (Ok (p\<lparr>pwContents := s\<rparr>, s),
                w\<lparr>history := history w @ replicate (if len = 0 then 16 else nat len) (RandIntn 62)\<rparr>)
           \<and> length s = (if len = 0 then 16 else nat len) \<and> set s \<subseteq> set letterRunes"
  using assms run_rand_runes [of R "if len = 0 then 16 else nat len" w]
  by (auto simp: Rand_def run_andthen randStringRunes_def sharedPasswordDefaultLen_def)

text \<open>
  A generated password has exactly the requested length (16 when 0 is asked for), consists of
  letters and digits only, costs one draw per character, and leaves the name of the password alone; a
  negative length panics.
\<close>

theorem Rand_password:
  "(if len < 0 then \<exists>x. run_state (Rand R p len) w = (Panic x, w)
    else \<exists>s. run_state (Rand R p len) w =
               (Ok (p\<lparr>pwContents := s\<rparr>, s),
                w\<lparr>history := history w @ replicate (if len = 0 then 16 else nat len) (RandIntn 62)\<rparr>)
             \<and> length s = (if len = 0 then 16 else nat len) \<and> set s \<subseteq> set letterRunes)"
proof (cases "len < 0")
  case True
  then show ?thesis by (auto simp: Rand_def run_andthen randStringRunes_def)
next
  case False
  then show ?thesis using run_Rand [of len R p w] by simp
qed

section \<open>Publishing and reading back\<close>

lemma password_secret_key [simp]:
  "secret_key (password_secret p) = (password_GetNamespace p, password_GetName p)"
  by (simp add: secret_key_def password_secret_def NamaspacedObjToMeta_def
      NamespacedObjToNamespacedName_def SharedPasswordNamer_def)

lemma run_GetFromSecret:
  assumes "secret_store A \<sigma>"
    and "\<sigma> (history w) (password_GetNamespace p, password_GetName p) = Some s"
  shows "run_state (GetFromSecret A p) w =
           (Ok (p\<lparr>pwContents := (case map_of (secData s) (password_GetName p) of None \<Rightarrow> [] | Some b \<Rightarrow> b)\<rparr>),
            w\<lparr>history := history w @ [ApiGet KSecret (password_GetNamespace p) (password_GetName p)]\<rparr>)"
  using secret_store_get [OF assms] by (simp add: GetFromSecret_def Secrets_Get_def)

text \<open>
  A published password can be read back: when the server is an object store and publishing
  succeeded, reading a fresh password object of the same name gives the same contents.
\<close>

theorem password_publish_get:
  assumes "secret_store A \<sigma>"
    and "run_state (CreateOrUpdateToSecret A ((NewSharedPassword n ns)\<lparr>pwContents := c\<rparr>)) w = (Ok (), w1)"
  shows "fst (run_state (GetFromSecret A (NewSharedPassword n ns)) w1) =
           Ok ((NewSharedPassword n ns)\<lparr>pwContents := c\<rparr>)"
proof -
  let ?p = "(NewSharedPassword n ns)\<lparr>pwContents := c\<rparr>"
  have "secrets_create_or_update A (history w) (password_secret ?p) = None"
    and w1: "history w1 = history w @ [ApiCreateOrUpdate (OSecret (password_secret ?p))]"
    using assms(2) by (auto simp: CreateOrUpdateToSecret_def CreateOrUpdateSecret_def)
  then have "\<sigma> (history w1) (password_GetNamespace (NewSharedPassword n ns),
      password_GetName (NewSharedPassword n ns)) = Some (password_secret ?p)"
    using secret_store_put [OF assms(1)] by simp
  from run_GetFromSecret [OF assms(1) this] show ?thesis by (simp add: password_secret_def)
qed

definition demo_secret_world :: world where
  "demo_secret_world =
     \<lparr>history = [ApiCreateOrUpdate (OSecret (password_secret ((NewSharedPassword ''dex'' ''kube-system'')\<lparr>pwContents := ''s3cret''\<rparr>)))],
      kubelet_settings = []\<rparr>"

theorem password_publish_get_witness:
  "fst (run_state (GetFromSecret replay_api (NewSharedPassword ''dex'' ''kube-system'')) demo_secret_world) =
     Ok ((NewSharedPassword ''dex'' ''kube-system'')\<lparr>pwContents := ''s3cret''\<rparr>)"
  by (rule password_publish_get [OF replay_api_store, where w = "\<lparr>history = [], kubelet_settings = []\<rparr>"])
    (simp add: CreateOrUpdateToSecret_def CreateOrUpdateSecret_def demo_secret_world_def)

section \<open>Properties of sets of passwords\<close>

definition read_or_draw :: "call \<Rightarrow> bool" where
  "read_or_draw c = (case c of ApiGet k _ _ \<Rightarrow> k = KSecret | RandIntn n \<Rightarrow> n = 62 | _ \<Rightarrow> False)"

lemma GetFromSecret_calls [calls_intros]: "calls_only read_or_draw (GetFromSecret A p)"
  unfolding GetFromSecret_def Secrets_Get_def
  by (intro calls_intros) (simp add: read_or_draw_def)

lemma Rand_calls [calls_intros]: "calls_only read_or_draw (Rand R p 16)"
  unfolding calls_only_iff
proof
  fix w
  show "hist_ext read_or_draw w (snd (run_state (Rand R p 16) w))"
    using run_Rand [of 16 R p w]
    by (auto simp: hist_ext_def read_or_draw_def list_all_iff)
qed

lemma load_password_Ok:
  assumes "run_state (load_password A R ns name m) w = (Ok m', w')"
  shows "\<exists>p. m' = m(name \<mapsto> p) \<and> p = (NewSharedPassword name ns)\<lparr>pwContents := pwContents p\<rparr>"
proof -
  obtain r w1 where r: "run_state (GetFromSecret A (NewSharedPassword name ns)) w = (r, w1)" by fastforce
  show ?thesis
  proof (cases r)
    case (Ok p)
    then have "m' = m(name \<mapsto> p)" using assms r by (simp add: load_password_def)
    moreover have "p = (NewSharedPassword name ns)\<lparr>pwContents := pwContents p\<rparr>"
      using r Ok by (auto simp: GetFromSecret_def Secrets_Get_def nil_deref_def split: prod.splits option.splits)
    ultimately show ?thesis by blast
  next
    case (Err e)
    obtain s where "run_state (Rand R (NewSharedPassword name ns) 16) w1 =
        (Ok ((NewSharedPassword name ns)\<lparr>pwContents := s\<rparr>, s),
         w1\<lparr>history := history w1 @ replicate 16 (RandIntn 62)\<rparr>)"
      using run_Rand [of 16 R "NewSharedPassword name ns" w1] by auto
    then have "m' = m(name \<mapsto> (NewSharedPassword name ns)\<lparr>pwContents := s\<rparr>)"
      using assms r Err by (simp add: load_password_def sharedPasswordDefaultLen_def split: if_splits)
    then show ?thesis by (intro exI [of _ "(NewSharedPassword name ns)\<lparr>pwContents := s\<rparr>"]) simp
  next
    case (Panic x)
    then show ?thesis using assms r by (simp add: load_password_def)
  qed
qed

lemma load_password_calls: "calls_only read_or_draw (load_password A R ns name m)"
  unfolding load_password_def
  by (auto simp: sharedPasswordDefaultLen_def split: outcome.split prod.split intro!: calls_intros)

lemma new_passwords_loop_calls: "calls_only read_or_draw (new_passwords_loop A R ns m names)"
  by (induction names arbitrary: m) (auto intro!: calls_intros load_password_calls)

text \<open>Every password of the set was made for its key; only the contents are its own.\<close>

definition well_named :: "string \<Rightarrow> SharedPasswordsSet \<Rightarrow> bool" where
  "well_named ns m \<longleftrightarrow>
     (\<forall>k p. m k = Some p \<longrightarrow> p = (NewSharedPassword k ns)\<lparr>pwContents := pwContents p\<rparr>)"

lemma well_named_empty [simp]: "well_named ns Map.empty"
  by (simp add: well_named_def)

lemma well_named_upd:
  "well_named ns m \<Longrightarrow> p = (NewSharedPassword k ns)\<lparr>pwContents := pwContents p\<rparr> \<Longrightarrow> well_named ns (m(k \<mapsto> p))"
  by (simp add: well_named_def)

lemma well_named_pwName: "well_named ns m \<Longrightarrow> m k = Some p \<Longrightarrow> pwName p = pwName (NewSharedPassword k ns)"
proof -
  assume "well_named ns m" and "m k = Some p"
  then have "p = (NewSharedPassword k ns)\<lparr>pwContents := pwContents p\<rparr>" unfolding well_named_def by blast
  then show ?thesis by (rule ssubst) simp
qed

lemma new_passwords_loop_well_named:
  "run_state (new_passwords_loop A R ns m names) w = (Ok m', w') \<Longrightarrow> well_named ns m \<Longrightarrow>
     well_named ns m' \<and> dom m' = dom m \<union> set names"
proof (induction names arbitrary: m w)
  case Nil
  then show ?case by simp
next
  case (Cons name names)
  from Cons.prems(1) obtain m1 w1 where first: "run_state (load_password A R ns name m) w = (Ok m1, w1)"
    and rest: "run_state (new_passwords_loop A R ns m1 names) w1 = (Ok m', w')"
    unfolding new_passwords_loop.simps by (rule andthen_OkE)
  obtain p where p: "m1 = m(name \<mapsto> p)" "p = (NewSharedPassword name ns)\<lparr>pwContents := pwContents p\<rparr>"
    using load_password_Ok [OF first] by blast
  have "well_named ns m'" "dom m' = dom m1 \<union> set names"
    using Cons.IH [OF rest] well_named_upd [OF Cons.prems(2) p(2)] unfolding p(1) by blast+
  then show ?case by (simp add: p(1))
qed

text \<open>
  A successful \<open>NewSharedPasswordsSet\<close> has exactly one password per requested name, each under
  its own name in the requested namespace; it only reads Secrets and draws random numbers, so nothing
  is persisted.
\<close>

theorem NewSharedPasswordsSet_result:
  assumes "run_state (NewSharedPasswordsSet A R names ns) w = (Ok m, w')"
  shows "dom m = set names
    \<and> list_all (\<lambda>k. map_option pwName (m k) = Some (pwName (NewSharedPassword k ns))) names
    \<and> hist_ext read_or_draw w w'"
proof -
  let ?ns = "password_namespace ns"
  have run: "run_state (new_passwords_loop A R ?ns Map.empty names) w = (Ok m, w')"
    using assms unfolding NewSharedPasswordsSet_def .
  have name: "pwName (NewSharedPassword k ?ns) = pwName (NewSharedPassword k ns)" for k
    by (simp add: NewSharedPassword_def password_namespace_def sharedPasswordNamespace_def NamespaceSystem_def)
  have m: "well_named ?ns m" "dom m = set names"
    using new_passwords_loop_well_named [OF run] by simp_all
  have "map_option pwName (m k) = Some (pwName (NewSharedPassword k ns))" if "k \<in> set names" for k
  proof -
    have "k \<in> dom m" unfolding m(2) by (rule that)
    then obtain p where p: "m k = Some p" by (blast dest: domD)
    show ?thesis unfolding p option.map well_named_pwName [OF m(1) p] name ..
  qed
  then show ?thesis
    unfolding list_all_iff using m(2) calls_onlyD [OF new_passwords_loop_calls run] by (intro conjI ballI)
qed

lemma demo_secret_get:
  "run_state (GetFromSecret replay_api (NewSharedPassword ''dex'' ''kube-system'')) demo_secret_world =
     (Ok ((NewSharedPassword ''dex'' ''kube-system'')\<lparr>pwContents := ''s3cret''\<rparr>),
      demo_secret_world\<lparr>history := history demo_secret_world @ [ApiGet KSecret ''kube-system'' ''dex'']\<rparr>)"
proof -
  have "replay (history demo_secret_world)
      (password_GetNamespace (NewSharedPassword ''dex'' ''kube-system''),
       password_GetName (NewSharedPassword ''dex'' ''kube-system'')) =
    Some (password_secret ((NewSharedPassword ''dex'' ''kube-system'')\<lparr>pwContents := ''s3cret''\<rparr>))"
    by (simp add: demo_secret_world_def replay_def)
  from run_GetFromSecret [OF replay_api_store this] show ?thesis by (simp add: password_secret_def)
qed

theorem NewSharedPasswordsSet_result_witness:
  "dom [''dex'' \<mapsto> (NewSharedPassword ''dex'' ''kube-system'')\<lparr>pwContents := ''s3cret''\<rparr>] = set [''dex'']"
proof -
  have "run_state (NewSharedPasswordsSet replay_api (\<lambda>_. 0) [''dex''] []) demo_secret_world =
     (Ok [''dex'' \<mapsto> (NewSharedPassword ''dex'' ''kube-system'')\<lparr>pwContents := ''s3cret''\<rparr>],
      demo_secret_world\<lparr>history := history demo_secret_world @ [ApiGet KSecret ''kube-system'' ''dex'']\<rparr>)"
    by (simp add: NewSharedPasswordsSet_def load_password_def password_namespace_def sharedPasswordNamespace_def
        NamespaceSystem_def demo_secret_get)
  from conjunct1 [OF NewSharedPasswordsSet_result [OF this]] show ?thesis .
qed

lemma run_CreateOrUpdateToSecret:
  assumes "secret_store A \<sigma>" and "run_state (CreateOrUpdateToSecret A p) w = (Ok (), w')"
  shows "\<sigma> (history w') =
           (\<sigma> (history w))((password_GetNamespace p, password_GetName p) \<mapsto> password_secret p)"
  using assms(2) secret_store_put [OF assms(1), of "history w" "password_secret p"]
  by (auto simp: CreateOrUpdateToSecret_def CreateOrUpdateSecret_def)

lemma run_CreateOrUpdateToSecrets:
  assumes "secret_store A \<sigma>"
    and "\<And>k p. m k = Some p \<Longrightarrow> password_GetNamespace p = ns \<and> password_GetName p = k"
    and "run_state (CreateOrUpdateToSecrets A ks m) w = (Ok (), w')"
  shows "\<sigma> (history w') (a, b) =
           (if a = ns \<and> b \<in> set ks \<and> m b \<noteq> None then Some (password_secret (the (m b)))
            else \<sigma> (history w) (a, b))"
  using assms(3)
proof (induction ks arbitrary: w)
  case Nil
  then show ?case by (simp add: CreateOrUpdateToSecrets_def)
next
  case (Cons k ks)
  show ?case
  proof (cases "m k")
    case None
    then have "run_state (CreateOrUpdateToSecrets A ks m) w = (Ok (), w')"
      using Cons.prems by (simp add: CreateOrUpdateToSecrets_def)
    then show ?thesis using Cons.IH None by auto
  next
    case (Some p)
    then obtain w1 where p: "run_state (CreateOrUpdateToSecret A p) w = (Ok (), w1)"
      and rest: "run_state (CreateOrUpdateToSecrets A ks m) w1 = (Ok (), w')"
      using Cons.prems by (auto simp: CreateOrUpdateToSecrets_def elim!: andthen_OkE)
    have "\<sigma> (history w1) = (\<sigma> (history w))((ns, k) \<mapsto> password_secret p)"
      using run_CreateOrUpdateToSecret [OF assms(1) p] assms(2) [OF Some] by simp
    then show ?thesis using Cons.IH [OF rest] Some by auto
  qed
qed

text \<open>
  Publishing a set of passwords of one namespace, in whatever order the runtime ranges over the
  map: when it succeeds, every password delivered is stored under its name, and nothing else in the
  store changes. So the outcome does not depend on the order.
\<close>

theorem passwords_published:
  assumes "secret_store A \<sigma>"
    and "\<And>k p. m k = Some p \<Longrightarrow> password_GetNamespace p = ns \<and> password_GetName p = k"
    and "run_state (CreateOrUpdateToSecrets A ks m) w = (Ok (), w')"
  shows "\<sigma> (history w') (a, b) =
           (if a = ns \<and> b \<in> set ks \<and> m b \<noteq> None then Some (password_secret (the (m b)))
            else \<sigma> (history w) (a, b))"
  using assms by (rule run_CreateOrUpdateToSecrets)

theorem passwords_published_witness:
  "\<exists>w' :: world. replay (history w') (''kube-system'', ''dex'') =
     Some (password_secret (NewSharedPassword ''dex'' ''kube-system''))"
proof -
  let ?m = "[''dex'' \<mapsto> NewSharedPassword ''dex'' ''kube-system'']"
  let ?w = "\<lparr>history = [], kubelet_settings = []\<rparr>"
  have "\<exists>w'. run_state (CreateOrUpdateToSecrets replay_api [''dex''] ?m) ?w = (Ok (), w')"
    by (simp add: CreateOrUpdateToSecrets_def CreateOrUpdateToSecret_def CreateOrUpdateSecret_def run_andthen)
  then obtain w' where run: "run_state (CreateOrUpdateToSecrets replay_api [''dex''] ?m) ?w = (Ok (), w')"
    by blast
  have "replay (history w') (''kube-system'', ''dex'') =
      (if ''kube-system'' = ''kube-system'' \<and> ''dex'' \<in> set [''dex''] \<and> ?m ''dex'' \<noteq> None
       then Some (password_secret (the (?m ''dex''))) else replay (history ?w) (''kube-system'', ''dex''))"
    by (rule passwords_published [OF replay_api_store _ run]) (auto split: if_splits)
  then have "replay (history w') (''kube-system'', ''dex'') =
      Some (password_secret (NewSharedPassword ''dex'' ''kube-system''))"
    by simp
  then show ?thesis
    by (rule exI [of "\<lambda>w'. replay (history w') (''kube-system'', ''dex'') =
      Some (password_secret (NewSharedPassword ''dex'' ''kube-system''))" w'])
qed

end
