(* ===== verification/Password_Race.thy ===== *)
theory Password_Race
  imports Password
begin

text \<open>
  Several controllers that share passwords through the same API server. Each runs
  \<open>NewSharedPasswordsSet\<close> followed by \<open>CreateOrUpdateToSecrets\<close>, one iteration of their loops at a time;
  an iteration makes one call that others can see, so runs interleave between iterations. A step
  relation says what one controller can do next, and which of them moves is open. Alone, a
  controller does what the sequential code does; together, published passwords are stable, but two
  controllers that both looked before either published end up with different ones.
\<close>

section \<open>One iteration at a time\<close>

text \<open>The namespace that \<open>NewSharedPasswordsSet\<close> works in.\<close>

text \<open>
  The states of a controller: the names still to be loaded with the passwords it has, the keys still to
  be published (in the order of the runtime), the end, and an error or a panic.
\<close>

datatype phase =
    Loading "string list" SharedPasswordsSet
  | Publishing "string list" SharedPasswordsSet
  | Finished SharedPasswordsSet
  | Failed

fun passwords_of :: "phase \<Rightarrow> SharedPasswordsSet" where
  "passwords_of (Loading names m) = m"
| "passwords_of (Publishing ks m) = m"
| "passwords_of (Finished m) = m"
| "passwords_of Failed = Map.empty"

inductive pw_step :: "secrets_api \<Rightarrow> rand_source \<Rightarrow> string \<Rightarrow> phase \<times> world \<Rightarrow> phase \<times> world \<Rightarrow> bool"
  for A R ns where
  load: "run_state (load_password A R ns name m) w = (Ok m', w') \<Longrightarrow>
     pw_step A R ns (Loading (name # names) m, w) (Loading names m', w')"
| load_fails: "run_state (load_password A R ns name m) w = (r, w') \<Longrightarrow> \<not> is_Ok r \<Longrightarrow>
     pw_step A R ns (Loading (name # names) m, w) (Failed, w')"
| loaded: "set ks = dom m \<Longrightarrow> distinct ks \<Longrightarrow>
     pw_step A R ns (Loading [] m, w) (Publishing ks m, w)"
| publish: "m k = Some p \<Longrightarrow> run_state (CreateOrUpdateToSecret A p) w = (Ok (), w') \<Longrightarrow>
     pw_step A R ns (Publishing (k # ks) m, w) (Publishing ks m, w')"
| publish_fails: "m k = Some p \<Longrightarrow> run_state (CreateOrUpdateToSecret A p) w = (r, w') \<Longrightarrow> \<not> is_Ok r \<Longrightarrow>
     pw_step A R ns (Publishing (k # ks) m, w) (Failed, w')"
| published: "pw_step A R ns (Publishing [] m, w) (Finished m, w)"

inductive_cases pw_loadingE: "pw_step A R ns (Loading names m, w) c"
inductive_cases pw_publishingE: "pw_step A R ns (Publishing ks m, w) c"

inductive_simps pw_finished [simp]: "pw_step A R ns (Finished m, w) c"
inductive_simps pw_failed [simp]: "pw_step A R ns (Failed, w) c"

text \<open>The whole system: any controller may move.\<close>

inductive sys_step :: "secrets_api \<Rightarrow> rand_source \<Rightarrow> string \<Rightarrow> (nat \<Rightarrow> phase) \<times> world \<Rightarrow> (nat \<Rightarrow> phase) \<times> world \<Rightarrow> bool"
  for A R ns where
  move: "pw_step A R ns (ps i, w) (q, w') \<Longrightarrow> sys_step A R ns (ps, w) (ps(i := q), w')"

inductive_cases sys_stepE: "sys_step A R ns (ps, w) c"

section \<open>A controller alone\<close>

text \<open>What the sequential code makes of the rest of a run: it ends with \<open>m'\<close> in \<open>w'\<close>.\<close>

fun completes :: "secrets_api \<Rightarrow> rand_source \<Rightarrow> string \<Rightarrow> phase \<Rightarrow> world \<Rightarrow> SharedPasswordsSet \<Rightarrow> world \<Rightarrow> bool" where
  "completes A R ns (Loading names m) w m' w' \<longleftrightarrow>
     (\<exists>w1 ks. run_state (new_passwords_loop A R ns m names) w = (Ok m', w1)
       \<and> set ks = dom m' \<and> distinct ks \<and> run_state (CreateOrUpdateToSecrets A ks m') w1 = (Ok (), w'))"
| "completes A R ns (Publishing ks m) w m' w' \<longleftrightarrow>
     m' = m \<and> run_state (CreateOrUpdateToSecrets A ks m) w = (Ok (), w')"
| "completes A R ns (Finished m) w m' w' \<longleftrightarrow> m' = m \<and> w' = w"
| "completes A R ns Failed w m' w' \<longleftrightarrow> False"

lemma completes_back:
  "pw_step A R ns (p, w) (q, v) \<Longrightarrow> completes A R ns q v m' w' \<Longrightarrow> completes A R ns p w m' w'"
  by (erule pw_step.cases)
    (auto simp: CreateOrUpdateToSecrets_def)

lemma steps_completes:
  "(pw_step A R ns)\<^sup>*\<^sup>* (p, w) (Finished m', w') \<Longrightarrow> completes A R ns p w m' w'"
  by (induction rule: converse_rtranclp_induct2) (auto intro: completes_back)

lemma publishing_steps:
  "run_state (CreateOrUpdateToSecrets A ks m) w = (Ok (), w') \<Longrightarrow> set ks \<subseteq> dom m \<Longrightarrow>
     (pw_step A R ns)\<^sup>*\<^sup>* (Publishing ks m, w) (Publishing [] m, w')"
proof (induction ks arbitrary: w)
  case Nil
  then show ?case by (simp add: CreateOrUpdateToSecrets_def)
next
  case (Cons k ks)
  from Cons.prems(2) obtain p where p: "m k = Some p" by auto
  from Cons.prems(1) obtain u w1 where first: "run_state (CreateOrUpdateToSecret A p) w = (Ok u, w1)"
    and rest: "run_state (CreateOrUpdateToSecrets A ks m) w1 = (Ok (), w')"
    by (auto simp: CreateOrUpdateToSecrets_def p elim!: andthen_OkE)
  have "pw_step A R ns (Publishing (k # ks) m, w) (Publishing ks m, w1)"
    using p first by (auto intro: pw_step.publish)
  also have "(pw_step A R ns)\<^sup>*\<^sup>* (Publishing ks m, w1) (Publishing [] m, w')"
    using Cons.IH [OF rest] Cons.prems(2) by simp
  finally (converse_rtranclp_into_rtranclp) show ?case .
qed

lemma loading_steps:
  "run_state (new_passwords_loop A R ns m names) w = (Ok m', w') \<Longrightarrow>
     (pw_step A R ns)\<^sup>*\<^sup>* (Loading names m, w) (Loading [] m', w')"
proof (induction names arbitrary: m w)
  case Nil
  then show ?case by simp
next
  case (Cons name names)
  from Cons.prems obtain m1 w1 where first: "run_state (load_password A R ns name m) w = (Ok m1, w1)"
    and rest: "run_state (new_passwords_loop A R ns m1 names) w1 = (Ok m', w')"
    unfolding new_passwords_loop.simps by (rule andthen_OkE)
  from pw_step.load [OF first] Cons.IH [OF rest] show ?case
    by (rule converse_rtranclp_into_rtranclp)
qed

text \<open>
  Splitting the code into steps loses nothing: a controller that runs alone can finish with a set of
  passwords and a state of the world exactly when \<open>NewSharedPasswordsSet\<close> followed by
  \<open>CreateOrUpdateToSecrets\<close>, in some order of the keys, returns that set without an error in that state.
\<close>

theorem controller_alone:
  "(pw_step A R (password_namespace ns))\<^sup>*\<^sup>* (Loading names Map.empty, w) (Finished m, w') \<longleftrightarrow>
     (\<exists>w1 ks. run_state (NewSharedPasswordsSet A R names ns) w = (Ok m, w1)
       \<and> set ks = dom m \<and> distinct ks \<and> run_state (CreateOrUpdateToSecrets A ks m) w1 = (Ok (), w'))"
    (is "?steps \<longleftrightarrow> ?code")
proof
  assume ?steps
  then show ?code unfolding NewSharedPasswordsSet_def using steps_completes by fastforce
next
  assume ?code
  then obtain w1 ks where
    load: "run_state (new_passwords_loop A R (password_namespace ns) Map.empty names) w = (Ok m, w1)"
    and ks: "set ks = dom m" "distinct ks" and pub: "run_state (CreateOrUpdateToSecrets A ks m) w1 = (Ok (), w')"
    unfolding NewSharedPasswordsSet_def by blast
  note loading_steps [OF load]
  also have "pw_step A R (password_namespace ns) (Loading [] m, w1) (Publishing ks m, w1)"
    using ks by (rule pw_step.loaded)
  also (rtranclp.rtrancl_into_rtrancl)
  have "(pw_step A R (password_namespace ns))\<^sup>*\<^sup>* (Publishing ks m, w1) (Publishing [] m, w')"
    using publishing_steps [OF pub] ks(1) by simp
  also have "pw_step A R (password_namespace ns) (Publishing [] m, w') (Finished m, w')"
    by (rule pw_step.published)
  finally (rtranclp.rtrancl_into_rtrancl) show ?steps .
qed

section \<open>Published passwords are stable\<close>

text \<open>
  What is asked of the server beyond being an object store: drawing a random number does not change it,
  and a write that reports an error either took effect or did not.
\<close>

definition steady_store :: "secrets_api \<Rightarrow> (call list \<Rightarrow> string \<times> string \<Rightarrow> secret option) \<Rightarrow> bool" where
  "steady_store A \<sigma> \<longleftrightarrow> secret_store A \<sigma>
     \<and> (\<forall>h n. \<sigma> (h @ [RandIntn n]) = \<sigma> h)
     \<and> (\<forall>h s. \<sigma> (h @ [ApiCreateOrUpdate (OSecret s)]) \<in> {\<sigma> h, (\<sigma> h)(secret_key s \<mapsto> s)})"

lemma replay_api_steady: "steady_store replay_api replay"
  by (simp add: steady_store_def replay_api_store)

lemma steady_read_or_draw:
  assumes "steady_store A \<sigma>" and "hist_ext read_or_draw w w'"
  shows "\<sigma> (history w') = \<sigma> (history w)"
proof -
  have "\<sigma> (h @ cs) = \<sigma> h" if "list_all read_or_draw cs" for h cs
    using that
  proof (induction cs arbitrary: h)
    case (Cons c cs)
    have "\<sigma> (h @ [c]) = \<sigma> h"
      using Cons.prems assms(1)
      by (auto simp: read_or_draw_def steady_store_def secret_store_def split: call.splits)
    then show ?case using Cons.IH [of "h @ [c]"] Cons.prems by simp
  qed simp
  then show ?thesis using assms(2) by (auto simp: hist_ext_def)
qed

lemma well_named_names:
  assumes "well_named ns m" and "m k = Some p" and "CHR ''/'' \<notin> set ns" and "ns \<noteq> []"
  shows "password_GetNamespace p = ns" and "password_GetName p = k"
proof -
  have "p = (NewSharedPassword k ns)\<lparr>pwContents := pwContents p\<rparr>"
    using assms(1,2) unfolding well_named_def by blast
  then have "password_GetNamespace p = password_GetNamespace ((NewSharedPassword k ns)\<lparr>pwContents := pwContents p\<rparr>)"
    and "password_GetName p = password_GetName ((NewSharedPassword k ns)\<lparr>pwContents := pwContents p\<rparr>)"
    by (rule arg_cong)+
  then show "password_GetNamespace p = ns" and "password_GetName p = k"
    using assms(3,4) by simp_all
qed

text \<open>
  \<open>m0\<close> is what was published: the store holds it, and whoever has a password of one of its names has
  that one.
\<close>

definition published_in :: "(call list \<Rightarrow> string \<times> string \<Rightarrow> secret option) \<Rightarrow> string \<Rightarrow> SharedPasswordsSet \<Rightarrow> world \<Rightarrow> bool" where
  "published_in \<sigma> ns m0 w \<longleftrightarrow> (\<forall>k p. m0 k = Some p \<longrightarrow> \<sigma> (history w) (ns, k) = Some (password_secret p))"

definition conforms :: "string \<Rightarrow> SharedPasswordsSet \<Rightarrow> phase \<Rightarrow> bool" where
  "conforms ns m0 q \<longleftrightarrow> well_named ns (passwords_of q)
     \<and> (\<forall>k p p'. passwords_of q k = Some p' \<longrightarrow> m0 k = Some p \<longrightarrow> p' = p)"

lemma load_conforms:
  assumes "steady_store A \<sigma>" and ns: "CHR ''/'' \<notin> set ns" "ns \<noteq> []" and "well_named ns m0"
    and "published_in \<sigma> ns m0 w" and "conforms ns m0 (Loading (name # names) m)"
    and run: "run_state (load_password A R ns name m) w = (Ok m', w')"
  shows "conforms ns m0 (Loading names m')"
proof -
  obtain p where p: "m' = m(name \<mapsto> p)" "p = (NewSharedPassword name ns)\<lparr>pwContents := pwContents p\<rparr>"
    using load_password_Ok [OF run] by blast
  have "p = p0" if p0: "m0 name = Some p0" for p0
  proof -
    have "\<sigma> (history w) (ns, name) = Some (password_secret p0)"
      using assms(5) p0 unfolding published_in_def by blast
    then have "run_state (GetFromSecret A (NewSharedPassword name ns)) w =
        (Ok ((NewSharedPassword name ns)\<lparr>pwContents := pwContents p0\<rparr>),
         w\<lparr>history := history w @ [ApiGet KSecret ns name]\<rparr>)"
      using run_GetFromSecret [of A \<sigma> w "NewSharedPassword name ns" "password_secret p0"] assms(1) ns
        well_named_names [OF assms(4) p0 ns]
      by (simp add: steady_store_def password_secret_def)
    then have "m' = m(name \<mapsto> (NewSharedPassword name ns)\<lparr>pwContents := pwContents p0\<rparr>)"
      using run by (simp add: load_password_def)
    moreover have "(NewSharedPassword name ns)\<lparr>pwContents := pwContents p0\<rparr> = p0"
      using assms(4) p0 unfolding well_named_def by metis
    ultimately show ?thesis using p(1) by (metis fun_upd_same option.inject)
  qed
  then show ?thesis
    using assms(6) well_named_upd [OF _ p(2), of m] unfolding conforms_def p(1) by auto
qed

lemma write_settles:
  assumes "steady_store A \<sigma>" and "run_state (CreateOrUpdateToSecret A p) w = (r, w')"
  shows "\<sigma> (history w') \<in> {\<sigma> (history w),
    (\<sigma> (history w))((password_GetNamespace p, password_GetName p) \<mapsto> password_secret p)}"
proof -
  have "history w' = history w @ [ApiCreateOrUpdate (OSecret (password_secret p))]"
    using assms(2) by (auto simp: CreateOrUpdateToSecret_def CreateOrUpdateSecret_def)
  moreover have "\<sigma> (h @ [ApiCreateOrUpdate (OSecret s)]) \<in> {\<sigma> h, (\<sigma> h)(secret_key s \<mapsto> s)}" for h s
    using assms(1) unfolding steady_store_def by blast
  ultimately show ?thesis by (metis password_secret_key)
qed

lemma write_published:
  assumes "steady_store A \<sigma>" and ns: "CHR ''/'' \<notin> set ns" "ns \<noteq> []"
    and "published_in \<sigma> ns m0 w" and "conforms ns m0 (Publishing ks m)" and "m k = Some p"
    and "run_state (CreateOrUpdateToSecret A p) w = (r, w')"
  shows "published_in \<sigma> ns m0 w'"
proof -
  have wn: "well_named ns m" and same: "m0 k = Some p0 \<Longrightarrow> p = p0" for p0
    using assms(5,6) by (simp_all add: conforms_def)
  show ?thesis
    using write_settles [OF assms(1,7)] assms(4) same
    unfolding published_in_def well_named_names [OF wn assms(6) ns] by auto
qed

lemma pw_step_published:
  assumes "pw_step A R ns (p, w) (q, w')"
    and "steady_store A \<sigma>" and "CHR ''/'' \<notin> set ns" and "ns \<noteq> []" and "well_named ns m0"
    and "published_in \<sigma> ns m0 w" and "conforms ns m0 p"
  shows "published_in \<sigma> ns m0 w' \<and> conforms ns m0 q"
  using assms(1)
proof cases
  case (load name m m' names)
  have "\<sigma> (history w') = \<sigma> (history w)"
    using assms(2) calls_onlyD [OF load_password_calls load(3)] by (rule steady_read_or_draw)
  then show ?thesis
    using assms load load_conforms [OF assms(2-6) _ load(3)] by (simp add: published_in_def)
next
  case (load_fails name m r names)
  have "\<sigma> (history w') = \<sigma> (history w)"
    using assms(2) calls_onlyD [OF load_password_calls load_fails(3)] by (rule steady_read_or_draw)
  then show ?thesis using assms(6) load_fails by (simp add: published_in_def conforms_def)
next
  case (publish m k x ks)
  then show ?thesis
    using write_published [where m = m and k = k and ks = ks, OF assms(2-4,6) _ publish(3,4)] assms(7) by (simp add: conforms_def)
next
  case (publish_fails m k x r ks)
  then show ?thesis
    using write_published [where m = m and k = k and ks = ks, OF assms(2-4,6) _ publish_fails(3,4)] assms(7) by (simp add: conforms_def)
qed (use assms(6,7) in \<open>simp_all add: conforms_def\<close>)

lemma sys_published:
  assumes "(sys_step A R ns)\<^sup>*\<^sup>* (ps, w) (ps', w')"
    and "steady_store A \<sigma>" and "CHR ''/'' \<notin> set ns" and "ns \<noteq> []" and "well_named ns m0"
    and "published_in \<sigma> ns m0 w" and "\<And>i. conforms ns m0 (ps i)"
  shows "published_in \<sigma> ns m0 w' \<and> (\<forall>i. conforms ns m0 (ps' i))"
  using assms(1)
proof (induction rule: rtranclp_induct2)
  case refl
  then show ?case using assms(6,7) by simp
next
  case (step ps1 w1 ps2 w2)
  from step.hyps(2) show ?case
  proof (rule sys_stepE)
    fix i q v
    assume c: "(ps2, w2) = (ps1(i := q), v)" and mv: "pw_step A R ns (ps1 i, w1) (q, v)"
    show ?thesis
      using pw_step_published [OF mv assms(2-5)] step.IH c by simp
  qed
qed

lemma password_namespace_ok:
  "CHR ''/'' \<notin> set ns \<Longrightarrow> CHR ''/'' \<notin> set (password_namespace ns) \<and> password_namespace ns \<noteq> []"
  by (simp add: password_namespace_def sharedPasswordNamespace_def NamespaceSystem_def)

text \<open>The names that a controller was started with are loaded by the time it publishes.\<close>

fun covers :: "string set \<Rightarrow> phase \<Rightarrow> bool" where
  "covers N (Loading names m) \<longleftrightarrow> N \<subseteq> dom m \<union> set names"
| "covers N (Publishing ks m) \<longleftrightarrow> N \<subseteq> dom m"
| "covers N (Finished m) \<longleftrightarrow> N \<subseteq> dom m"
| "covers N Failed \<longleftrightarrow> True"

lemma pw_step_covers: "pw_step A R ns (p, w) (q, w') \<Longrightarrow> covers N p \<Longrightarrow> covers N q"
  by (erule pw_step.cases) (auto dest!: load_password_Ok)

lemma sys_covers:
  assumes "(sys_step A R ns)\<^sup>*\<^sup>* (ps, w) (ps', w')" and "\<And>i. covers (N i) (ps i)"
  shows "covers (N i) (ps' i)"
  using assms(1)
proof (induction arbitrary: i rule: rtranclp_induct2)
  case refl
  show ?case by (rule assms(2))
next
  case (step ps1 w1 ps2 w2)
  from step.hyps(2) show ?case
  proof (rule sys_stepE)
    fix j q v
    assume "(ps2, w2) = (ps1(j := q), v)" and "pw_step A R ns (ps1 j, w1) (q, v)"
    then show ?thesis using step.IH pw_step_covers [of A R ns "ps1 j" w1 q v "N j"] by auto
  qed
qed

text \<open>
  C16. Published passwords are shared: once one run of \<open>NewSharedPasswordsSet\<close> and
  \<open>CreateOrUpdateToSecrets\<close> has succeeded, then however many controllers start these two afterwards,
  whatever names they ask for and however their steps interleave (failures of the server included;
  nobody deletes a secret), at every moment the store still holds the published passwords, a controller
  has no other password for a published name, and one that has finished has the published one for
  each such name that it asked for.
\<close>

theorem published_passwords_stable:
  assumes "steady_store A \<sigma>" and "CHR ''/'' \<notin> set ns"
    and "run_state (NewSharedPasswordsSet A R0 names ns) w0 = (Ok m0, w1)"
    and "run_state (CreateOrUpdateToSecrets A ks m0) w1 = (Ok (), w2)" and "set ks = dom m0"
    and "(sys_step A R (password_namespace ns))\<^sup>*\<^sup>* (\<lambda>i. Loading (wanted i) Map.empty, w2) (ps, w)"
    and "name \<in> set names"
  shows "\<exists>p. m0 name = Some p
    \<and> \<sigma> (history w) (password_namespace ns, name) = Some (password_secret p)
    \<and> passwords_of (ps i) name \<in> {None, Some p}
    \<and> (\<forall>m. ps i = Finished m \<longrightarrow> name \<in> set (wanted i) \<longrightarrow> m name = Some p)"
proof -
  let ?ns = "password_namespace ns"
  note ns = conjunct1 [OF password_namespace_ok [OF assms(2)]] conjunct2 [OF password_namespace_ok [OF assms(2)]]
  have wn: "well_named ?ns m0" and dom: "dom m0 = set names"
    using new_passwords_loop_well_named [OF assms(3) [unfolded NewSharedPasswordsSet_def]] by simp_all
  have "\<sigma> (history w2) (?ns, k) = Some (password_secret p)" if "m0 k = Some p" for k p
    using run_CreateOrUpdateToSecrets [OF _ _ assms(4), of \<sigma> ?ns ?ns k] assms(1,5) that
      well_named_names [OF wn _ ns]
    by (auto simp: steady_store_def)
  then have pub: "published_in \<sigma> ?ns m0 w2" by (simp add: published_in_def)
  have "conforms ?ns m0 (Loading (wanted i) Map.empty)" for i by (simp add: conforms_def)
  from sys_published [OF assms(6,1) ns wn pub this]
  have inv: "published_in \<sigma> ?ns m0 w" "conforms ?ns m0 (ps i)" by simp_all
  obtain p where p: "m0 name = Some p" using dom assms(7) by blast
  have "passwords_of (ps i) name \<in> {None, Some p}"
    using inv(2) p by (cases "passwords_of (ps i) name") (auto simp: conforms_def)
  moreover have "covers (set (wanted i)) (ps i)"
    by (rule sys_covers [where N = "\<lambda>i. set (wanted i)", OF assms(6)]) simp
  then have "m name \<noteq> None" if "ps i = Finished m" "name \<in> set (wanted i)" for m
    using that by auto
  ultimately show ?thesis
    using inv(1) p unfolding published_in_def by (intro exI [of _ p]) fastforce
qed

section \<open>Two controllers that look before either publishes\<close>

lemma run_rand_runes_hd:
  "run_state (rand_runes R n) w = (s, w') \<Longrightarrow> 0 < n \<Longrightarrow> hd s = letterRunes ! (R (history w) mod 62)"
  by (cases n) (auto simp: Intn_def length_letterRunes split: prod.splits)

lemma run_Rand_hd:
  "run_state (Rand R p 16) w = (Ok (q, s), w') \<Longrightarrow> hd (pwContents q) = letterRunes ! (R (history w) mod 62)"
  by (auto simp: Rand_def run_andthen randStringRunes_def split: prod.splits dest!: run_rand_runes_hd)

lemma load_absent:
  assumes "steady_store A \<sigma>" and ns: "CHR ''/'' \<notin> set ns" "ns \<noteq> []" and "\<sigma> (history w) (ns, name) = None"
  shows "\<exists>p w'. run_state (load_password A R ns name m) w = (Ok (m(name \<mapsto> p)), w')
    \<and> hd (pwContents p) = letterRunes ! (R (history w @ [ApiGet KSecret ns name]) mod 62)
    \<and> \<sigma> (history w') = \<sigma> (history w) \<and> length (history w') = length (history w) + 17"
proof -
  let ?p = "NewSharedPassword name ns" and ?w = "w\<lparr>history := history w @ [ApiGet KSecret ns name]\<rparr>"
  obtain x c where "secrets_get A (history w) ns name = (x, Some (StatusErr NotFound c))"
    using secret_store_absent [of A \<sigma> "history w" ns name] assms(1,4) by (auto simp: steady_store_def)
  then have get: "run_state (GetFromSecret A ?p) w = (Err (StatusErr NotFound c), ?w)"
    using ns by (cases x) (simp_all add: GetFromSecret_def Secrets_Get_def)
  obtain s where rnd: "run_state (Rand R ?p 16) ?w =
      (Ok (?p\<lparr>pwContents := s\<rparr>, s), ?w\<lparr>history := history ?w @ replicate 16 (RandIntn 62)\<rparr>)"
    using run_Rand [of 16 R ?p ?w] by auto
  have run: "run_state (load_password A R ns name m) w =
      (Ok (m(name \<mapsto> ?p\<lparr>pwContents := s\<rparr>)), ?w\<lparr>history := history ?w @ replicate 16 (RandIntn 62)\<rparr>)"
    using get rnd by (simp add: load_password_def sharedPasswordDefaultLen_def)
  have "\<sigma> (history (?w\<lparr>history := history ?w @ replicate 16 (RandIntn 62)\<rparr>)) = \<sigma> (history w)"
    by (rule steady_read_or_draw [OF assms(1) calls_onlyD [OF load_password_calls run]])
  then show ?thesis
    using run run_Rand_hd [OF rnd] by (intro exI conjI) (assumption, simp_all)
qed

lemma move_first:
  "(sys_step A R ns)\<^sup>*\<^sup>* c (ps(0 := a, 1 := b), w) \<Longrightarrow> pw_step A R ns (a, w) (q, w') \<Longrightarrow>
     (sys_step A R ns)\<^sup>*\<^sup>* c (ps(0 := q, 1 := b), w')"
  using sys_step.move [of A R ns "ps(0 := a, 1 := b)" 0 w q w']
  by (simp add: fun_upd_twist [of "Suc 0" 0] rtranclp.rtrancl_into_rtrancl)

lemma move_second:
  "(sys_step A R ns)\<^sup>*\<^sup>* c (ps(0 := a, 1 := b), w) \<Longrightarrow> pw_step A R ns (b, w) (q, w') \<Longrightarrow>
     (sys_step A R ns)\<^sup>*\<^sup>* c (ps(0 := a, 1 := q), w')"
  using sys_step.move [of A R ns "ps(0 := a, 1 := b)" 1 w q w']
  by (simp add: rtranclp.rtrancl_into_rtrancl)

lemma write_accepted:
  assumes "steady_store A \<sigma>" and "\<And>h s. secrets_create_or_update A h s = None"
  shows "\<exists>w'. run_state (CreateOrUpdateToSecret A p) w = (Ok (), w')
    \<and> \<sigma> (history w') = (\<sigma> (history w))((password_GetNamespace p, password_GetName p) \<mapsto> password_secret p)"
proof -
  obtain w' where w': "run_state (CreateOrUpdateToSecret A p) w = (Ok (), w')"
    using assms(2) by (simp add: CreateOrUpdateToSecret_def CreateOrUpdateSecret_def)
  from run_CreateOrUpdateToSecret [OF _ this] assms(1) w' show ?thesis
    unfolding steady_store_def by blast
qed

text \<open>
  C17. Nothing stops two controllers from ending up with different passwords under one name: whatever
  the store, when the password is not in it and writes succeed, there are random numbers and an
  interleaving in which both controllers finish without an error, each with a password of its own, and
  the store keeps only the one published last. Neither run ever learns of the other.
\<close>

theorem concurrent_passwords_differ:
  assumes "steady_store A \<sigma>" and "\<And>h s. secrets_create_or_update A h s = None"
    and "CHR ''/'' \<notin> set ns" and "\<sigma> (history w) (password_namespace ns, name) = None"
  shows "\<exists>R ps w' p0 p1.
    (sys_step A R (password_namespace ns))\<^sup>*\<^sup>* (\<lambda>_. Loading [name] Map.empty, w) (ps, w')
    \<and> ps 0 = Finished [name \<mapsto> p0] \<and> ps 1 = Finished [name \<mapsto> p1] \<and> pwContents p0 \<noteq> pwContents p1
    \<and> \<sigma> (history w') (password_namespace ns, name) = Some (password_secret p1)"
proof -
  let ?ns = "password_namespace ns" and ?ps = "\<lambda>_ :: nat. Loading [name] Map.empty"
  let ?R = "\<lambda>h :: call list. if length h = length (history w) + 1 then 0 else (1 :: nat)"
  note ns = conjunct1 [OF password_namespace_ok [OF assms(3)]] conjunct2 [OF password_namespace_ok [OF assms(3)]]
  obtain p0 w1 where l0: "run_state (load_password A ?R ?ns name Map.empty) w = (Ok [name \<mapsto> p0], w1)"
    and hd0: "hd (pwContents p0) = letterRunes ! 0"
    and s1: "\<sigma> (history w1) = \<sigma> (history w)" and len1: "length (history w1) = length (history w) + 17"
    using load_absent [OF assms(1) ns assms(4), where R = ?R and m = Map.empty] by auto
  obtain p1 w2 where l1: "run_state (load_password A ?R ?ns name Map.empty) w1 = (Ok [name \<mapsto> p1], w2)"
    and hd1: "hd (pwContents p1) = letterRunes ! 1"
    using load_absent [OF assms(1) ns, of w1 name ?R Map.empty] s1 assms(4) len1 by auto
  obtain p where p: "[name \<mapsto> p1] = [name \<mapsto> p]" "p = (NewSharedPassword name ?ns)\<lparr>pwContents := pwContents p\<rparr>"
    using load_password_Ok [OF l1] by blast
  then have wn: "well_named ?ns [name \<mapsto> p1]"
    unfolding p(1) by (intro well_named_upd) simp_all
  obtain w3 where c0: "run_state (CreateOrUpdateToSecret A p0) w2 = (Ok (), w3)"
    using write_accepted [OF assms(1,2)] by blast
  obtain w4 where c1: "run_state (CreateOrUpdateToSecret A p1) w3 = (Ok (), w4)"
    and s4: "\<sigma> (history w4) =
      (\<sigma> (history w3))((password_GetNamespace p1, password_GetName p1) \<mapsto> password_secret p1)"
    using write_accepted [OF assms(1,2)] by blast
  let ?at = "\<lambda>a b v. (sys_step A ?R ?ns)\<^sup>*\<^sup>* (?ps, w) (?ps(0 := a, 1 := b), v)"
  have "?at (Loading [name] Map.empty) (Loading [name] Map.empty) w" by (simp add: fun_upd_idem)
  note move_first [OF this pw_step.load [OF l0]]
  note move_second [OF this pw_step.load [OF l1]]
  note move_first [OF this pw_step.loaded [where ks = "[name]"]]
  note move_second [OF this pw_step.loaded [where ks = "[name]"]]
  note move_first [OF this pw_step.publish [OF _ c0]]
  note move_second [OF this pw_step.publish [OF _ c1]]
  note move_first [OF this pw_step.published]
  note move_second [OF this pw_step.published]
  then have "?at (Finished [name \<mapsto> p0]) (Finished [name \<mapsto> p1]) w4" by simp
  moreover have "pwContents p0 \<noteq> pwContents p1" using hd0 hd1 by (auto simp: letterRunes_def)
  moreover have "\<sigma> (history w4) (?ns, name) = Some (password_secret p1)"
    using s4 well_named_names [OF wn _ ns] by simp
  ultimately show ?thesis
    by (intro exI [of _ ?R] exI [of _ "?ps(0 := Finished [name \<mapsto> p0], 1 := Finished [name \<mapsto> p1])"]
        exI [of _ w4] exI [of _ p0] exI [of _ p1]) simp
qed

section \<open>Concrete controllers\<close>

lemma demo_password_run:
  fixes w :: world
  assumes "replay (history w) (''kube-system'', ''dex'') =
    Some (password_secret ((NewSharedPassword ''dex'' ''kube-system'')\<lparr>pwContents := ''s3cret''\<rparr>))"
  shows "run_state (load_password replay_api R ''kube-system'' ''dex'' m) w =
    (Ok (m(''dex'' \<mapsto> (NewSharedPassword ''dex'' ''kube-system'')\<lparr>pwContents := ''s3cret''\<rparr>)),
     w\<lparr>history := history w @ [ApiGet KSecret ''kube-system'' ''dex'']\<rparr>)"
  using run_GetFromSecret [OF replay_api_store, of w "NewSharedPassword ''dex'' ''kube-system''"] assms
  by (simp add: load_password_def password_secret_def)

theorem published_passwords_stable_witness:
  "\<exists>(ps :: nat \<Rightarrow> phase) (w :: world). passwords_of (ps 0) ''dex'' \<noteq> None
     \<and> map_option password_secret (passwords_of (ps 0) ''dex'') = replay (history w) (''kube-system'', ''dex'')"
proof -
  let ?p = "(NewSharedPassword ''dex'' ''kube-system'')\<lparr>pwContents := ''s3cret''\<rparr>"
  let ?w1 = "demo_secret_world\<lparr>history := history demo_secret_world @ [ApiGet KSecret ''kube-system'' ''dex'']\<rparr>"
  have ns: "password_namespace [] = ''kube-system''"
    by (simp add: password_namespace_def sharedPasswordNamespace_def NamespaceSystem_def)
  have stored: "replay (history demo_secret_world) (''kube-system'', ''dex'') = Some (password_secret ?p)"
    by (simp add: demo_secret_world_def replay_def)
  have load: "run_state (NewSharedPasswordsSet replay_api (\<lambda>_. 0) [''dex''] []) demo_secret_world =
      (Ok [''dex'' \<mapsto> ?p], ?w1)"
    using demo_password_run [OF stored]
    by (simp add: NewSharedPasswordsSet_def ns)
  obtain w2 where pub: "run_state (CreateOrUpdateToSecrets replay_api [''dex''] [''dex'' \<mapsto> ?p]) ?w1 = (Ok (), w2)"
    and stored2: "replay (history w2) (''kube-system'', ''dex'') = Some (password_secret ?p)"
    by (auto simp: CreateOrUpdateToSecrets_def CreateOrUpdateToSecret_def CreateOrUpdateSecret_def run_andthen replay_def)
  have "(sys_step replay_api (\<lambda>_. 0) (password_namespace []))\<^sup>*\<^sup>* (\<lambda>i. Loading [''dex''] Map.empty, w2)
      ((\<lambda>i. Loading [''dex''] Map.empty)(0 := Loading [] [''dex'' \<mapsto> ?p]),
       w2\<lparr>history := history w2 @ [ApiGet KSecret ''kube-system'' ''dex'']\<rparr>)"
    unfolding ns by (rule r_into_rtranclp, rule sys_step.move, rule pw_step.load, rule demo_password_run [OF stored2])
  from published_passwords_stable [OF replay_api_steady _ load pub _ this, where name = "''dex''" and i = 0]
  show ?thesis
    by (intro exI [of _ "(\<lambda>i. Loading [''dex''] Map.empty)(0 := Loading [] [''dex'' \<mapsto> ?p])"] exI
        [of _ "w2\<lparr>history := history w2 @ [ApiGet KSecret ''kube-system'' ''dex'']\<rparr>"]) (simp add: ns)
qed

theorem concurrent_passwords_differ_witness:
  "\<exists>R ps w' p0 p1. (sys_step replay_api R ''kube-system'')\<^sup>*\<^sup>*
       (\<lambda>_. Loading [''dex''] Map.empty, \<lparr>history = [], kubelet_settings = []\<rparr>) (ps, w')
     \<and> ps 0 = Finished [''dex'' \<mapsto> p0] \<and> ps 1 = Finished [''dex'' \<mapsto> p1] \<and> pwContents p0 \<noteq> pwContents p1
     \<and> replay (history w') (''kube-system'', ''dex'') = Some (password_secret p1)"
  using concurrent_passwords_differ [OF replay_api_steady, where ns = "''kube-system''" and name = "''dex''"
      and w = "\<lparr>history = [], kubelet_settings = []\<rparr>"]
  by (simp add: password_namespace_def)

end
