(* ===== verification/Csr_Signing.thy ===== *)
theory Csr_Signing
  imports AutoCert
begin

text \<open>
  The certificate request together with the cluster: the server stores signing requests, and the
  cluster's signer, a separate process, adds the certificate to an approved request at some moment of
  its own. The life of a signing request is a step relation; what the server and the signer do is
  stated over it. With them, a request returns, and key and certificate belong together.
\<close>

section \<open>The life of a signing request\<close>

definition csr_approved :: "csr \<Rightarrow> bool" where
  "csr_approved c = (case csrConditions c of [] \<Rightarrow> False | c1 # _ \<Rightarrow> condType c1 = CertificateApproved)"

lemma csr_ready_iff: "csr_ready c \<longleftrightarrow> csr_approved c \<and> csrCertificate c \<noteq> []"
  by (auto simp: csr_ready_def csr_approved_def split: list.split)

text \<open>What happens to a signing request while others look at it: it stays, or the signer fills it in.\<close>

inductive signer_step :: "(string \<Rightarrow> string) \<Rightarrow> csr \<Rightarrow> csr \<Rightarrow> bool" for issue where
  idle: "signer_step issue c c"
| sign: "csr_approved c \<Longrightarrow> csrCertificate c = [] \<Longrightarrow>
     signer_step issue c (c\<lparr>csrCertificate := issue (csrRequest c)\<rparr>)"

inductive_cases signer_stepE: "signer_step issue c c'"

lemma signer_steps_from_approved:
  assumes "(signer_step issue)\<^sup>*\<^sup>* c c'" and "csrCertificate c = []"
  shows "c' = c \<or> csr_approved c \<and> c' = c\<lparr>csrCertificate := issue (csrRequest c)\<rparr>"
  using assms(1)
proof (induction rule: rtranclp_induct)
  case (step c1 c2)
  from step.hyps(2) step.IH show ?case
    by cases (auto simp: csr_approved_def)
qed simp

section \<open>The server and the signer\<close>

definition writes_csr :: "call \<Rightarrow> bool" where
  "writes_csr c =
     (case c of
        ApiCreate (OCsr _) \<Rightarrow> True | ApiUpdate (OCsr _) \<Rightarrow> True | ApiCreateOrUpdate (OCsr _) \<Rightarrow> True
      | ApiUpdateApproval _ \<Rightarrow> True | ApiDelete k _ _ _ \<Rightarrow> k = KCsr | _ \<Rightarrow> False)"

text \<open>\<open>polls name k\<close>: the calls of \<open>k\<close> attempts of the wait that did not end it.\<close>

definition polls :: "string \<Rightarrow> nat \<Rightarrow> call list" where
  "polls name k = concat (replicate k [ApiGet KCsr [] name, TimeSleep 5])"

lemma history_poll_world: "history (poll_world name k w) = history w @ polls name k"
  by (simp add: poll_world_def polls_def)

text \<open>
  \<open>csr_server A \<kappa> issue name\<close>: after a history \<open>h\<close> the server has the signing request \<open>\<kappa> h\<close> under
  \<open>name\<close>. Reading tells it; creating a missing one, and updating the approval of one that exists and deleting
  it, succeed and have their effect; during every other call at most the signer changes it.
\<close>

definition csr_server :: "csr_api \<Rightarrow> (call list \<Rightarrow> csr option) \<Rightarrow> (string \<Rightarrow> string) \<Rightarrow> string \<Rightarrow> bool" where
  "csr_server A \<kappa> issue name \<longleftrightarrow>
     (\<forall>h. case \<kappa> h of
            Some c \<Rightarrow> csr_get A h name = (Some c, None)
          | None \<Rightarrow> \<exists>p c. csr_get A h name = (p, Some (StatusErr NotFound c)))
     \<and> (\<forall>h c. metaName (csrMeta c) = name \<longrightarrow> \<kappa> h = None \<longrightarrow>
              csr_create A h c = (Some c, None) \<and> \<kappa> (h @ [ApiCreate (OCsr c)]) = Some c)
     \<and> (\<forall>h c. metaName (csrMeta c) = name \<longrightarrow> \<kappa> h \<noteq> None \<longrightarrow>
              csr_update_approval A h c = None \<and> \<kappa> (h @ [ApiUpdateApproval c]) = Some c)
     \<and> (\<forall>h. \<kappa> h \<noteq> None \<longrightarrow>
              csr_delete A h name = None \<and> \<kappa> (h @ [ApiDelete KCsr [] name False]) = None)
     \<and> (\<forall>h x. \<not> writes_csr x \<longrightarrow> rel_option (signer_step issue) (\<kappa> h) (\<kappa> (h @ [x])))"

text \<open>The signer is alive: an approved request is signed after finitely many polls.\<close>

definition signer_alive :: "(call list \<Rightarrow> csr option) \<Rightarrow> string \<Rightarrow> bool" where
  "signer_alive \<kappa> name \<longleftrightarrow>
     (\<forall>h c. \<kappa> h = Some c \<longrightarrow> csr_approved c \<longrightarrow>
        (\<exists>k c'. \<kappa> (h @ polls name k) = Some c' \<and> csrCertificate c' \<noteq> []))"

lemma csr_server_get:
  "csr_server A \<kappa> issue name \<Longrightarrow> \<kappa> h = Some c \<Longrightarrow> csr_get A h name = (Some c, None)"
  unfolding csr_server_def by (auto dest!: spec [of _ h] split: option.splits)

lemma csr_server_create:
  "csr_server A \<kappa> issue name \<Longrightarrow> metaName (csrMeta c) = name \<Longrightarrow> \<kappa> h = None \<Longrightarrow>
     csr_create A h c = (Some c, None) \<and> \<kappa> (h @ [ApiCreate (OCsr c)]) = Some c"
  unfolding csr_server_def by blast

lemma csr_server_approve:
  "csr_server A \<kappa> issue name \<Longrightarrow> metaName (csrMeta c) = name \<Longrightarrow> \<kappa> h = Some c0 \<Longrightarrow>
     csr_update_approval A h c = None \<and> \<kappa> (h @ [ApiUpdateApproval c]) = Some c"
  unfolding csr_server_def by blast

lemma csr_server_delete:
  "csr_server A \<kappa> issue name \<Longrightarrow> \<kappa> h \<noteq> None \<Longrightarrow>
     csr_delete A h name = None \<and> \<kappa> (h @ [ApiDelete KCsr [] name False]) = None"
  unfolding csr_server_def by blast

lemma csr_server_step:
  "csr_server A \<kappa> issue name \<Longrightarrow> \<not> writes_csr x \<Longrightarrow>
     rel_option (signer_step issue) (\<kappa> h) (\<kappa> (h @ [x]))"
  unfolding csr_server_def by blast

lemma csr_server_idle:
  assumes "csr_server A \<kappa> issue name" and "list_all (\<lambda>x. \<not> writes_csr x) xs"
  shows "rel_option (signer_step issue)\<^sup>*\<^sup>* (\<kappa> h) (\<kappa> (h @ xs))"
  using assms(2)
proof (induction xs rule: rev_induct)
  case Nil
  then show ?case by (simp add: option.rel_refl)
next
  case (snoc x xs)
  have "rel_option (signer_step issue) (\<kappa> (h @ xs)) (\<kappa> ((h @ xs) @ [x]))"
    using snoc.prems by (intro csr_server_step [OF assms(1)]) simp
  moreover have "rel_option (signer_step issue)\<^sup>*\<^sup>* (\<kappa> h) (\<kappa> (h @ xs))"
    using snoc by simp
  ultimately show ?case
    by (cases "\<kappa> h"; cases "\<kappa> (h @ xs)"; cases "\<kappa> (h @ xs @ [x])")
      (auto intro: rtranclp.rtrancl_into_rtrancl)
qed

lemma polls_idle: "list_all (\<lambda>x. \<not> writes_csr x) (polls name k)"
  by (auto simp: polls_def list_all_iff writes_csr_def)


section \<open>Submitting, waiting, storing\<close>

text \<open>The signing request after the program's own approval.\<close>

definition approved_request :: "AutoCert \<Rightarrow> string \<Rightarrow> csr" where
  "approved_request ac bytes = (cert_request ac bytes)\<lparr>csrConditions := [auto_approved]\<rparr>"

lemma approved_request_sel [simp]:
  "csrCertificate (approved_request ac bytes) = []" "csr_approved (approved_request ac bytes)"
  "csrRequest (approved_request ac bytes) = bytes"
  by (simp_all add: approved_request_def cert_request_def csr_approved_def auto_approved_def)

lemma submit_approved:
  assumes server: "csr_server (dep_csrs D) \<kappa> issue (csr_name ac)"
    and "acNames ac = cn # names" and "\<kappa> (history w) = None"
    and "generate_key (dep_crypto D) (history w) 1024 = Inr key"
    and "\<And>h. create_request (dep_crypto D) h
           \<lparr>tmplCommonName = cn, tmplDNSNames = acNames ac, tmplIPAddresses = acIPs ac\<rparr> key = Inr bytes"
  shows "\<exists>w1. run_state (request_submit D ac) w = (Ok key, w1)
    \<and> \<kappa> (history w1) = Some (approved_request ac (pem_encode (dep_crypto D) ''CERTIFICATE REQUEST'' bytes))"
proof -
  let ?c = "cert_request ac (pem_encode (dep_crypto D) ''CERTIFICATE REQUEST'' bytes)"
  let ?a = "approved_request ac (pem_encode (dep_crypto D) ''CERTIFICATE REQUEST'' bytes)"
  let ?h = "history w @ [RsaGenerateKey 1024]"
  have name: "metaName (csrMeta ?c) = csr_name ac" "metaName (csrMeta ?a) = csr_name ac"
    by (simp_all add: cert_request_def approved_request_def)
  have "rel_option (signer_step issue)\<^sup>*\<^sup>* (\<kappa> (history w)) (\<kappa> ?h)"
    by (rule csr_server_idle [OF server]) (simp add: writes_csr_def)
  then have "\<kappa> ?h = None" using assms(3) by simp
  from csr_server_create [OF server name(1) this]
  have create: "csr_create (dep_csrs D) ?h ?c = (Some ?c, None)"
    and stored: "\<kappa> (?h @ [ApiCreate (OCsr ?c)]) = Some ?c"
    by blast+
  have a: "?c\<lparr>csrConditions := csrConditions ?c @ [auto_approved]\<rparr> = ?a"
    by (simp add: approved_request_def cert_request_def)
  from csr_server_approve [OF server name(2) stored] show ?thesis
    using create assms(2,4,5)
    by (simp add: request_submit_def run_andthen run_wrap_err GenerateKey_def CreateCertificateRequest_def
        submit_csr_def Csr_Create_def Csr_UpdateApproval_def a)
qed

lemma wait_signed:
  assumes server: "csr_server A \<kappa> issue name" and "signer_alive \<kappa> name"
    and c: "\<kappa> (history w) = Some c" "csr_approved c" "csrCertificate c = []"
  shows "\<exists>w'. wait_loop A name w = Some (Ok (issue (csrRequest c)), w') \<and> \<kappa> (history w') = None
    \<and> (\<exists>k. history w' = history w @ polls name k @ [ApiGet KCsr [] name, ApiDelete KCsr [] name False])"
proof -
  let ?signed = "c\<lparr>csrCertificate := issue (csrRequest c)\<rparr>"
  have later: "\<kappa> (history w @ polls name k) \<in> {Some c, Some ?signed}" for k
    using csr_server_idle [OF server polls_idle, of "history w" name k] c signer_steps_from_approved
    by (auto simp: option_rel_Some1)
  have ready: "csr_ready ?signed \<longleftrightarrow> issue (csrRequest c) \<noteq> []" "\<not> csr_ready c"
    using c by (simp_all add: csr_ready_iff) (simp add: csr_approved_def)
  have stops: "poll_stops A name (poll_world name k w) \<longleftrightarrow>
      \<kappa> (history w @ polls name k) = Some ?signed \<and> issue (csrRequest c) \<noteq> []" for k
    using later [of k] csr_server_get [OF server, of "history w @ polls name k"] ready
    by (auto simp: poll_stops_def history_poll_world)
  obtain k c' where "\<kappa> (history w @ polls name k) = Some c'" "csrCertificate c' \<noteq> []"
    using assms(2) c unfolding signer_alive_def by blast
  then have "poll_stops A name (poll_world name k w)" using later [of k] c(3) by (auto simp: stops)
  then obtain n where n: "poll_stops A name (poll_world name n w)"
    and first: "\<And>j. j < n \<Longrightarrow> \<not> poll_stops A name (poll_world name j w)"
    using LeastI_ex [of "\<lambda>k. poll_stops A name (poll_world name k w)"] not_less_Least by blast
  have "csr_get A (history w @ polls name n) name = (Some ?signed, None)"
    using n csr_server_get [OF server] by (simp add: stops)
  have "rel_option (signer_step issue) (\<kappa> (history w @ polls name n)) (\<kappa> ((history w @ polls name n) @ [ApiGet KCsr [] name]))"
    by (rule csr_server_step [OF server]) (simp add: writes_csr_def)
  then have "\<kappa> (history w @ polls name n @ [ApiGet KCsr [] name]) \<noteq> None"
    using n by (auto simp: stops option_rel_Some1)
  note deleted = csr_server_delete [OF server this]
  have "poll_result A name (poll_world name n w) = (Ok (issue (csrRequest c)),
      w\<lparr>history := history w @ polls name n @ [ApiGet KCsr [] name, ApiDelete KCsr [] name False]\<rparr>)"
    using deleted \<open>csr_get A (history w @ polls name n) name = (Some ?signed, None)\<close>
    by (simp add: poll_result_def finish_csr_def Csr_Delete_def history_poll_world Let_def)
      (simp add: poll_world_def polls_def)
  with wait_loop_returns [OF n first]
  show ?thesis
    using deleted by auto
qed

lemma tls_secret_meta [simp]:
  "secMeta (tls_secret D ac cert key) = \<lparr>metaName = acSecretName ac, metaNamespace = acSecretNamespace ac\<rparr>"
  by (simp add: tls_secret_def)

lemma store_signed:
  assumes "secret_store (dep_secrets D) \<sigma>" and "\<And>h s. secrets_create_or_update (dep_secrets D) h s = None"
  shows "\<exists>w'. run_state (request_store D ac cert key) w =
      ((Ok (tls_secret D ac cert key), ac\<lparr>acCurrent := Some (tls_secret D ac cert key)\<rparr>), w')
    \<and> \<sigma> (history w') (acSecretNamespace ac, acSecretName ac) = Some (tls_secret D ac cert key)"
proof -
  let ?s = "tls_secret D ac cert key"
  have key: "secret_key ?s = (acSecretNamespace ac, acSecretName ac)"
    by (simp add: secret_key_def tls_secret_def)
  have put: "\<sigma> (history w @ [ApiCreateOrUpdate (OSecret ?s)]) (acSecretNamespace ac, acSecretName ac) = Some ?s"
    using secret_store_put [OF assms(1) assms(2)] by (simp add: key)
  from secret_store_get [OF assms(1) put] put
    secret_store_read [OF assms(1), of "history w @ [ApiCreateOrUpdate (OSecret ?s)]"]
  show ?thesis
    by (simp add: request_store_def CreateOrUpdateSecret_def Secrets_Get_def Let_def assms(2))
qed

lemma Request_signed:
  assumes "csr_server (dep_csrs D) \<kappa> issue (csr_name ac)" and "signer_alive \<kappa> (csr_name ac)"
    and "secret_store (dep_secrets D) \<sigma>" and "\<And>h s. secrets_create_or_update (dep_secrets D) h s = None"
    and "acNames ac = cn # names" and "\<kappa> (history w) = None"
    and "\<And>h. generate_key (dep_crypto D) h 1024 = Inr key"
    and "\<And>h. create_request (dep_crypto D) h
           \<lparr>tmplCommonName = cn, tmplDNSNames = acNames ac, tmplIPAddresses = acIPs ac\<rparr> key = Inr bytes"
    and s: "s = tls_secret D ac (issue (pem_encode (dep_crypto D) ''CERTIFICATE REQUEST'' bytes)) key"
  shows "\<exists>w'. Request D ac w = Some ((Ok s, ac\<lparr>acCurrent := Some s\<rparr>), w')
    \<and> \<sigma> (history w') (acSecretNamespace ac, acSecretName ac) = Some s"
proof -
  obtain w1 where submit: "run_state (request_submit D ac) w = (Ok key, w1)"
    and "\<kappa> (history w1) = Some (approved_request ac (pem_encode (dep_crypto D) ''CERTIFICATE REQUEST'' bytes))"
    using submit_approved [OF assms(1,5,6,7,8)] by blast
  from wait_signed [OF assms(1,2) this(2)] obtain w2 where
    wait: "wait_loop (dep_csrs D) (csr_name ac) w1 =
      Some (Ok (issue (pem_encode (dep_crypto D) ''CERTIFICATE REQUEST'' bytes)), w2)"
    by auto
  from store_signed [OF assms(3,4), of ac "issue (pem_encode (dep_crypto D) ''CERTIFICATE REQUEST'' bytes)" key w2]
  show ?thesis by (auto simp: Request_def submit wait s)
qed

text \<open>
  C18. A missing certificate is obtained: when the server stores signing requests and secrets, none of
  this name exists, and the signer sooner or later signs what is approved, \<open>GetOrRequest\<close> returns. The
  secret has the new key, with the certificate issued for the request made from that very key; and
  from then on any other object for the same secret finds it without a request of its own.
\<close>

theorem GetOrRequest_issued:
  assumes "csr_server (dep_csrs D) \<kappa> issue (csr_name ac)" and "signer_alive \<kappa> (csr_name ac)"
    and "secret_store (dep_secrets D) \<sigma>" and "\<And>h s. secrets_create_or_update (dep_secrets D) h s = None"
    and "acNames ac = cn # names" and "\<And>h. generate_key (dep_crypto D) h 1024 = Inr key"
    and "\<And>h. create_request (dep_crypto D) h
           \<lparr>tmplCommonName = cn, tmplDNSNames = acNames ac, tmplIPAddresses = acIPs ac\<rparr> key = Inr bytes"
    and "acCurrent ac = None" and "\<kappa> (history w) = None"
    and "\<sigma> (history w) (acSecretNamespace ac, acSecretName ac) = None"
    and s: "s = tls_secret D ac (issue (pem_encode (dep_crypto D) ''CERTIFICATE REQUEST'' bytes)) key"
  shows "\<exists>w'. GetOrRequest D ac w = Some ((Ok s, ac\<lparr>acCurrent := Some s\<rparr>), w')
    \<and> (\<forall>ac2. acSecretName ac2 = acSecretName ac \<and> acSecretNamespace ac2 = acSecretNamespace ac
         \<and> acCurrent ac2 = None \<longrightarrow>
         map_option fst (GetOrRequest D ac2 w') = Some (Ok s, ac2\<lparr>acCurrent := Some s\<rparr>))"
proof -
  let ?get = "ApiGet KSecret (acSecretNamespace ac) (acSecretName ac)"
  obtain p c where absent: "secrets_get (dep_secrets D) (history w) (acSecretNamespace ac) (acSecretName ac) =
      (p, Some (StatusErr NotFound c))"
    using secret_store_absent [OF assms(3,10)] by blast
  let ?ac = "ac\<lparr>acCurrent := p\<rparr>" and ?w = "w\<lparr>history := history w @ [?get]\<rparr>"
  have name: "csr_name ?ac = csr_name ac" by (simp add: csr_name_def)
  have "rel_option (signer_step issue) (\<kappa> (history w)) (\<kappa> (history w @ [?get]))"
    by (rule csr_server_step [OF assms(1)]) (simp add: writes_csr_def)
  then have "\<kappa> (history ?w) = None" using assms(9) by simp
  from Request_signed [of D \<kappa> issue ?ac \<sigma> cn names ?w key bytes s, unfolded name, OF assms(1-4) _ this]
  obtain w' where req: "Request D ?ac ?w = Some ((Ok s, ac\<lparr>acCurrent := Some s\<rparr>), w')"
    and stored: "\<sigma> (history w') (acSecretNamespace ac, acSecretName ac) = Some s"
    using assms(5-7) by (auto simp: s tls_secret_def)
  have "GetOrRequest D ac w = Some ((Ok s, ac\<lparr>acCurrent := Some s\<rparr>), w')"
    using absent req assms(8) by (cases p) (simp_all add: GetOrRequest_def Secrets_Get_def)
  moreover have "map_option fst (GetOrRequest D ac2 w') = Some (Ok s, ac2\<lparr>acCurrent := Some s\<rparr>)"
    if "acSecretName ac2 = acSecretName ac" "acSecretNamespace ac2 = acSecretNamespace ac" "acCurrent ac2 = None" for ac2
    using that secret_store_get [OF assms(3) stored] by (simp add: GetOrRequest_def Secrets_Get_def)
  ultimately show ?thesis by blast
qed

section \<open>A concrete cluster\<close>

text \<open>A signer that acts while the program sleeps, on a server that never fails.\<close>

definition demo_issue :: "string \<Rightarrow> string" where
  "demo_issue r = ''signed '' @ r"

definition demo_signer :: "csr \<Rightarrow> csr" where
  "demo_signer c =
     (if csr_approved c \<and> csrCertificate c = [] then c\<lparr>csrCertificate := demo_issue (csrRequest c)\<rparr> else c)"

fun replay_csr_call :: "string \<Rightarrow> call \<Rightarrow> csr option \<Rightarrow> csr option" where
  "replay_csr_call n (ApiCreate (OCsr c)) st = (if metaName (csrMeta c) = n then Some c else st)"
| "replay_csr_call n (ApiUpdateApproval c) st = (if metaName (csrMeta c) = n then Some c else st)"
| "replay_csr_call n (ApiDelete KCsr ns m b) st = (if m = n then None else st)"
| "replay_csr_call n (TimeSleep s) st = map_option demo_signer st"
| "replay_csr_call n _ st = st"

definition replay_csr :: "string \<Rightarrow> call list \<Rightarrow> csr option" where
  "replay_csr n h = fold (replay_csr_call n) h None"

definition demo_cluster :: cert_deps where
  "demo_cluster =
     \<lparr>dep_secrets = replay_api,
      dep_csrs = \<lparr>csr_create = \<lambda>_ c. (Some c, None),
                  csr_get = \<lambda>h n. (case replay_csr n h of
                     Some c \<Rightarrow> (Some c, None) | None \<Rightarrow> (None, Some (StatusErr NotFound 404))),
                  csr_update_approval = \<lambda>_ _. None, csr_delete = \<lambda>_ _. None\<rparr>,
      dep_crypto = \<lparr>generate_key = \<lambda>_ _. Inr ''KEY'', create_request = \<lambda>_ _ _. Inr ''REQ'',
                    pem_encode = \<lambda>t b. t @ b, encode_key = \<lambda>k. k\<rparr>\<rparr>"

lemma replay_csr_snoc [simp]: "replay_csr n (h @ [c]) = replay_csr_call n c (replay_csr n h)" "replay_csr n [] = None"
  by (simp_all add: replay_csr_def)

lemma demo_signer_step: "signer_step demo_issue c (demo_signer c)"
  by (auto simp: demo_signer_def intro: signer_step.intros)

lemma replay_csr_idle:
  "\<not> writes_csr x \<Longrightarrow> rel_option (signer_step demo_issue) (replay_csr n h) (replay_csr_call n x (replay_csr n h))"
  by (cases "(n, x, replay_csr n h)" rule: replay_csr_call.cases)
    (auto simp: writes_csr_def option.rel_map demo_signer_step signer_step.idle intro!: option.rel_refl)

lemma demo_cluster_server: "csr_server (dep_csrs demo_cluster) (replay_csr n) demo_issue n"
  unfolding csr_server_def by (auto simp: demo_cluster_def replay_csr_idle split: option.split)

lemma demo_cluster_alive: "signer_alive (replay_csr n) n"
proof -
  have "\<exists>k c'. replay_csr n (h @ polls n k) = Some c' \<and> csrCertificate c' \<noteq> []"
    if "replay_csr n h = Some c" "csr_approved c" for h c
  proof (intro exI conjI)
    have "replay_csr n ((h @ [ApiGet KCsr [] n]) @ [TimeSleep 5]) = Some (demo_signer c)"
      using that(1) by (simp only: replay_csr_snoc) simp
    then show "replay_csr n (h @ polls n 1) = Some (demo_signer c)" by (simp add: polls_def)
    show "csrCertificate (demo_signer c) \<noteq> []" using that(2) by (simp add: demo_signer_def demo_issue_def)
  qed
  then show ?thesis by (simp add: signer_alive_def)
qed

theorem GetOrRequest_issued_witness:
  "\<exists>w' s. GetOrRequest demo_cluster demo_cert empty_world = Some ((Ok s, demo_cert\<lparr>acCurrent := Some s\<rparr>), w')
     \<and> secData s = [(''tls.crt'', ''signed CERTIFICATE REQUESTREQ''), (''tls.key'', ''KEY'')]
     \<and> map_option fst (GetOrRequest demo_cluster demo_cert w') = Some (Ok s, demo_cert\<lparr>acCurrent := Some s\<rparr>)"
proof -
  have sel: "dep_secrets demo_cluster = replay_api"
    "generate_key (dep_crypto demo_cluster) = (\<lambda>_ _. Inr ''KEY'')"
    "create_request (dep_crypto demo_cluster) = (\<lambda>_ _ _. Inr ''REQ'')"
    by (simp_all add: demo_cluster_def)
  from GetOrRequest_issued [of demo_cluster "replay_csr (csr_name demo_cert)" demo_issue demo_cert replay
      "''dex.kube-system.svc''" "[]" "''KEY''" "''REQ''" empty_world, OF demo_cluster_server demo_cluster_alive]
  show ?thesis
    by (auto simp: sel replay_api_store empty_world_def tls_secret_def demo_cluster_def demo_issue_def)
qed

end
