(* ===== verification/Asset_Store.thy ===== *)
theory Asset_Store
  imports Loader
begin

text \<open>
  Specifications of what is installed from files: a server that is a store of objects, a list of objects
  put into it one after the other, and files that do not change meanwhile. The functions of pkg/loader
  that walk over directories implement such lists; the kinds of object come in the theories that build on
  this one.
\<close>

section \<open>Putting objects into a store\<close>

text \<open>Objects have keys; those that the server does not accept are left out.\<close>

definition put :: "('o \<Rightarrow> 'k) \<Rightarrow> ('o \<Rightarrow> bool) \<Rightarrow> 'o \<Rightarrow> ('k \<rightharpoonup> 'o) \<Rightarrow> ('k \<rightharpoonup> 'o)" where
  "put key accepts u st = (if accepts u then st(key u \<mapsto> u) else st)"

definition put_all :: "('o \<Rightarrow> 'k) \<Rightarrow> ('o \<Rightarrow> bool) \<Rightarrow> 'o list \<Rightarrow> ('k \<rightharpoonup> 'o) \<Rightarrow> ('k \<rightharpoonup> 'o)" where
  "put_all key accepts us st = fold (put key accepts) us st"

lemma put_all_simps [simp]:
  "put_all key accepts [] st = st" "put_all key accepts (u # us) st = put_all key accepts us (put key accepts u st)"
  "put_all key accepts (us @ vs) st = put_all key accepts vs (put_all key accepts us st)"
  by (simp_all add: put_all_def)

text \<open>The last accepted object of a key wins, so putting the same list again changes nothing.\<close>

lemma put_all_lookup:
  "put_all key accepts us st k =
     (case filter (\<lambda>u. accepts u \<and> key u = k) (rev us) of [] \<Rightarrow> st k | u # _ \<Rightarrow> Some u)"
proof (induction us rule: rev_induct)
  case (snoc u us)
  then show ?case by (auto simp: put_def)
qed simp

lemma put_all_idem: "put_all key accepts us (put_all key accepts us st) = put_all key accepts us st"
  by (rule ext) (simp add: put_all_lookup split: list.split)

section \<open>Files\<close>

text \<open>Files that do not change: the answers do not depend on what has happened.\<close>

definition still_files :: "os_env \<Rightarrow> bool" where
  "still_files E \<longleftrightarrow>
     (\<forall>h p. os_stat E h p = os_stat E [] p) \<and> (\<forall>h g. os_glob E h g = os_glob E [] g)
     \<and> (\<forall>h f. os_read_file E h f = os_read_file E [] f)"

definition contents_of :: "os_env \<Rightarrow> string \<Rightarrow> string \<Rightarrow> string list" where
  "contents_of E directory glob =
     (case os_glob E [] (path_join [directory, glob]) of
        Inr fs \<Rightarrow> map (\<lambda>f. projr (os_read_file E [] f)) fs | Inl _ \<Rightarrow> [])"

definition readable :: "os_env \<Rightarrow> string \<Rightarrow> string \<Rightarrow> bool" where
  "readable E directory glob =
     (case os_glob E [] (path_join [directory, glob]) of
        Inr fs \<Rightarrow> list_all (\<lambda>f. \<not> isl (os_read_file E [] f)) fs | Inl _ \<Rightarrow> False)"

text \<open>The directories that are visited.\<close>

definition visited :: "os_env \<Rightarrow> install_options \<Rightarrow> string list" where
  "visited E options =
     filter (\<lambda>p. ErrorIfPathMissing options \<or> os_stat E [] p \<noteq> StatNotExist) (RemoveDuplicates (InstallPaths options))"

lemma still_load:
  assumes "still_files E" and "readable E d g"
  shows "\<exists>w'. run_state (loadFilesIn E d g) w = (Ok (contents_of E d g), w')"
proof -
  have read: "\<exists>w'. run_state (read_files E fs) v = (Ok (map (\<lambda>f. projr (os_read_file E [] f)) fs), w')"
    if "list_all (\<lambda>f. \<not> isl (os_read_file E [] f)) fs" for fs v
    using that
  proof (induction fs arbitrary: v)
    case (Cons f fs)
    have "os_read_file E (history v) f = os_read_file E [] f"
      using assms(1) unfolding still_files_def by blast
    moreover obtain b where b: "os_read_file E [] f = Inr b"
      using Cons.prems by (cases "os_read_file E [] f") auto
    moreover obtain w' where "run_state (read_files E fs) (v\<lparr>history := history v @ [OsReadFile f]\<rparr>) =
        (Ok (map (\<lambda>f. projr (os_read_file E [] f)) fs), w')"
      using Cons by auto
    ultimately show ?case by (simp add: ReadFile_def run_andthen run_wrap_err)
  qed simp
  have "os_glob E (history w) (path_join [d, g]) = os_glob E [] (path_join [d, g])"
    using assms(1) unfolding still_files_def by blast
  moreover obtain fs where "os_glob E [] (path_join [d, g]) = Inr fs"
      "list_all (\<lambda>f. \<not> isl (os_read_file E [] f)) fs"
    using assms(2) by (auto simp: readable_def split: sum.splits)
  ultimately show ?thesis
    using read [of fs "w\<lparr>history := history w @ [OsGlob (path_join [d, g])]\<rparr>"]
    by (auto simp: loadFilesIn_def Glob_def contents_of_def)
qed

section \<open>Computations that put objects\<close>

text \<open>
  \<open>puts P step \<mu> m x us\<close>: from wherever \<open>P\<close> holds of the history, \<open>m\<close> returns \<open>x\<close> where \<open>P\<close> holds again,
  and what it does to the store \<open>\<mu>\<close> is a \<open>step\<close> for each of the objects \<open>us\<close>, in their order.
\<close>

definition puts :: "(call list \<Rightarrow> bool) \<Rightarrow> ('o \<Rightarrow> 's \<Rightarrow> 's) \<Rightarrow> (call list \<Rightarrow> 's) \<Rightarrow>
    (world, 'a outcome) state \<Rightarrow> 'a \<Rightarrow> 'o list \<Rightarrow> bool" where
  "puts P step \<mu> m x us \<longleftrightarrow>
     (\<forall>w. P (history w) \<longrightarrow> (\<exists>w'. run_state m w = (Ok x, w') \<and> P (history w')
        \<and> \<mu> (history w') = fold step us (\<mu> (history w))))"

text \<open>From anywhere, and into a store that takes what it accepts as it is.\<close>

abbreviation puts_into :: "('o \<Rightarrow> 'k) \<Rightarrow> ('o \<Rightarrow> bool) \<Rightarrow> (call list \<Rightarrow> 'k \<rightharpoonup> 'o) \<Rightarrow> (world, 'a outcome) state \<Rightarrow> 'a \<Rightarrow>
    'o list \<Rightarrow> bool" where
  "puts_into key accepts \<equiv> puts (\<lambda>_. True) (put key accepts)"

lemma putsI:
  assumes "\<And>w. P (history w) \<Longrightarrow> \<exists>w'. run_state m w = (Ok x, w') \<and> P (history w')
      \<and> \<mu> (history w') = fold step us (\<mu> (history w))"
  shows "puts P step \<mu> m x us"
  unfolding puts_def using assms by blast

lemma putsE:
  assumes "puts P step \<mu> m x us" and "P (history w)"
  obtains w' where "run_state m w = (Ok x, w')" and "P (history w')" and "\<mu> (history w') = fold step us (\<mu> (history w))"
  using assms unfolding puts_def by blast

lemma puts_intoI:
  assumes "\<And>w. \<exists>w'. run_state m w = (Ok x, w') \<and> \<mu> (history w') = put_all key accepts us (\<mu> (history w))"
  shows "puts_into key accepts \<mu> m x us"
  by (rule putsI) (use assms in \<open>simp add: put_all_def\<close>)

lemma puts_intoE:
  assumes "puts_into key accepts \<mu> m x us"
  obtains w' where "run_state m w = (Ok x, w')" and "\<mu> (history w') = put_all key accepts us (\<mu> (history w))"
  by (rule putsE [OF assms TrueI]) (use that in \<open>simp add: put_all_def\<close>)

lemma puts_ret: "puts P step \<mu> (ret (Ok x)) x []"
  by (rule putsI) simp

lemma puts_andthen:
  assumes "puts P step \<mu> m x us" and "puts P step \<mu> (f x) y vs"
  shows "puts P step \<mu> (andthen m f) y (us @ vs)"
proof (rule putsI)
  fix w :: world
  assume "P (history w)"
  with assms(1) obtain w1 where 1: "run_state m w = (Ok x, w1)" "P (history w1)" "\<mu> (history w1) = fold step us (\<mu> (history w))"
    by (rule putsE)
  obtain w2 where 2: "run_state (f x) w1 = (Ok y, w2)" "P (history w2)" "\<mu> (history w2) = fold step vs (\<mu> (history w1))"
    by (rule putsE [OF assms(2) 1(2)])
  show "\<exists>w'. run_state (andthen m f) w = (Ok y, w') \<and> P (history w') \<and> \<mu> (history w') = fold step (us @ vs) (\<mu> (history w))"
    using 1 2 by simp
qed

lemma puts_for_each:
  "(\<And>x. x \<in> set xs \<Longrightarrow> puts P step \<mu> (f x) () (g x)) \<Longrightarrow> puts P step \<mu> (for_each f xs) () (concat (map g xs))"
  by (induction xs) (auto intro: puts_ret puts_andthen)

lemma puts_each_one:
  "(\<And>x. x \<in> set xs \<Longrightarrow> puts P step \<mu> (f x) () [g x]) \<Longrightarrow> puts P step \<mu> (for_each f xs) () (map g xs)"
  using puts_for_each [of xs P step \<mu> f "\<lambda>x. [g x]"] by simp

text \<open>A run whose calls do not change the store leaves it alone.\<close>

lemma quiet_history:
  assumes "\<And>h x. Q x \<Longrightarrow> \<mu> (h @ [x]) = \<mu> h" and "hist_ext Q w w'"
  shows "\<mu> (history w') = \<mu> (history w)"
proof -
  have "\<mu> (h @ cs) = \<mu> h" if "list_all Q cs" for h cs
    using that
  proof (induction cs arbitrary: h)
    case (Cons c cs)
    then show ?case using assms(1) [of c h] Cons.IH [of "h @ [c]"] by simp
  qed simp
  then show ?thesis using assms(2) by (auto simp: hist_ext_def)
qed

text \<open>Calls of the kind \<open>Q\<close> keep what holds of the history and do not change the store.\<close>

definition spares :: "(call \<Rightarrow> bool) \<Rightarrow> (call list \<Rightarrow> bool) \<Rightarrow> (call list \<Rightarrow> 's) \<Rightarrow> bool" where
  "spares Q P \<mu> \<longleftrightarrow> (\<forall>h c. Q c \<longrightarrow> \<mu> (h @ [c]) = \<mu> h \<and> (P h \<longrightarrow> P (h @ [c])))"

lemma spares_history:
  assumes "spares Q P \<mu>" and "hist_ext Q w w'"
  shows "\<mu> (history w') = \<mu> (history w)" and "P (history w) \<Longrightarrow> P (history w')"
proof -
  show "\<mu> (history w') = \<mu> (history w)"
    by (rule quiet_history [OF _ assms(2)]) (use assms(1) in \<open>simp add: spares_def\<close>)
  have "list_all Q cs \<Longrightarrow> P h \<Longrightarrow> P (h @ cs)" for h cs
    using assms(1) by (induction cs rule: rev_induct) (auto simp: spares_def simp flip: append_assoc)
  then show "P (history w) \<Longrightarrow> P (history w')" using assms(2) by (auto simp: hist_ext_def)
qed

lemma puts_quiet:
  assumes "\<And>w. P (history w) \<Longrightarrow> \<exists>w'. run_state m w = (Ok x, w')" and "calls_only Q m" and "spares Q P \<mu>"
  shows "puts P step \<mu> m x []"
proof (rule putsI)
  fix w :: world
  assume P: "P (history w)"
  then obtain w' where run: "run_state m w = (Ok x, w')" using assms(1) by blast
  note kept = spares_history [OF assms(3) calls_onlyD [OF assms(2) run]]
  show "\<exists>w'. run_state m w = (Ok x, w') \<and> P (history w') \<and> \<mu> (history w') = fold step [] (\<mu> (history w))"
    using run kept(1) kept(2) [OF P] by simp
qed

lemma puts_files:
  assumes "spares file_call P \<mu>" and "still_files E" and "readable E d g"
  shows "puts P step \<mu> (loadFilesIn E d g) (contents_of E d g) []"
  by (rule puts_quiet [OF still_load [OF assms(2,3)] loadFilesIn_calls assms(1)])

text \<open>The loop over the directories.\<close>

lemma puts_for_paths:
  assumes "spares file_call P \<mu>" and "still_files E"
    and "\<And>p. p \<in> set (visited E options) \<Longrightarrow> puts P step \<mu> (body p) () (wanted p)"
  shows "puts P step \<mu> (for_paths E options body) () (concat (map wanted (visited E options)))"
proof -
  let ?skip = "\<lambda>p. \<not> ErrorIfPathMissing options \<and> os_stat E [] p = StatNotExist"
  have one: "puts P step \<mu>
      (do { skip \<leftarrow> skip_path E (ErrorIfPathMissing options) p; if skip then ret (Ok ()) else body p }) ()
      (if ?skip p then [] else wanted p)"
    if "p \<in> set (RemoveDuplicates (InstallPaths options))" for p
  proof (rule putsI)
    fix w :: world
    assume P: "P (history w)"
    let ?w = "w\<lparr>history := history w @ [OsStat p]\<rparr>"
    have stat: "os_stat E (history w) p = os_stat E [] p" using assms(2) unfolding still_files_def by blast
    have quiet: "\<mu> (history ?w) = \<mu> (history w)" and P': "P (history ?w)"
      using assms(1) P by (simp_all add: spares_def file_call_def)
    have "puts P step \<mu> (if ?skip p then ret (Ok ()) else body p) () (if ?skip p then [] else wanted p)"
      using that assms(3) by (auto simp: visited_def intro: puts_ret)
    from this P' obtain w' where "run_state (if ?skip p then ret (Ok ()) else body p) ?w = (Ok (), w')" "P (history w')"
      "\<mu> (history w') = fold step (if ?skip p then [] else wanted p) (\<mu> (history ?w))"
      by (rule putsE)
    then show "\<exists>w'. run_state (do { skip \<leftarrow> skip_path E (ErrorIfPathMissing options) p;
            if skip then ret (Ok ()) else body p }) w = (Ok (), w')
        \<and> P (history w') \<and> \<mu> (history w') = fold step (if ?skip p then [] else wanted p) (\<mu> (history w))"
      unfolding quiet by (simp add: skip_path_def Stat_def stat)
  qed
  have "concat (map (\<lambda>p. if ?skip p then [] else wanted p) ps) =
      concat (map wanted (filter (\<lambda>p. ErrorIfPathMissing options \<or> os_stat E [] p \<noteq> StatNotExist) ps))" for ps
    by (induction ps) auto
  then show ?thesis
    using puts_for_each [where f = "\<lambda>p. do { skip \<leftarrow> skip_path E (ErrorIfPathMissing options) p;
        if skip then ret (Ok ()) else body p }", OF one]
    by (simp only: for_paths_def visited_def)
qed

text \<open>The same steps a second time; into a store that takes objects as they are they change nothing.\<close>

lemma puts_twice:
  assumes "puts P step \<mu> m x us" and "P (history w)"
  shows "\<exists>w1 w2. run_state m w = (Ok x, w1) \<and> \<mu> (history w1) = fold step us (\<mu> (history w))
    \<and> run_state m w1 = (Ok x, w2) \<and> \<mu> (history w2) = fold step us (\<mu> (history w1))"
proof -
  obtain w1 where 1: "run_state m w = (Ok x, w1)" "P (history w1)" "\<mu> (history w1) = fold step us (\<mu> (history w))"
    using assms by (rule putsE)
  obtain w2 where 2: "run_state m w1 = (Ok x, w2)" "\<mu> (history w2) = fold step us (\<mu> (history w1))"
    by (rule putsE [OF assms(1) 1(2)])
  show ?thesis using 1(1,3) 2 by (intro exI conjI)
qed

lemma puts_into_twice:
  assumes "puts_into key accepts \<mu> m x us"
  shows "\<exists>w1 w2. run_state m w = (Ok x, w1) \<and> \<mu> (history w1) = put_all key accepts us (\<mu> (history w))
    \<and> run_state m w1 = (Ok x, w2) \<and> \<mu> (history w2) = \<mu> (history w1)"
  using puts_twice [OF assms TrueI, of w] put_all_idem [of key accepts us "\<mu> (history w)"]
  by (auto simp: put_all_def)

section \<open>Concrete files\<close>

text \<open>Every pattern matches one file, and every file has the same contents.\<close>

definition demo_files :: os_env where
  "demo_files = demo_os\<lparr>os_glob := \<lambda>_ g. Inr [g], os_read_file := \<lambda>_ _. Inr ''dex''\<rparr>"

lemma demo_files_sel [simp]:
  "os_stat demo_files h p = StatOk" "os_read_file demo_files h p = Inr ''dex''"
  "os_glob demo_files h g = Inr [g]"
  by (simp_all add: demo_files_def demo_os_def)

lemma demo_files_read [simp]:
  "contents_of demo_files d g = [''dex'']" "readable demo_files d g" "still_files demo_files"
  by (simp_all add: contents_of_def readable_def still_files_def)

lemmas demo_files_still = demo_files_read(3)

end
