(* ===== verification/Rbac_Install.thy ===== *)
theory Rbac_Install
  imports Asset_Store
begin

text \<open>
  What installing RBAC rules amounts to on a server that keeps cluster roles and bindings by name: the
  roles and bindings that the files describe are put into it, stamped with the namespace of the system,
  in the order of directories, roles before bindings.
\<close>

section \<open>The specification\<close>

type_synonym rbac_object = "cluster_role + cluster_role_binding"

definition rbac_key :: "rbac_object \<Rightarrow> string + string" where
  "rbac_key = map_sum (\<lambda>r. metaName (roleMeta r)) (\<lambda>b. metaName (bindMeta b))"

definition stamped_role :: "cluster_role \<Rightarrow> cluster_role" where
  "stamped_role r = r\<lparr>roleMeta := (roleMeta r)\<lparr>metaNamespace := ''kube-system''\<rparr>\<rparr>"

definition stamped_binding :: "cluster_role_binding \<Rightarrow> cluster_role_binding" where
  "stamped_binding b = b\<lparr>bindMeta := (bindMeta b)\<lparr>metaNamespace := ''kube-system''\<rparr>\<rparr>"

definition wanted_roles :: "load_deps \<Rightarrow> string \<Rightarrow> rbac_object list" where
  "wanted_roles L path =
     map (\<lambda>f. Inl (stamped_role (fst (projr (decode_role (ld_rbac L) f))))) (contents_of (ld_os L) path roleFileGlob)"

definition wanted_bindings :: "load_deps \<Rightarrow> string \<Rightarrow> rbac_object list" where
  "wanted_bindings L path =
     map (\<lambda>f. Inr (stamped_binding (fst (projr (decode_binding (ld_rbac L) f)))))
       (contents_of (ld_os L) path roleBindingFileGlob)"

definition wanted_rbac :: "load_deps \<Rightarrow> install_options \<Rightarrow> rbac_object list" where
  "wanted_rbac L options = concat (map (\<lambda>p. wanted_roles L p @ wanted_bindings L p) (visited (ld_os L) options))"

section \<open>The environment\<close>

text \<open>The calls that may change rules; \<open>kubeadm\<close>, which the program executes, writes some of its own.\<close>

definition writes_rbac :: "call \<Rightarrow> bool" where
  "writes_rbac c =
     (case c of
        ApiCreate o1 \<Rightarrow> (case o1 of OClusterRole _ \<Rightarrow> True | OClusterRoleBinding _ \<Rightarrow> True | _ \<Rightarrow> False)
      | ApiUpdate o1 \<Rightarrow> (case o1 of OClusterRole _ \<Rightarrow> True | OClusterRoleBinding _ \<Rightarrow> True | _ \<Rightarrow> False)
      | ApiCreateOrUpdate o1 \<Rightarrow> (case o1 of OClusterRole _ \<Rightarrow> True | OClusterRoleBinding _ \<Rightarrow> True | _ \<Rightarrow> False)
      | ApiDelete k _ _ _ \<Rightarrow> k = KClusterRole \<or> k = KClusterRoleBinding | OsExec _ _ \<Rightarrow> True | _ \<Rightarrow> False)"

text \<open>
  \<open>rbac_server R config accepts \<rho>\<close>: the server is reachable and has the roles and bindings \<open>\<rho> h\<close> after the
  history \<open>h\<close>; it stores those it accepts, and other calls do not change them.
\<close>

definition rbac_server :: "rbac_lib \<Rightarrow> opaque \<Rightarrow> (rbac_object \<Rightarrow> bool) \<Rightarrow>
    (call list \<Rightarrow> string + string \<rightharpoonup> rbac_object) \<Rightarrow> bool" where
  "rbac_server R config accepts \<rho> \<longleftrightarrow>
     new_clientset R config = None
     \<and> (\<forall>h r. accepts (Inl r) \<longrightarrow> upsert_role R h r = None
          \<and> \<rho> (h @ [ApiCreateOrUpdate (OClusterRole r)]) = (\<rho> h)(rbac_key (Inl r) \<mapsto> Inl r))
     \<and> (\<forall>h b. accepts (Inr b) \<longrightarrow> upsert_binding R h b = None
          \<and> \<rho> (h @ [ApiCreateOrUpdate (OClusterRoleBinding b)]) = (\<rho> h)(rbac_key (Inr b) \<mapsto> Inr b))
     \<and> (\<forall>h x. \<not> writes_rbac x \<longrightarrow> \<rho> (h @ [x]) = \<rho> h)"

lemma rbac_serverD:
  assumes "rbac_server R config accepts \<rho>"
  shows "new_clientset R config = None"
    and "accepts (Inl r) \<Longrightarrow> upsert_role R h r = None
      \<and> \<rho> (h @ [ApiCreateOrUpdate (OClusterRole r)]) = (\<rho> h)(rbac_key (Inl r) \<mapsto> Inl r)"
    and "accepts (Inr b) \<Longrightarrow> upsert_binding R h b = None
      \<and> \<rho> (h @ [ApiCreateOrUpdate (OClusterRoleBinding b)]) = (\<rho> h)(rbac_key (Inr b) \<mapsto> Inr b)"
    and "\<not> writes_rbac x \<Longrightarrow> \<rho> (h @ [x]) = \<rho> h"
  using assms unfolding rbac_server_def by blast+

lemma rbac_file_quiet: "file_call c \<Longrightarrow> \<not> writes_rbac c"
  by (cases c) (auto simp: file_call_def writes_rbac_def)

lemma rbac_files: "rbac_server R config accepts \<rho> \<Longrightarrow> spares file_call (\<lambda>_. True) \<rho>"
  by (simp add: spares_def rbac_serverD(4) rbac_file_quiet)

text \<open>A file whose object can be decoded, is accepted, and is served under the link that it names.\<close>

definition served_link :: "load_deps \<Rightarrow> string \<Rightarrow> bool" where
  "served_link L link \<longleftrightarrow> (\<forall>h. rest_do (ld_rest L) h link = (None, 200))"

definition good_role :: "load_deps \<Rightarrow> (rbac_object \<Rightarrow> bool) \<Rightarrow> string \<Rightarrow> bool" where
  "good_role L accepts f \<longleftrightarrow>
     (\<exists>r link. decode_role (ld_rbac L) f = Inr (r, link) \<and> accepts (Inl (stamped_role r)) \<and> served_link L link)"

definition good_binding :: "load_deps \<Rightarrow> (rbac_object \<Rightarrow> bool) \<Rightarrow> string \<Rightarrow> bool" where
  "good_binding L accepts f \<longleftrightarrow>
     (\<exists>b link. decode_binding (ld_rbac L) f = Inr (b, link) \<and> accepts (Inr (stamped_binding b)) \<and> served_link L link)"

definition good_rbac :: "load_deps \<Rightarrow> (rbac_object \<Rightarrow> bool) \<Rightarrow> install_options \<Rightarrow> bool" where
  "good_rbac L accepts options \<longleftrightarrow>
     (\<forall>p \<in> set (visited (ld_os L) options).
        readable (ld_os L) p roleFileGlob \<and> list_all (good_role L accepts) (contents_of (ld_os L) p roleFileGlob)
        \<and> readable (ld_os L) p roleBindingFileGlob
        \<and> list_all (good_binding L accepts) (contents_of (ld_os L) p roleBindingFileGlob))"

section \<open>The installation puts the objects\<close>

lemma served_wait:
  assumes "polls_immediately SleepMs (ld_poll L)" and "served_link L link"
  shows "run_state (WaitForObject (ld_poll L) (ld_rest L) link) w = (Ok (), w\<lparr>history := history w @ [RestGet link]\<rparr>)"
  unfolding WaitForObject_def WaitForURL_def
  by (rule poll_Ok_immediately [OF assms(1)]) (use assms(2) in \<open>simp add: url_ready_def served_link_def\<close>)

lemma puts_role:
  assumes "rbac_server (ld_rbac L) config accepts \<rho>" and "polls_immediately SleepMs (ld_poll L)"
    and "good_role L accepts f"
  shows "puts_into rbac_key accepts \<rho> (install_role L f) () [Inl (stamped_role (fst (projr (decode_role (ld_rbac L) f))))]"
proof (rule puts_intoI)
  fix w :: world
  obtain r link where f: "decode_role (ld_rbac L) f = Inr (r, link)" "accepts (Inl (stamped_role r))" "served_link L link"
    using assms(3) unfolding good_role_def by blast
  have wait: "\<rho> (h @ [RestGet link]) = \<rho> h" for h
    by (rule rbac_serverD(4) [OF assms(1)]) (simp add: writes_rbac_def)
  have "stamped_role r = r\<lparr>roleMeta := (roleMeta r)\<lparr>metaNamespace := assetsNamespace\<rparr>\<rparr>"
    by (simp add: stamped_role_def assetsNamespace_def NamespaceSystem_def)
  then show "\<exists>w'. run_state (install_role L f) w = (Ok (), w')
      \<and> \<rho> (history w') = put_all rbac_key accepts [Inl (stamped_role (fst (projr (decode_role (ld_rbac L) f))))] (\<rho> (history w))"
    using f(2) rbac_serverD(2) [OF assms(1) f(2), of "history w"] wait [of "history w @ [_]"]
    by (simp add: install_role_def CreateOrUpdateClusterRole_def f(1) run_andthen run_wrap_err Let_def put_def
        served_wait [OF assms(2) f(3)])
qed

lemma puts_binding:
  assumes "rbac_server (ld_rbac L) config accepts \<rho>" and "polls_immediately SleepMs (ld_poll L)"
    and "good_binding L accepts f"
  shows "puts_into rbac_key accepts \<rho> (install_role_binding L f) ()
    [Inr (stamped_binding (fst (projr (decode_binding (ld_rbac L) f))))]"
proof (rule puts_intoI)
  fix w :: world
  obtain b link where f: "decode_binding (ld_rbac L) f = Inr (b, link)" "accepts (Inr (stamped_binding b))" "served_link L link"
    using assms(3) unfolding good_binding_def by blast
  have wait: "\<rho> (h @ [RestGet link]) = \<rho> h" for h
    by (rule rbac_serverD(4) [OF assms(1)]) (simp add: writes_rbac_def)
  have "stamped_binding b = b\<lparr>bindMeta := (bindMeta b)\<lparr>metaNamespace := assetsNamespace\<rparr>\<rparr>"
    by (simp add: stamped_binding_def assetsNamespace_def NamespaceSystem_def)
  then show "\<exists>w'. run_state (install_role_binding L f) w = (Ok (), w')
      \<and> \<rho> (history w') = put_all rbac_key accepts [Inr (stamped_binding (fst (projr (decode_binding (ld_rbac L) f))))] (\<rho> (history w))"
    using f(2) rbac_serverD(3) [OF assms(1) f(2), of "history w"] wait [of "history w @ [_]"]
    by (simp add: install_role_binding_def CreateOrUpdateClusterRoleBinding_def f(1) run_andthen run_wrap_err Let_def put_def
        served_wait [OF assms(2) f(3)])
qed

lemma puts_rbac:
  assumes "rbac_server (ld_rbac L) config accepts \<rho>" and "polls_immediately SleepMs (ld_poll L)"
    and "still_files (ld_os L)" and "good_rbac L accepts options"
  shows "puts_into rbac_key accepts \<rho> (InstallRBAC L config options) () (wanted_rbac L options)"
proof -
  have files: "puts_into rbac_key accepts \<rho> (loadFilesIn (ld_os L) p g) (contents_of (ld_os L) p g) []"
    if "readable (ld_os L) p g" for p g
    using rbac_files [OF assms(1)] assms(3) that by (rule puts_files)
  have roles: "puts_into rbac_key accepts \<rho> (for_each (install_role L) fs) ()
      (map (\<lambda>f. Inl (stamped_role (fst (projr (decode_role (ld_rbac L) f))))) fs)"
    if "list_all (good_role L accepts) fs" for fs
    by (rule puts_each_one) (use that puts_role [OF assms(1,2)] in \<open>auto simp: list_all_iff\<close>)
  have bindings: "puts_into rbac_key accepts \<rho> (for_each (install_role_binding L) fs) ()
      (map (\<lambda>f. Inr (stamped_binding (fst (projr (decode_binding (ld_rbac L) f))))) fs)"
    if "list_all (good_binding L accepts) fs" for fs
    by (rule puts_each_one) (use that puts_binding [OF assms(1,2)] in \<open>auto simp: list_all_iff\<close>)
  have "puts_into rbac_key accepts \<rho>
      (andthen (loadFilesIn (ld_os L) p roleFileGlob) (\<lambda>roles.
       andthen (for_each (install_role L) roles) (\<lambda>_.
       andthen (loadFilesIn (ld_os L) p roleBindingFileGlob) (\<lambda>bindings.
       for_each (install_role_binding L) bindings)))) ()
      ([] @ wanted_roles L p @ [] @ wanted_bindings L p)"
    if "p \<in> set (visited (ld_os L) options)" for p
    using that assms(4) unfolding good_rbac_def wanted_roles_def wanted_bindings_def
    by (intro puts_andthen [OF files] puts_andthen [OF roles] bindings) blast+
  then have "puts_into rbac_key accepts \<rho> (for_paths (ld_os L) options (\<lambda>p.
      andthen (loadFilesIn (ld_os L) p roleFileGlob) (\<lambda>roles.
       andthen (for_each (install_role L) roles) (\<lambda>_.
       andthen (loadFilesIn (ld_os L) p roleBindingFileGlob) (\<lambda>bindings.
       for_each (install_role_binding L) bindings))))) () (wanted_rbac L options)"
    unfolding wanted_rbac_def by (intro puts_for_paths rbac_files [OF assms(1)] assms(3)) simp_all
  then show ?thesis by (simp add: puts_def InstallRBAC_def run_andthen rbac_serverD(1) [OF assms(1)])
qed

text \<open>
  C10. Installing RBAC rules implements its specification: when the files do not change and can be read and
  decoded, and the server accepts what they describe and serves the links they name, \<open>InstallRBAC\<close>
  returns without an error and leaves on the server exactly the roles and bindings of the files put over
  what was there, each in the namespace of the system, directories in order (duplicates once) and roles
  before bindings, so that of two with one name the last wins. Running it again succeeds and changes
  nothing.
\<close>

theorem InstallRBAC_converges:
  assumes "rbac_server (ld_rbac L) config accepts \<rho>" and "polls_immediately SleepMs (ld_poll L)"
    and "still_files (ld_os L)" and "good_rbac L accepts options"
  shows "\<exists>w1 w2. run_state (InstallRBAC L config options) w = (Ok (), w1)
    \<and> \<rho> (history w1) = put_all rbac_key accepts (wanted_rbac L options) (\<rho> (history w))
    \<and> run_state (InstallRBAC L config options) w1 = (Ok (), w2)
    \<and> \<rho> (history w2) = \<rho> (history w1)"
  using puts_into_twice [OF puts_rbac [OF assms]] .

section \<open>A concrete server\<close>

text \<open>It accepts everything that has a name.\<close>

definition rbac_named :: "rbac_object \<Rightarrow> bool" where
  "rbac_named x \<longleftrightarrow> rbac_key x \<noteq> Inl [] \<and> rbac_key x \<noteq> Inr []"

text \<open>The binding with which \<open>kubeadm init\<close> lets nodes approve themselves.\<close>

definition approve_name :: string where
  "approve_name = ''kubeadm:node-autoapprove-bootstrap''"

definition approve_binding :: cluster_role_binding where
  "approve_binding =
     \<lparr>bindMeta = \<lparr>metaName = approve_name, metaNamespace = []\<rparr>,
      bindRoleRef = \<lparr>refAPIGroup = ''rbac.authorization.k8s.io'', refKind = ''ClusterRole'',
        refName = ''system:certificates.k8s.io:certificatesigningrequests:nodeclient''\<rparr>, bindSubjects = []\<rparr>"

fun replay_rbac :: "call \<Rightarrow> (string + string \<rightharpoonup> rbac_object) \<Rightarrow> (string + string \<rightharpoonup> rbac_object)" where
  "replay_rbac (ApiCreateOrUpdate (OClusterRole r)) st = put rbac_key rbac_named (Inl r) st"
| "replay_rbac (ApiCreateOrUpdate (OClusterRoleBinding b)) st = put rbac_key rbac_named (Inr b) st"
| "replay_rbac (ApiDelete KClusterRoleBinding ns n fg) st = st(Inr n := None)"
| "replay_rbac (OsExec p (a # as)) st = (if a = ''init'' then st(Inr approve_name \<mapsto> Inr approve_binding) else st)"
| "replay_rbac _ st = st"

definition rbac_after :: "call list \<Rightarrow> string + string \<rightharpoonup> rbac_object" where
  "rbac_after h = fold replay_rbac h Map.empty"

lemma rbac_after_snoc [simp]: "rbac_after (h @ [c]) = replay_rbac c (rbac_after h)" "rbac_after [] = Map.empty"
  by (simp_all add: rbac_after_def)

lemma replay_rbac_quiet: "\<not> writes_rbac c \<Longrightarrow> replay_rbac c st = st"
  by (cases "(c, st)" rule: replay_rbac.cases) (simp_all add: writes_rbac_def)

definition store_load :: load_deps where
  "store_load = demo_load
     \<lparr>ld_os := demo_files,
      ld_rbac := (ld_rbac demo_load)
        \<lparr>decode_binding := \<lambda>b. Inr (\<lparr>bindMeta = \<lparr>metaName = b, metaNamespace = []\<rparr>,
           bindRoleRef = \<lparr>refAPIGroup = [], refKind = [], refName = b\<rparr>, bindSubjects = []\<rparr>, []),
         upsert_role := \<lambda>_ r. if rbac_named (Inl r) then None else Some (StatusErr OtherReason 422),
         upsert_binding := \<lambda>_ b. if rbac_named (Inr b) then None else Some (StatusErr OtherReason 422)\<rparr>\<rparr>"

lemma store_load_server: "rbac_server (ld_rbac store_load) config rbac_named rbac_after"
  by (auto simp: rbac_server_def store_load_def demo_load_def replay_rbac_quiet put_def)

lemma store_load_polls: "polls_immediately SleepMs (ld_poll store_load)"
  using attempts_polls_immediately [of SleepMs] by (simp add: store_load_def demo_load_def del: attempts.simps)

lemma store_load_os [simp]: "ld_os store_load = demo_files"
  by (simp add: store_load_def)

lemma store_load_good: "good_rbac store_load rbac_named options"
  by (simp add: good_rbac_def good_role_def good_binding_def served_link_def store_load_def demo_load_def
      stamped_role_def stamped_binding_def rbac_named_def rbac_key_def)

theorem InstallRBAC_converges_witness:
  "\<exists>w1 :: world. map_option (map_sum roleMeta bindMeta) (rbac_after (history w1) (Inl ''dex'')) =
       Some (Inl \<lparr>metaName = ''dex'', metaNamespace = ''kube-system''\<rparr>)
     \<and> rbac_after (history w1) (Inr ''dex'') \<noteq> None
     \<and> (\<exists>w2. run_state (InstallRBAC store_load ''cfg''
          \<lparr>InstallPaths = [''config/rbac''], ErrorIfPathMissing = False\<rparr>) w1 = (Ok (), w2)
        \<and> rbac_after (history w2) = rbac_after (history w1))"
proof -
  let ?o = "\<lparr>InstallPaths = [''config/rbac''], ErrorIfPathMissing = False\<rparr>"
  have still: "still_files (ld_os store_load)" by simp
  obtain w1 w2 where w1: "rbac_after (history w1) =
      put_all rbac_key rbac_named (wanted_rbac store_load ?o) (rbac_after (history empty_world))"
    and w2: "run_state (InstallRBAC store_load ''cfg'' ?o) w1 = (Ok (), w2)" "rbac_after (history w2) = rbac_after (history w1)"
    using InstallRBAC_converges [OF store_load_server store_load_polls still store_load_good, of "''cfg''" ?o empty_world]
    by blast
  have "wanted_rbac store_load ?o =
      [Inl (stamped_role (fst (projr (decode_role (ld_rbac store_load) ''dex'')))),
       Inr (stamped_binding (fst (projr (decode_binding (ld_rbac store_load) ''dex''))))]"
    by (simp add: wanted_rbac_def wanted_roles_def wanted_bindings_def visited_def RemoveDuplicates_def)
  then have "map_option (map_sum roleMeta bindMeta) (rbac_after (history w1) (Inl ''dex'')) =
       Some (Inl \<lparr>metaName = ''dex'', metaNamespace = ''kube-system''\<rparr>)"
    "rbac_after (history w1) (Inr ''dex'') \<noteq> None"
    by (simp_all add: w1 put_def rbac_named_def rbac_key_def stamped_role_def stamped_binding_def store_load_def
        demo_load_def empty_world_def)
  then show ?thesis using w2 by (intro exI [of _ w1] conjI exI [of _ w2])
qed

end
