(* ===== verification/Convergence.thy ===== *)
theory Convergence
  imports Asset_Store
begin

text \<open>
  What installing manifests amounts to on a server that is a store of objects: the list of wanted objects
  is put into the store one after the other. \<open>InstallManifests\<close> implements this specification, and it
  follows that installing again changes nothing.
\<close>

section \<open>The specification\<close>

type_synonym object_key = "string \<times> string \<times> string"

definition object_key :: "unstr \<Rightarrow> object_key" where
  "object_key u = (unGroupVersionKind u, metaNamespace (unMeta u), metaName (unMeta u))"

text \<open>The objects that the files of the directories describe, in the order in which they are installed.\<close>

definition file_objects :: "'t manifest_lib \<Rightarrow> KubicInitConfiguration \<Rightarrow> string \<Rightarrow> unstr list" where
  "file_objects M c f = (case getUnstructuredInYAMLFile M c f of Ok us \<Rightarrow> us | _ \<Rightarrow> [])"

definition url_objects :: "'t manifest_lib \<Rightarrow> KubicInitConfiguration \<Rightarrow> string \<Rightarrow> unstr list" where
  "url_objects M c url =
     (case http_get M [] (trim_space url) of Inr (Inr body) \<Rightarrow> file_objects M c body | _ \<Rightarrow> [])"

definition wanted_in :: "os_env \<Rightarrow> 't manifest_lib \<Rightarrow> KubicInitConfiguration \<Rightarrow> string \<Rightarrow> unstr list" where
  "wanted_in E M c path =
     concat (map (file_objects M c) (contents_of E path yamlFileGlob)) @
     concat (map (url_objects M c) (contents_of E path urlFileGlob))"

definition wanted_objects :: "os_env \<Rightarrow> 't manifest_lib \<Rightarrow> KubicInitConfiguration \<Rightarrow> install_options \<Rightarrow> unstr list" where
  "wanted_objects E M c options = concat (map (wanted_in E M c) (visited E options))"

section \<open>The environment\<close>

definition writes_object :: "call \<Rightarrow> bool" where
  "writes_object c =
     (case c of
        ApiCreate (OUnstructured _) \<Rightarrow> True | ApiUpdate (OUnstructured _) \<Rightarrow> True
      | ApiCreateOrUpdate (OUnstructured _) \<Rightarrow> True | ApiDelete k _ _ _ \<Rightarrow> k = KUnstructured | _ \<Rightarrow> False)"

text \<open>
  What the server makes of an object that is to be written over the one it has under the same key, or
  over none: the object that it keeps, which may be completed or merged with the old one, or nothing, if it
  refuses. An update can be refused where a creation would not be, for one thing because the object was
  sent without the version of the one to be replaced.
\<close>

type_synonym admission = "unstr option \<Rightarrow> unstr \<Rightarrow> unstr option"

definition offer :: "admission \<Rightarrow> unstr \<Rightarrow> (object_key \<rightharpoonup> unstr) \<Rightarrow> (object_key \<rightharpoonup> unstr)" where
  "offer admit u st = (case admit (st (object_key u)) u of None \<Rightarrow> st | Some v \<Rightarrow> st(object_key u \<mapsto> v))"

definition answers :: "dyn_api \<Rightarrow> admission \<Rightarrow> (call list \<Rightarrow> object_key \<rightharpoonup> unstr) \<Rightarrow> call list \<Rightarrow> unstr \<Rightarrow> bool" where
  "answers Y admit \<mu> h u \<longleftrightarrow>
     (let hc = h @ [ApiCreate (OUnstructured u)]; hu = hc @ [ApiUpdate (OUnstructured u)] in
      case \<mu> h (object_key u) of
        None \<Rightarrow>
          (case admit None u of
             Some v \<Rightarrow> dyn_create Y h u = None \<and> \<mu> hc = (\<mu> h)(object_key u \<mapsto> v)
           | None \<Rightarrow> (\<exists>e. dyn_create Y h u = Some e \<and> \<not> IsAlreadyExists e) \<and> \<mu> hc = \<mu> h)
      | Some old \<Rightarrow> \<mu> hc = \<mu> h \<and> (\<exists>e. dyn_create Y h u = Some e \<and>
          (case admit (Some old) u of
             Some v \<Rightarrow> IsAlreadyExists e \<and> dyn_update Y hc u = None \<and> \<mu> hu = (\<mu> h)(object_key u \<mapsto> v)
           | None \<Rightarrow> IsAlreadyExists e \<longrightarrow> dyn_update Y hc u \<noteq> None \<and> \<mu> hu = \<mu> h)))"

text \<open>
  \<open>serves Y config admit \<mu>\<close>: the clients can be constructed, and the server has the objects \<open>\<mu> h\<close> after
  the history \<open>h\<close>. An object that it has none of is created or refused, with an error other than that it
  exists. Creating one that it has fails and changes nothing; if it would take the object, the error is that
  it exists and an update that follows is taken. Calls that do not write objects do not change them.
\<close>

definition serves :: "dyn_api \<Rightarrow> opaque \<Rightarrow> admission \<Rightarrow> (call list \<Rightarrow> object_key \<rightharpoonup> unstr) \<Rightarrow> bool" where
  "serves Y config admit \<mu> \<longleftrightarrow>
     new_dynamic Y config = None \<and> new_discovery Y config = None
     \<and> (\<forall>h u. answers Y admit \<mu> h u) \<and> (\<forall>h x. \<not> writes_object x \<longrightarrow> \<mu> (h @ [x]) = \<mu> h)"

text \<open>The kind of an object is known to the server's discovery, and the object has a name.\<close>

definition kind_known :: "dyn_api \<Rightarrow> opaque \<Rightarrow> call list \<Rightarrow> unstr \<Rightarrow> bool" where
  "kind_known Y config h u \<longleftrightarrow>
     (case group_resources Y h config of
        Inl _ \<Rightarrow> False
      | Inr res \<Rightarrow> (case rest_mapping Y res (unGroupVersionKind u) of Inl _ \<Rightarrow> False | Inr rsc \<Rightarrow> \<not> resource_nil Y rsc))"

definition has_names :: "dyn_api \<Rightarrow> unstr \<Rightarrow> bool" where
  "has_names Y u \<longleftrightarrow> \<not> isl (accessor_name Y u) \<and> \<not> isl (accessor_namespace Y u)"

definition findable :: "dyn_api \<Rightarrow> opaque \<Rightarrow> call list \<Rightarrow> unstr \<Rightarrow> bool" where
  "findable Y config h u \<longleftrightarrow> kind_known Y config h u \<and> has_names Y u"

lemmas findable_defs = findable_def kind_known_def has_names_def

text \<open>The history has been extended by calls of one kind.\<close>

definition since :: "(call \<Rightarrow> bool) \<Rightarrow> call list \<Rightarrow> call list \<Rightarrow> bool" where
  "since Q h0 h \<longleftrightarrow> (\<exists>cs. h = h0 @ cs \<and> list_all Q cs)"

lemma since_refl [simp]: "since Q h h"
  by (simp add: since_def)

lemma since_step: "Q c \<Longrightarrow> since Q h0 h \<Longrightarrow> since Q h0 (h @ [c])"
  by (auto simp: since_def)

lemma since_run: "calls_only Q m \<Longrightarrow> run_state m w = (r, w') \<Longrightarrow> since Q h0 (history w) \<Longrightarrow> since Q h0 (history w')"
  using calls_onlyD [of Q m w r w'] by (auto simp: since_def hist_ext_def)

text \<open>Installing manifests does not make kinds known or forgotten, those of the objects \<open>us\<close> at least.\<close>

definition kinds_stay :: "dyn_api \<Rightarrow> opaque \<Rightarrow> call list \<Rightarrow> unstr set \<Rightarrow> bool" where
  "kinds_stay Y config h0 us \<longleftrightarrow>
     (\<forall>h u. since manifest_call h0 h \<longrightarrow> u \<in> us \<longrightarrow> findable Y config h u = findable Y config h0 u)"

text \<open>Remote manifests that do not change meanwhile.\<close>

definition still_urls :: "'t manifest_lib \<Rightarrow> bool" where
  "still_urls M \<longleftrightarrow> (\<forall>h u. http_get M h u = http_get M [] u)"

lemma serves_quiet: "serves Y config admit \<mu> \<Longrightarrow> \<not> writes_object x \<Longrightarrow> \<mu> (h @ [x]) = \<mu> h"
  unfolding serves_def by blast

lemma file_call_quiet: "file_call c \<Longrightarrow> \<not> writes_object c"
  by (cases c) (auto simp: file_call_def writes_object_def)

lemma serves_files: "serves Y config admit \<mu> \<Longrightarrow> spares file_call (since manifest_call h0) \<mu>"
  unfolding spares_def using serves_quiet file_call_quiet since_step file_call_manifest by metis

section \<open>Installing one object\<close>

lemmas unstructured_steps = CreateOrUpdateFromUnstructured_def GetAPIGroupResources_def Dyn_Create_def Dyn_Update_def
  run_andthen run_wrap_err

text \<open>An object whose kind is not known is not even sent.\<close>

lemma unknown_skipped:
  assumes "new_dynamic Y config = None" and "new_discovery Y config = None" and "\<not> findable Y config (history w) u"
  shows "\<exists>e. run_state (CreateOrUpdateFromUnstructured Y config u) w = (Err e, w\<lparr>history := history w @ [ApiDiscover []]\<rparr>)"
proof (cases "group_resources Y (history w) config")
  case (Inl e)
  then show ?thesis by (simp add: unstructured_steps assms(1,2))
next
  case res: (Inr res)
  show ?thesis
  proof (cases "rest_mapping Y res (unGroupVersionKind u)")
    case (Inl e)
    then show ?thesis by (simp add: unstructured_steps assms(1,2) res)
  next
    case (Inr rsc)
    then have "isl (accessor_name Y u) \<or> isl (accessor_namespace Y u) \<or> resource_nil Y rsc"
      using assms(3) res by (auto simp: findable_defs)
    then show ?thesis
      using Inr by (cases "accessor_name Y u"; cases "accessor_namespace Y u")
        (simp_all add: unstructured_steps assms(1,2) res)
  qed
qed

text \<open>For the others there is a creation, and an update if it says that the object exists.\<close>

lemma known_sent:
  assumes "new_dynamic Y config = None" and "new_discovery Y config = None" and "findable Y config (history w) u"
  shows "(let h1 = history w @ [ApiDiscover []]; h2 = h1 @ [ApiCreate (OUnstructured u)] in
    run_state (CreateOrUpdateFromUnstructured Y config u) w =
      (case dyn_create Y h1 u of
         None \<Rightarrow> (Ok (), w\<lparr>history := h2\<rparr>)
       | Some err \<Rightarrow>
           if IsAlreadyExists err
           then (of_err (dyn_update Y h2 u), w\<lparr>history := h2 @ [ApiUpdate (OUnstructured u)]\<rparr>)
           else (Err (Wrapped ''could not create unstr'' err), w\<lparr>history := h2\<rparr>)))"
proof -
  obtain res rsc where kind: "group_resources Y (history w) config = Inr res"
    "rest_mapping Y res (unGroupVersionKind u) = Inr rsc" "\<not> resource_nil Y rsc"
    using assms(3) by (auto simp: findable_defs split: sum.splits)
  obtain n ns where names: "accessor_name Y u = Inr n" "accessor_namespace Y u = Inr ns"
    using assms(3) by (cases "accessor_name Y u"; cases "accessor_namespace Y u") (auto simp: findable_defs)
  show ?thesis by (simp add: unstructured_steps assms(1,2) kind names Let_def split: option.split)
qed

text \<open>The others are offered to the server; the result tells whether it took them.\<close>

lemma serves_libs:
  "serves Y config admit \<mu> \<Longrightarrow> new_dynamic Y config = None" "serves Y config admit \<mu> \<Longrightarrow> new_discovery Y config = None"
  unfolding serves_def by blast+

lemma known_offered:
  assumes "serves Y config admit \<mu>" and "findable Y config (history w) u"
  shows "\<exists>r w'. run_state (CreateOrUpdateFromUnstructured Y config u) w = (r, w')
    \<and> \<mu> (history w') = offer admit u (\<mu> (history w))
    \<and> (case admit (\<mu> (history w) (object_key u)) u of None \<Rightarrow> \<exists>e. r = Err e | Some _ \<Rightarrow> r = Ok ())"
proof -
  let ?h = "history w @ [ApiDiscover []]"
  have same: "\<mu> ?h = \<mu> (history w)"
    by (rule serves_quiet [OF assms(1)]) (simp add: writes_object_def)
  have ans: "answers Y admit \<mu> ?h u" using assms(1) unfolding serves_def by blast
  note steps = known_sent [OF serves_libs [OF assms(1)] assms(2), unfolded Let_def] offer_def
  show ?thesis
  proof (cases "\<mu> (history w) (object_key u)")
    case None
    then show ?thesis
      using ans unfolding answers_def Let_def same
      by (cases "admit None u") (auto simp: steps)
  next
    case (Some old)
    obtain e where e: "dyn_create Y ?h u = Some e" "\<mu> (?h @ [ApiCreate (OUnstructured u)]) = \<mu> (history w)"
      using ans unfolding answers_def Let_def same by (auto simp: Some)
    show ?thesis
    proof (cases "admit (Some old) u")
      case None
      then show ?thesis
        using ans e Some unfolding answers_def Let_def same
        by (cases "dyn_update Y (?h @ [ApiCreate (OUnstructured u)]) u") (auto simp: steps)
    next
      case v: (Some v)
      then show ?thesis
        using ans e Some unfolding answers_def Let_def same by (auto simp: steps)
    qed
  qed
qed

lemma puts_object:
  assumes "serves Y config admit \<mu>" and "kinds_stay Y config h0 us" and "u \<in> us"
  shows "puts (since manifest_call h0) (offer admit) \<mu> (ignore_error (CreateOrUpdateFromUnstructured Y config u)) ()
    (if findable Y config h0 u then [u] else [])"
proof (rule putsI)
  fix w :: world
  assume since: "since manifest_call h0 (history w)"
  have known: "findable Y config (history w) u = findable Y config h0 u"
    using assms(2,3) since unfolding kinds_stay_def by blast
  have "\<exists>r w'. run_state (CreateOrUpdateFromUnstructured Y config u) w = (r, w') \<and> (\<forall>p. r \<noteq> Panic p)
      \<and> \<mu> (history w') = fold (offer admit) (if findable Y config h0 u then [u] else []) (\<mu> (history w))"
  proof (cases "findable Y config h0 u")
    case True
    then show ?thesis using known_offered [OF assms(1)] known by (fastforce split: option.splits)
  next
    case False
    have "\<mu> (history w @ [ApiDiscover []]) = \<mu> (history w)"
      by (rule serves_quiet [OF assms(1)]) (simp add: writes_object_def)
    then show ?thesis using unknown_skipped [OF serves_libs [OF assms(1)], of w u] known False by auto
  qed
  then obtain r w' where run: "run_state (CreateOrUpdateFromUnstructured Y config u) w = (r, w')" "\<forall>p. r \<noteq> Panic p"
    and put: "\<mu> (history w') = fold (offer admit) (if findable Y config h0 u then [u] else []) (\<mu> (history w))"
    by blast
  have "run_state (ignore_error (CreateOrUpdateFromUnstructured Y config u)) w = (Ok (), w')"
    using run by (cases r) (simp_all add: ignore_error_def)
  then show "\<exists>w'. run_state (ignore_error (CreateOrUpdateFromUnstructured Y config u)) w = (Ok (), w')
      \<and> since manifest_call h0 (history w')
      \<and> \<mu> (history w') = fold (offer admit) (if findable Y config h0 u then [u] else []) (\<mu> (history w))"
    using put since_run [OF unstructured_calls run(1) since] by blast
qed

section \<open>Installing manifests\<close>

text \<open>The files that are read.\<close>

definition readable_manifests :: "os_env \<Rightarrow> install_options \<Rightarrow> bool" where
  "readable_manifests E options \<longleftrightarrow>
     list_all (\<lambda>p. readable E p yamlFileGlob \<and> readable E p urlFileGlob) (visited E options)"

text \<open>
  The walk over the manifests, for anything that follows the calls: what each object contributes (\<open>one\<close>), and
  what fetching a remote manifest does (\<open>fetch\<close>), comes in the order of directories, local files first.
\<close>

definition walked :: "(unstr \<Rightarrow> 'o list) \<Rightarrow> (string \<Rightarrow> 'o list) \<Rightarrow> os_env \<Rightarrow> 't manifest_lib \<Rightarrow> KubicInitConfiguration \<Rightarrow>
    string \<Rightarrow> 'o list" where
  "walked one fetch E M c path =
     concat (map one (concat (map (file_objects M c) (contents_of E path yamlFileGlob)))) @
     concat (map (\<lambda>u. fetch (trim_space u) @ concat (map one (url_objects M c u))) (contents_of E path urlFileGlob))"

lemma walk_file:
  assumes "\<And>u. u \<in> set (file_objects M c f) \<Longrightarrow>
      puts P step \<mu> (ignore_error (CreateOrUpdateFromUnstructured (ml_dyn M) config u)) () (one u)"
    and "\<And>d. is_Ok (document_object M c d)"
  shows "puts P step \<mu> (andthen (ret (getUnstructuredInYAMLFile M c f)) (load_objects M config)) ()
    (concat (map one (file_objects M c f)))"
proof -
  obtain us where us: "getUnstructuredInYAMLFile M c f = Ok us"
    using documents_loop_no_panic [OF assms(2)] by (auto simp: is_Ok_iff)
  have "puts P step \<mu> (load_objects M config us) () (concat (map one us))"
    unfolding load_objects_def by (rule puts_for_each) (rule assms(1), simp add: file_objects_def us)
  then show ?thesis
    using puts_andthen [where f = "load_objects M config", OF puts_ret] by (fastforce simp: us file_objects_def)
qed

lemma walk_url:
  assumes "\<And>x. x \<in> set (url_objects M c u) \<Longrightarrow>
      puts P step \<mu> (ignore_error (CreateOrUpdateFromUnstructured (ml_dyn M) config x)) () (one x)"
    and "\<And>h x. P h \<Longrightarrow> P (h @ [HttpGet x]) \<and> \<mu> (h @ [HttpGet x]) = fold step (fetch x) (\<mu> h)"
    and "\<And>d. is_Ok (document_object M c d)" and "still_urls M"
  shows "puts P step \<mu> (andthen (getUnstructuredFromURL M c u) (load_objects M config)) ()
    (fetch (trim_space u) @ concat (map one (url_objects M c u)))"
proof -
  have ok: "\<exists>us. getUnstructuredInYAMLFile M c f = Ok us" for f
    using documents_loop_no_panic [OF assms(3)] by (auto simp: is_Ok_iff)
  have get: "puts P step \<mu> (getUnstructuredFromURL M c u) (url_objects M c u) (fetch (trim_space u))"
  proof (rule putsI)
    fix w :: world
    assume P: "P (history w)"
    have no: "getUnstructuredInYAMLFile M c f \<noteq> Err e" "getUnstructuredInYAMLFile M c f \<noteq> Panic p" for f e p
      using ok [of f] by auto
    have answer: "http_get M (history w) (trim_space u) = http_get M [] (trim_space u)"
      using assms(4) unfolding still_urls_def by blast
    show "\<exists>w'. run_state (getUnstructuredFromURL M c u) w = (Ok (url_objects M c u), w')
        \<and> P (history w') \<and> \<mu> (history w') = fold step (fetch (trim_space u)) (\<mu> (history w))"
      using assms(2) [OF P, of "trim_space u"]
      by (auto simp: no getUnstructuredFromURL_def url_objects_def file_objects_def Let_def answer
          split: sum.split outcome.split)
  qed
  have "puts P step \<mu> (load_objects M config (url_objects M c u)) () (concat (map one (url_objects M c u)))"
    unfolding load_objects_def by (rule puts_for_each) (rule assms(1))
  with get show ?thesis by (rule puts_andthen)
qed

lemma walk_path:
  assumes "\<And>u. u \<in> set (wanted_in E M c path) \<Longrightarrow>
      puts P step \<mu> (ignore_error (CreateOrUpdateFromUnstructured (ml_dyn M) config u)) () (one u)"
    and "\<And>h x. P h \<Longrightarrow> P (h @ [HttpGet x]) \<and> \<mu> (h @ [HttpGet x]) = fold step (fetch x) (\<mu> h)"
    and "\<And>d. is_Ok (document_object M c d)" and "still_urls M" and "spares file_call P \<mu>" and "still_files E"
    and "readable E path yamlFileGlob" and "readable E path urlFileGlob"
  shows "puts P step \<mu> (install_manifests_in E M c config path) () (walked one fetch E M c path)"
proof -
  have files: "puts P step \<mu> (loadFilesIn E path g) (contents_of E path g) []" if "readable E path g" for g
    using assms(5,6) that by (rule puts_files)
  have locals: "puts P step \<mu>
      (for_each (\<lambda>f. andthen (ret (getUnstructuredInYAMLFile M c f)) (load_objects M config)) fs) ()
      (concat (map (\<lambda>f. concat (map one (file_objects M c f))) fs))" if "fs = contents_of E path yamlFileGlob" for fs
    by (rule puts_for_each, rule walk_file [OF assms(1,3)]) (use that in \<open>auto simp: wanted_in_def\<close>)
  have urls: "puts P step \<mu> (for_each (\<lambda>u. andthen (getUnstructuredFromURL M c u) (load_objects M config)) us) ()
      (concat (map (\<lambda>u. fetch (trim_space u) @ concat (map one (url_objects M c u))) us))"
    if "us = contents_of E path urlFileGlob" for us
    by (rule puts_for_each, rule walk_url [OF assms(1-4)]) (use that in \<open>auto simp: wanted_in_def\<close>)
  have "puts P step \<mu> (install_manifests_in E M c config path) ()
      ([] @ concat (map (\<lambda>f. concat (map one (file_objects M c f))) (contents_of E path yamlFileGlob)) @
       [] @ concat (map (\<lambda>u. fetch (trim_space u) @ concat (map one (url_objects M c u))) (contents_of E path urlFileGlob)))"
    unfolding install_manifests_in_def
    by (rule puts_andthen [OF files [OF assms(7)]] puts_andthen [OF files [OF assms(8)]]
        puts_andthen [OF locals] urls refl)+
  moreover have "concat (map (\<lambda>f. concat (map one (g f))) fs) = concat (map one (concat (map g fs)))" for g :: "string \<Rightarrow> unstr list" and fs
    by (induction fs) simp_all
  ultimately show ?thesis by (simp add: walked_def)
qed

lemma walk_manifests:
  assumes "\<And>u. u \<in> set (wanted_objects E M c options) \<Longrightarrow>
      puts P step \<mu> (ignore_error (CreateOrUpdateFromUnstructured (ml_dyn M) config u)) () (one u)"
    and "\<And>h x. P h \<Longrightarrow> P (h @ [HttpGet x]) \<and> \<mu> (h @ [HttpGet x]) = fold step (fetch x) (\<mu> h)"
    and "\<And>d. is_Ok (document_object M c d)" and "still_urls M" and "spares file_call P \<mu>" and "still_files E"
    and "readable_manifests E options"
  shows "puts P step \<mu> (InstallManifests E M c config options) ()
    (concat (map (walked one fetch E M c) (visited E options)))"
  unfolding InstallManifests_def
  by (intro puts_for_paths walk_path [OF assms(1-6)] assms(5,6))
    (use assms(7) in \<open>auto simp: readable_manifests_def list_all_iff wanted_objects_def\<close>)

text \<open>The objects that are offered.\<close>

lemma puts_manifests:
  assumes "serves (ml_dyn M) config admit \<mu>" and "kinds_stay (ml_dyn M) config h0 (set (wanted_objects E M c options))"
    and "\<And>d. is_Ok (document_object M c d)" and "still_files E" and "readable_manifests E options" and "still_urls M"
  shows "puts (since manifest_call h0) (offer admit) \<mu> (InstallManifests E M c config options) ()
    (filter (findable (ml_dyn M) config h0) (wanted_objects E M c options))"
proof -
  let ?one = "\<lambda>u. if findable (ml_dyn M) config h0 u then [u] else []"
  have "\<mu> (h @ [HttpGet x]) = \<mu> h" for h x
    by (rule serves_quiet [OF assms(1)]) (simp add: writes_object_def)
  then have "puts (since manifest_call h0) (offer admit) \<mu> (InstallManifests E M c config options) ()
      (concat (map (walked ?one (\<lambda>_. []) E M c) (visited E options)))"
    by (intro walk_manifests puts_object [OF assms(1,2)] assms(3-6) serves_files [OF assms(1)])
      (simp_all add: since_step manifest_call_http)
  moreover have one: "concat (map ?one us) = filter (findable (ml_dyn M) config h0) us" for us
    by (induction us) simp_all
  ultimately show ?thesis
    by (simp add: walked_def one wanted_objects_def wanted_in_def filter_concat comp_def cong: map_cong)
qed

section \<open>What is in the store then\<close>

lemma offer_other: "k \<noteq> object_key u \<Longrightarrow> offer admit u st k = st k"
  by (simp add: offer_def split: option.split)

lemma offers_other: "k \<notin> object_key ` set us \<Longrightarrow> fold (offer admit) us st k = st k"
  by (induction us arbitrary: st) (auto simp: offer_other)

text \<open>Objects of different keys do not get in each other's way.\<close>

lemma offers_distinct:
  "distinct (map object_key us) \<Longrightarrow> u \<in> set us \<Longrightarrow> fold (offer admit) us st (object_key u) =
     (case admit (st (object_key u)) u of None \<Rightarrow> st (object_key u) | Some v \<Rightarrow> Some v)"
proof (induction us arbitrary: st)
  case (Cons x us)
  show ?case
  proof (cases "u = x")
    case True
    then have "fold (offer admit) us (offer admit x st) (object_key u) = offer admit x st (object_key u)"
      using Cons.prems(1) by (intro offers_other) auto
    then show ?thesis
      using True by (cases "admit (st (object_key u)) u") (simp_all add: offer_def [of admit x st])
  next
    case False
    then have "u \<in> set us" using Cons.prems(2) by simp
    moreover have "object_key u \<noteq> object_key x" using Cons.prems(1) \<open>u \<in> set us\<close> by (auto simp: image_iff)
    ultimately show ?thesis
      using Cons.IH [of "offer admit x st"] Cons.prems(1) offer_other [of "object_key u" x admit st]
      by (simp split: option.split)
  qed
qed simp

text \<open>What was refused as new is refused again, and nothing disappears.\<close>

lemma offer_absent: "offer admit u st k = None \<longleftrightarrow> st k = None \<and> (object_key u = k \<longrightarrow> admit None u = None)"
  by (auto simp: offer_def split: option.split)

lemma offers_absent: "fold (offer admit) us st k = None \<longleftrightarrow>
    st k = None \<and> (\<forall>u\<in>set us. object_key u = k \<longrightarrow> admit None u = None)"
  by (induction us arbitrary: st) (auto simp: offer_absent)

lemma offers_dom: "dom (fold (offer admit) us (fold (offer admit) us st)) = dom (fold (offer admit) us st)"
  unfolding dom_def by (auto simp: offers_absent simp flip: not_None_eq)

text \<open>A server that has nothing to add to what it made of an object.\<close>

definition settles :: "admission \<Rightarrow> bool" where
  "settles admit \<longleftrightarrow> (\<forall>old u v. admit old u = Some v \<longrightarrow> admit (Some v) u = None \<or> admit (Some v) u = Some v)"

lemma offers_again:
  assumes "settles admit" and "distinct (map object_key us)"
  shows "fold (offer admit) us (fold (offer admit) us st) = fold (offer admit) us st"
proof
  fix k
  show "fold (offer admit) us (fold (offer admit) us st) k = fold (offer admit) us st k"
  proof (cases "k \<in> object_key ` set us")
    case True
    then obtain u where u: "u \<in> set us" "k = object_key u" by blast
    note now = offers_distinct [OF assms(2) u(1), of admit]
    show ?thesis
    proof (cases "admit (st k) u")
      case None
      then show ?thesis using now [of st] now [of "fold (offer admit) us st"] by (simp add: u(2))
    next
      case (Some v)
      then have "admit (Some v) u = None \<or> admit (Some v) u = Some v" using assms(1) unfolding settles_def by blast
      then show ?thesis using Some now [of st] now [of "fold (offer admit) us st"] by (auto simp: u(2))
    qed
  qed (simp add: offers_other)
qed

text \<open>
  C9. Installing manifests implements its specification: when the files and remote manifests do not
  change and can be read, and while the kinds of their objects are as known to the server as they were,
  \<open>InstallManifests\<close> succeeds and has offered to the server, in the order of directories (duplicates once),
  files and documents, every object of the manifests whose kind is known. What becomes of an object is
  for the server to say, for a new one and for one that exists; objects of different keys do not affect
  each other, and if it refuses an object, then nothing happens to the one it has, if any. Running it
  again succeeds, offers the same objects and adds none; it changes nothing if their keys are different and
  the server leaves what it has made of an object when it is sent again.
\<close>

theorem InstallManifests_converges:
  assumes "serves (ml_dyn M) config admit \<mu>" and "still_files E" and "readable_manifests E options"
    and "still_urls M" and "\<And>d. is_Ok (document_object M c d)"
    and "kinds_stay (ml_dyn M) config (history w) (set (wanted_objects E M c options))"
    and "us = filter (findable (ml_dyn M) config (history w)) (wanted_objects E M c options)"
  shows "\<exists>w1 w2. run_state (InstallManifests E M c config options) w = (Ok (), w1)
    \<and> \<mu> (history w1) = fold (offer admit) us (\<mu> (history w))
    \<and> run_state (InstallManifests E M c config options) w1 = (Ok (), w2)
    \<and> \<mu> (history w2) = fold (offer admit) us (\<mu> (history w1))
    \<and> dom (\<mu> (history w2)) = dom (\<mu> (history w1))
    \<and> (distinct (map object_key us) \<longrightarrow>
         (\<forall>u\<in>set us. \<mu> (history w1) (object_key u) =
            (case admit (\<mu> (history w) (object_key u)) u of None \<Rightarrow> \<mu> (history w) (object_key u) | Some v \<Rightarrow> Some v))
         \<and> (settles admit \<longrightarrow> \<mu> (history w2) = \<mu> (history w1)))"
proof -
  obtain w1 w2 where runs: "run_state (InstallManifests E M c config options) w = (Ok (), w1)"
    "run_state (InstallManifests E M c config options) w1 = (Ok (), w2)"
    and first: "\<mu> (history w1) = fold (offer admit) us (\<mu> (history w))"
    and second: "\<mu> (history w2) = fold (offer admit) us (\<mu> (history w1))"
    using puts_twice [OF puts_manifests [OF assms(1,6,5,2,3,4)], of w] unfolding assms(7) by auto
  have "dom (\<mu> (history w2)) = dom (\<mu> (history w1))" unfolding second first by (rule offers_dom)
  moreover have "\<mu> (history w1) (object_key u) =
      (case admit (\<mu> (history w) (object_key u)) u of None \<Rightarrow> \<mu> (history w) (object_key u) | Some v \<Rightarrow> Some v)"
    if "distinct (map object_key us)" and "u \<in> set us" for u
    unfolding first using that by (rule offers_distinct)
  moreover have "\<mu> (history w2) = \<mu> (history w1)" if "settles admit" and "distinct (map object_key us)"
    unfolding second first using that by (rule offers_again)
  ultimately show ?thesis using runs first second by blast
qed

text \<open>
  An update that the server refuses goes unnoticed: the installation succeeds and the server keeps the
  object that it had. (The comment where the update is sent expects it to fail.)
\<close>

theorem refused_update_unnoticed:
  assumes "serves (ml_dyn M) config admit \<mu>" and "still_files E" and "readable_manifests E options"
    and "still_urls M" and "\<And>d. is_Ok (document_object M c d)"
    and "kinds_stay (ml_dyn M) config (history w) (set (wanted_objects E M c options))"
    and "\<And>u. u \<in> set (wanted_objects E M c options) \<Longrightarrow> object_key u = k \<Longrightarrow> admit (Some old) u = None"
    and "\<mu> (history w) k = Some old"
  shows "\<exists>w'. run_state (InstallManifests E M c config options) w = (Ok (), w') \<and> \<mu> (history w') k = Some old"
proof -
  let ?us = "filter (findable (ml_dyn M) config (history w)) (wanted_objects E M c options)"
  obtain w' where run: "run_state (InstallManifests E M c config options) w = (Ok (), w')"
    "\<mu> (history w') = fold (offer admit) ?us (\<mu> (history w))"
    by (rule putsE [OF puts_manifests [OF assms(1,6,5,2,3,4)], of w]) simp
  have "fold (offer admit) us st k = Some old"
    if "st k = Some old" and "set us \<subseteq> set (wanted_objects E M c options)" for us st
    using that
  proof (induction us arbitrary: st)
    case (Cons u us)
    have "offer admit u st k = Some old"
      using Cons.prems assms(7) [of u] by (cases "object_key u = k") (simp add: offer_def, simp add: offer_other)
    then show ?case using Cons by simp
  qed simp
  then show ?thesis using run assms(8) by auto
qed

section \<open>What is sent\<close>

definition sends :: "call \<Rightarrow> bool" where
  "sends c = (case c of ApiCreate (OUnstructured _) \<Rightarrow> True | HttpGet _ \<Rightarrow> True | _ \<Rightarrow> False)"

lemma puts_sent:
  assumes "new_dynamic Y config = None" and "new_discovery Y config = None"
    and "kinds_stay Y config h0 us" and "u \<in> us"
  shows "puts (since manifest_call h0) (\<lambda>c cs. cs @ [c]) (filter sends)
    (ignore_error (CreateOrUpdateFromUnstructured Y config u)) ()
    (if findable Y config h0 u then [ApiCreate (OUnstructured u)] else [])"
proof (rule putsI)
  fix w :: world
  let ?cs = "if findable Y config h0 u then [ApiCreate (OUnstructured u)] else []"
  assume since: "since manifest_call h0 (history w)"
  have known: "findable Y config (history w) u = findable Y config h0 u"
    using assms(3,4) since unfolding kinds_stay_def by blast
  have "\<exists>r w'. run_state (CreateOrUpdateFromUnstructured Y config u) w = (r, w') \<and> (\<forall>p. r \<noteq> Panic p)
      \<and> filter sends (history w') = filter sends (history w) @ ?cs"
  proof (cases "findable Y config h0 u")
    case True
    then show ?thesis
      using known_sent [OF assms(1,2), of w u] known
      by (cases "dyn_create Y (history w @ [ApiDiscover []]) u";
          cases "dyn_update Y (history w @ [ApiDiscover [], ApiCreate (OUnstructured u)]) u")
        (auto simp: Let_def sends_def)
  next
    case False
    then show ?thesis
      using unknown_skipped [OF assms(1,2), of w u] known by (auto simp: sends_def)
  qed
  then obtain r w' where run: "run_state (CreateOrUpdateFromUnstructured Y config u) w = (r, w')" "\<forall>p. r \<noteq> Panic p"
    and sent: "filter sends (history w') = filter sends (history w) @ ?cs"
    by blast
  have "run_state (ignore_error (CreateOrUpdateFromUnstructured Y config u)) w = (Ok (), w')"
    using run by (cases r) (simp_all add: ignore_error_def)
  then show "\<exists>w'. run_state (ignore_error (CreateOrUpdateFromUnstructured Y config u)) w = (Ok (), w')
      \<and> since manifest_call h0 (history w')
      \<and> filter sends (history w') = fold (\<lambda>c cs. cs @ [c]) ?cs (filter sends (history w))"
    using sent since_run [OF unstructured_calls run(1) since] by simp
qed

text \<open>
  C34. Manifests are installed on a best-effort basis: when the files and remote manifests do not change,
  the files can be read, no template panics, and the kinds of the objects are as known to discovery as they
  were, \<open>InstallManifests\<close> succeeds, whatever the server answers to creations and updates and whether
  remote manifests can be fetched or not. Each object of a known kind is sent for creation once, and each
  remote manifest is asked for once, directory by directory (duplicates once), the objects of the local
  files first, and then for each URL its objects after it. So nothing that fails keeps another one from
  being tried. (A directory or a file that cannot be read does end the installation, unlike its comment
  says.)
\<close>

theorem InstallManifests_best_effort:
  assumes "new_dynamic (ml_dyn M) config = None" and "new_discovery (ml_dyn M) config = None"
    and "still_files E" and "readable_manifests E options" and "still_urls M" and "\<And>d. is_Ok (document_object M c d)"
    and "kinds_stay (ml_dyn M) config (history w) (set (wanted_objects E M c options))"
  shows "fst (run_state (InstallManifests E M c config options) w) = Ok ()
    \<and> filter sends (calls_of (InstallManifests E M c config options) w) =
        concat (map (walked
            (\<lambda>u. if findable (ml_dyn M) config (history w) u then [ApiCreate (OUnstructured u)] else [])
            (\<lambda>url. [HttpGet url]) E M c)
          (visited E options))"
proof -
  let ?one = "\<lambda>u. if findable (ml_dyn M) config (history w) u then [ApiCreate (OUnstructured u)] else []"
  let ?cs = "concat (map (walked ?one (\<lambda>url. [HttpGet url]) E M c) (visited E options))"
  have "file_call c \<Longrightarrow> \<not> sends c" for c by (cases c) (auto simp: file_call_def sends_def)
  then have "spares file_call (since manifest_call (history w)) (filter sends)"
    by (simp add: spares_def since_step file_call_manifest)
  then have "puts (since manifest_call (history w)) (\<lambda>c cs. cs @ [c]) (filter sends) (InstallManifests E M c config options) () ?cs"
    by (intro walk_manifests puts_sent [OF assms(1,2,7)] assms(3-6))
      (simp_all add: since_step manifest_call_http sends_def)
  moreover have "fold (\<lambda>c cs. cs @ [c]) cs st = st @ cs" for cs st :: "call list"
    by (induction cs arbitrary: st) simp_all
  ultimately obtain w' where run: "run_state (InstallManifests E M c config options) w = (Ok (), w')"
    and sent: "filter sends (history w') = filter sends (history w) @ ?cs"
    by (elim putsE [where w = w]) auto
  have "hist_ext manifest_call w w'" by (rule calls_onlyD [OF InstallManifests_calls_only run])
  then show ?thesis using run sent by (auto simp: calls_of_def hist_ext_def)
qed

section \<open>A concrete server\<close>

text \<open>
  It completes what it stores, and refuses objects without a name and updates of an object of its own kind.
  That kind is known to its discovery when \<open>listed\<close> says so.
\<close>

definition dex_object :: unstr where
  "dex_object =
     \<lparr>unGroupVersionKind = ''kubic/v1/Dex'', unMeta = \<lparr>metaName = ''dex'', metaNamespace = ''kube-system''\<rparr>,
      unBody = ''port: 32000''\<rparr>"

definition completed_object :: "unstr \<Rightarrow> unstr" where
  "completed_object u = u\<lparr>unBody := unBody u @ '' status: new''\<rparr>"

definition demo_admit :: admission where
  "demo_admit old u =
     (if metaName (unMeta u) = [] \<or> old \<noteq> None \<and> unGroupVersionKind u = ''kubic/v1/Dex'' then None
      else Some (completed_object u))"

lemma demo_admit_settles: "settles demo_admit"
  by (auto simp: settles_def demo_admit_def)

fun replay_object :: "call \<Rightarrow> (object_key \<rightharpoonup> unstr) \<Rightarrow> (object_key \<rightharpoonup> unstr)" where
  "replay_object (ApiCreate (OUnstructured u)) st = (if st (object_key u) = None then offer demo_admit u st else st)"
| "replay_object (ApiUpdate (OUnstructured u)) st = (if st (object_key u) \<noteq> None then offer demo_admit u st else st)"
| "replay_object _ st = st"

definition objects_after :: "call list \<Rightarrow> object_key \<rightharpoonup> unstr" where
  "objects_after h = fold replay_object h Map.empty"

lemma objects_after_snoc [simp]: "objects_after (h @ [c]) = replay_object c (objects_after h)" "objects_after [] = Map.empty"
  by (simp_all add: objects_after_def)

definition store_dyn :: "(call list \<Rightarrow> bool) \<Rightarrow> dyn_api" where
  "store_dyn listed = demo_dyn
     \<lparr>group_resources := \<lambda>h _. Inr (if listed h then ''kubic'' else ''core''),
      rest_mapping := \<lambda>res k. if k = ''kubic/v1/Dex'' \<and> res = ''core'' then Inl (Plain ''no matches for kind'') else Inr k,
      dyn_create := \<lambda>h u. if objects_after h (object_key u) \<noteq> None then Some (StatusErr AlreadyExists 409)
        else if demo_admit None u = None then Some (StatusErr OtherReason 422) else None,
      dyn_update := \<lambda>h u. if demo_admit (objects_after h (object_key u)) u = None
        then Some (StatusErr OtherReason 422) else None\<rparr>"

lemma replay_object_quiet: "\<not> writes_object c \<Longrightarrow> replay_object c st = st"
  by (cases "(c, st)" rule: replay_object.cases) (simp_all add: writes_object_def)

lemma store_dyn_answers: "answers (store_dyn listed) demo_admit objects_after h u"
proof (cases "objects_after h (object_key u)")
  case None
  then show ?thesis
    by (cases "demo_admit None u") (simp_all add: answers_def Let_def store_dyn_def offer_def)
next
  case (Some old)
  moreover have "objects_after (h @ [ApiCreate (OUnstructured u), ApiUpdate (OUnstructured u)]) =
      offer demo_admit u (objects_after h)"
    using objects_after_snoc(1) [of "h @ [ApiCreate (OUnstructured u)]"] Some by simp
  ultimately show ?thesis
    by (cases "demo_admit (Some old) u") (simp_all add: answers_def Let_def store_dyn_def offer_def)
qed

lemma store_dyn_serves: "serves (store_dyn listed) config demo_admit objects_after"
proof -
  have "new_dynamic (store_dyn listed) config = None" "new_discovery (store_dyn listed) config = None"
    by (simp_all add: store_dyn_def)
  then show ?thesis
    unfolding serves_def using store_dyn_answers by (intro conjI allI impI) (simp_all add: replay_object_quiet)
qed

lemma store_dyn_names [simp]: "has_names (store_dyn listed) u"
  by (simp add: has_names_def store_dyn_def)

lemma store_dyn_known [simp]:
  "kind_known (store_dyn listed) config h u \<longleftrightarrow> unGroupVersionKind u \<noteq> ''kubic/v1/Dex'' \<or> listed h"
  by (simp add: kind_known_def store_dyn_def)

definition store_manifest :: "(call list \<Rightarrow> bool) \<Rightarrow> string manifest_lib" where
  "store_manifest listed = demo_manifest\<lparr>unmarshal_json := \<lambda>_. Inr dex_object, ml_dyn := store_dyn listed\<rparr>"

lemma store_manifest_sel [simp]:
  "ml_dyn (store_manifest listed) = store_dyn listed"
  "http_get (store_manifest listed) = (\<lambda>_ _. Inl (Plain ''timeout''))"
  "document_object (store_manifest listed) c d = (if d = [nl] \<or> d = [] then Ok None else Ok (Some dex_object))"
  by (simp_all add: store_manifest_def demo_manifest_def document_object_def ParseTemplate_def)

lemma store_wanted: "wanted_objects demo_files (store_manifest listed) c options =
    map (\<lambda>_. dex_object) (visited demo_files options)"
proof -
  have "getUnstructuredInYAMLFile (store_manifest listed) c ''dex'' = Ok [dex_object]"
    using split_documents [of "[]" "''dex''"] by (simp add: getUnstructuredInYAMLFile_def nl_def)
  then have "file_objects (store_manifest listed) c ''dex'' = [dex_object]"
    by (simp add: file_objects_def)
  moreover have "url_objects (store_manifest listed) c u = []" for u by (simp add: url_objects_def)
  ultimately have "wanted_in demo_files (store_manifest listed) c = (\<lambda>p. [dex_object])"
    by (simp add: wanted_in_def fun_eq_iff)
  then show ?thesis by (simp add: wanted_objects_def)
qed

text \<open>A server that refuses everything, and remote manifests that cannot be fetched.\<close>

definition refusing :: "string manifest_lib" where
  "refusing = demo_manifest\<lparr>ml_dyn := demo_dyn\<lparr>dyn_create := \<lambda>_ _. Some (StatusErr OtherReason 500)\<rparr>\<rparr>"

theorem InstallManifests_best_effort_witness:
  "fst (run_state (InstallManifests demo_files refusing defaultConfiguration ''cfg''
       \<lparr>InstallPaths = [''config/manifests''], ErrorIfPathMissing = False\<rparr>) empty_world) = Ok ()
   \<and> filter sends (calls_of (InstallManifests demo_files refusing defaultConfiguration ''cfg''
       \<lparr>InstallPaths = [''config/manifests''], ErrorIfPathMissing = False\<rparr>) empty_world) =
       [ApiCreate (OUnstructured (demo_unstr ''dex'')), HttpGet ''dex'']"
proof -
  let ?o = "\<lparr>InstallPaths = [''config/manifests''], ErrorIfPathMissing = False\<rparr>"
  have sel: "http_get refusing = (\<lambda>_ _. Inl (Plain ''timeout''))"
    "document_object refusing c d = document_object demo_manifest c d" for c d
    by (simp_all add: refusing_def demo_manifest_def document_object_def split: outcome.split)
  have libs: "new_dynamic (ml_dyn refusing) ''cfg'' = None" "new_discovery (ml_dyn refusing) ''cfg'' = None"
    by (simp_all add: refusing_def)
  have known: "findable (ml_dyn refusing) ''cfg'' h u" for h u by (simp add: refusing_def findable_defs)
  have files: "readable_manifests demo_files ?o" by (simp add: readable_manifests_def list_all_iff)
  have urls: "still_urls refusing" by (simp add: still_urls_def sel)
  have docs: "is_Ok (document_object refusing defaultConfiguration d)" for d by (simp add: sel)
  have kinds: "kinds_stay (ml_dyn refusing) ''cfg'' h us" for h us by (simp add: kinds_stay_def known)
  have "getUnstructuredInYAMLFile refusing defaultConfiguration ''dex'' = Ok [demo_unstr ''dex'']"
    using split_documents [of "[]" "''dex''"] by (simp add: getUnstructuredInYAMLFile_def nl_def sel)
  then have "file_objects refusing defaultConfiguration ''dex'' = [demo_unstr ''dex'']"
    by (simp add: file_objects_def)
  moreover have "url_objects refusing defaultConfiguration u = []" for u by (simp add: url_objects_def sel)
  moreover have "trim_space ''dex'' = ''dex''" by code_simp
  ultimately show ?thesis
    using InstallManifests_best_effort [OF libs demo_files_still files urls docs kinds, of empty_world] known
    by (simp add: walked_def visited_def RemoveDuplicates_def)
qed

theorem InstallManifests_converges_witness:
  "\<exists>w1 w2. run_state (InstallManifests demo_files (store_manifest (\<lambda>_. True)) defaultConfiguration ''cfg''
       \<lparr>InstallPaths = [''config/manifests''], ErrorIfPathMissing = False\<rparr>) empty_world = (Ok (), w1)
     \<and> objects_after (history w1) = [object_key dex_object \<mapsto> completed_object dex_object]
     \<and> run_state (InstallManifests demo_files (store_manifest (\<lambda>_. True)) defaultConfiguration ''cfg''
         \<lparr>InstallPaths = [''config/manifests''], ErrorIfPathMissing = False\<rparr>) w1 = (Ok (), w2)
     \<and> objects_after (history w2) = [object_key dex_object \<mapsto> completed_object dex_object]"
proof -
  let ?o = "\<lparr>InstallPaths = [''config/manifests''], ErrorIfPathMissing = False\<rparr>" and ?M = "store_manifest (\<lambda>_. True)"
  have wanted: "wanted_objects demo_files ?M defaultConfiguration ?o = [dex_object]"
    by (simp add: store_wanted visited_def RemoveDuplicates_def)
  have server: "serves (ml_dyn ?M) ''cfg'' demo_admit objects_after" by (simp add: store_dyn_serves)
  have files: "readable_manifests demo_files ?o" by (simp add: readable_manifests_def list_all_iff)
  have urls: "still_urls ?M" by (simp add: still_urls_def)
  have docs: "is_Ok (document_object ?M defaultConfiguration d)" for d by simp
  have kinds: "kinds_stay (ml_dyn ?M) ''cfg'' (history empty_world) (set (wanted_objects demo_files ?M defaultConfiguration ?o))"
    by (simp add: kinds_stay_def findable_def)
  have known: "[dex_object] = filter (findable (ml_dyn ?M) ''cfg'' (history empty_world))
      (wanted_objects demo_files ?M defaultConfiguration ?o)"
    by (simp add: wanted findable_def)
  have keys: "distinct (map object_key [dex_object])" by simp
  obtain w1 w2 where runs: "run_state (InstallManifests demo_files ?M defaultConfiguration ''cfg'' ?o) empty_world = (Ok (), w1)"
    "run_state (InstallManifests demo_files ?M defaultConfiguration ''cfg'' ?o) w1 = (Ok (), w2)"
    and first: "objects_after (history w1) = fold (offer demo_admit) [dex_object] (objects_after (history empty_world))"
    and same: "objects_after (history w2) = objects_after (history w1)"
    using InstallManifests_converges [OF server demo_files_still files urls docs kinds known] keys demo_admit_settles by blast
  have "objects_after (history w1) = [object_key dex_object \<mapsto> completed_object dex_object]"
    unfolding first by (simp add: empty_world_def offer_def demo_admit_def dex_object_def)
  then show ?thesis using runs same by auto
qed

end
