(* ===== verification/Crd_Establish.thy ===== *)
theory Crd_Establish
  imports Crds
begin

text \<open>
  Installing resource definitions on a server that establishes them: the server keeps a map from names to
  definitions and serves the resource of a stored definition some time after it was written. Then
  \<open>InstallCRDs\<close> returns in time, and what is stored is what it should be.
\<close>

section \<open>The server\<close>

definition crd_id :: "crd \<Rightarrow> string" where
  "crd_id c = metaName (crdMeta c)"

lemma crd_id_validation [simp]: "crd_id (c\<lparr>crdValidation := v\<rparr>) = crd_id c"
  by (simp add: crd_id_def)

definition writes_crd :: "call \<Rightarrow> bool" where
  "writes_crd c =
     (case c of
        ApiCreate (OCRD _) \<Rightarrow> True | ApiUpdate (OCRD _) \<Rightarrow> True | ApiCreateOrUpdate (OCRD _) \<Rightarrow> True
      | ApiDelete k _ _ _ \<Rightarrow> k = KCRD | _ \<Rightarrow> False)"

text \<open>
  \<open>crd_server X config \<mu>\<close>: the server is reachable and has the definitions \<open>\<mu> h\<close> after the history \<open>h\<close>,
  each under its name; it creates one of a new name and updates one of a name it has.
\<close>

definition crd_server :: "crd_lib \<Rightarrow> opaque \<Rightarrow> (call list \<Rightarrow> string \<rightharpoonup> crd) \<Rightarrow> bool" where
  "crd_server X config \<mu> \<longleftrightarrow>
     new_crd_clientset X config = None
     \<and> (\<forall>h n. case \<mu> h n of
           None \<Rightarrow> \<exists>code. api_get (crd_api X) h [] n = Inl (StatusErr NotFound code)
         | Some d \<Rightarrow> api_get (crd_api X) h [] n = Inr d \<and> crd_id d = n)
     \<and> (\<forall>h c. \<mu> h (crd_id c) = None \<longrightarrow>
          \<not> isl (api_create (crd_api X) h c) \<and> \<mu> (h @ [ApiCreate (OCRD c)]) = (\<mu> h)(crd_id c \<mapsto> c))
     \<and> (\<forall>h c. \<mu> h (crd_id c) \<noteq> None \<longrightarrow>
          \<not> isl (api_update (crd_api X) h c) \<and> \<mu> (h @ [ApiUpdate (OCRD c)]) = (\<mu> h)(crd_id c \<mapsto> c))
     \<and> (\<forall>h x. \<not> writes_crd x \<longrightarrow> \<mu> (h @ [x]) = \<mu> h)"

lemma crd_serverD:
  assumes "crd_server X config \<mu>"
  shows "new_crd_clientset X config = None"
    and "\<mu> h n = None \<Longrightarrow> \<exists>code. api_get (crd_api X) h [] n = Inl (StatusErr NotFound code)"
    and "\<mu> h n = Some d \<Longrightarrow> api_get (crd_api X) h [] n = Inr d \<and> crd_id d = n"
    and "\<mu> h (crd_id c) = None \<Longrightarrow>
      \<not> isl (api_create (crd_api X) h c) \<and> \<mu> (h @ [ApiCreate (OCRD c)]) = (\<mu> h)(crd_id c \<mapsto> c)"
    and "\<mu> h (crd_id c) \<noteq> None \<Longrightarrow>
      \<not> isl (api_update (crd_api X) h c) \<and> \<mu> (h @ [ApiUpdate (OCRD c)]) = (\<mu> h)(crd_id c \<mapsto> c)"
    and "\<not> writes_crd x \<Longrightarrow> \<mu> (h @ [x]) = \<mu> h"
proof -
  have get: "case \<mu> h n of
           None \<Rightarrow> \<exists>code. api_get (crd_api X) h [] n = Inl (StatusErr NotFound code)
         | Some d \<Rightarrow> api_get (crd_api X) h [] n = Inr d \<and> crd_id d = n"
    using assms unfolding crd_server_def by blast
  show "\<mu> h n = None \<Longrightarrow> \<exists>code. api_get (crd_api X) h [] n = Inl (StatusErr NotFound code)"
    and "\<mu> h n = Some d \<Longrightarrow> api_get (crd_api X) h [] n = Inr d \<and> crd_id d = n"
    using get by simp_all
qed (use assms in \<open>unfold crd_server_def, blast\<close>)+

text \<open>The time that the program has slept.\<close>

definition slept :: "call list \<Rightarrow> nat" where
  "slept h = sum_list (map (\<lambda>c. case c of TimeSleepMs n \<Rightarrow> n | _ \<Rightarrow> 0) h)"

lemma slept_simps [simp]:
  "slept [] = 0" "slept (h @ h') = slept h + slept h'" "slept [TimeSleepMs n] = n" "slept [ApiDiscover g] = 0"
  by (simp_all add: slept_def)

text \<open>Discovery lists the resource of a definition that has been stored for \<open>lag\<close> milliseconds.\<close>

definition lists :: "crd_lib \<Rightarrow> call list \<Rightarrow> gv \<Rightarrow> string \<Rightarrow> bool" where
  "lists X h gv n \<longleftrightarrow> (\<exists>l. server_resources X h (gv_path gv) = Inr l \<and> n \<in> set l)"

definition establishes :: "crd_lib \<Rightarrow> (call list \<Rightarrow> string \<rightharpoonup> crd) \<Rightarrow> nat \<Rightarrow> bool" where
  "establishes X \<mu> lag \<longleftrightarrow>
     (\<forall>h h' n d. (\<forall>g. prefix g h' \<longrightarrow> \<mu> (h @ g) n = Some d) \<longrightarrow> lag \<le> slept h' \<longrightarrow>
        lists X (h @ h') (crdGroup d, crdVersion d) (crdPlural d))"

text \<open>
  What \<open>wait.PollImmediate\<close> promises about time: polls at the interval, the first at once, and none
  given up before the timeout is covered by the pauses.
\<close>

definition polls_until :: "(nat \<Rightarrow> ('s, unit) state) \<Rightarrow> 's poll_fn \<Rightarrow> bool" where
  "polls_until pause poll \<longleftrightarrow>
     (\<forall>i t cond s. 0 < i \<longrightarrow> (\<exists>n. t \<le> Suc n * i
        \<and> run_state (poll i t cond) s = run_state (attempts (pause i) (Suc n) cond) s))"

lemma attempts_polls_until: "polls_until pause (\<lambda>i t. attempts (pause i) (Suc (t div i)))"
  unfolding polls_until_def
proof (intro allI impI exI conjI)
  show "t \<le> Suc (t div i) * i" if "0 < i" for i t :: nat
    using div_mult_mod_eq [of t i] mod_less_divisor [OF that, of t] by (simp only: mult_Suc)
qed (rule refl)

section \<open>What is stored\<close>

text \<open>A definition is created as it is; one that exists gets the new validation schema.\<close>

definition installed :: "crd option \<Rightarrow> crd \<Rightarrow> crd" where
  "installed old c = (case old of None \<Rightarrow> c | Some e \<Rightarrow> e\<lparr>crdValidation := crdValidation c\<rparr>)"

lemma create_crd_run:
  assumes "crd_server X config \<mu>"
  shows "\<exists>w'. run_state (create_crd X c) w = (Ok (), w')
    \<and> \<mu> (history w') = (\<mu> (history w))(crd_id c \<mapsto> installed (\<mu> (history w) (crd_id c)) c)"
proof -
  let ?h = "history w @ [ApiGet KCRD [] (crd_id c)]"
  have get: "\<mu> ?h = \<mu> (history w)"
    by (rule crd_serverD(6) [OF assms]) (simp add: writes_crd_def)
  note run = create_crd_def crd_key_def api_ops run_andthen
  show ?thesis
  proof (cases "\<mu> (history w) (crd_id c)")
    case None
    obtain code where "api_get (crd_api X) (history w) [] (crd_id c) = Inl (StatusErr NotFound code)"
      using crd_serverD(2) [OF assms None] by blast
    moreover have "\<not> isl (api_create (crd_api X) ?h c)"
        "\<mu> (?h @ [ApiCreate (OCRD c)]) = (\<mu> ?h)(crd_id c \<mapsto> c)"
      using crd_serverD(4) [OF assms, of ?h c] None get by simp_all
    ultimately show ?thesis
      using None get by (cases "api_create (crd_api X) ?h c") (simp_all add: run crd_id_def installed_def)
  next
    case (Some e)
    let ?e = "e\<lparr>crdValidation := crdValidation c\<rparr>"
    have e: "api_get (crd_api X) (history w) [] (crd_id c) = Inr e" "crd_id e = crd_id c"
      using crd_serverD(3) [OF assms Some] by simp_all
    moreover have "\<not> isl (api_update (crd_api X) ?h ?e)"
        "\<mu> (?h @ [ApiUpdate (OCRD ?e)]) = (\<mu> ?h)(crd_id c \<mapsto> ?e)"
      using crd_serverD(5) [OF assms, of ?h ?e] Some get e(2) by simp_all
    ultimately show ?thesis
      using Some get by (cases "api_update (crd_api X) ?h ?e") (simp_all add: run crd_id_def installed_def)
  qed
qed

text \<open>Definitions of different names do not get in each other's way.\<close>

lemma create_all:
  assumes "crd_server X config \<mu>" and "distinct (map crd_id cs)"
  shows "\<exists>w'. run_state (for_each (create_crd X) cs) w = (Ok (), w')
    \<and> (\<forall>c\<in>set cs. \<mu> (history w') (crd_id c) = Some (installed (\<mu> (history w) (crd_id c)) c))
    \<and> (\<forall>n. n \<notin> crd_id ` set cs \<longrightarrow> \<mu> (history w') n = \<mu> (history w) n)"
  using assms(2)
proof (induction cs arbitrary: w)
  case (Cons c cs)
  obtain w1 where 1: "run_state (create_crd X c) w = (Ok (), w1)"
    "\<mu> (history w1) = (\<mu> (history w))(crd_id c \<mapsto> installed (\<mu> (history w) (crd_id c)) c)"
    using create_crd_run [OF assms(1)] by blast
  have "distinct (map crd_id cs)" and new: "crd_id c \<notin> crd_id ` set cs" using Cons.prems by auto
  from Cons.IH [OF this(1), of w1] obtain w' where 2: "run_state (for_each (create_crd X) cs) w1 = (Ok (), w')"
    "\<forall>d\<in>set cs. \<mu> (history w') (crd_id d) = Some (installed (\<mu> (history w1) (crd_id d)) d)"
    "\<forall>n. n \<notin> crd_id ` set cs \<longrightarrow> \<mu> (history w') n = \<mu> (history w1) n"
    by blast
  have "\<mu> (history w') (crd_id d) = Some (installed (\<mu> (history w) (crd_id d)) d)" if "d \<in> set (c # cs)" for d
  proof (cases "d \<in> set cs")
    case True
    then have "crd_id d \<noteq> crd_id c" using new by (auto simp: image_iff)
    then show ?thesis using True 1(2) 2(2) by simp
  next
    case False
    then show ?thesis using that 1(2) 2(3) new by simp
  qed
  moreover have "\<mu> (history w') n = \<mu> (history w) n" if "n \<notin> crd_id ` set (c # cs)" for n
    using that 1(2) 2(3) by simp
  ultimately show ?case using 1(1) 2(1) by simp
qed simp

lemma CreateCRDs_run:
  assumes "crd_server X config \<mu>" and "distinct (map (crd_id \<circ> snd) crds)" and "distinct (map fst crds)"
    and "\<And>h l. set (range_names X h l) = set l \<and> (distinct l \<longrightarrow> distinct (range_names X h l))"
  shows "\<exists>w'. run_state (CreateCRDs X config crds) w = (Ok (), w')
    \<and> (\<forall>c\<in>snd ` set crds. \<mu> (history w') (crd_id c) = Some (installed (\<mu> (history w) (crd_id c)) c))
    \<and> (\<forall>n. n \<notin> crd_id ` snd ` set crds \<longrightarrow> \<mu> (history w') n = \<mu> (history w) n)"
proof -
  let ?names = "range_names X (history w) (map fst crds)" and ?get = "\<lambda>n. the (map_of crds n)"
  have names: "set ?names = fst ` set crds" "distinct ?names"
    using assms(4) [of "history w" "map fst crds"] assms(3) by simp_all
  have entry: "map_of crds k = Some c" if "(k, c) \<in> set crds" for k c
    using assms(3) that by simp
  have cs: "?get ` set ?names = snd ` set crds"
    unfolding names image_image by (rule image_cong) (auto simp: entry)
  have inj: "inj_on (crd_id \<circ> snd) (set crds)" and dc: "distinct crds"
    using assms(2) by (simp_all add: distinct_map)
  have "inj_on (crd_id \<circ> ?get) (set ?names)"
  proof (rule inj_onI)
    fix m n assume "m \<in> set ?names" and "n \<in> set ?names" and eq: "(crd_id \<circ> ?get) m = (crd_id \<circ> ?get) n"
    then obtain c d where "(m, c) \<in> set crds" "(n, d) \<in> set crds" unfolding names by auto
    then show "m = n" using inj_onD [OF inj, of "(m, c)" "(n, d)"] eq by (simp add: entry)
  qed
  then have "distinct (map crd_id (map ?get ?names))" using names(2) by (simp add: distinct_map comp_def)
  from create_all [OF assms(1) this, of w] obtain w' where
    all: "run_state (for_each (create_crd X) (map ?get ?names)) w = (Ok (), w')"
    "\<forall>c\<in>snd ` set crds. \<mu> (history w') (crd_id c) = Some (installed (\<mu> (history w) (crd_id c)) c)"
    "\<forall>n. n \<notin> crd_id ` snd ` set crds \<longrightarrow> \<mu> (history w') n = \<mu> (history w) n"
    unfolding set_map cs by blast
  have "for_each (\<lambda>name. case map_of crds name of None \<Rightarrow> ret (Ok ()) | Some c \<Rightarrow> create_crd X c) ns =
      for_each (create_crd X) (map ?get ns)" if "set ns \<subseteq> fst ` set crds" for ns
    using that by (induction ns) (auto simp: entry)
  then have "run_state (CreateCRDs X config crds) w = (Ok (), w')"
    using all(1) names(1) crd_serverD(1) [OF assms(1)] by (simp add: CreateCRDs_def run_andthen)
  then show ?thesis using all(2,3) by blast
qed

section \<open>The wait ends\<close>

lemma wait_call_simps [simp]: "wait_call (ApiDiscover g)" "wait_call (TimeSleepMs n)"
  by (simp_all add: wait_call_def)

lemma wait_call_quiet: "wait_call c \<Longrightarrow> \<not> writes_crd c"
  by (cases c) (simp_all add: wait_call_def writes_crd_def)

lemma file_call_keeps_crds: "file_call c \<Longrightarrow> \<not> writes_crd c"
  by (cases c) (auto simp: file_call_def writes_crd_def)

lemma crds_kept:
  assumes "crd_server X config \<mu>" and "list_all (\<lambda>c. \<not> writes_crd c) cs"
  shows "\<mu> (h @ cs) = \<mu> h"
  using assms(2)
proof (induction cs rule: rev_induct)
  case (snoc c cs)
  then show ?case using crd_serverD(6) [OF assms(1), of c "h @ cs"] by simp
qed simp

text \<open>A poll finds everything, if discovery lists whatever is pending.\<close>

lemma poll_loop_all_found:
  assumes "\<And>gv n ds. pending wt gv n \<Longrightarrow> list_all wait_call ds \<Longrightarrow> slept ds = 0 \<Longrightarrow> lists X (history w @ ds) gv n"
  shows "\<exists>t. run_state (poll_loop X True wt gvs) w = ((True, fst t), snd t)"
  using assms
proof (induction gvs arbitrary: wt w)
  case Nil
  then show ?case by simp
next
  case (Cons gv gvs)
  show ?case
  proof (cases "map_of wt gv")
    case None
    then show ?thesis using Cons by simp
  next
    case (Some l)
    show ?thesis
    proof (cases l)
      case Nil
      have "\<exists>t. run_state (poll_loop X True (AList.delete gv wt) gvs) w = ((True, fst t), snd t)"
        by (rule Cons.IH) (simp add: pending_delete Cons.prems)
      then show ?thesis using Some Nil by simp
    next
      case (Cons n ns)
      have at_once: "lists X (history w) gv m" if "m \<in> set l" for m
        using Cons.prems [of gv m "[]"] that Some by (simp add: pending_def)
      then obtain found where found: "server_resources X (history w) (gv_path gv) = Inr found"
        unfolding lists_def using Cons by force
      then have left: "filter (\<lambda>m. m \<notin> set found) l = []"
        using at_once by (auto simp: lists_def filter_empty_conv)
      let ?w = "w\<lparr>history := history w @ [ApiDiscover (gv_path gv)]\<rparr>"
      have "\<exists>t. run_state (poll_loop X True (AList.update gv [] wt) gvs) ?w = ((True, fst t), snd t)"
      proof (rule Cons.IH)
        fix gv' m ds
        assume "pending (AList.update gv [] wt) gv' m" and "list_all wait_call ds" and "slept ds = 0"
        then show "lists X (history ?w @ ds) gv' m"
          using Cons.prems [of gv' m "ApiDiscover (gv_path gv) # ds"] slept_simps(2) [of "[ApiDiscover (gv_path gv)]" ds]
          by (simp add: pending_update split: if_splits)
      qed
      then show ?thesis using Some Cons found left by (simp add: ServerResources_def Let_def)
    qed
  qed
qed

lemma pending_fewer: "pending (snd (snd (run_state (poller_poll X config) s))) gv n \<Longrightarrow> pending (snd s) gv n"
  using poller_progress [of X s config] unfolding progress_def by blast

lemma attempts_end:
  assumes "new_crd_clientset X config = None"
    and "\<And>gv n ds. P gv n \<Longrightarrow> list_all wait_call ds \<Longrightarrow> lag \<le> slept ds \<Longrightarrow> lists X (h @ ds) gv n"
    and "history w = h @ ds" and "list_all wait_call ds" and "\<And>gv n. pending wt gv n \<Longrightarrow> P gv n"
    and "lag \<le> slept ds + k * i"
  shows "\<exists>s. run_state (attempts (pause_waiting i) (Suc k) (poller_poll X config)) (w, wt) = (Ok (), s)"
  using assms(3-6)
proof (induction k arbitrary: ds w wt)
  case 0
  have "\<exists>t. run_state (poll_loop X True wt (range_gvs X (history w) (map fst wt))) w = ((True, fst t), snd t)"
    using 0 by (intro poll_loop_all_found) (simp add: assms(2))
  then show ?case by (auto simp: poller_poll_def assms(1))
next
  case (Suc k)
  let ?s = "(w, wt)"
  obtain r w1 wt1 where poll: "run_state (poller_poll X config) ?s = (r, (w1, wt1))"
    by (metis prod.collapse)
  obtain b where r: "r = Ok b" using poll by (auto simp: poller_poll_def assms(1) split: prod.splits)
  obtain es where es: "history w1 = history w @ es" "list_all wait_call es"
    using poller_waits [of ?s X config] by (auto simp: poll hist_ext_def)
  show ?case
  proof (cases b)
    case True
    then show ?thesis using poll r by simp
  next
    case False
    let ?w = "w1\<lparr>history := history w1 @ [TimeSleepMs i]\<rparr>"
    have "\<exists>s. run_state (attempts (pause_waiting i) (Suc k) (poller_poll X config)) (?w, wt1) = (Ok (), s)"
    proof (rule Suc.IH)
      show "history ?w = h @ ds @ es @ [TimeSleepMs i]" using es(1) Suc.prems(1) by simp
      show "list_all wait_call (ds @ es @ [TimeSleepMs i])"
        using es(2) Suc.prems(2) by simp
      show "P gv n" if "pending wt1 gv n" for gv n
        using pending_fewer [of X config ?s gv n] that by (simp add: poll Suc.prems(3))
      show "lag \<le> slept (ds @ es @ [TimeSleepMs i]) + k * i" using Suc.prems(4) by simp
    qed
    then show ?thesis using poll r False by (simp add: pause_waiting_def SleepMs_def)
  qed
qed

lemma WaitForCRDs_ends:
  assumes "crd_server X config \<mu>" and "establishes X \<mu> lag" and "polls_until pause_waiting (crd_poll X)"
    and "\<And>h l. set (range_names X h l) = set l"
    and "\<And>k c. (k, c) \<in> set crds \<Longrightarrow> \<exists>d. \<mu> (history w) (crd_id c) = Some d
      \<and> crdGroup d = crdGroup c \<and> crdVersion d = crdVersion c \<and> crdPlural d = crdPlural c"
    and "0 < pollEvery options" and "lag + pollEvery options \<le> maxTime options"
  shows "\<exists>w'. run_state (WaitForCRDs X config crds options) w = (Ok (), w')"
proof -
  let ?i = "pollEvery options"
  let ?wt = "waiting_for (map (\<lambda>n. the (map_of crds n))
      (filter (\<lambda>n. map_of crds n \<noteq> None) (range_names X (history w) (map fst crds))))"
  let ?P = "\<lambda>gv n. \<exists>c\<in>snd ` set crds. (crdGroup c, crdVersion c) = gv \<and> crdPlural c = n"
  obtain k where k: "maxTime options \<le> Suc k * ?i"
    "run_state (crd_poll X ?i (maxTime options) (poller_poll X config)) (w, ?wt) =
       run_state (attempts (pause_waiting ?i) (Suc k) (poller_poll X config)) (w, ?wt)"
    using assms(3,6) unfolding polls_until_def by blast
  have "lists X (history w @ ds) gv n" if "?P gv n" and "list_all wait_call ds" and "lag \<le> slept ds" for gv n ds
  proof -
    obtain k c where c: "(k, c) \<in> set crds" "gv = (crdGroup c, crdVersion c)" "n = crdPlural c"
      using \<open>?P gv n\<close> by auto
    obtain d where d: "\<mu> (history w) (crd_id c) = Some d"
      "crdGroup d = crdGroup c" "crdVersion d = crdVersion c" "crdPlural d = crdPlural c"
      using assms(5) [OF c(1)] by blast
    have "\<mu> (history w @ g) (crd_id c) = Some d" if "prefix g ds" for g
    proof -
      have "list_all (\<lambda>c. \<not> writes_crd c) g"
        using that \<open>list_all wait_call ds\<close> wait_call_quiet by (auto simp: prefix_def list_all_iff)
      then show ?thesis using crds_kept [OF assms(1)] d(1) by simp
    qed
    then have "lists X (history w @ ds) (crdGroup d, crdVersion d) (crdPlural d)"
      using assms(2) that(3) unfolding establishes_def by blast
    then show ?thesis using c d by simp
  qed
  moreover have "?P gv n" if "pending ?wt gv n" for gv n
    using that unfolding pending_waiting_for by (force dest: map_of_SomeD)
  moreover have "lag \<le> slept [] + k * ?i" using k(1) assms(7) by simp
  ultimately have "\<exists>s. run_state (attempts (pause_waiting ?i) (Suc k) (poller_poll X config)) (w, ?wt) = (Ok (), s)"
    by (intro attempts_end [where P = ?P and h = "history w" and ds = "[]" and lag = lag,
          OF crd_serverD(1) [OF assms(1)]]) simp_all
  then obtain s where s: "run_state (crd_poll X ?i (maxTime options) (poller_poll X config)) (w, ?wt) = (Ok (), s)"
    unfolding k(2) by blast
  have "run_state (WaitForCRDs X config crds options) w =
      (case run_state (crd_poll X ?i (maxTime options) (poller_poll X config)) (w, ?wt) of (r, (w', _)) \<Rightarrow> (r, w'))"
    by (simp add: WaitForCRDs_def Let_def)
  then show ?thesis unfolding s by (cases s) simp
qed

lemma InstallCRDs_run:
  assumes "crd_server X config \<mu>" and "establishes X \<mu> lag"
    and "polls_immediately pause_waiting (crd_poll X)" and "polls_until pause_waiting (crd_poll X)"
    and "\<And>h l. set (range_names X h l) = set l \<and> (distinct l \<longrightarrow> distinct (range_names X h l))"
    and "run_state (readCRDFiles X (defaultCRDOptions options)) w = (Ok crds, w1)"
    and "distinct (map (crd_id \<circ> snd) crds)"
    and "\<And>k c e. (k, c) \<in> set crds \<Longrightarrow> \<mu> (history w) (crd_id c) = Some e \<Longrightarrow>
      crdGroup e = crdGroup c \<and> crdVersion e = crdVersion c \<and> crdPlural e = crdPlural c"
    and "lag + pollEvery (defaultCRDOptions options) \<le> maxTime (defaultCRDOptions options)"
  shows "\<exists>w'. run_state (InstallCRDs X config options) w = (Ok (), w')
    \<and> (\<forall>c\<in>snd ` set crds. \<mu> (history w') (crd_id c) = Some (installed (\<mu> (history w) (crd_id c)) c))
    \<and> (\<forall>n. n \<notin> crd_id ` snd ` set crds \<longrightarrow> \<mu> (history w') n = \<mu> (history w) n)"
proof -
  let ?o = "defaultCRDOptions options"
  have quiet: "\<mu> (history v') = \<mu> (history v)" if "hist_ext P v v'" and "\<And>c. P c \<Longrightarrow> \<not> writes_crd c" for P v v'
    using that crds_kept [OF assms(1)] by (auto simp: hist_ext_def list_all_iff)
  have read: "\<mu> (history w1) = \<mu> (history w)"
    using calls_onlyD [OF readCRDFiles_files assms(6)] by (rule quiet) (rule file_call_keeps_crds)
  have "distinct (map fst crds)" using readCRDFiles_proper_set [OF assms(6)] by (simp add: proper_set_def)
  from CreateCRDs_run [OF assms(1,7) this assms(5), of w1] obtain w2 where
    create: "run_state (CreateCRDs X config crds) w1 = (Ok (), w2)"
    and new: "\<forall>c\<in>snd ` set crds. \<mu> (history w2) (crd_id c) = Some (installed (\<mu> (history w) (crd_id c)) c)"
    and old: "\<forall>n. n \<notin> crd_id ` snd ` set crds \<longrightarrow> \<mu> (history w2) n = \<mu> (history w) n"
    unfolding read by blast
  have served: "\<exists>d. \<mu> (history w2) (crd_id c) = Some d
      \<and> crdGroup d = crdGroup c \<and> crdVersion d = crdVersion c \<and> crdPlural d = crdPlural c"
    if "(k, c) \<in> set crds" for k c
  proof -
    have "\<mu> (history w2) (crd_id c) = Some (installed (\<mu> (history w) (crd_id c)) c)"
      using bspec [OF new, of c] image_eqI [OF _ that, of c snd] by simp
    moreover have "crdGroup i = crdGroup c \<and> crdVersion i = crdVersion c \<and> crdPlural i = crdPlural c"
      if "i = installed (\<mu> (history w) (crd_id c)) c" for i
      using assms(8) [OF \<open>(k, c) \<in> set crds\<close>] that
      by (cases "\<mu> (history w) (crd_id c)") (simp_all add: installed_def)
    ultimately show ?thesis by (intro exI [of _ "installed (\<mu> (history w) (crd_id c)) c"]) simp
  qed
  have names: "set (range_names X h l) = set l" for h l using assms(5) ..
  have "0 < pollEvery ?o" by (simp add: defaultCRDOptions_def defaultPollInterval_def Let_def)
  from WaitForCRDs_ends [OF assms(1,2,4) names served this assms(9)]
  obtain w' where wait: "run_state (WaitForCRDs X config crds ?o) w2 = (Ok (), w')" ..
  have "\<mu> (history w') = \<mu> (history w2)"
    using calls_onlyD [OF WaitForCRDs_waits [OF assms(3)] wait] by (rule quiet) (rule wait_call_quiet)
  then show ?thesis using new old by (intro exI [of _ w']) (simp add: InstallCRDs_def Let_def assms(6) create wait)
qed

text \<open>
  C8. Resource definitions get installed: on a server that keeps definitions and serves each one \<open>lag\<close>
  after it was written, \<open>InstallCRDs\<close> returns without an error if the definitions can be read, if they
  have different names, if those that exist already have the same group, version and plural name, and if
  the time limit leaves room for \<open>lag\<close> and one interval. Then the server has every definition, new ones as
  they are, old ones with the new validation schema, and no other definition has changed.
\<close>

theorem InstallCRDs_succeeds:
  assumes "crd_server X config \<mu>" and "establishes X \<mu> lag"
    and "polls_immediately pause_waiting (crd_poll X)" and "polls_until pause_waiting (crd_poll X)"
    and "\<And>h l. set (range_names X h l) = set l \<and> (distinct l \<longrightarrow> distinct (range_names X h l))"
    and "run_state (readCRDFiles X (defaultCRDOptions options)) w = (Ok crds, w1)"
    and "distinct (map (crd_id \<circ> snd) crds)"
    and "\<And>k c e. (k, c) \<in> set crds \<Longrightarrow> \<mu> (history w) (crd_id c) = Some e \<Longrightarrow>
      crdGroup e = crdGroup c \<and> crdVersion e = crdVersion c \<and> crdPlural e = crdPlural c"
    and "lag + pollEvery (defaultCRDOptions options) \<le> maxTime (defaultCRDOptions options)"
  shows "\<exists>w'. run_state (InstallCRDs X config options) w = (Ok (), w')
    \<and> (\<forall>c\<in>snd ` set crds. \<mu> (history w') (crd_id c) = Some (installed (\<mu> (history w) (crd_id c)) c))
    \<and> (\<forall>n. n \<notin> crd_id ` snd ` set crds \<longrightarrow> \<mu> (history w') n = \<mu> (history w) n)"
  using assms by (rule InstallCRDs_run)

section \<open>What is listed in the end\<close>

text \<open>The three steps of a successful installation.\<close>

lemma InstallCRDs_stages:
  assumes "run_state (InstallCRDs X cfg options) w = (Ok (), w')"
  obtains crds w1 w2 where "run_state (readCRDFiles X (defaultCRDOptions options)) w = (Ok crds, w1)"
    and "run_state (CreateCRDs X cfg crds) w1 = (Ok (), w2)"
    and "run_state (WaitForCRDs X cfg crds (defaultCRDOptions options)) w2 = (Ok (), w')"
    and "distinct (map fst crds)" and "w \<le> w2"
proof -
  let ?o = "defaultCRDOptions options"
  obtain crds w1 w2 where steps: "run_state (readCRDFiles X ?o) w = (Ok crds, w1)"
    "run_state (CreateCRDs X cfg crds) w1 = (Ok (), w2)" "run_state (WaitForCRDs X cfg crds ?o) w2 = (Ok (), w')"
    using assms unfolding InstallCRDs_def Let_def by (auto elim!: andthen_OkE)
  have "w \<le> w1" by (rule calls_only_le [OF readCRDFiles_calls steps(1)])
  also have "w1 \<le> w2" by (rule calls_only_le [OF CreateCRDs_calls steps(2)])
  finally have "w \<le> w2" .
  moreover have "distinct (map fst crds)"
    using readCRDFiles_proper_set [OF steps(1)] by (simp add: proper_set_def)
  ultimately show ?thesis using that steps by blast
qed

text \<open>What is listed stays listed while no definition is written.\<close>

definition keeps_listing :: "crd_lib \<Rightarrow> bool" where
  "keeps_listing X \<longleftrightarrow> (\<forall>h x gv n. lists X h gv n \<longrightarrow> \<not> writes_crd x \<longrightarrow> lists X (h @ [x]) gv n)"

lemma kept_listed:
  assumes "keeps_listing X" and "lists X h gv n" and "list_all (\<lambda>c. \<not> writes_crd c) cs"
  shows "lists X (h @ cs) gv n"
  using assms(3)
proof (induction cs rule: rev_induct)
  case Nil
  then show ?case using assms(2) by simp
next
  case (snoc c cs)
  then have "lists X (h @ cs) gv n" and "\<not> writes_crd c" by simp_all
  then have "lists X ((h @ cs) @ [c]) gv n" using assms(1) [unfolded keeps_listing_def] by blast
  then show ?case by simp
qed

lemma InstallCRDs_listed:
  assumes "polls_immediately pause_waiting (crd_poll X)"
    and "\<And>h l. set (range_names X h l) = set l" and "\<And>h l. set (range_gvs X h l) = set l" and "keeps_listing X"
    and "run_state (InstallCRDs X cfg options) w = (Ok (), w')"
    and "fst (run_state (readCRDFiles X (defaultCRDOptions options)) w) = Ok crds" and "d \<in> snd ` set crds"
  shows "lists X (history w') (crdGroup d, crdVersion d) (crdPlural d)"
proof -
  obtain w2 where wait: "run_state (WaitForCRDs X cfg crds (defaultCRDOptions options)) w2 = (Ok (), w')"
    and names: "distinct (map fst crds)"
    by (rule InstallCRDs_stages [OF assms(5)]) (use assms(6) in auto)
  obtain name where "(name, d) \<in> set crds" using assms(7) by auto
  from WaitForCRDs_seen [OF assms(1-3) wait map_of_is_SomeI [OF names this]]
  obtain g l where g: "prefix (history w2) g" "prefix (g @ [ApiDiscover (gv_path (crdGroup d, crdVersion d))]) (history w')"
    and l: "server_resources X g (gv_path (crdGroup d, crdVersion d)) = Inr l" "crdPlural d \<in> set l"
    unfolding seen_def by blast
  obtain cs where cs: "history w' = history w2 @ cs" "list_all wait_call cs"
    using calls_onlyD [OF WaitForCRDs_waits [OF assms(1)] wait] by (auto simp: hist_ext_def)
  obtain es where es: "history w' = g @ es" using g(2) by (auto simp: prefix_def)
  have "suffix es cs" using g(1) cs(1) es by (auto simp: prefix_def suffix_def)
  then have "list_all (\<lambda>c. \<not> writes_crd c) es"
    using cs(2) wait_call_quiet by (auto simp: list_all_iff suffix_def)
  moreover have "lists X g (crdGroup d, crdVersion d) (crdPlural d)" using l unfolding lists_def by blast
  ultimately show ?thesis using kept_listed [OF assms(4)] es by simp
qed

section \<open>A concrete server\<close>

text \<open>It lists the resources of the definitions that were written 100 milliseconds ago.\<close>

definition written :: "call list \<Rightarrow> crd list" where
  "written = List.map_filter (\<lambda>c. case c of
     ApiCreate (OCRD d) \<Rightarrow> Some d | ApiUpdate (OCRD d) \<Rightarrow> Some d | _ \<Rightarrow> None)"

definition stored :: "call list \<Rightarrow> string \<rightharpoonup> crd" where
  "stored h = fold (\<lambda>d m. m(crd_id d \<mapsto> d)) (written h) Map.empty"

fun aged :: "nat \<Rightarrow> call list \<Rightarrow> call list" where
  "aged t [] = []"
| "aged t (c # r) = (if t = 0 then c # r else aged (t - slept [c]) r)"

definition slow_crds :: crd_lib where
  "slow_crds = demo_crds
     \<lparr>crd_api :=
        \<lparr>api_get = \<lambda>h _ n. (case stored h n of None \<Rightarrow> Inl (StatusErr NotFound 404) | Some d \<Rightarrow> Inr d),
         api_create = \<lambda>_ x. Inr x, api_update = \<lambda>_ x. Inr x, api_delete = \<lambda>_ _ _. None\<rparr>,
      server_resources := \<lambda>h path. Inr (map crdPlural
        (filter (\<lambda>d. gv_path (crdGroup d, crdVersion d) = path) (written (rev (aged 100 (rev h))))))\<rparr>"

lemma written_simps [simp]:
  "written [] = []" "written (h @ h') = written h @ written h'"
  "written [ApiCreate (OCRD c)] = [c]" "written [ApiUpdate (OCRD c)] = [c]"
  by (simp_all add: written_def map_filter_def)

lemma written_quiet: "\<not> writes_crd x \<Longrightarrow> written [x] = []"
  by (cases x) (auto simp: written_def map_filter_def writes_crd_def split: api_obj.splits)

lemma stored_simps [simp]:
  "stored [] = Map.empty"
  "stored (h @ [ApiCreate (OCRD c)]) = (stored h)(crd_id c \<mapsto> c)"
  "stored (h @ [ApiUpdate (OCRD c)]) = (stored h)(crd_id c \<mapsto> c)"
  by (simp_all add: stored_def)

lemma stored_written: "stored h n = Some d \<Longrightarrow> d \<in> set (written h) \<and> crd_id d = n"
proof -
  have "fold (\<lambda>d m. m(crd_id d \<mapsto> d)) ds Map.empty n = Some d \<Longrightarrow> d \<in> set ds \<and> crd_id d = n" for ds
    by (induction ds rule: rev_induct) (auto split: if_splits)
  then show "stored h n = Some d \<Longrightarrow> ?thesis" by (simp add: stored_def)
qed

lemma aged_prefix: "t \<le> slept h' \<Longrightarrow> \<exists>g. prefix g h' \<and> rev (aged t (rev (h @ h'))) = h @ g"
proof (induction h' arbitrary: t rule: rev_induct)
  case Nil
  then show ?case by (cases "rev h") (simp_all add: rev_swap)
next
  case (snoc c h')
  show ?case
  proof (cases "t = 0")
    case True
    then show ?thesis by auto
  next
    case False
    moreover have "t - slept [c] \<le> slept h'" using snoc.prems by simp
    ultimately show ?thesis using snoc.IH [of "t - slept [c]"] prefix_order.trans by fastforce
  qed
qed

lemma slow_server: "crd_server slow_crds ''cfg'' stored"
  unfolding crd_server_def
  by (auto simp: slow_crds_def stored_def written_quiet split: option.split dest: stored_written [unfolded stored_def])

lemma slow_establishes: "establishes slow_crds stored 100"
  unfolding establishes_def
proof (intro allI impI)
  fix h h' n d
  assume kept: "\<forall>g. prefix g h' \<longrightarrow> stored (h @ g) n = Some d" and "100 \<le> slept h'"
  then obtain g where "prefix g h'" and aged: "rev (aged 100 (rev (h @ h'))) = h @ g"
    using aged_prefix by blast
  then have "d \<in> set (written (h @ g))" using kept stored_written by blast
  then show "lists slow_crds (h @ h') (crdGroup d, crdVersion d) (crdPlural d)"
    unfolding lists_def slow_crds_def by (auto simp: aged simp del: rev_append)
qed

lemma aged_longer: "t' \<le> t \<Longrightarrow> suffix (aged t r) (aged t' r)"
proof (induction r arbitrary: t t')
  case (Cons c r)
  have self: "suffix (aged n r) r" for n :: nat using Cons.IH [of 0 n] by (cases r) simp_all
  show ?case
  proof (cases "t' = 0")
    case True
    then show ?thesis using self [of "t - slept [c]"] by (simp add: suffix_ConsI)
  next
    case False
    then show ?thesis using Cons.IH [of "t' - slept [c]" "t - slept [c]"] Cons.prems by simp
  qed
qed simp

lemma slow_keeps: "keeps_listing slow_crds"
  unfolding keeps_listing_def
proof (intro allI impI)
  fix h x gv n
  assume "lists slow_crds h gv n"
  moreover have "suffix (aged 100 (rev h)) (aged (100 - slept [x]) (rev h))" by (rule aged_longer) simp
  then have "prefix (rev (aged 100 (rev h))) (rev (aged (100 - slept [x]) (rev h)))" by (simp add: suffix_to_prefix)
  then have "set (written (rev (aged 100 (rev h)))) \<subseteq> set (written (rev (aged 100 (rev (h @ [x])))))"
    by (auto simp: prefix_def)
  ultimately show "lists slow_crds (h @ [x]) gv n"
    unfolding lists_def slow_crds_def by auto
qed

theorem InstallCRDs_succeeds_witness:
  "\<exists>w'. run_state (InstallCRDs slow_crds ''cfg'' demo_options) empty_world = (Ok (), w')
     \<and> stored (history w') ''dexes.kubic'' = Some demo_crd"
proof -
  have poll: "crd_poll slow_crds = (\<lambda>i t. attempts (pause_waiting i) (Suc (t div i)))"
    by (simp add: slow_crds_def del: attempts.simps)
  have id: "crd_id demo_crd = ''dexes.kubic''" by (simp add: crd_id_def)
  have options: "defaultCRDOptions demo_options = demo_options"
    by (simp add: defaultCRDOptions_def)
  have "\<exists>w1. run_state (readCRDFiles slow_crds demo_options) empty_world = (Ok [(''dexes.kubic'', demo_crd)], w1)"
    by (simp add: slow_crds_def readCRDFiles_def RemoveDuplicates_id skip_path_def Stat_def readCRDs_def ReadDir_def
        run_andthen path_ext_def last_index_byte_def crdExts_def ReadFile_def add_crds_def NamespacedObjToString_def
        CrdNamer_def)
  then obtain w1 where "run_state (readCRDFiles slow_crds (defaultCRDOptions demo_options)) empty_world =
      (Ok [(''dexes.kubic'', demo_crd)], w1)"
    unfolding options by blast
  note read = this
  have names: "set (range_names slow_crds h l) = set l \<and> (distinct l \<longrightarrow> distinct (range_names slow_crds h l))" for h l
    by (simp add: slow_crds_def)
  have "\<exists>w'. run_state (InstallCRDs slow_crds ''cfg'' demo_options) empty_world = (Ok (), w')
      \<and> (\<forall>c\<in>snd ` set [(''dexes.kubic'', demo_crd)].
           stored (history w') (crd_id c) = Some (installed (stored (history empty_world) (crd_id c)) c))
      \<and> (\<forall>n. n \<notin> crd_id ` snd ` set [(''dexes.kubic'', demo_crd)] \<longrightarrow>
           stored (history w') n = stored (history empty_world) n)"
    by (rule InstallCRDs_succeeds [OF slow_server slow_establishes _ _ names read])
      (simp_all add: poll attempts_polls_immediately attempts_polls_until options empty_world_def del: attempts.simps)
  then show ?thesis by (auto simp: id empty_world_def installed_def)
qed

end
