(* ===== verification/Cluster_Assets.thy ===== *)
theory Cluster_Assets
  imports Rbac_Install Convergence Crd_Establish Bootstrap
begin

text \<open>
  The installation of all assets on a cooperative cluster: rules, definitions and manifests, each of them
  with the specification of its own theory, on one history. What the three parts write does not overlap.
\<close>

section \<open>Answers that do not depend on what has happened\<close>

definition steady :: "(world, 'a) state \<Rightarrow> bool" where
  "steady m \<longleftrightarrow> (\<forall>v w. fst (run_state m v) = fst (run_state m w))"

named_theorems steady_intros

lemma steadyD: "steady m \<Longrightarrow> fst (run_state m v) = r \<Longrightarrow> fst (run_state m w) = r"
  unfolding steady_def by metis

lemma steady_ret [steady_intros]: "steady (ret x)"
  by (simp add: steady_def)

lemma steady_bind [steady_intros]:
  assumes "steady m" and "\<And>x. steady (f x)"
  shows "steady (State_Monad.bind m f)"
  unfolding steady_def
proof (intro allI)
  fix v w :: world
  have "fst (run_state m v) = fst (run_state m w)" using assms(1) unfolding steady_def by blast
  then show "fst (run_state (State_Monad.bind m f) v) = fst (run_state (State_Monad.bind m f) w)"
    using assms(2) [unfolded steady_def] by (simp add: case_prod_unfold)
qed

lemma steady_andthen [steady_intros]:
  "steady m \<Longrightarrow> (\<And>x. steady (f x)) \<Longrightarrow> steady (andthen m f)"
  unfolding andthen_def by (rule steady_bind) (auto intro: steady_ret split: outcome.split)

lemma steady_if [steady_intros]: "steady m \<Longrightarrow> steady n \<Longrightarrow> steady (if b then m else n)"
  by simp

text \<open>Directories of definitions that do not change.\<close>

definition still_dirs :: "os_env \<Rightarrow> bool" where
  "still_dirs E \<longleftrightarrow> (\<forall>h d. os_read_dir E h d = os_read_dir E [] d)"

lemma steady_files [steady_intros]:
  "still_files E \<Longrightarrow> steady (skip_path E b p)" "still_files E \<Longrightarrow> steady (ReadFile E f)"
  "still_dirs E \<Longrightarrow> steady (ReadDir E d)"
proof -
  assume "still_files E"
  then have "os_stat E (history v) p = os_stat E [] p" "os_read_file E (history v) f = os_read_file E [] f" for v :: world
    unfolding still_files_def by blast+
  then show "steady (skip_path E b p)" "steady (ReadFile E f)"
    by (simp_all add: steady_def skip_path_def Stat_def ReadFile_def)
next
  assume "still_dirs E"
  then have "os_read_dir E (history v) d = os_read_dir E [] d" for v :: world unfolding still_dirs_def by blast
  then show "steady (ReadDir E d)" by (simp add: steady_def ReadDir_def)
qed

lemma steady_definitions:
  assumes "still_files (crd_os X)" and "still_dirs (crd_os X)"
  shows "steady (readCRDFiles X options)"
proof -
  have "steady (readCRDs_loop X path crds files)" for path crds files
    by (induction files arbitrary: crds) (auto intro!: steady_intros assms)
  then have "steady (readCRDs X path)" for path
    unfolding readCRDs_def by (intro steady_intros assms)
  then have "steady (readCRDFiles_loop X e crds paths)" for e crds paths
    by (induction paths arbitrary: crds) (auto intro!: steady_intros assms)
  then show ?thesis unfolding readCRDFiles_def by (intro steady_intros)
qed

section \<open>The three parts\<close>

definition rbac_options :: "string \<Rightarrow> RBACInstallOptions" where
  "rbac_options dir = \<lparr>InstallPaths = DefaultRBACDirs @ [if length dir = 0 then DefaultKubicRBACDir else dir],
     ErrorIfPathMissing = False\<rparr>"

definition crd_options :: "string \<Rightarrow> CRDInstallOptions" where
  "crd_options dir = \<lparr>crdPaths = DefaultCRDsDirs @ [if length dir = 0 then DefaultKubicCRDDir else dir],
     crdErrorIfPathMissing = False, maxTime = 0, pollEvery = 0\<rparr>"

definition manifest_options :: "string \<Rightarrow> install_options" where
  "manifest_options dir = \<lparr>InstallPaths = DefaultManifestsDirs @ [if length dir = 0 then DefaultKubicManifestsDir else dir],
     ErrorIfPathMissing = False\<rparr>"

lemma InstallAllAssets_parts:
  "InstallAllAssets L X M config c md cd rd =
     andthen (InstallRBAC L config (rbac_options rd)) (\<lambda>_.
     andthen (InstallCRDs X config (crd_options cd)) (\<lambda>_.
     InstallManifests (ld_os L) M c config (manifest_options md)))"
  by (simp add: InstallAllAssets_def rbac_options_def crd_options_def manifest_options_def Let_def)

text \<open>
  What each part needs: rules that can be read, decoded and stored; definitions \<open>crds\<close> that can be read,
  have different names and are listed at most 9.9 seconds after they were written, and from then on;
  manifests that can be read and rendered, and a server that keeps objects, as it sees fit.
\<close>

definition rbac_ready :: "load_deps \<Rightarrow> opaque \<Rightarrow> (rbac_object \<Rightarrow> bool) \<Rightarrow>
    (call list \<Rightarrow> string + string \<rightharpoonup> rbac_object) \<Rightarrow> install_options \<Rightarrow> bool" where
  "rbac_ready L config accepts \<rho> options \<longleftrightarrow>
     rbac_server (ld_rbac L) config accepts \<rho> \<and> polls_immediately SleepMs (ld_poll L)
     \<and> still_files (ld_os L) \<and> good_rbac L accepts options"

definition crds_ready :: "crd_lib \<Rightarrow> opaque \<Rightarrow> (call list \<Rightarrow> string \<rightharpoonup> crd) \<Rightarrow> crdsSet \<Rightarrow> CRDInstallOptions \<Rightarrow> bool" where
  "crds_ready X config \<mu> crds options \<longleftrightarrow>
     crd_server X config \<mu> \<and> establishes X \<mu> 9900
     \<and> polls_immediately pause_waiting (crd_poll X) \<and> polls_until pause_waiting (crd_poll X)
     \<and> (\<forall>h l. set (range_names X h l) = set l \<and> (distinct l \<longrightarrow> distinct (range_names X h l)))
     \<and> (\<forall>h l. set (range_gvs X h l) = set l) \<and> keeps_listing X
     \<and> still_files (crd_os X) \<and> still_dirs (crd_os X)
     \<and> fst (run_state (readCRDFiles X (defaultCRDOptions options)) empty_world) = Ok crds
     \<and> distinct (map (crd_id \<circ> snd) crds)"

definition manifests_ready :: "os_env \<Rightarrow> 't manifest_lib \<Rightarrow> KubicInitConfiguration \<Rightarrow> opaque \<Rightarrow> admission \<Rightarrow>
    (call list \<Rightarrow> object_key \<rightharpoonup> unstr) \<Rightarrow> install_options \<Rightarrow> bool" where
  "manifests_ready E M c config admit \<sigma> options \<longleftrightarrow>
     serves (ml_dyn M) config admit \<sigma> \<and> still_files E \<and> readable_manifests E options \<and> still_urls M
     \<and> (\<forall>d. is_Ok (document_object M c d))"

text \<open>A definition on the server that fits the one to be installed under its name.\<close>

definition fits :: "crdsSet \<Rightarrow> (string \<rightharpoonup> crd) \<Rightarrow> bool" where
  "fits crds st \<longleftrightarrow> (\<forall>(k, c) \<in> set crds. \<forall>e. st (crd_id c) = Some e \<longrightarrow>
     crdGroup e = crdGroup c \<and> crdVersion e = crdVersion c \<and> crdPlural e = crdPlural c)"

text \<open>
  The kinds of the manifests' objects: known to discovery from the history \<open>h0\<close> on, or those of the
  definitions \<open>ds\<close>. The two clients talk to one server: when it lists the resource of a definition that it
  has, it knows the kind of it.
\<close>

definition describes :: "crd \<Rightarrow> unstr \<Rightarrow> bool" where
  "describes d u \<longleftrightarrow> unGroupVersionKind u = crdGroup d @ ''/'' @ crdVersion d @ ''/'' @ crdKind d"

definition one_server :: "crd_lib \<Rightarrow> dyn_api \<Rightarrow> opaque \<Rightarrow> (call list \<Rightarrow> string \<rightharpoonup> crd) \<Rightarrow> bool" where
  "one_server X Y config \<mu> \<longleftrightarrow>
     (\<forall>h n d u. \<mu> h n = Some d \<longrightarrow> lists X h (crdGroup d, crdVersion d) (crdPlural d) \<longrightarrow> describes d u \<longrightarrow>
        kind_known Y config h u)"

definition kinds_provided :: "dyn_api \<Rightarrow> opaque \<Rightarrow> call list \<Rightarrow> crd set \<Rightarrow> unstr set \<Rightarrow> bool" where
  "kinds_provided Y config h0 ds us \<longleftrightarrow>
     (\<forall>u\<in>us. has_names Y u \<and> ((\<forall>h. prefix h0 h \<longrightarrow> kind_known Y config h u) \<or> (\<exists>d\<in>ds. describes d u)))"

text \<open>The definitions as they will be on the server.\<close>

definition installed_crds :: "crdsSet \<Rightarrow> (string \<rightharpoonup> crd) \<Rightarrow> crd set" where
  "installed_crds crds st = (\<lambda>d. installed (st (crd_id d)) d) ` snd ` set crds"

lemma rbac_call_quiet: "rbac_call c \<Longrightarrow> \<not> writes_crd c \<and> \<not> writes_object c"
  by (cases c) (auto simp: rbac_call_def writes_crd_def writes_object_def file_call_def split: api_obj.splits)

lemma crd_call_quiet: "crd_call c \<Longrightarrow> \<not> writes_rbac c \<and> \<not> writes_object c"
  by (cases c) (auto simp: crd_call_def writes_rbac_def writes_object_def file_call_def split: api_obj.splits)

lemma manifest_call_quiet: "manifest_call c \<Longrightarrow> \<not> writes_rbac c \<and> \<not> writes_crd c"
  by (cases c) (auto simp: manifest_call_def writes_rbac_def writes_crd_def file_call_def split: api_obj.splits)

text \<open>A run keeps a store that ignores its calls.\<close>

lemma kept_store:
  assumes "calls_only P m" and "run_state m w = (r, w')" and "\<And>c. P c \<Longrightarrow> \<not> Q c"
    and "\<And>h c. \<not> Q c \<Longrightarrow> st (h @ [c]) = st h"
  shows "st (history w') = st (history w)"
  using assms(4) [OF assms(3)] calls_onlyD [OF assms(1,2)] by (rule quiet_history)

lemma crds_ready_read:
  assumes "crds_ready X config \<mu> crds options"
  shows "fst (run_state (readCRDFiles X (defaultCRDOptions options)) w) = Ok crds"
  using assms steadyD [OF steady_definitions] unfolding crds_ready_def by metis

text \<open>Once the definitions are installed, the kinds of all objects are known.\<close>

lemma installed_same:
  assumes "fits crds st" and "d \<in> snd ` set crds"
  shows "crdGroup (installed (st (crd_id d)) d) = crdGroup d"
    and "crdVersion (installed (st (crd_id d)) d) = crdVersion d"
    and "crdPlural (installed (st (crd_id d)) d) = crdPlural d"
proof -
  obtain k where k: "(k, d) \<in> set crds" using assms(2) by auto
  have "crdGroup i = crdGroup d \<and> crdVersion i = crdVersion d \<and> crdPlural i = crdPlural d"
    if "i = installed (st (crd_id d)) d" for i
  proof (cases "st (crd_id d)")
    case None
    then show ?thesis using that by (simp add: installed_def)
  next
    case (Some e)
    then have "crdGroup e = crdGroup d \<and> crdVersion e = crdVersion d \<and> crdPlural e = crdPlural d"
      using assms(1) k unfolding fits_def by blast
    then show ?thesis using that Some by (simp add: installed_def)
  qed
  then show "crdGroup (installed (st (crd_id d)) d) = crdGroup d"
    and "crdVersion (installed (st (crd_id d)) d) = crdVersion d"
    and "crdPlural (installed (st (crd_id d)) d) = crdPlural d"
    by blast+
qed

lemma kinds_found:
  assumes "crds_ready X config \<mu> crds options" and "one_server X Y config \<mu>" and "fits crds st"
    and "run_state (InstallCRDs X config options) w = (Ok (), w')"
    and "\<forall>d\<in>snd ` set crds. \<mu> (history w') (crd_id d) = Some (installed (st (crd_id d)) d)"
    and "kinds_provided Y config h0 (installed_crds crds st) us" and "prefix h0 (history w')"
    and "since manifest_call (history w') h" and "u \<in> us"
  shows "findable Y config h u"
proof -
  note C = assms(1) [unfolded crds_ready_def]
  obtain cs where h: "h = history w' @ cs" "list_all manifest_call cs" using assms(8) by (auto simp: since_def)
  have writes: "list_all (\<lambda>c. \<not> writes_crd c) cs"
    using h(2) manifest_call_quiet by (auto simp: list_all_iff)
  from assms(6,9) consider "\<forall>h. prefix h0 h \<longrightarrow> kind_known Y config h u" | d where "d \<in> installed_crds crds st" "describes d u"
    unfolding kinds_provided_def by blast
  then have "kind_known Y config h u"
  proof cases
    case 1
    then show ?thesis using assms(7) h(1) by (auto simp: prefix_def)
  next
    case 2
    then obtain d0 where d0: "d0 \<in> snd ` set crds" "d = installed (st (crd_id d0)) d0"
      unfolding installed_crds_def by blast
    have "lists X (history w') (crdGroup d0, crdVersion d0) (crdPlural d0)"
      by (rule InstallCRDs_listed [OF _ _ _ _ assms(4) crds_ready_read [OF assms(1)] d0(1)]) (use C in blast)+
    then have "lists X h (crdGroup d, crdVersion d) (crdPlural d)"
      using kept_listed [OF _ _ writes] C installed_same [OF assms(3) d0(1)] unfolding h(1) d0(2) by metis
    moreover have "\<mu> h (crd_id d0) = Some d"
      using crds_kept [OF _ writes] C assms(5) d0 unfolding h(1) by metis
    ultimately show ?thesis using assms(2) 2(2) unfolding one_server_def by blast
  qed
  then show ?thesis using assms(6,9) unfolding findable_def kinds_provided_def by blast
qed

lemma crds_ready_run:
  assumes "crds_ready X config \<mu> crds options" and "maxTime options = 0" and "pollEvery options = 0"
    and "fits crds (\<mu> (history w))"
  shows "\<exists>w'. run_state (InstallCRDs X config options) w = (Ok (), w')
    \<and> (\<forall>c\<in>snd ` set crds. \<mu> (history w') (crd_id c) = Some (installed (\<mu> (history w) (crd_id c)) c))
    \<and> (\<forall>n. n \<notin> crd_id ` snd ` set crds \<longrightarrow> \<mu> (history w') n = \<mu> (history w) n)"
proof -
  obtain w1 where w1: "run_state (readCRDFiles X (defaultCRDOptions options)) w = (Ok crds, w1)"
    using crds_ready_read [OF assms(1)] by (metis prod.collapse)
  have "9900 + pollEvery (defaultCRDOptions options) \<le> maxTime (defaultCRDOptions options)"
    using assms(2,3) by (simp add: defaultCRDOptions_def defaultMaxWait_def defaultPollInterval_def)
  moreover have "crdGroup e = crdGroup c \<and> crdVersion e = crdVersion c \<and> crdPlural e = crdPlural c"
    if "(k, c) \<in> set crds" and "\<mu> (history w) (crd_id c) = Some e" for k c e
    using that assms(4) unfolding fits_def by blast
  ultimately show ?thesis
    using assms(1) unfolding crds_ready_def by (intro InstallCRDs_run [OF _ _ _ _ _ w1]) blast+
qed

section \<open>All assets\<close>

lemma rbac_keeps_crds:
  assumes "crd_server X config \<mu>" and "polls_immediately SleepMs (ld_poll L)"
    and "run_state (InstallRBAC L config options) w = (r, w')"
  shows "\<mu> (history w') = \<mu> (history w)"
  by (rule kept_store [OF InstallRBAC_calls_only [OF assms(2)] assms(3), where Q = writes_crd])
    (simp_all add: rbac_call_quiet crd_serverD(6) [OF assms(1)])

lemma others_keep_objects:
  assumes "serves Y config admit \<sigma>" and "polls_immediately SleepMs (ld_poll L)"
    and "polls_immediately pause_waiting (crd_poll X)"
  shows "run_state (InstallRBAC L config ro) w = (r, w') \<Longrightarrow> \<sigma> (history w') = \<sigma> (history w)"
    and "run_state (InstallCRDs X config co) w = (r, w') \<Longrightarrow> \<sigma> (history w') = \<sigma> (history w)"
proof -
  show "\<sigma> (history w') = \<sigma> (history w)" if "run_state (InstallRBAC L config ro) w = (r, w')"
    by (rule kept_store [OF InstallRBAC_calls_only [OF assms(2)] that, where Q = writes_object])
      (simp_all add: rbac_call_quiet serves_quiet [OF assms(1)])
  show "\<sigma> (history w') = \<sigma> (history w)" if "run_state (InstallCRDs X config co) w = (r, w')"
    by (rule kept_store [OF InstallCRDs_calls_only [OF assms(3)] that, where Q = writes_object])
      (simp_all add: crd_call_quiet serves_quiet [OF assms(1)])
qed

lemma others_keep_rbac:
  assumes "rbac_server R config accepts \<rho>" and "polls_immediately pause_waiting (crd_poll X)"
  shows "run_state (InstallCRDs X config co) w = (r, w') \<Longrightarrow> \<rho> (history w') = \<rho> (history w)"
    and "run_state (InstallManifests E M c config mo) w = (r, w') \<Longrightarrow> \<rho> (history w') = \<rho> (history w)"
proof -
  show "\<rho> (history w') = \<rho> (history w)" if "run_state (InstallCRDs X config co) w = (r, w')"
    by (rule kept_store [OF InstallCRDs_calls_only [OF assms(2)] that, where Q = writes_rbac])
      (simp_all add: crd_call_quiet rbac_serverD(4) [OF assms(1)])
  show "\<rho> (history w') = \<rho> (history w)" if "run_state (InstallManifests E M c config mo) w = (r, w')"
    by (rule kept_store [OF InstallManifests_calls_only that, where Q = writes_rbac])
      (simp_all add: manifest_call_quiet rbac_serverD(4) [OF assms(1)])
qed

lemma manifests_keep_crds:
  assumes "crd_server X config \<mu>" and "run_state (InstallManifests E M c config options) w = (r, w')"
  shows "\<mu> (history w') = \<mu> (history w)"
  by (rule kept_store [OF InstallManifests_calls_only assms(2), where Q = writes_crd])
    (simp_all add: manifest_call_quiet crd_serverD(6) [OF assms(1)])

text \<open>Everything that is installed, in one run.\<close>

definition assets_ready :: "load_deps \<Rightarrow> crd_lib \<Rightarrow> 't manifest_lib \<Rightarrow> opaque \<Rightarrow> KubicInitConfiguration \<Rightarrow> string \<Rightarrow> string \<Rightarrow> string \<Rightarrow>
    (rbac_object \<Rightarrow> bool) \<Rightarrow> (call list \<Rightarrow> string + string \<rightharpoonup> rbac_object) \<Rightarrow> (call list \<Rightarrow> string \<rightharpoonup> crd) \<Rightarrow> crdsSet \<Rightarrow>
    admission \<Rightarrow> (call list \<Rightarrow> object_key \<rightharpoonup> unstr) \<Rightarrow> call list \<Rightarrow> bool" where
  "assets_ready L X M config c md cd rd aR \<rho> \<mu> crds admit \<sigma> h0 \<longleftrightarrow>
     rbac_ready L config aR \<rho> (rbac_options rd) \<and> crds_ready X config \<mu> crds (crd_options cd)
     \<and> manifests_ready (ld_os L) M c config admit \<sigma> (manifest_options md)
     \<and> fits crds (\<mu> h0) \<and> one_server X (ml_dyn M) config \<mu>
     \<and> kinds_provided (ml_dyn M) config h0 (installed_crds crds (\<mu> h0))
         (set (wanted_objects (ld_os L) M c (manifest_options md)))"

lemma InstallAllAssets_run:
  assumes "assets_ready L X M config c md cd rd aR \<rho> \<mu> crds admit \<sigma> h0"
    and "prefix h0 (history w)" and "\<mu> (history w) = \<mu> h0"
  shows "\<exists>w'. run_state (InstallAllAssets L X M config c md cd rd) w = (Ok (), w')
    \<and> \<rho> (history w') = put_all rbac_key aR (wanted_rbac L (rbac_options rd)) (\<rho> (history w))
    \<and> (\<forall>d\<in>snd ` set crds. \<mu> (history w') (crd_id d) = Some (installed (\<mu> h0 (crd_id d)) d))
    \<and> (\<forall>n. n \<notin> crd_id ` snd ` set crds \<longrightarrow> \<mu> (history w') n = \<mu> h0 n)
    \<and> \<sigma> (history w') = fold (offer admit) (wanted_objects (ld_os L) M c (manifest_options md)) (\<sigma> (history w))"
proof -
  let ?us = "wanted_objects (ld_os L) M c (manifest_options md)" and ?Y = "ml_dyn M"
  note ready = assms(1) [unfolded assets_ready_def]
  note R = conjunct1 [OF ready, unfolded rbac_ready_def]
  have CR: "crds_ready X config \<mu> crds (crd_options cd)" using ready by blast
  note C = CR [unfolded crds_ready_def]
  have MR: "manifests_ready (ld_os L) M c config admit \<sigma> (manifest_options md)" using ready by blast
  note M = MR [unfolded manifests_ready_def]
  obtain w1 where 1: "run_state (InstallRBAC L config (rbac_options rd)) w = (Ok (), w1)"
    "\<rho> (history w1) = put_all rbac_key aR (wanted_rbac L (rbac_options rd)) (\<rho> (history w))"
    by (rule puts_intoE [OF puts_rbac]) (use R in blast)+
  have crds: "\<mu> (history w1) = \<mu> h0"
    using rbac_keeps_crds [OF _ _ 1(1)] R C assms(3) by metis
  have fits: "fits crds (\<mu> h0)" using ready by blast
  then obtain w2 where 2: "run_state (InstallCRDs X config (crd_options cd)) w1 = (Ok (), w2)"
    "\<forall>d\<in>snd ` set crds. \<mu> (history w2) (crd_id d) = Some (installed (\<mu> h0 (crd_id d)) d)"
    "\<forall>n. n \<notin> crd_id ` snd ` set crds \<longrightarrow> \<mu> (history w2) n = \<mu> h0 n"
    using crds_ready_run [OF CR, of w1] by (auto simp: crds crd_options_def)
  have "polls_immediately SleepMs (ld_poll L)" "polls_immediately pause_waiting (crd_poll X)" using R C by blast+
  then have "w \<le> w1" "w1 \<le> w2"
    using calls_only_le [OF InstallRBAC_calls_only 1(1)] calls_only_le [OF InstallCRDs_calls_only 2(1)] by blast+
  then have "prefix h0 (history w2)"
    using assms(2) prefix_order.trans unfolding less_eq_world_ext_def by blast
  then have found: "findable ?Y config h u" if "since manifest_call (history w2) h" and "u \<in> set ?us" for h u
    by (intro kinds_found [OF CR _ fits 2(1,2) _ _ that]) (use ready in blast)+
  then have stay: "kinds_stay ?Y config (history w2) (set ?us)" by (simp add: kinds_stay_def)
  have all: "filter (findable ?Y config (history w2)) ?us = ?us" using found by (simp add: filter_id_conv)
  obtain w3 where 3: "run_state (InstallManifests (ld_os L) M c config (manifest_options md)) w2 = (Ok (), w3)"
    "\<sigma> (history w3) = fold (offer admit) ?us (\<sigma> (history w2))"
    by (rule putsE [OF puts_manifests [OF _ stay], of admit \<sigma> w2, unfolded all]) (use M in \<open>simp_all\<close>)
  have "\<rho> (history w3) = \<rho> (history w1)"
    using others_keep_rbac(1) [OF _ _ 2(1)] others_keep_rbac(2) [OF _ _ 3(1)] R C by metis
  moreover have "\<sigma> (history w2) = \<sigma> (history w)"
    using others_keep_objects(1) [OF _ _ _ 1(1)] others_keep_objects(2) [OF _ _ _ 2(1)] R C M by metis
  moreover have "\<mu> (history w3) = \<mu> (history w2)" using manifests_keep_crds [OF _ 3(1)] C by blast
  moreover have "run_state (InstallAllAssets L X M config c md cd rd) w = (Ok (), w3)"
    by (simp add: InstallAllAssets_parts 1(1) 2(1) 3(1))
  ultimately show ?thesis using 1(2) 2(2,3) 3(2) by (intro exI [of _ w3]) simp
qed

text \<open>
  C6. The assets of a cluster get installed: when the three parts are ready (see above), the definitions
  that the server has already fit, and each object of the manifests is of a kind that the server knows or
  of one that the definitions define, \<open>InstallAllAssets\<close> returns without an error. Then the roles and
  bindings of the RBAC files have been put over what was there, the server has every resource
  definition, new ones as they are and old ones with the new validation schema, no other definition has
  changed, and every object of the manifests has been offered to the server, those of the new kinds
  included, which it could not have known before. No part undoes what another did.
\<close>

theorem assets_installed:
  assumes "rbac_ready L config aR \<rho> (rbac_options rd)" and "crds_ready X config \<mu> crds (crd_options cd)"
    and "fits crds (\<mu> (history w))" and "manifests_ready (ld_os L) M c config admit \<sigma> (manifest_options md)"
    and "one_server X (ml_dyn M) config \<mu>"
    and "kinds_provided (ml_dyn M) config (history w) (installed_crds crds (\<mu> (history w)))
      (set (wanted_objects (ld_os L) M c (manifest_options md)))"
  shows "\<exists>w'. run_state (InstallAllAssets L X M config c md cd rd) w = (Ok (), w')
    \<and> \<rho> (history w') = put_all rbac_key aR (wanted_rbac L (rbac_options rd)) (\<rho> (history w))
    \<and> (\<forall>d\<in>snd ` set crds. \<mu> (history w') (crd_id d) = Some (installed (\<mu> (history w) (crd_id d)) d))
    \<and> (\<forall>n. n \<notin> crd_id ` snd ` set crds \<longrightarrow> \<mu> (history w') n = \<mu> (history w) n)
    \<and> \<sigma> (history w') = fold (offer admit) (wanted_objects (ld_os L) M c (manifest_options md)) (\<sigma> (history w))"
  by (rule InstallAllAssets_run) (use assms in \<open>simp_all add: assets_ready_def\<close>)

section \<open>A concrete cluster\<close>

lemma establishes_mono: "establishes X \<mu> lag \<Longrightarrow> lag \<le> lag' \<Longrightarrow> establishes X \<mu> lag'"
  unfolding establishes_def using order_trans by blast

lemma slow_ready: "crds_ready slow_crds ''cfg'' stored [(''dexes.kubic'', demo_crd)] (crd_options [])"
proof -
  have "establishes slow_crds stored 9900" by (rule establishes_mono [OF slow_establishes]) simp
  moreover have "polls_immediately pause_waiting (crd_poll slow_crds)" "polls_until pause_waiting (crd_poll slow_crds)"
    by (simp_all add: slow_crds_def attempts_polls_immediately attempts_polls_until del: attempts.simps)
  moreover have "fst (run_state (readCRDFiles slow_crds (defaultCRDOptions (crd_options []))) empty_world) =
      Ok [(''dexes.kubic'', demo_crd)]"
    by (simp add: slow_crds_def readCRDFiles_def RemoveDuplicates_def skip_path_def Stat_def readCRDs_def ReadDir_def
        run_andthen path_ext_def last_index_byte_def crdExts_def ReadFile_def add_crds_def NamespacedObjToString_def
        CrdNamer_def crd_options_def defaultCRDOptions_def DefaultCRDsDirs_def DefaultKubicCRDDir_def)
  ultimately show ?thesis
    by (simp add: crds_ready_def slow_server slow_keeps)
      (simp add: slow_crds_def still_files_def still_dirs_def demo_os_def crd_id_def)
qed

text \<open>
  One server: it knows the kind of objects that a definition describes once it lists the resource of it.
\<close>

definition dex_listed :: "call list \<Rightarrow> bool" where
  "dex_listed h = list_ex (\<lambda>d. describes d dex_object \<and>
     (case server_resources slow_crds h (gv_path (crdGroup d, crdVersion d)) of Inr l \<Rightarrow> crdPlural d \<in> set l | Inl _ \<Rightarrow> False))
     (written h)"

lemma dex_server: "one_server slow_crds (store_dyn dex_listed) config stored"
  unfolding one_server_def
proof (intro allI impI)
  fix h n d u
  assume d: "stored h n = Some d" "lists slow_crds h (crdGroup d, crdVersion d) (crdPlural d)" "describes d u"
  have "dex_listed h" if "unGroupVersionKind u = ''kubic/v1/Dex''"
  proof -
    have "describes d dex_object" using d(3) that by (simp add: describes_def dex_object_def)
    moreover have "d \<in> set (written h)" using d(1) stored_written by blast
    ultimately show ?thesis
      using d(2) unfolding dex_listed_def list_ex_iff lists_def by (intro bexI [of _ d]) auto
  qed
  then show "kind_known (store_dyn dex_listed) config h u" by auto
qed

lemma dex_unknown: "\<not> kind_known (store_dyn dex_listed) config [] dex_object"
  by (simp add: dex_object_def) (simp add: dex_listed_def)

text \<open>The objects of the manifests, offered one after the other to a server that has none.\<close>

lemma dex_offered: "fold (offer demo_admit) (wanted_objects demo_files (store_manifest listed) c (manifest_options [])) Map.empty =
    [object_key dex_object \<mapsto> completed_object dex_object]"
  by (simp add: store_wanted visited_def manifest_options_def RemoveDuplicates_def DefaultManifestsDirs_def
      DefaultKubicManifestsDir_def offer_def demo_admit_def dex_object_def)

lemma dex_kinds: "kinds_provided (store_dyn dex_listed) config h0 (installed_crds [(''dexes.kubic'', demo_crd)] Map.empty)
    (set (wanted_objects demo_files (store_manifest listed) c options))"
  by (auto simp: kinds_provided_def store_wanted installed_crds_def installed_def describes_def dex_object_def)

lemma store_ready: "manifests_ready demo_files (store_manifest listed) c config demo_admit objects_after options"
  by (simp add: manifests_ready_def store_dyn_serves readable_manifests_def list_all_iff still_urls_def)

lemma store_assets_ready:
  assumes "stored h0 = Map.empty"
  shows "assets_ready store_load slow_crds (store_manifest dex_listed) ''cfg'' c [] [] [] rbac_named rbac_after stored
    [(''dexes.kubic'', demo_crd)] demo_admit objects_after h0"
  using slow_ready dex_kinds [of "''cfg''" h0 dex_listed c "manifest_options []"]
  by (simp add: assets_ready_def rbac_ready_def store_load_server store_load_polls store_load_good store_ready dex_server
      fits_def assms)

theorem assets_installed_witness:
  "\<exists>w'. run_state (InstallAllAssets store_load slow_crds (store_manifest dex_listed) ''cfg'' defaultConfiguration [] [] []) empty_world =
       (Ok (), w')
     \<and> rbac_after (history w') (Inl ''dex'') \<noteq> None
     \<and> stored (history w') = [''dexes.kubic'' \<mapsto> demo_crd]
     \<and> objects_after (history w') = [object_key dex_object \<mapsto> completed_object dex_object]
     \<and> \<not> kind_known (store_dyn dex_listed) ''cfg'' (history empty_world) dex_object"
proof -
  let ?M = "store_manifest dex_listed"
  let ?rbac = "Inl (stamped_role (fst (projr (decode_role (ld_rbac store_load) ''dex'')))) :: rbac_object"
  have rbac: "rbac_ready store_load ''cfg'' rbac_named rbac_after (rbac_options [])"
    by (simp add: rbac_ready_def store_load_server store_load_polls store_load_good)
  have none: "stored (history empty_world) = Map.empty" by (simp add: empty_world_def)
  then have crds: "fits [(''dexes.kubic'', demo_crd)] (stored (history empty_world))"
    by (simp add: fits_def)
  have manifests: "manifests_ready (ld_os store_load) ?M defaultConfiguration ''cfg'' demo_admit objects_after (manifest_options [])"
    by (simp add: store_ready)
  have server: "one_server slow_crds (ml_dyn ?M) ''cfg'' stored" by (simp add: dex_server)
  have kinds: "kinds_provided (ml_dyn ?M) ''cfg'' (history empty_world)
      (installed_crds [(''dexes.kubic'', demo_crd)] (stored (history empty_world)))
      (set (wanted_objects (ld_os store_load) ?M defaultConfiguration (manifest_options [])))"
    unfolding none by (simp add: dex_kinds)
  obtain w' where run: "run_state (InstallAllAssets store_load slow_crds ?M ''cfg'' defaultConfiguration [] [] [])
      empty_world = (Ok (), w')"
    and rbac': "rbac_after (history w') = put_all rbac_key rbac_named (wanted_rbac store_load (rbac_options []))
      (rbac_after (history empty_world))"
    and stored': "\<forall>d\<in>snd ` set [(''dexes.kubic'', demo_crd)].
      stored (history w') (crd_id d) = Some (installed (stored (history empty_world) (crd_id d)) d)"
    and others': "\<forall>n. n \<notin> crd_id ` snd ` set [(''dexes.kubic'', demo_crd)] \<longrightarrow>
      stored (history w') n = stored (history empty_world) n"
    and objects': "objects_after (history w') = fold (offer demo_admit)
      (wanted_objects (ld_os store_load) ?M defaultConfiguration (manifest_options [])) (objects_after (history empty_world))"
    using assets_installed [OF rbac slow_ready crds manifests server kinds] by blast
  have "?rbac \<in> set (wanted_rbac store_load (rbac_options []))" "rbac_named ?rbac" "rbac_key ?rbac = Inl ''dex''"
    by (simp_all add: wanted_rbac_def wanted_roles_def visited_def rbac_options_def RemoveDuplicates_def DefaultRBACDirs_def
        store_load_def demo_load_def stamped_role_def rbac_key_def rbac_named_def)
  then have "filter (\<lambda>u. rbac_named u \<and> rbac_key u = Inl ''dex'') (rev (wanted_rbac store_load (rbac_options []))) \<noteq> []"
    by (auto simp: filter_empty_conv)
  then have "rbac_after (history w') (Inl ''dex'') \<noteq> None"
    unfolding rbac' put_all_lookup by (simp split: list.split)
  moreover have "stored (history w') n = ([''dexes.kubic'' \<mapsto> demo_crd]) n" for n
    using stored' others' by (cases "n = ''dexes.kubic''") (simp_all add: crd_id_def installed_def none)
  moreover have "objects_after (history w') = [object_key dex_object \<mapsto> completed_object dex_object]"
    unfolding objects' store_load_os using dex_offered [of dex_listed defaultConfiguration]
    by (simp only: empty_world_def world.select_convs objects_after_snoc)
  ultimately show ?thesis using run dex_unknown by (auto simp: empty_world_def)
qed

end
