(* ===== verification/Seeder_Up.thy ===== *)
theory Seeder_Up
  imports Cluster_Assets
begin

text \<open>
  What the bootstrap of a seeder does once kubeadm has created the cluster, on a cluster that cooperates:
  every step succeeds, and what is stored in the end is what the program was to put there.
\<close>

section \<open>A cluster that cooperates\<close>

text \<open>The config map with the configuration of the seeder.\<close>

definition uploaded :: "'t boot_env \<Rightarrow> string \<Rightarrow> config_map" where
  "uploaded B y =
     \<lparr>cmMeta = \<lparr>metaName = ''kubic-init-config-seeder'', metaNamespace = ''kube-system''\<rparr>,
      cmLabels = [(''kubic-seeder-version'', Version (be_build B)), (''kubic-seeder-build'', Build (be_build B))],
      cmData = [(''kubic-init.yaml'', y)]\<rparr>"

text \<open>
  From the history \<open>h0\<close> on the server is reachable with the administrator's configuration and takes the
  configuration of the seeder, which can be encoded.
\<close>

definition admits :: "'t boot_env \<Rightarrow> KubicInitConfiguration \<Rightarrow> call list \<Rightarrow> bool" where
  "admits B c h0 \<longleftrightarrow>
     (\<exists>y. yaml_marshal (be_config B) c = Inr y
        \<and> (\<forall>h. prefix h0 h \<longrightarrow> upsert_config_map (be_api B) h (uploaded B y) = None))
     \<and> (\<forall>h. prefix h0 h \<longrightarrow> be_connect B h (be_admin_kubeconfig B) = None)"

text \<open>
  The CNI driver is flannel, its rendered templates decode, and the server takes the objects in them and
  the service account.
\<close>

definition flannel_renders :: "flannel_lib \<Rightarrow> kube_api \<Rightarrow> KubicInitConfiguration \<Rightarrow> call list \<Rightarrow> bool" where
  "flannel_renders F A c h0 \<longleftrightarrow> Driver (Cni (Network c)) = ''flannel''
     \<and> (\<exists>b1 b2 m d. fl_parse F FlannelConfigMap19 (config_map_values c) = Inr b1
          \<and> fl_parse F FlannelDaemonSet19 (daemon_set_values c) = Inr b2
          \<and> decode_config_map F b1 = Inr m \<and> decode_daemon_set F b2 = Inr d
          \<and> (\<forall>h. prefix h0 h \<longrightarrow> upsert_service_account A h serviceAccount = None
               \<and> upsert_config_map A h m = None \<and> upsert_daemon_set A h d = None))"

text \<open>A client configuration is found, and always the same.\<close>

definition kubeconfig_is :: "'t boot_env \<Rightarrow> opaque \<Rightarrow> call list \<Rightarrow> bool" where
  "kubeconfig_is B config h0 \<longleftrightarrow>
     (\<forall>w. prefix h0 (history w) \<longrightarrow> fst (run_state (GetConfig (be_os B) (be_rest B) [] []) w) = Ok config)"

text \<open>A binding that the server has can be deleted.\<close>

definition unbinds :: "kube_api \<Rightarrow> (call list \<Rightarrow> string + string \<rightharpoonup> rbac_object) \<Rightarrow> bool" where
  "unbinds A \<rho> \<longleftrightarrow> (\<forall>h n. \<rho> h (Inr n) \<noteq> None \<longrightarrow>
     delete_binding A h n = None \<and> \<rho> (h @ [ApiDelete KClusterRoleBinding [] n True]) = (\<rho> h)(Inr n := None))"

text \<open>The rules of flannel.\<close>

definition flannel_rbac :: "bool \<Rightarrow> rbac_object list" where
  "flannel_rbac psp = [Inl clusterRole, Inr clusterRoleBinding] @ (if psp then [Inr clusterRoleBindingPSP] else [])"

section \<open>The calls of the steps\<close>

definition quiet_call :: "call \<Rightarrow> bool" where
  "quiet_call c \<longleftrightarrow> \<not> writes_rbac c \<and> \<not> writes_crd c \<and> \<not> writes_object c"

lemma quiet_simps [simp]:
  "quiet_call (ApiConnect p)" "quiet_call (ApiCreateOrUpdate (OConfigMap m))" "quiet_call (OsLookupEnv v)"
  "quiet_call (ApiCreateOrUpdate (ODaemonSet d))" "quiet_call (ApiCreateOrUpdate (OServiceAccount a))"
  "quiet_call (LoadKubeconfig s p)" "quiet_call LoadInCluster" "quiet_call CurrentUser"
  by (simp_all add: quiet_call_def writes_rbac_def writes_crd_def writes_object_def)

lemma connect_quiet: "calls_only quiet_call (ClientSetFromFile B p)"
  unfolding ClientSetFromFile_def by (intro calls_intros) simp

lemma upload_quiet: "calls_only quiet_call (ToConfigMap D A c n ls)"
  unfolding ToConfigMap_def CreateOrUpdateConfigMap_def Let_def by (intro calls_intros) simp

lemma GetConfig_quiet: "calls_only quiet_call (GetConfig E N m k)"
  unfolding GetConfig_def BuildConfigFromFlags_def Getenv_def LookupEnv_def InClusterConfig_def
    default_location_def CurrentUserHome_def
  by (auto intro!: calls_intros split: outcome.split)

lemma service_account_quiet: "calls_only quiet_call (createServiceAccount A)"
  unfolding createServiceAccount_def CreateOrUpdateServiceAccount_def by (intro calls_intros) simp

lemma flannel_addon_quiet: "calls_only quiet_call (createFlannelAddon F A b1 b2)"
  unfolding createFlannelAddon_def CreateOrUpdateConfigMap_def CreateOrUpdateDaemonSet_def
  by (intro calls_intros) simp_all

text \<open>Flannel writes neither definitions nor objects of manifests.\<close>

lemma flannel_calls: "calls_only (\<lambda>c. \<not> writes_crd c \<and> \<not> writes_object c) (EnsureFlannelAddon F A c)"
  unfolding EnsureFlannelAddon_def createServiceAccount_def CreateOrUpdateServiceAccount_def
    createFlannelAddon_def CreateOrUpdateConfigMap_def CreateOrUpdateDaemonSet_def createRBACRules_def
    CreateOrUpdateClusterRole_def CreateOrUpdateClusterRoleBinding_def
  by (intro calls_intros) (simp_all add: writes_crd_def writes_object_def)

section \<open>Flannel\<close>

lemma puts_wrap:
  assumes "puts P step \<mu> m x us"
  shows "puts P step \<mu> (wrap_err msg m) x us"
proof (rule putsI)
  fix w :: world
  assume "P (history w)"
  with assms obtain w' where "run_state m w = (Ok x, w')" "P (history w')" "\<mu> (history w') = fold step us (\<mu> (history w))"
    by (rule putsE)
  then show "\<exists>w'. run_state (wrap_err msg m) w = (Ok x, w') \<and> P (history w') \<and> \<mu> (history w') = fold step us (\<mu> (history w))"
    by (simp add: run_wrap_err)
qed

text \<open>A rule that the server accepts.\<close>

lemma puts_one_role:
  assumes "rbac_server R config accepts \<rho>" and "accepts (Inl r)"
  shows "puts (prefix h0) (put rbac_key accepts) \<rho> (CreateOrUpdateClusterRole R r) () [Inl r]"
  by (rule putsI) (use rbac_serverD(2) [OF assms] assms(2) in \<open>simp add: put_def CreateOrUpdateClusterRole_def\<close>)

lemma puts_one_binding:
  assumes "rbac_server R config accepts \<rho>" and "accepts (Inr b)"
  shows "puts (prefix h0) (put rbac_key accepts) \<rho> (CreateOrUpdateClusterRoleBinding R b) () [Inr b]"
  by (rule putsI) (use rbac_serverD(3) [OF assms] assms(2) in \<open>simp add: put_def CreateOrUpdateClusterRoleBinding_def\<close>)

lemma puts_rules:
  assumes "rbac_server (ka_rbac A) config accepts \<rho>" and "list_all accepts (flannel_rbac psp)"
  shows "puts (prefix h0) (put rbac_key accepts) \<rho> (createRBACRules A psp) () (flannel_rbac psp)"
proof -
  have "puts (prefix h0) (put rbac_key accepts) \<rho> (if psp then CreateOrUpdateClusterRoleBinding (ka_rbac A) clusterRoleBindingPSP
      else ret (Ok ())) () (if psp then [Inr clusterRoleBindingPSP] else [])"
    using assms by (auto simp: flannel_rbac_def intro: puts_ret puts_one_binding)
  then have "puts (prefix h0) (put rbac_key accepts) \<rho> (createRBACRules A psp) ()
      ([Inl clusterRole] @ [Inr clusterRoleBinding] @ (if psp then [Inr clusterRoleBindingPSP] else []))"
    unfolding createRBACRules_def using assms(2)
    by (intro puts_andthen [OF puts_one_role [OF assms(1)]] puts_andthen [OF puts_one_binding [OF assms(1)]])
      (simp_all add: flannel_rbac_def)
  then show ?thesis by (simp add: flannel_rbac_def)
qed

lemma quiet_keeps_rbac: "rbac_server R config accepts \<rho> \<Longrightarrow> spares quiet_call (prefix h0) \<rho>"
  by (simp add: spares_def quiet_call_def rbac_serverD(4))

lemma puts_flannel:
  assumes "rbac_server (ka_rbac (be_api B)) config accepts \<rho>" and "list_all accepts (flannel_rbac (PSP (Features c)))"
    and "flannel_renders F (be_api B) c h0"
  shows "puts (prefix h0) (put rbac_key accepts) \<rho> (EnsureFlannelAddon F (be_api B) c) () (flannel_rbac (PSP (Features c)))"
proof -
  let ?A = "be_api B" and ?puts = "puts (prefix h0) (put rbac_key accepts) \<rho>"
  obtain b1 b2 m d where renders: "fl_parse F FlannelConfigMap19 (config_map_values c) = Inr b1"
    "fl_parse F FlannelDaemonSet19 (daemon_set_values c) = Inr b2"
    "decode_config_map F b1 = Inr m" "decode_daemon_set F b2 = Inr d"
    and ups: "\<forall>h. prefix h0 h \<longrightarrow> upsert_service_account ?A h serviceAccount = None
               \<and> upsert_config_map ?A h m = None \<and> upsert_daemon_set ?A h d = None"
    using assms(3) unfolding flannel_renders_def by blast
  have account: "?puts (createServiceAccount ?A) () []"
    by (rule puts_quiet [OF _ service_account_quiet quiet_keeps_rbac [OF assms(1)]])
      (use ups in \<open>simp add: createServiceAccount_def CreateOrUpdateServiceAccount_def\<close>)
  have addon: "?puts (createFlannelAddon F ?A b1 b2) () []"
    by (rule puts_quiet [OF _ flannel_addon_quiet quiet_keeps_rbac [OF assms(1)]])
      (use ups in \<open>simp add: createFlannelAddon_def CreateOrUpdateConfigMap_def CreateOrUpdateDaemonSet_def renders
        run_andthen run_wrap_err\<close>)
  have "?puts (EnsureFlannelAddon F ?A c) () ([] @ [] @ [] @ [] @ flannel_rbac (PSP (Features c)))"
    unfolding EnsureFlannelAddon_def renders of_sum_simps
    by (intro puts_andthen [OF puts_wrap [OF account]] puts_andthen [OF puts_wrap [OF puts_ret]]
        puts_andthen [OF addon] puts_wrap puts_rules [OF assms(1,2)])
  then show ?thesis by simp
qed

section \<open>After kubeadm init\<close>

text \<open>
  All that the bootstrap relies on once the cluster exists, that is from the history \<open>h0\<close> on, with the
  default of the flags that turn on the CNI driver and the assets: the flannel rules and the RBAC files go to
  one server, and a binding that is to be removed is there, as \<open>kubeadm init\<close> leaves it.
\<close>

definition cooperates :: "'t boot_env \<Rightarrow> boot_flags \<Rightarrow> KubicInitConfiguration \<Rightarrow> opaque \<Rightarrow>
    (rbac_object \<Rightarrow> bool) \<Rightarrow> (call list \<Rightarrow> string + string \<rightharpoonup> rbac_object) \<Rightarrow>
    (call list \<Rightarrow> string \<rightharpoonup> crd) \<Rightarrow> crdsSet \<Rightarrow> admission \<Rightarrow> (call list \<Rightarrow> object_key \<rightharpoonup> unstr) \<Rightarrow> call list \<Rightarrow> bool" where
  "cooperates B F c config aR \<rho> \<mu> crds admit \<sigma> h0 \<longleftrightarrow>
     deployCNI F \<and> loadAssets F \<and> admits B c h0 \<and> flannel_renders (be_flannel B) (be_api B) c h0
     \<and> kubeconfig_is B config h0
     \<and> ka_rbac (be_api B) = ld_rbac (be_load B) \<and> list_all aR (flannel_rbac (PSP (Features c)))
     \<and> unbinds (be_api B) \<rho> \<and> (AutoApprove (ClusterFormation c) \<or> \<rho> h0 (Inr (be_approve_binding B)) \<noteq> None)
     \<and> assets_ready (be_load B) (be_crds B) (be_manifests B) config c
         (postControlManifDir F) (crdsDir F) (rbacDir F) aR \<rho> \<mu> crds admit \<sigma> h0"

lemmas cooperates_defs = cooperates_def assets_ready_def rbac_ready_def crds_ready_def manifests_ready_def

text \<open>What the deletion of the auto-approval rules leaves.\<close>

definition approvals_kept :: "'t boot_env \<Rightarrow> KubicInitConfiguration \<Rightarrow> (string + string \<rightharpoonup> rbac_object) \<Rightarrow>
    (string + string \<rightharpoonup> rbac_object)" where
  "approvals_kept B c st = (if AutoApprove (ClusterFormation c) then st else st(Inr (be_approve_binding B) := None))"

text \<open>Quiet steps change no store.\<close>

lemma quiet_keeps:
  assumes "cooperates B F c config aR \<rho> \<mu> crds admit \<sigma> h0" and "calls_only quiet_call m" and "run_state m w = (r, w')"
  shows "\<rho> (history w') = \<rho> (history w)" and "\<mu> (history w') = \<mu> (history w)" and "\<sigma> (history w') = \<sigma> (history w)"
proof -
  note ready = assms(1) [unfolded cooperates_defs]
  have R: "rbac_server (ld_rbac (be_load B)) config aR \<rho>" and C: "crd_server (be_crds B) config \<mu>"
    and S: "serves (ml_dyn (be_manifests B)) config admit \<sigma>"
    using ready by blast+
  show "\<rho> (history w') = \<rho> (history w)"
    by (rule kept_store [OF assms(2,3), where Q = writes_rbac]) (simp_all add: quiet_call_def rbac_serverD(4) [OF R])
  show "\<mu> (history w') = \<mu> (history w)"
    by (rule kept_store [OF assms(2,3), where Q = writes_crd]) (simp_all add: quiet_call_def crd_serverD(6) [OF C])
  show "\<sigma> (history w') = \<sigma> (history w)"
    by (rule kept_store [OF assms(2,3), where Q = writes_object]) (simp_all add: quiet_call_def serves_quiet [OF S])
qed

text \<open>The removal of the auto-approval rules, and flannel.\<close>

lemma approval_run:
  assumes "cooperates B F c config aR \<rho> \<mu> crds admit \<sigma> h0" and "\<rho> (history w) = \<rho> h0"
  shows "\<exists>w'. run_state (if \<not> AutoApprove (ClusterFormation c) then RemoveAutoApprovalRBAC (be_api B) (be_approve_binding B)
      else ret (Ok ())) w = (Ok (), w') \<and> w \<le> w'
    \<and> \<rho> (history w') = approvals_kept B c (\<rho> (history w)) \<and> \<mu> (history w') = \<mu> (history w) \<and> \<sigma> (history w') = \<sigma> (history w)"
proof (cases "AutoApprove (ClusterFormation c)")
  case True
  then show ?thesis by (intro exI [of _ w]) (simp add: approvals_kept_def)
next
  case False
  note ready = assms(1) [unfolded cooperates_defs]
  let ?n = "be_approve_binding B"
  let ?d = "ApiDelete KClusterRoleBinding [] ?n True"
  have C: "crd_server (be_crds B) config \<mu>" and S: "serves (ml_dyn (be_manifests B)) config admit \<sigma>"
    and U: "unbinds (be_api B) \<rho>" and there: "\<rho> h0 (Inr ?n) \<noteq> None"
    using ready False by blast+
  have "\<rho> (history w) (Inr ?n) \<noteq> None" using there assms(2) by simp
  then have "delete_binding (be_api B) (history w) ?n = None" "\<rho> (history w @ [?d]) = (\<rho> (history w))(Inr ?n := None)"
    using U unfolding unbinds_def by blast+
  moreover have "\<mu> (h @ [?d]) = \<mu> h" for h by (rule crd_serverD(6) [OF C]) (simp add: writes_crd_def)
  moreover have "\<sigma> (h @ [?d]) = \<sigma> h" for h by (rule serves_quiet [OF S]) (simp add: writes_object_def)
  ultimately show ?thesis
    using False by (simp add: RemoveAutoApprovalRBAC_def approvals_kept_def less_eq_world_ext_def)
qed

lemma flannel_run:
  assumes "cooperates B F c config aR \<rho> \<mu> crds admit \<sigma> h0" and "prefix h0 (history w)"
  shows "\<exists>w'. run_state (Load (Registry (be_flannel B) (be_api B)) (Driver (Cni (Network c))) c) w = (Ok (), w')
    \<and> \<rho> (history w') = put_all rbac_key aR (flannel_rbac (PSP (Features c))) (\<rho> (history w))
    \<and> \<mu> (history w') = \<mu> (history w) \<and> \<sigma> (history w') = \<sigma> (history w)"
proof -
  note ready = assms(1) [unfolded cooperates_defs]
  have R: "rbac_server (ka_rbac (be_api B)) config aR \<rho>" and C: "crd_server (be_crds B) config \<mu>"
    and S: "serves (ml_dyn (be_manifests B)) config admit \<sigma>" and fl: "flannel_renders (be_flannel B) (be_api B) c h0"
    and acc: "list_all aR (flannel_rbac (PSP (Features c)))"
    using ready by auto
  have "Driver (Cni (Network c)) = ''flannel''" using fl unfolding flannel_renders_def by blast
  then have load: "Load (Registry (be_flannel B) (be_api B)) (Driver (Cni (Network c))) c =
      EnsureFlannelAddon (be_flannel B) (be_api B) c"
    unfolding Registry_def flannel_init_def by (simp add: cni.load_only)
  obtain w' where run: "run_state (EnsureFlannelAddon (be_flannel B) (be_api B) c) w = (Ok (), w')"
    and put: "\<rho> (history w') = fold (put rbac_key aR) (flannel_rbac (PSP (Features c))) (\<rho> (history w))"
    by (rule putsE [OF puts_flannel [OF R acc fl] assms(2)])
  have "\<mu> (history w') = \<mu> (history w)"
    by (rule kept_store [OF flannel_calls run, where Q = writes_crd]) (simp_all add: crd_serverD(6) [OF C])
  moreover have "\<sigma> (history w') = \<sigma> (history w)"
    by (rule kept_store [OF flannel_calls run, where Q = writes_object]) (simp_all add: serves_quiet [OF S])
  ultimately show ?thesis unfolding load put_all_def using run put by blast
qed

lemma upload_run:
  assumes "admits B c h0" and "prefix h0 (history w)"
  shows "\<exists>y w'. yaml_marshal (be_config B) c = Inr y
    \<and> run_state (ToConfigMap (be_config B) (be_api B) c DefaultKubicInitConfigmap
        [(''kubic-seeder-version'', Version (be_build B)), (''kubic-seeder-build'', Build (be_build B))]) w = (Ok (), w')
    \<and> history w' = history w @ [ApiCreateOrUpdate (OConfigMap (uploaded B y))]"
proof -
  obtain y where "yaml_marshal (be_config B) c = Inr y"
    and "upsert_config_map (be_api B) (history w) (uploaded B y) = None"
    using assms unfolding admits_def by blast
  moreover have "path_base DefaultKubicInitConfig = ''kubic-init.yaml''"
    by (simp add: DefaultKubicInitConfig_def path_base_def)
  ultimately show ?thesis
    by (simp add: ToConfigMap_def CreateOrUpdateConfigMap_def Let_def uploaded_def DefaultKubicInitConfigmap_def
        NamespaceSystem_def)
qed

text \<open>All steps before the assets.\<close>

lemma before_assets_run:
  assumes "cooperates B F c config aR \<rho> \<mu> crds admit \<sigma> (history w)"
  shows "\<exists>y v. run_state (after_init B F c) w = run_state (InstallAllAssets (be_load B) (be_crds B) (be_manifests B) config c
        (postControlManifDir F) (crdsDir F) (rbacDir F)) v \<and> prefix (history w) (history v)
    \<and> yaml_marshal (be_config B) c = Inr y \<and> ApiCreateOrUpdate (OConfigMap (uploaded B y)) \<in> set (history v)
    \<and> \<rho> (history v) = put_all rbac_key aR (flannel_rbac (PSP (Features c))) (approvals_kept B c (\<rho> (history w)))
    \<and> \<mu> (history v) = \<mu> (history w) \<and> \<sigma> (history v) = \<sigma> (history w)"
proof -
  note ready = assms(1) [unfolded cooperates_def]
  note keeps = quiet_keeps [OF assms]
  have adm: "admits B c (history w)" using ready by blast
  then have "be_connect B (history w) (be_admin_kubeconfig B) = None" unfolding admits_def by blast
  then obtain w1 where 1: "run_state (ClientSetFromFile B (be_admin_kubeconfig B)) w = (Ok (), w1)"
    by (simp add: ClientSetFromFile_def)
  have le1: "prefix (history w) (history w1)"
    using calls_only_le [OF connect_quiet 1] by (simp add: less_eq_world_ext_def)
  obtain y w2 where marshalled: "yaml_marshal (be_config B) c = Inr y" and
    2: "run_state (ToConfigMap (be_config B) (be_api B) c DefaultKubicInitConfigmap
        [(''kubic-seeder-version'', Version (be_build B)), (''kubic-seeder-build'', Build (be_build B))]) w1 = (Ok (), w2)" and
    sent: "history w2 = history w1 @ [ApiCreateOrUpdate (OConfigMap (uploaded B y))]"
    using upload_run [OF adm le1] by blast
  have "\<rho> (history w2) = \<rho> (history w)"
    using keeps(1) [OF upload_quiet 2] keeps(1) [OF connect_quiet 1] by simp
  from approval_run [OF assms this] obtain w3 where 3: "run_state (if \<not> AutoApprove (ClusterFormation c)
        then RemoveAutoApprovalRBAC (be_api B) (be_approve_binding B) else ret (Ok ())) w2 = (Ok (), w3)" "w2 \<le> w3"
    "\<rho> (history w3) = approvals_kept B c (\<rho> (history w2))" "\<mu> (history w3) = \<mu> (history w2)" "\<sigma> (history w3) = \<sigma> (history w2)"
    by blast
  have le3: "prefix (history w) (history w3)" "prefix (history w2) (history w3)"
    using le1 sent 3(2) unfolding less_eq_world_ext_def by (auto simp: prefix_def)
  obtain w4 where 4: "run_state (Load (Registry (be_flannel B) (be_api B)) (Driver (Cni (Network c))) c) w3 = (Ok (), w4)"
    "\<rho> (history w4) = put_all rbac_key aR (flannel_rbac (PSP (Features c))) (\<rho> (history w3))"
    "\<mu> (history w4) = \<mu> (history w3)" "\<sigma> (history w4) = \<sigma> (history w3)"
    using flannel_run [OF assms le3(1)] by blast
  have le4: "prefix (history w3) (history w4)"
    using calls_only_le [OF Load_no_delete 4(1)] by (simp add: less_eq_world_ext_def)
  then have "prefix (history w) (history w4)" using le3(1) prefix_order.trans by blast
  then obtain v where 5: "run_state (GetConfig (be_os B) (be_rest B) [] []) w4 = (Ok config, v)"
    using ready unfolding kubeconfig_is_def by (metis prod.collapse)
  have le5: "prefix (history w4) (history v)"
    using calls_only_le [OF GetConfig_quiet 5] by (simp add: less_eq_world_ext_def)
  have "prefix (history w2) (history v)" "prefix (history w) (history v)"
    using le3 le4 le5 prefix_order.trans by blast+
  moreover from this have "ApiCreateOrUpdate (OConfigMap (uploaded B y)) \<in> set (history v)"
    by (auto simp: sent prefix_def)
  moreover note keeps [OF connect_quiet 1] keeps [OF upload_quiet 2] keeps [OF GetConfig_quiet 5] 3(3-5) 4(2-4)
  ultimately show ?thesis
    using ready marshalled by (intro exI [of _ y] exI [of _ v]) (simp add: after_init_def 1 2 3(1) 4(1) 5)
qed

lemma after_init_run:
  assumes "cooperates B F c config aR \<rho> \<mu> crds admit \<sigma> (history w)"
  shows "\<exists>y w'. run_state (after_init B F c) w = (Ok (), w')
    \<and> yaml_marshal (be_config B) c = Inr y \<and> ApiCreateOrUpdate (OConfigMap (uploaded B y)) \<in> set (history w')
    \<and> \<rho> (history w') = put_all rbac_key aR
        (flannel_rbac (PSP (Features c)) @ wanted_rbac (be_load B) (rbac_options (rbacDir F)))
        (approvals_kept B c (\<rho> (history w)))
    \<and> (\<forall>d\<in>snd ` set crds. \<mu> (history w') (crd_id d) = Some (installed (\<mu> (history w) (crd_id d)) d))
    \<and> (\<forall>n. n \<notin> crd_id ` snd ` set crds \<longrightarrow> \<mu> (history w') n = \<mu> (history w) n)
    \<and> \<sigma> (history w') = fold (offer admit)
        (wanted_objects (ld_os (be_load B)) (be_manifests B) c (manifest_options (postControlManifDir F))) (\<sigma> (history w))"
proof -
  let ?install = "InstallAllAssets (be_load B) (be_crds B) (be_manifests B) config c
      (postControlManifDir F) (crdsDir F) (rbacDir F)"
  obtain y v where run: "run_state (after_init B F c) w = run_state ?install v" and le: "prefix (history w) (history v)"
    and up: "yaml_marshal (be_config B) c = Inr y" "ApiCreateOrUpdate (OConfigMap (uploaded B y)) \<in> set (history v)"
    and same: "\<rho> (history v) = put_all rbac_key aR (flannel_rbac (PSP (Features c))) (approvals_kept B c (\<rho> (history w)))"
      "\<mu> (history v) = \<mu> (history w)" "\<sigma> (history v) = \<sigma> (history w)"
    using before_assets_run [OF assms(1)] by blast
  have ready: "assets_ready (be_load B) (be_crds B) (be_manifests B) config c
      (postControlManifDir F) (crdsDir F) (rbacDir F) aR \<rho> \<mu> crds admit \<sigma> (history w)"
    using assms(1) unfolding cooperates_def by blast
  from InstallAllAssets_run [OF this le same(2)] obtain w' where installed: "run_state ?install v = (Ok (), w')"
    and stores: "\<rho> (history w') = put_all rbac_key aR (wanted_rbac (be_load B) (rbac_options (rbacDir F))) (\<rho> (history v))"
    "\<forall>d\<in>snd ` set crds. \<mu> (history w') (crd_id d) = Some (installed (\<mu> (history w) (crd_id d)) d)"
    "\<forall>n. n \<notin> crd_id ` snd ` set crds \<longrightarrow> \<mu> (history w') n = \<mu> (history w) n"
    "\<sigma> (history w') = fold (offer admit)
        (wanted_objects (ld_os (be_load B)) (be_manifests B) c (manifest_options (postControlManifDir F))) (\<sigma> (history v))"
    by blast
  have "v \<le> w'"
    using InstallAllAssets_no_delete ready installed unfolding assets_ready_def rbac_ready_def crds_ready_def
    by (blast intro: calls_only_le)
  then have "set (history v) \<subseteq> set (history w')" by (simp add: less_eq_world_ext_def set_mono_prefix)
  then show ?thesis using stores up by (intro exI [of _ y] exI [of _ w']) (auto simp: same run installed)
qed

end
