(* ===== verification/Published_Config.thy ===== *)
theory Published_Config
  imports Cni Kubeadm
begin

text \<open>
  The configuration on its way through the cluster: the seeder publishes the one it has loaded in a
  config map, under the name of the configuration file, and a node that has this entry as its file
  loads it over the defaults, so that settings which were emptied come back. Seeders given as IPv6 addresses do not survive even one load.
\<close>

section \<open>Normalising twice\<close>

text \<open>An address that normalising leaves alone: none at all, or \<open>host:port\<close> of plain characters.\<close>

definition settled_seeder :: "string \<Rightarrow> bool" where
  "settled_seeder s \<longleftrightarrow> s = [] \<or>
     (\<exists>h p. s = h @ '':'' @ p \<and> addr h \<and> h \<noteq> [] \<and> \<not> has_prefix h ''http'' \<and> addr p \<and> p \<noteq> [])"

lemma normalise_settled:
  assumes "settled_seeder s"
  shows "normalise_seeder s = Inr s"
proof (cases "s = []")
  case False
  then obtain h p where s: "s = h @ '':'' @ p" and "addr h" "h \<noteq> []" "\<not> has_prefix h ''http''" "addr p" "p \<noteq> []"
    using assms by (auto simp: settled_seeder_def)
  then show ?thesis
    using run_normalise_seeder [of h "'':'' @ p" "[]"] by (simp add: port_suffix_def addr_port_def)
qed (simp add: normalise_seeder_def)

lemma normalised_settled:
  assumes "addr h" and "h \<noteq> []" and "\<not> has_prefix h ''http''" and "port_suffix s"
    and "pre = [] \<or> pre = ''http://'' \<or> pre = ''https://''" and "normalise_seeder (pre @ h @ s) = Inr t"
  shows "settled_seeder t"
proof -
  have "t = h @ '':'' @ addr_port s"
    using run_normalise_seeder [OF assms(1-5)] assms(6) by simp
  moreover have "addr (addr_port s) \<and> addr_port s \<noteq> []"
    using assms(4)
    by (cases s) (auto simp: addr_port_def port_suffix_def addr_char_def is_digit_def in_range_def byte_def)
  ultimately show ?thesis using assms(1-3) by (auto simp: settled_seeder_def)
qed

section \<open>Publishing and loading\<close>

text \<open>
  What encoding a configuration and decoding it over another one leaves, by the tags of the structures:
  a field tagged \<open>omitempty\<close> is written only when it is not empty, and a field that is not written keeps the
  value of the structure decoded into. A structure is empty when all its fields are; the fields of the CNI
  and formation structures have no tag that the library reads, so they are written if the structure is.
\<close>

definition text_over :: "string \<Rightarrow> string \<Rightarrow> string" where
  "text_over s t = (if s = [] then t else s)"

definition cni_over :: "CniConfiguration \<Rightarrow> CniConfiguration \<Rightarrow> CniConfiguration" where
  "cni_over c d = (if BinDir c = [] \<and> ConfDir c = [] \<and> Driver c = [] \<and> Image c = [] then d else c)"

definition formation_over :: "ClusterFormationConfiguration \<Rightarrow> ClusterFormationConfiguration \<Rightarrow> ClusterFormationConfiguration" where
  "formation_over c d = (if Seeder c = [] \<and> Token c = [] \<and> \<not> AutoApprove c then d else c)"

definition network_over :: "NetworkConfiguration \<Rightarrow> NetworkConfiguration \<Rightarrow> NetworkConfiguration" where
  "network_over c d =
     \<lparr>Bind = \<lparr>Address = text_over (Address (Bind c)) (Address (Bind d)),
              Interface = text_over (Interface (Bind c)) (Interface (Bind d))\<rparr>,
      Cni = cni_over (Cni c) (Cni d),
      Dns = \<lparr>Domain = text_over (Domain (Dns c)) (Domain (Dns d)),
             ExternalFqdn = text_over (ExternalFqdn (Dns c)) (ExternalFqdn (Dns d))\<rparr>,
      Proxy = \<lparr>Http = text_over (Http (Proxy c)) (Http (Proxy d)), Https = text_over (Https (Proxy c)) (Https (Proxy d)),
               NoProxy = text_over (NoProxy (Proxy c)) (NoProxy (Proxy d)),
               SystemWide = (SystemWide (Proxy c) \<or> SystemWide (Proxy d))\<rparr>,
      PodSubnet = text_over (PodSubnet c) (PodSubnet d),
      ServiceSubnet = text_over (ServiceSubnet c) (ServiceSubnet d)\<rparr>"

definition etcd_over :: "EtcdConfiguration \<Rightarrow> EtcdConfiguration \<Rightarrow> EtcdConfiguration" where
  "etcd_over c d =
     (case LocalEtcd c of
        None \<Rightarrow> d
      | Some l \<Rightarrow>
          (let m = (case LocalEtcd d of None \<Rightarrow> \<lparr>ServerCertSANs = [], PeerCertSANs = []\<rparr> | Some m \<Rightarrow> m) in
           \<lparr>LocalEtcd = Some
             \<lparr>ServerCertSANs = (if ServerCertSANs l = [] then ServerCertSANs m else ServerCertSANs l),
              PeerCertSANs = (if PeerCertSANs l = [] then PeerCertSANs m else PeerCertSANs l)\<rparr>\<rparr>))"

definition oidc_over :: "OIDCConfiguration \<Rightarrow> OIDCConfiguration \<Rightarrow> OIDCConfiguration" where
  "oidc_over c d =
     \<lparr>Issuer = text_over (Issuer c) (Issuer d), ClientID = text_over (ClientID c) (ClientID d),
      CA = text_over (CA c) (CA d), Username = text_over (Username c) (Username d), Groups = text_over (Groups c) (Groups d)\<rparr>"

definition decoded_over :: "KubicInitConfiguration \<Rightarrow> KubicInitConfiguration \<Rightarrow> KubicInitConfiguration" where
  "decoded_over c d =
     \<lparr>typeMeta = typeMeta c,
      Network = network_over (Network c) (Network d),
      Paths = \<lparr>Kubeadm = text_over (Kubeadm (Paths c)) (Kubeadm (Paths d))\<rparr>,
      ClusterFormation = formation_over (ClusterFormation c) (ClusterFormation d),
      Certificates = \<lparr>Directory = text_over (Directory (Certificates c)) (Directory (Certificates d)),
                      CaHash = text_over (CaHash (Certificates c)) (CaHash (Certificates d))\<rparr>,
      Etcd = etcd_over (Etcd c) (Etcd d),
      Runtime = \<lparr>Engine = text_over (Engine (Runtime c)) (Engine (Runtime d))\<rparr>,
      Features = \<lparr>PSP = (PSP (Features c) \<or> PSP (Features d))\<rparr>,
      Services = Services c,
      Auth = \<lparr>OIDC = oidc_over (OIDC (Auth c)) (OIDC (Auth d))\<rparr>\<rparr>"

text \<open>The YAML library honours the tags.\<close>

definition yaml_library :: "config_deps \<Rightarrow> bool" where
  "yaml_library D \<longleftrightarrow>
     (\<forall>c b d. yaml_marshal D c = Inr b \<longrightarrow> yaml_unmarshal D b d = Inr (Some (decoded_over c d)))"

text \<open>No setting that has a default was emptied.\<close>

definition defaults_not_emptied :: "KubicInitConfiguration \<Rightarrow> bool" where
  "defaults_not_emptied c \<longleftrightarrow>
     (BinDir (Cni (Network c)) \<noteq> [] \<or> ConfDir (Cni (Network c)) \<noteq> [] \<or> Driver (Cni (Network c)) \<noteq> []
        \<or> Image (Cni (Network c)) \<noteq> [])
     \<and> Domain (Dns (Network c)) \<noteq> [] \<and> PodSubnet (Network c) \<noteq> [] \<and> ServiceSubnet (Network c) \<noteq> []
     \<and> Kubeadm (Paths c) \<noteq> [] \<and> Directory (Certificates c) \<noteq> [] \<and> Engine (Runtime c) \<noteq> []
     \<and> (Seeder (ClusterFormation c) \<noteq> [] \<or> Token (ClusterFormation c) \<noteq> [] \<or> AutoApprove (ClusterFormation c))
     \<and> LocalEtcd (Etcd c) \<noteq> None \<and> PSP (Features c)"

lemma text_over_none [simp]: "text_over s [] = s"
  by (simp add: text_over_def)

lemma text_over_some: "s \<noteq> [] \<Longrightarrow> text_over s t = s"
  by (simp add: text_over_def)

lemma network_same: "defaults_not_emptied c \<Longrightarrow> network_over (Network c) (Network defaultConfiguration) = Network c"
  by (rule NetworkConfiguration.equality)
    (auto simp: defaults_not_emptied_def network_over_def cni_over_def defaultConfiguration_def text_over_some)

lemma etcd_same: "LocalEtcd e \<noteq> None \<Longrightarrow> etcd_over e (Etcd defaultConfiguration) = e"
  by (cases e) (auto simp: etcd_over_def defaultConfiguration_def Let_def)

lemma oidc_same: "oidc_over d (OIDC (Auth defaultConfiguration)) = d"
  by (simp add: oidc_over_def defaultConfiguration_def)

lemma formation_same: "defaults_not_emptied c \<Longrightarrow>
    formation_over (ClusterFormation c) (ClusterFormation defaultConfiguration) = ClusterFormation c"
  by (auto simp: defaults_not_emptied_def formation_over_def)

lemma record_eta [simp]:
  fixes p :: PathsConfigration and r :: RuntimeConfiguration and f :: FeaturesConfiguration
    and a :: AuthConfiguration and d :: CertsConfiguration
  shows "\<lparr>Kubeadm = Kubeadm p\<rparr> = p" and "\<lparr>Engine = Engine r\<rparr> = r" and "\<lparr>PSP = PSP f\<rparr> = f"
    and "\<lparr>OIDC = OIDC a\<rparr> = a" and "\<lparr>Directory = Directory d, CaHash = CaHash d\<rparr> = d"
  by (cases p, simp) (cases r, simp, cases f, simp, cases a, simp, cases d, simp)

lemma decoded_same:
  assumes "defaults_not_emptied c"
  shows "decoded_over c defaultConfiguration = c"
proof -
  note parts = assms [unfolded defaults_not_emptied_def]
  have "text_over (CaHash (Certificates c)) (CaHash (Certificates defaultConfiguration)) = CaHash (Certificates c)"
    by (simp add: defaultConfiguration_def)
  moreover have "(PSP (Features c) \<or> b) = PSP (Features c)" for b using parts by simp
  moreover have "etcd_over (Etcd c) (Etcd defaultConfiguration) = Etcd c" using parts etcd_same by blast
  ultimately have "decoded_over c defaultConfiguration =
      \<lparr>typeMeta = typeMeta c, Network = Network c, Paths = Paths c, ClusterFormation = ClusterFormation c,
       Certificates = Certificates c, Etcd = Etcd c, Runtime = Runtime c, Features = Features c,
       Services = Services c, Auth = Auth c\<rparr>"
    using parts network_same [OF assms] formation_same [OF assms]
    by (simp add: decoded_over_def oidc_same text_over_some)
  then show ?thesis by (cases c) simp
qed

lemma decoded_seeder: "settled_seeder (Seeder (ClusterFormation c)) \<Longrightarrow>
    settled_seeder (Seeder (ClusterFormation (decoded_over c defaultConfiguration)))"
  by (simp add: decoded_over_def formation_over_def defaultConfiguration_def settled_seeder_def)

lemma base_of_config: "path_base DefaultKubicInitConfig = ''kubic-init.yaml''"
  by (simp add: DefaultKubicInitConfig_def path_base_def)

lemma log_config_marshalled: "yaml_marshal D c = Inr b \<Longrightarrow> log_config D c = Ok c"
  by (simp add: log_config_def)

lemma load_published:
  assumes "yaml_library D" and "yaml_marshal D c = Inr b" and "settled_seeder (Seeder (ClusterFormation c))"
    and "verbosity D < 8 \<or> \<not> isl (yaml_marshal D (decoded_over c defaultConfiguration))"
    and "p \<noteq> []" and "\<And>h. os_read_file E h p = Inr b" and "\<And>h. os_lookup_env E h ''SEEDER'' = None"
    and "\<And>h. os_lookup_env E h ''TOKEN'' = None"
  shows "fst (run_state (ConfigFileAndDefaultsToKubicInitConfig D E p) w) = Ok (decoded_over c defaultConfiguration)"
proof -
  let ?c = "decoded_over c defaultConfiguration"
  have "yaml_unmarshal D b defaultConfiguration = Inr (Some ?c)"
    using assms(1,2) unfolding yaml_library_def by blast
  then have "run_state (load_file D E p) w =
      (Ok (Some ?c), w\<lparr>history := history w @ [OsStat p, OsReadFile p]\<rparr>)"
    using assms(5,6) by (simp add: load_file_def Stat_def ReadFile_def run_andthen run_wrap_err)
  moreover have "log_config D ?c = Ok ?c"
    using assms(4) by (auto simp: log_config_def glog_V_def isl_def split: sum.split)
  ultimately show ?thesis
    using assms(7,8) normalise_settled [OF decoded_seeder [OF assms(3)]] run_load_config
    by (simp add: overridden_def) (simp add: set_seeder_def)
qed

text \<open>
  C19. What a published configuration is loaded as: \<open>ToConfigMap\<close> makes one call, for a config map whose
  entry \<open>kubic-init.yaml\<close> holds the configuration, and a machine that has this entry as its configuration
  file, and neither environment variable, loads it over the defaults (the seeder being empty or a plain
  \<open>host:port\<close>, as loading leaves it). This is the published configuration when no setting that has a
  default was emptied. Otherwise the default comes back: security policies that were switched off are
  on, a local etcd that was removed is there, and without a seeder and a token the nodes that were not
  to be approved automatically are.
\<close>

theorem published_config_loads:
  assumes "yaml_library D" and "yaml_marshal D c = Inr b"
    and "settled_seeder (Seeder (ClusterFormation c))"
    and "verbosity D < 8 \<or> \<not> isl (yaml_marshal D (decoded_over c defaultConfiguration))"
  shows "\<exists>cm c'. calls_of (ToConfigMap D A c name labels) w = [ApiCreateOrUpdate (OConfigMap cm)]
    \<and> cmMeta cm = \<lparr>metaName = name, metaNamespace = ''kube-system''\<rparr>
    \<and> (\<forall>E p v. p \<noteq> [] \<longrightarrow> (\<forall>h. map_of (cmData cm) ''kubic-init.yaml'' = Some (projr (os_read_file E h p))
          \<and> \<not> isl (os_read_file E h p))
        \<longrightarrow> (\<forall>h. os_lookup_env E h ''SEEDER'' = None \<and> os_lookup_env E h ''TOKEN'' = None)
        \<longrightarrow> fst (run_state (ConfigFileAndDefaultsToKubicInitConfig D E p) v) = Ok c')
    \<and> c' = decoded_over c defaultConfiguration
    \<and> (defaults_not_emptied c \<longrightarrow> c' = c)
    \<and> PSP (Features c') \<and> LocalEtcd (Etcd c') \<noteq> None
    \<and> (Seeder (ClusterFormation c) = [] \<longrightarrow> Token (ClusterFormation c) = [] \<longrightarrow> AutoApprove (ClusterFormation c'))"
proof (intro exI conjI allI impI)
  let ?cm = "\<lparr>cmMeta = \<lparr>metaName = name, metaNamespace = NamespaceSystem\<rparr>, cmLabels = labels,
              cmData = [(''kubic-init.yaml'', b)]\<rparr>"
  let ?c = "decoded_over c defaultConfiguration"
  show "calls_of (ToConfigMap D A c name labels) w = [ApiCreateOrUpdate (OConfigMap ?cm)]"
    by (simp add: calls_of_def ToConfigMap_def CreateOrUpdateConfigMap_def base_of_config assms(2) Let_def run_andthen)
  show "cmMeta ?cm = \<lparr>metaName = name, metaNamespace = ''kube-system''\<rparr>" by (simp add: NamespaceSystem_def)
  show "fst (run_state (ConfigFileAndDefaultsToKubicInitConfig D E p) v) = Ok ?c"
    if "p \<noteq> []" and "\<forall>h. map_of (cmData ?cm) ''kubic-init.yaml'' = Some (projr (os_read_file E h p))
        \<and> \<not> isl (os_read_file E h p)"
      and "\<forall>h. os_lookup_env E h ''SEEDER'' = None \<and> os_lookup_env E h ''TOKEN'' = None" for E p v
  proof (rule load_published [OF assms that(1)])
    show "os_read_file E h p = Inr b" for h
      using spec [OF that(2), of h] by (cases "os_read_file E h p") auto
  qed (use that(3) in simp_all)
  show "?c = c" if "defaults_not_emptied c" using that by (rule decoded_same)
qed (auto simp: decoded_over_def etcd_over_def formation_over_def defaultConfiguration_def Let_def split: option.split)

section \<open>IPv6\<close>

definition ip6_char :: "char \<Rightarrow> bool" where
  "ip6_char c \<longleftrightarrow> unhex c \<noteq> None \<or> c = CHR '':''"

lemma ip6_char_ok:
  "ip6_char c \<Longrightarrow> \<not> shouldEscape_host c \<and> c \<notin> {CHR ''%'', CHR '']'', CHR ''['', CHR ''@'', CHR ''/'', CHR ''?'', CHR ''#''}"
  by (auto simp: ip6_char_def unhex_def shouldEscape_host_def is_alpha_def is_digit_def in_range_def byte_def
      split: if_splits)

definition digit_port :: "string \<Rightarrow> bool" where
  "digit_port s \<longleftrightarrow> s = [] \<or> hd s = CHR '':'' \<and> list_all is_digit (tl s)"

lemma digit_not: "is_digit c \<Longrightarrow> \<not> shouldEscape_host c \<and>
    c \<notin> {CHR ''%'', CHR '']'', CHR ''['', CHR ''@'', CHR ''/'', CHR ''?'', CHR ''#''}"
  by (auto simp: shouldEscape_host_def is_digit_def in_range_def byte_def)

lemma digit_port_chars:
  "digit_port s \<Longrightarrow> list_all (\<lambda>c. \<not> shouldEscape_host c \<and>
    c \<notin> {CHR ''%'', CHR '']'', CHR ''['', CHR ''@'', CHR ''/'', CHR ''?'', CHR ''#''}) s"
  using colon_not_escaped digit_not by (cases s) (auto simp: digit_port_def list_all_iff)

lemma ip6_notin:
  assumes "list_all ip6_char h" and "c \<in> {CHR ''%'', CHR '']'', CHR ''['', CHR ''@'', CHR ''/'', CHR ''?'', CHR ''#''}"
  shows "c \<notin> set h"
proof
  assume "c \<in> set h"
  then have "ip6_char c" using assms(1) by (simp add: list_all_iff)
  then show False using ip6_char_ok assms(2) by blast
qed

lemma digit_port_notin:
  assumes "digit_port s" and "c \<in> {CHR ''%'', CHR '']'', CHR ''['', CHR ''@'', CHR ''/'', CHR ''?'', CHR ''#''}"
  shows "c \<notin> set s"
proof
  assume "c \<in> set s"
  then show False using digit_port_chars [OF assms(1)] assms(2) unfolding list_all_iff by blast
qed

text \<open>A bracketed address is a host for \<open>url.Parse\<close>, brackets included.\<close>

lemma parseAuthority_ip6:
  assumes "list_all ip6_char h" and "digit_port s"
  shows "parseAuthority (''['' @ h @ '']'' @ s) = Inr (''['' @ h @ '']'' @ s)"
proof -
  let ?a = "''['' @ h @ '']'' @ s"
  note no = ip6_notin [OF assms(1)] digit_port_notin [OF assms(2)]
  have "CHR ''@'' \<notin> set ?a" using no by simp
  then have at: "last_index_byte ?a (CHR ''@'') = None" by (simp only: last_index_byte_None not_False_eq_True)
  have last: "last_index_byte ?a (CHR '']'') = Some (Suc (length h))"
    using last_index_byte_app [of "CHR '']''" s "CHR ''['' # h"] no by simp
  have port: "validOptionalPort (drop (Suc (length h) + 1) ?a)"
    using assms(2) by (simp add: validOptionalPort_def digit_port_def)
  have "CHR ''%'' \<notin> set (take (Suc (length h)) ?a)" using no by simp
  then have zone: "str_index (take (Suc (length h)) ?a) ''%25'' = None" by (rule str_index_sub_None)
  have "list_all (\<lambda>c. \<not> shouldEscape_host c \<and> c \<noteq> CHR ''%'') h"
    using assms(1) ip6_char_ok unfolding list_all_iff by blast
  moreover have "list_all (\<lambda>c. \<not> shouldEscape_host c \<and> c \<noteq> CHR ''%'') s"
    using digit_port_chars [OF assms(2)] unfolding list_all_iff by blast
  ultimately have "url_unescape encodeHost ?a = Inr ?a"
    by (intro url_unescape_host) (simp add: shouldEscape_host_def byte_def)
  then show ?thesis
    unfolding parseAuthority_def parseHost_def at using last port zone by (simp add: has_prefix_def)
qed

text \<open>Reading the parts of such a host drops the brackets.\<close>

lemma str_index_past:
  "CHR '']'' \<notin> set x \<Longrightarrow> str_index (x @ y) '']:'' = map_option ((+) (length x)) (str_index y '']:'')"
proof (induction x)
  case Nil
  then show ?case by (simp add: option.map_ident)
next
  case (Cons c x)
  then show ?case by (auto simp: option.map_comp comp_def)
qed

lemma ip6_parts:
  assumes "list_all ip6_char h" and "CHR '':'' \<in> set h" and "digit_port s"
    and "urlHost u = ''['' @ h @ '']'' @ s"
  shows "Hostname u = h" and "Port u = tl s"
proof -
  let ?a = "''['' @ h @ '']'' @ s"
  have nb: "CHR '']'' \<notin> set h" "CHR '']'' \<notin> set s"
    using ip6_notin [OF assms(1)] digit_port_notin [OF assms(3)] by simp_all
  obtain colon where colon: "str_index ?a '':'' = Some colon"
    using assms(2) str_index_byte_None [of ?a "CHR '':''"] by (cases "str_index ?a '':''") auto
  have close: "str_index ?a '']'' = Some (Suc (length h))"
    using str_index_byte_app [of "CHR '']''" "CHR ''['' # h" s] nb by simp
  show "Hostname u = h"
    unfolding Hostname_def assms(4) Let_def colon close option.case by (simp add: has_prefix_def)
  have "str_index ?a '']:'' = (if s = [] then None else Some (Suc (length h)))"
    using str_index_past [of "''['' @ h" "'']'' @ s"] nb assms(3)
    by (cases s) (simp_all add: digit_port_def)
  then show "Port u = tl s"
    unfolding Port_def assms(4) Let_def colon option.case by (cases s) (simp_all add: contains_byte_def)
qed

text \<open>
  A seeder given by its IPv6 address loses the brackets: the loader stores the address, a colon and the
  port, and this is no address any more.
\<close>

lemma seeder_ip6_unbracketed:
  assumes "list_all ip6_char h" and "CHR '':'' \<in> set h" and "digit_port s"
    and "pre = [] \<or> pre = ''http://'' \<or> pre = ''https://''"
  shows "normalise_seeder (pre @ ''['' @ h @ '']'' @ s) = Inr (h @ '':'' @ addr_port s)"
proof -
  let ?a = "''['' @ h @ '']'' @ s"
  have "\<not> has_prefix ?a ''http''" by (simp add: has_prefix_def)
  then obtain scheme where scheme: "scheme = ''http'' \<or> scheme = ''https''"
    and eq: "(if \<not> has_prefix (pre @ ?a) ''http'' then ''https://'' @ (pre @ ?a) else pre @ ?a) = scheme @ ''://'' @ ?a"
    by (rule seeder_scheme [OF _ assms(4)])
  have no: "CHR ''#'' \<notin> set ?a" "CHR ''?'' \<notin> set ?a" "CHR ''/'' \<notin> set ?a"
    using ip6_notin [OF assms(1)] digit_port_notin [OF assms(3)] by simp_all
  obtain u where u: "Parse (scheme @ ''://'' @ ?a) = Inr u" "urlHost u = ?a"
    using Parse_host [OF parseAuthority_ip6 [OF assms(1,3)] no scheme] by blast
  have "normalise_seeder (pre @ ?a) =
      Inr (h @ '':'' @ (if length (tl s) = 0 then dec_str DefaultAPIServerPort else tl s))"
    unfolding normalise_seeder_def Let_def eq u(1) using ip6_parts [OF assms(1-3) u(2)] by simp
  then show ?thesis by (cases s) (auto simp: addr_port_def dec_str_port)
qed

text \<open>
  C23. A seeder given as an IPv6 address cannot be joined: with or without a scheme and a port, the loader
  drops the brackets and gives \<open>address:port\<close>, in which the port is no longer marked off; this is the
  address that kubeadm is told to contact.
\<close>

theorem seeder_ip6_loses_brackets:
  assumes "list_all ip6_char h" and "CHR '':'' \<in> set h" and "digit_port s"
    and "pre = [] \<or> pre = ''http://'' \<or> pre = ''https://''"
    and "run_state (load_file D E file) w = (Ok (Some c), w0)"
    and "Seeder (ClusterFormation (overridden E (history w0) c)) = pre @ ''['' @ h @ '']'' @ s"
    and "verbosity D < 8"
  shows "\<exists>c' w'. run_state (ConfigFileAndDefaultsToKubicInitConfig D E file) w = (Ok c', w')
    \<and> APIServerEndpoint (join_discovery c') = h @ '':'' @ addr_port s"
  using seeder_ip6_unbracketed [OF assms(1-4)] assms(6,7) run_load_config [OF assms(5)]
  by (simp add: log_config_def glog_V_def join_discovery_def)

section \<open>Concrete configurations\<close>

text \<open>A YAML library that knows two configurations: the default one, and the default one without policies.\<close>

definition no_psp :: KubicInitConfiguration where
  "no_psp = defaultConfiguration\<lparr>Features := \<lparr>PSP = False\<rparr>\<rparr>"

definition two_configs :: config_deps where
  "two_configs = demo_deps
     \<lparr>yaml_marshal := \<lambda>c. if PSP (Features c) \<and> c = defaultConfiguration then Inr ''kubic''
        else if \<not> PSP (Features c) \<and> c = no_psp then Inr ''nopsp'' else Inl (Plain ''unknown''),
      yaml_unmarshal := \<lambda>b d. if b = ''kubic'' then Inr (Some (decoded_over defaultConfiguration d))
        else if b = ''nopsp'' then Inr (Some (decoded_over no_psp d)) else Inl (Plain ''unknown'')\<rparr>"

definition mounted :: os_env where
  "mounted = demo_os\<lparr>os_read_file := \<lambda>_ p. Inr ''nopsp'', os_lookup_env := \<lambda>_ _. None\<rparr>"

theorem published_config_loads_witness:
  "\<exists>c'. fst (run_state (ConfigFileAndDefaultsToKubicInitConfig two_configs mounted ''/etc/kubic/kubic-init.yaml'') demo_world) =
       Ok c' \<and> \<not> PSP (Features no_psp) \<and> PSP (Features c')"
proof -
  have lib: "yaml_library two_configs" by (auto simp: yaml_library_def two_configs_def)
  have m: "yaml_marshal two_configs no_psp = Inr ''nopsp''" by (simp add: two_configs_def no_psp_def)
  have s: "settled_seeder (Seeder (ClusterFormation no_psp))"
    by (simp add: settled_seeder_def no_psp_def defaultConfiguration_def)
  have "decoded_over no_psp defaultConfiguration = defaultConfiguration"
    by (simp add: decoded_over_def network_over_def cni_over_def formation_over_def etcd_over_def
      oidc_over_def text_over_def no_psp_def defaultConfiguration_def)
  then have v: "verbosity two_configs < 8 \<or> \<not> isl (yaml_marshal two_configs (decoded_over no_psp defaultConfiguration))"
    by (simp add: two_configs_def defaultConfiguration_def)
  obtain cm c' where cm: "calls_of (ToConfigMap two_configs demo_api no_psp ''kubic'' []) demo_world =
      [ApiCreateOrUpdate (OConfigMap cm)]"
    and loads: "\<forall>E p v. p \<noteq> [] \<longrightarrow> (\<forall>h. map_of (cmData cm) ''kubic-init.yaml'' = Some (projr (os_read_file E h p))
          \<and> \<not> isl (os_read_file E h p))
        \<longrightarrow> (\<forall>h. os_lookup_env E h ''SEEDER'' = None \<and> os_lookup_env E h ''TOKEN'' = None)
        \<longrightarrow> fst (run_state (ConfigFileAndDefaultsToKubicInitConfig two_configs E p) v) = Ok c'"
    and psp: "PSP (Features c')"
    using published_config_loads [OF lib m s v, of demo_api "''kubic''" "[]" demo_world] by blast
  have "map_of (cmData cm) ''kubic-init.yaml'' = Some ''nopsp''"
    using cm by (auto simp: calls_of_def ToConfigMap_def CreateOrUpdateConfigMap_def base_of_config m Let_def run_andthen)
  then show ?thesis using loads psp by (intro exI [of _ c']) (simp add: mounted_def no_psp_def)
qed

theorem seeder_ip6_loses_brackets_witness:
  "\<exists>c' w'. run_state (ConfigFileAndDefaultsToKubicInitConfig demo_deps
       (demo_os\<lparr>os_lookup_env := \<lambda>_ v. if v = ''SEEDER'' then Some ''[fd00::1]:7443'' else None\<rparr>) []) demo_world = (Ok c', w')
     \<and> APIServerEndpoint (join_discovery c') = ''fd00::1:7443''"
proof -
  let ?E = "demo_os\<lparr>os_lookup_env := \<lambda>_ v. if v = ''SEEDER'' then Some ''[fd00::1]:7443'' else None\<rparr>"
  have h: "list_all ip6_char ''fd00::1''" "digit_port '':7443''"
    by (simp_all add: ip6_char_def unhex_def is_digit_def digit_port_def in_range_def byte_def)
  have load: "run_state (load_file demo_deps ?E []) demo_world = (Ok (Some defaultConfiguration), demo_world)"
    by (simp add: load_file_def)
  have sd: "Seeder (ClusterFormation (overridden ?E (history demo_world) defaultConfiguration)) =
      [] @ ''['' @ ''fd00::1'' @ '']'' @ '':7443''"
    by (simp add: overridden_def)
  show ?thesis
    using seeder_ip6_loses_brackets [OF h(1) _ h(2) _ load sd] by (simp add: addr_port_def)
qed

end
