(* ===== verification/Go_IP.thy ===== *)
theory Go_IP
  imports Go_URL
begin

text \<open>
  Go's \<open>net.ParseIP\<close> as the configuration uses it for the bind address, following the library of
  Go 1.11 (leading zeros in an octet are accepted there), and the predicates of \<open>net.IP\<close> that
  \<open>utilnet.ChooseBindAddress\<close> documents. A \<open>net.IP\<close> is a byte slice: \<open>None\<close> is the nil slice,
  \<open>Some bs\<close> its bytes, 16 of them in a parsed address.
\<close>

section \<open>Numbers\<close>

text \<open>
  The loop of \<open>dtoi\<close> and \<open>xtoi\<close>: digits are read as long as there are any, and a number that reaches
  \<open>big\<close> is refused at once, so that the machine integer cannot overflow.
\<close>

definition big :: nat where
  "big = 0xFFFFFF"

definition dec_digit :: "char \<Rightarrow> nat option" where
  "dec_digit c = (if is_digit c then Some (byte c - 48) else None)"

fun digits_loop :: "nat \<Rightarrow> (char \<Rightarrow> nat option) \<Rightarrow> nat \<Rightarrow> string \<Rightarrow> (nat \<times> string) option" where
  "digits_loop radix digit n [] = Some (n, [])"
| "digits_loop radix digit n (c # s) =
     (case digit c of
        None \<Rightarrow> Some (n, c # s)
      | Some k \<Rightarrow>
          (if big \<le> n * radix + k then None else digits_loop radix digit (n * radix + k) s))"

definition read_number :: "nat \<Rightarrow> (char \<Rightarrow> nat option) \<Rightarrow> string \<Rightarrow> (nat \<times> string) option" where
  "read_number radix digit s =
     (case s of
        [] \<Rightarrow> None
      | c # _ \<Rightarrow> (if digit c = None then None else digits_loop radix digit 0 s))"

definition dtoi :: "string \<Rightarrow> (nat \<times> string) option" where
  "dtoi = read_number 10 dec_digit"

definition xtoi :: "string \<Rightarrow> (nat \<times> string) option" where
  "xtoi = read_number 16 unhex"

section \<open>Addresses\<close>

type_synonym ip = "string option"

text \<open>An IPv4 address in its 16-byte form.\<close>

definition v4InV6Prefix :: string where
  "v4InV6Prefix = replicate 10 (char_of (0 :: nat)) @ replicate 2 (char_of (255 :: nat))"

definition IPv4 :: "string \<Rightarrow> string" where
  "IPv4 bs = v4InV6Prefix @ bs"

text \<open>The octets still to come, each but the first after a dot.\<close>

fun ipv4_octets :: "bool \<Rightarrow> nat \<Rightarrow> string \<Rightarrow> string option" where
  "ipv4_octets first 0 s = (if s = [] then Some [] else None)"
| "ipv4_octets first (Suc k) s =
     (case (if first then Some s
            else (case s of [] \<Rightarrow> None | c # t \<Rightarrow> (if c = CHR ''.'' then Some t else None))) of
        None \<Rightarrow> None
      | Some t \<Rightarrow>
          (case dtoi t of
             None \<Rightarrow> None
           | Some (n, rest) \<Rightarrow>
               (if 255 < n then None
                else map_option ((#) (char_of n)) (ipv4_octets False k rest))))"

definition parseIPv4 :: "string \<Rightarrow> ip" where
  "parseIPv4 s = map_option IPv4 (ipv4_octets True 4 s)"

text \<open>
  The loop of \<open>parseIPv6\<close>: the bytes written so far, the position of the ellipsis, and the rest of the
  text. A group is two bytes; a dotted address may take the place of the last two groups.
\<close>

function ipv6_loop :: "string \<Rightarrow> nat option \<Rightarrow> string \<Rightarrow> (string \<times> nat option \<times> string) option" where
  "ipv6_loop bs ellipsis s =
     (if 16 \<le> length bs then Some (bs, ellipsis, s)
      else
        (case xtoi s of
           None \<Rightarrow> None
         | Some (n, rest) \<Rightarrow>
             if 0xFFFF < n then None
             else if has_prefix rest ''.'' then
               (if ellipsis = None \<and> length bs \<noteq> 12 then None
                else if 16 < length bs + 4 then None
                else map_option (\<lambda>ip4. (bs @ drop 12 ip4, ellipsis, [])) (parseIPv4 s))
             else
               (let bs' = bs @ [char_of (n div 256), char_of n] in
                (case rest of
                   [] \<Rightarrow> Some (bs', ellipsis, [])
                 | [_] \<Rightarrow> None
                 | c # d # t \<Rightarrow>
                     (if c \<noteq> CHR '':'' then None
                      else if d = CHR '':'' then
                        (if ellipsis \<noteq> None then None
                         else if t = [] then Some (bs', Some (length bs'), [])
                         else ipv6_loop bs' (Some (length bs')) t)
                      else ipv6_loop bs' ellipsis (d # t))))))"
  by pat_completeness auto
termination
  by (relation "measure (\<lambda>(bs, e, s). 16 - length bs)") auto

declare ipv6_loop.simps [simp del]

definition parseIPv6 :: "string \<Rightarrow> ip" where
  "parseIPv6 s =
     (let lead = has_prefix s ''::'';
          ellipsis = (if lead then Some 0 else None);
          t = (if lead then drop 2 s else s) in
      if lead \<and> t = [] then Some (replicate 16 (char_of (0 :: nat)))
      else
        (case ipv6_loop [] ellipsis t of
           None \<Rightarrow> None
         | Some (bs, e, rest) \<Rightarrow>
             (if rest \<noteq> [] then None
              else if length bs < 16 then
                (case e of
                   None \<Rightarrow> None
                 | Some k \<Rightarrow> Some (take k bs @ replicate (16 - length bs) (char_of (0 :: nat)) @ drop k bs))
              else if e \<noteq> None then None
              else Some bs)))"

text \<open>The first dot or colon decides how the address is read.\<close>

definition ParseIP :: "string \<Rightarrow> ip" where
  "ParseIP s =
     (case find (\<lambda>c. c = CHR ''.'' \<or> c = CHR '':'') s of
        None \<Rightarrow> None
      | Some c \<Rightarrow> (if c = CHR ''.'' then parseIPv4 s else parseIPv6 s))"

definition IsUnspecified :: "string \<Rightarrow> bool" where
  "IsUnspecified bs \<longleftrightarrow>
     bs = IPv4 (replicate 4 (char_of (0 :: nat))) \<or> bs = replicate 4 (char_of (0 :: nat))
     \<or> bs = replicate 16 (char_of (0 :: nat))"

definition IsLoopback :: "string \<Rightarrow> bool" where
  "IsLoopback bs \<longleftrightarrow>
     (length bs = 4 \<and> byte (bs ! 0) = 127)
     \<or> (length bs = 16 \<and> take 12 bs = v4InV6Prefix \<and> byte (bs ! 12) = 127)
     \<or> bs = replicate 15 (char_of (0 :: nat)) @ [char_of (1 :: nat)]"

section \<open>Reading back a printed number\<close>

lemma digit_char_value: "d < 10 \<Longrightarrow> dec_digit (digit_char d) = Some d"
proof -
  assume "d < 10"
  then have "d \<in> {0, 1, 2, 3, 4, 5, 6, 7, 8, 9}" by auto
  then show ?thesis by (auto simp: dec_digit_def is_digit_def in_range_def digit_char_def byte_def)
qed

lemma dec_digit_dot: "dec_digit (CHR ''.'') = None"
  by (simp add: dec_digit_def is_digit_def in_range_def byte_def)

lemma digits_loop_dec_str:
  "digits_loop 10 dec_digit 0 (dec_str n @ rest) =
     (if n < big then digits_loop 10 dec_digit n rest else None)"
proof (induction n arbitrary: rest rule: dec_str.induct)
  case (1 n)
  show ?case
  proof (cases "n < 10")
    case True
    then show ?thesis by (subst dec_str.simps) (simp add: digit_char_value big_def)
  next
    case False
    have "dec_str n = dec_str (n div 10) @ [digit_char (n mod 10)]"
      using False by (subst dec_str.simps) simp
    moreover have "(n div 10) * 10 + n mod 10 = n" by simp
    moreover have "n div 10 < big" if "n < big" using that by (simp add: less_mult_imp_div_less)
    ultimately show ?thesis
      using 1 [OF False, of "digit_char (n mod 10) # rest"] by (auto simp: digit_char_value)
  qed
qed

lemma dec_str_hd: "\<exists>d s. d < 10 \<and> dec_str n = digit_char d # s"
proof (induction n rule: dec_str.induct)
  case (1 n)
  then show ?case by (subst dec_str.simps) (cases "n < 10", auto)
qed

lemma dtoi_dec_str:
  assumes "rest = [] \<or> dec_digit (hd rest) = None"
  shows "dtoi (dec_str n @ rest) = (if n < big then Some (n, rest) else None)"
proof -
  obtain d s where "d < 10" and ds: "dec_str n = digit_char d # s" using dec_str_hd by blast
  then have "dtoi (dec_str n @ rest) = digits_loop 10 dec_digit 0 (dec_str n @ rest)"
    by (simp add: dtoi_def read_number_def digit_char_value del: digits_loop.simps)
  then show ?thesis using assms digits_loop_dec_str [of n rest] by (cases rest) auto
qed

section \<open>Dotted addresses\<close>

text \<open>The usual notation of an IPv4 address, for arbitrary numbers.\<close>

definition dotted :: "nat list \<Rightarrow> string" where
  "dotted ns = str_join (map dec_str ns) ''.''"

lemma ipv4_octets_dotted:
  "ipv4_octets False (length ns) (concat (map (\<lambda>n. CHR ''.'' # dec_str n) ns)) =
     (if list_all (\<lambda>n. n \<le> 255) ns then Some (map char_of ns) else None)"
proof (induction ns)
  case (Cons n ns)
  let ?rest = "concat (map (\<lambda>n. CHR ''.'' # dec_str n) ns)"
  have "?rest = [] \<or> dec_digit (hd ?rest) = None" by (cases ns) (simp_all add: dec_digit_dot)
  then show ?case using Cons by (auto simp: dtoi_dec_str big_def)
qed simp

lemma dotted_Cons: "dotted (n # ns) = dec_str n @ concat (map (\<lambda>n. CHR ''.'' # dec_str n) ns)"
  by (induction ns arbitrary: n) (simp_all add: dotted_def)

lemma ipv4_octets_first: "ipv4_octets True (Suc k) s = ipv4_octets False (Suc k) (CHR ''.'' # s)"
  by simp

lemma parseIPv4_dotted:
  assumes "length ns = 4"
  shows "parseIPv4 (dotted ns) = (if list_all (\<lambda>n. n \<le> 255) ns then Some (IPv4 (map char_of ns)) else None)"
proof -
  obtain n ms where ns: "ns = n # ms" using assms by (cases ns) auto
  then have "CHR ''.'' # dotted ns = concat (map (\<lambda>n. CHR ''.'' # dec_str n) ns)" by (simp add: dotted_Cons)
  then have "ipv4_octets True 4 (dotted ns) = (if list_all (\<lambda>n. n \<le> 255) ns then Some (map char_of ns) else None)"
    using ipv4_octets_dotted [of ns] ipv4_octets_first [of 3 "dotted ns"] assms by (simp del: ipv4_octets.simps)
  then show ?thesis by (simp add: parseIPv4_def)
qed

lemma digit_char_not_sep: "d < 10 \<Longrightarrow> digit_char d \<noteq> CHR ''.'' \<and> digit_char d \<noteq> CHR '':''"
  using dec_digit_dot digit_char_value [of d]
  by (auto simp: dec_digit_def is_digit_def in_range_def byte_def)

lemma find_dec_str:
  "find (\<lambda>c. c = CHR ''.'' \<or> c = CHR '':'') (dec_str n @ s) = find (\<lambda>c. c = CHR ''.'' \<or> c = CHR '':'') s"
proof (induction n arbitrary: s rule: dec_str.induct)
  case (1 n)
  show ?case
  proof (cases "n < 10")
    case True
    then show ?thesis by (subst dec_str.simps) (simp add: digit_char_not_sep)
  next
    case False
    then have "dec_str n = dec_str (n div 10) @ [digit_char (n mod 10)]" by (subst dec_str.simps) simp
    then show ?thesis using 1 [OF False] by (simp add: digit_char_not_sep)
  qed
qed

lemma ParseIP_dotted:
  assumes "length ns = 4"
  shows "ParseIP (dotted ns) = (if list_all (\<lambda>n. n \<le> 255) ns then Some (IPv4 (map char_of ns)) else None)"
proof -
  obtain n m ms where "ns = n # m # ms" using assms by (cases ns rule: list.exhaust; cases "tl ns") auto
  then have "find (\<lambda>c. c = CHR ''.'' \<or> c = CHR '':'') (dotted ns) = Some (CHR ''.'')"
    by (simp add: dotted_Cons find_dec_str)
  then show ?thesis using parseIPv4_dotted [OF assms] by (simp add: ParseIP_def)
qed

section \<open>Length of a parsed address\<close>

lemma ipv4_octets_length: "ipv4_octets first k s = Some bs \<Longrightarrow> length bs = k"
  by (induction first k s arbitrary: bs rule: ipv4_octets.induct) (auto split: option.splits if_splits list.splits)

lemma IPv4_length [simp]: "length (IPv4 bs) = 12 + length bs"
  by (simp add: IPv4_def v4InV6Prefix_def)

lemma parseIPv4_length: "parseIPv4 s = Some bs \<Longrightarrow> length bs = 16"
  by (auto simp: parseIPv4_def dest: ipv4_octets_length)

text \<open>How the loop goes on after a group that is not the start of a dotted address.\<close>

lemma ipv6_loop_group:
  assumes "ipv6_loop bs e s = Some (bs', e', rest)" and "\<not> 16 \<le> length bs"
    and "xtoi s = Some (n, s')" and "n \<le> 0xFFFF" and "\<not> has_prefix s' ''.''"
    and "bs2 = bs @ [char_of (n div 256), char_of n]"
  obtains (last) "s' = []" "bs' = bs2" "e' = e"
    | (ellipsis_last) c d t where "s' = c # d # t" "c = CHR '':''" "d = CHR '':''" "t = []" "bs' = bs2" "e' = Some (length bs2)"
    | (ellipsis) c d t where "s' = c # d # t" "c = CHR '':''" "d = CHR '':''" "e = None" "t \<noteq> []"
        "ipv6_loop bs2 (Some (length bs2)) t = Some (bs', e', rest)"
    | (group) c d t where "s' = c # d # t" "c = CHR '':''" "d \<noteq> CHR '':''"
        "ipv6_loop bs2 e (d # t) = Some (bs', e', rest)"
  using assms by (subst (asm) ipv6_loop.simps) (auto simp: Let_def split: list.splits if_splits)

lemma ipv6_loop_bounds:
  assumes "ipv6_loop bs e s = Some (bs', e', rest)" and "even (length bs)" and "length bs \<le> 16"
    and "\<And>k. e = Some k \<Longrightarrow> k \<le> length bs"
  shows "length bs' \<le> 16 \<and> (\<forall>k. e' = Some k \<longrightarrow> k \<le> length bs')"
  using assms
proof (induction bs e s arbitrary: bs' e' rest rule: ipv6_loop.induct)
  case (1 bs e s)
  show ?case
  proof (cases "16 \<le> length bs")
    case True
    then show ?thesis using 1(3-6) by (simp add: ipv6_loop.simps)
  next
    case False
    then have lt: "length bs + 2 \<le> 16" using 1(4) by (cases "length bs = 15") auto
    obtain n s' where x: "xtoi s = Some (n, s')" "n \<le> 0xFFFF"
      using 1(3) False by (subst (asm) ipv6_loop.simps) (auto split: option.splits if_splits)
    show ?thesis
    proof (cases "has_prefix s' ''.''")
      case True
      then show ?thesis
        using 1(3,6) False x
        by (subst (asm) ipv6_loop.simps) (auto dest!: parseIPv4_length split: if_splits)
    next
      case nodot: False
      let ?bs = "bs @ [char_of (n div 256), char_of n]"
      have len: "even (length ?bs)" "length ?bs \<le> 16" using 1(4) lt by auto
      have k: "k \<le> length ?bs" if "e = Some k" for k using 1(6) [OF that] by simp
      from 1(3) False x nodot refl show ?thesis
      proof (cases rule: ipv6_loop_group)
        case last
        then show ?thesis using len k by auto
      next
        case ellipsis_last
        then show ?thesis using len by auto
      next
        case ellipsis
        show ?thesis
          by (rule "1.IH"(1) [OF False x(1) refl _ nodot refl ellipsis(1) refl _ _ _ _ ellipsis(6)])
            (use ellipsis x len in auto)
      next
        case group
        show ?thesis
          by (rule "1.IH"(2) [OF False x(1) refl _ nodot refl group(1) refl _ _ group(4)])
            (use group x len k in auto)
      qed
    qed
  qed
qed


lemma ParseIP_length: "ParseIP s = Some bs \<Longrightarrow> length bs = 16"
proof -
  assume "ParseIP s = Some bs"
  then consider "parseIPv4 s = Some bs" | "parseIPv6 s = Some bs"
    by (auto simp: ParseIP_def split: option.splits if_splits)
  then show ?thesis
  proof cases
    case 1
    then show ?thesis by (rule parseIPv4_length)
  next
    case 2
    show ?thesis
    proof (cases "has_prefix s ''::'' \<and> drop 2 s = []")
      case True
      then show ?thesis using 2 by (auto simp: parseIPv6_def)
    next
      case False
      define e where "e = (if has_prefix s ''::'' then Some (0 :: nat) else None)"
      define t where "t = (if has_prefix s ''::'' then drop 2 s else s)"
      obtain bs' e' rest where l: "ipv6_loop [] e t = Some (bs', e', rest)"
        using 2 False by (auto simp: parseIPv6_def Let_def e_def t_def split: option.splits if_splits)
      have "length bs' \<le> 16 \<and> (\<forall>k. e' = Some k \<longrightarrow> k \<le> length bs')"
        by (rule ipv6_loop_bounds [OF l]) (auto simp: e_def split: if_splits)
      then show ?thesis
        using 2 False l by (auto simp: parseIPv6_def Let_def e_def t_def split: option.splits if_splits)
    qed
  qed
qed

end
