(* ===== verification/Bind_Address.thy ===== *)
theory Bind_Address
  imports Config_Ops Go_IP
begin

text \<open>
  The address the node binds to: \<open>GetBindIP\<close> of pkg/config/config.go. \<open>utilnet.ChooseBindAddress\<close> is a
  parameter; its documented behaviour is the predicate \<open>chooses_bind_address\<close>.
\<close>

definition ChooseBindAddress :: "(call list \<Rightarrow> ip \<Rightarrow> goerr + ip) \<Rightarrow> ip \<Rightarrow> (world, ip outcome) state" where
  "ChooseBindAddress pick ip = perform (\<lambda>h. of_sum (pick h ip)) (NetChooseBindAddress ip)"

definition GetBindIP :: "(call list \<Rightarrow> ip \<Rightarrow> goerr + ip) \<Rightarrow> KubicInitConfiguration \<Rightarrow> (world, ip outcome) state" where
  "GetBindIP pick c =
     (if 0 < length (Interface (Bind (Network c))) then ret (Ok (Some []))
      else
        (let defaultAddrStr =
               (if 0 < length (Address (Bind (Network c))) then Address (Bind (Network c)) else ''0.0.0.0'');
             defaultAddr = ParseIP defaultAddrStr
         in ChooseBindAddress pick defaultAddr))"

text \<open>
  The address itself when it can be bound to, and otherwise (no address, the unspecified one, a
  loopback address) the address of the host interface.
\<close>

definition chooses_bind_address :: "(call list \<Rightarrow> goerr + ip) \<Rightarrow> (call list \<Rightarrow> ip \<Rightarrow> goerr + ip) \<Rightarrow> bool" where
  "chooses_bind_address host pick \<longleftrightarrow>
     (\<forall>h a. pick h a =
       (case a of
          None \<Rightarrow> host h
        | Some bs \<Rightarrow> (if IsUnspecified bs \<or> IsLoopback bs then host h else Inr a)))"

lemma replicate_4: "replicate 4 x = [x, x, x, x]"
  by (simp add: numeral_eq_Suc)

lemma IPv4_neq_zeros: "IPv4 bs \<noteq> replicate 16 (char_of (0 :: nat))"
proof
  assume "IPv4 bs = replicate 16 (char_of (0 :: nat))"
  then have "IPv4 bs ! 10 = replicate 16 (char_of (0 :: nat)) ! 10" by simp
  moreover have "IPv4 bs ! 10 = char_of (255 :: nat)" by (simp add: IPv4_def v4InV6Prefix_def nth_append)
  ultimately show False by simp
qed

lemma IPv4_unspecified:
  fixes ns :: "nat list"
  assumes "length ns = 4" and "list_all (\<lambda>n. n \<le> 255) ns"
  shows "IsUnspecified (IPv4 (map char_of ns)) \<longleftrightarrow> ns = [0, 0, 0, 0]"
proof -
  have eq: "map char_of ns = replicate 4 (char_of (0 :: nat)) \<longleftrightarrow> ns = [0, 0, 0, 0]"
  proof
    assume *: "map char_of ns = replicate 4 (char_of (0 :: nat))"
    have "map (\<lambda>n. n mod 256) ns = map of_char (map char_of ns :: string)" by simp
    also have "\<dots> = [0, 0, 0, 0]" unfolding * replicate_4 by simp
    finally have "map (\<lambda>n. n mod 256) ns = [0, 0, 0, 0]" .
    moreover have "map (\<lambda>n. n mod 256) ns = ns"
      using assms(2) by (intro map_idI) (auto simp: list_all_iff)
    ultimately show "ns = [0, 0, 0, 0]" by simp
  qed (simp add: replicate_4)
  have "IPv4 (map char_of ns) \<noteq> replicate 4 (char_of (0 :: nat))"
    using assms(1) by (auto dest: arg_cong [of _ _ length])
  then show ?thesis using eq IPv4_neq_zeros [of "map char_of ns"] by (simp add: IsUnspecified_def) (simp add: IPv4_def)
qed

lemma IPv4_loopback:
  fixes ns :: "nat list"
  assumes "length ns = 4" and "list_all (\<lambda>n. n \<le> 255) ns"
  shows "IsLoopback (IPv4 (map char_of ns)) \<longleftrightarrow> hd ns = 127"
proof -
  obtain n ms where ns: "ns = n # ms" using assms(1) by (cases ns) auto
  have len: "length (IPv4 (map char_of ns)) = 16" using assms(1) by simp
  have tk: "take 12 (IPv4 (map char_of ns)) = v4InV6Prefix"
    by (simp add: IPv4_def v4InV6Prefix_def)
  have nth: "IPv4 (map char_of ns) ! 12 = char_of n"
    using ns by (simp add: IPv4_def v4InV6Prefix_def nth_append)
  have "IPv4 (map char_of ns) ! 10 = char_of (255 :: nat)"
    by (simp add: IPv4_def v4InV6Prefix_def nth_append)
  moreover have "(replicate 15 (char_of (0 :: nat)) @ [char_of (1 :: nat)]) ! 10 = char_of (0 :: nat)"
    by (simp add: nth_append)
  ultimately have "IPv4 (map char_of ns) \<noteq> replicate 15 (char_of (0 :: nat)) @ [char_of (1 :: nat)]"
    by auto
  moreover have "byte (char_of n) = n" using assms(2) ns by (simp add: byte_def)
  ultimately show ?thesis using len tk nth ns by (simp add: IsLoopback_def)
qed

text \<open>
  C21. The bind address is exact and bounded. When no interface is configured and the bind address is four decimal
  numbers separated by dots, they are bound to as these four bytes exactly when each is at most 255 and they
  name neither the unspecified address \<open>0.0.0.0\<close> nor a loopback address (\<open>127\<close> at the front); otherwise,
  also when the address is invalid, the configured address is not reported but silently replaced by that
  of the host interface. No octet ever wraps around.
\<close>

theorem GetBindIP_octets:
  assumes "chooses_bind_address host pick" and "Interface (Bind (Network c)) = []"
    and "Address (Bind (Network c)) = dotted ns" and "length ns = 4"
  shows "fst (run_state (GetBindIP pick c) w) =
    (if list_all (\<lambda>n. n \<le> 255) ns \<and> ns \<noteq> [0, 0, 0, 0] \<and> hd ns \<noteq> 127
     then Ok (Some (IPv4 (map char_of ns)))
     else of_sum (host (history w)))"
proof -
  have "dotted ns \<noteq> []" using assms(4) dec_str_nonempty by (cases ns) (auto simp: dotted_Cons)
  then have "fst (run_state (GetBindIP pick c) w) = of_sum (pick (history w) (ParseIP (dotted ns)))"
    using assms(2,3) by (simp add: GetBindIP_def ChooseBindAddress_def Let_def)
  then show ?thesis
    using assms(1) IPv4_unspecified [OF assms(4)] IPv4_loopback [OF assms(4)]
    by (auto simp: chooses_bind_address_def ParseIP_dotted [OF assms(4)])
qed

text \<open>A configuration with a bind address, and a chooser as documented.\<close>

definition bind_config :: "nat list \<Rightarrow> KubicInitConfiguration" where
  "bind_config ns = defaultConfiguration
     \<lparr>Network := (Network defaultConfiguration)\<lparr>Bind := \<lparr>Address = dotted ns, Interface = []\<rparr>\<rparr>\<rparr>"

definition demo_host :: "call list \<Rightarrow> goerr + ip" where
  "demo_host h = Inr (Some (IPv4 (map char_of [10, 0, 0, 1 :: nat])))"

definition demo_choose :: "call list \<Rightarrow> ip \<Rightarrow> goerr + ip" where
  "demo_choose h a =
     (case a of
        None \<Rightarrow> demo_host h
      | Some bs \<Rightarrow> (if IsUnspecified bs \<or> IsLoopback bs then demo_host h else Inr a))"

lemma demo_chooses: "chooses_bind_address demo_host demo_choose"
  by (simp add: chooses_bind_address_def demo_choose_def)

theorem GetBindIP_octets_witness:
  "fst (run_state (GetBindIP demo_choose (bind_config [192, 168, 1, 5])) demo_world) =
     Ok (Some (IPv4 (map char_of [192, 168, 1, 5 :: nat])))
   \<and> fst (run_state (GetBindIP demo_choose (bind_config [192, 168, 1, 256])) demo_world) =
     Ok (Some (IPv4 (map char_of [10, 0, 0, 1 :: nat])))"
  using GetBindIP_octets [OF demo_chooses, of "bind_config [192, 168, 1, 5]" "[192, 168, 1, 5]" demo_world]
    GetBindIP_octets [OF demo_chooses, of "bind_config [192, 168, 1, 256]" "[192, 168, 1, 256]" demo_world]
  by (simp add: bind_config_def demo_host_def)

text \<open>With an interface configured the address is empty, without an error and without a call.\<close>

lemma GetBindIP_interface:
  "Interface (Bind (Network c)) \<noteq> [] \<Longrightarrow> run_state (GetBindIP pick c) w = (Ok (Some []), w)"
  by (simp add: GetBindIP_def)

end
