(* ===== verification/Go_Heap.thy ===== *)
theory Go_Heap
  imports Config
begin

text \<open>
  A store for the parts of the program whose meaning depends on sharing (the generated deep copies):
  typed cells at addresses, pointers that may be nil, slices that are windows on arrays, and places,
  which are what an assignment can write: a cell, or a field of a place (Go's \<open>*p\<close>, \<open>p.F\<close> and
  \<open>&p.F\<close>). The structures of pkg/config that hold no pointer are stored as they are; the three that
  do have a stored form here, with pointers and slices instead of the values of theory Config.
\<close>

section \<open>Cells\<close>

text \<open>The parameter of a pointer type is the type it points to.\<close>

datatype 'a ptr = NilPtr | Ptr nat

text \<open>A slice: the array, the offset of its first element and its length (the capacity is never used).\<close>

datatype slice = NilSlice | Slice nat nat nat

record LocalEtcdStruct =
  serverCertSANs :: slice
  peerCertSANs :: slice

record EtcdStruct =
  localEtcd :: "LocalEtcdStruct ptr"

record KubicInitStruct =
  sTypeMeta :: TypeMeta
  sNetwork :: NetworkConfiguration
  sPaths :: PathsConfigration
  sClusterFormation :: ClusterFormationConfiguration
  sCertificates :: CertsConfiguration
  sEtcd :: EtcdStruct
  sRuntime :: RuntimeConfiguration
  sFeatures :: FeaturesConfiguration
  sServices :: ServicesConfiguration
  sAuth :: AuthConfiguration

datatype cell =
    CAuth AuthConfiguration
  | CBind BindConfiguration
  | CCerts CertsConfiguration
  | CClusterFormation ClusterFormationConfiguration
  | CCni CniConfiguration
  | CDNS DNSConfiguration
  | CEtcd EtcdStruct
  | CFeatures FeaturesConfiguration
  | CKubicInit KubicInitStruct
  | CLocalEtcd LocalEtcdStruct
  | CNetwork NetworkConfiguration
  | COIDC OIDCConfiguration
  | CPaths PathsConfigration
  | CProxy ProxyConfiguration
  | CRuntime RuntimeConfiguration
  | CServices ServicesConfiguration
  | CStrings "string list"

record gheap =
  next_addr :: nat
  cells :: "nat \<Rightarrow> cell option"

text \<open>How values of a Go type are stored, and the zero value that \<open>new\<close> gives.\<close>

record 'a gotype =
  inj :: "'a \<Rightarrow> cell"
  prj :: "cell \<Rightarrow> 'a option"
  zero :: 'a

section \<open>Places\<close>

record 'a place =
  base :: "nat option"
  pget :: "cell \<Rightarrow> 'a option"
  pset :: "'a \<Rightarrow> cell \<Rightarrow> cell"

text \<open>\<open>*p\<close>, and the field of a place given by its selector and its update.\<close>

definition deref :: "'a gotype \<Rightarrow> 'a ptr \<Rightarrow> 'a place" where
  "deref K p = \<lparr>base = (case p of NilPtr \<Rightarrow> None | Ptr a \<Rightarrow> Some a), pget = prj K, pset = \<lambda>v _. inj K v\<rparr>"

definition field :: "('a \<Rightarrow> 'b) \<Rightarrow> ('b \<Rightarrow> 'a \<Rightarrow> 'a) \<Rightarrow> 'a place \<Rightarrow> 'b place" where
  "field g u pl =
     \<lparr>base = base pl,
      pget = \<lambda>c. map_option g (pget pl c),
      pset = \<lambda>v c. (case pget pl c of None \<Rightarrow> c | Some s \<Rightarrow> pset pl (u v s) c)\<rparr>"

lemma deref_sel [simp]:
  "base (deref K NilPtr) = None" "base (deref K (Ptr a)) = Some a"
  "pget (deref K p) = prj K" "pset (deref K p) v c = inj K v"
  by (simp_all add: deref_def)

lemma field_sel [simp]:
  "base (field g u pl) = base pl" "pget (field g u pl) c = map_option g (pget pl c)"
  "pget pl c = Some s \<Longrightarrow> pset (field g u pl) v c = pset pl (u v s) c"
  by (simp_all add: field_def)

definition put_cell :: "nat \<Rightarrow> cell \<Rightarrow> gheap \<Rightarrow> gheap" where
  "put_cell a c h = h\<lparr>cells := (cells h)(a \<mapsto> c)\<rparr>"

lemma put_cell_sel [simp]:
  "next_addr (put_cell a c h) = next_addr h"
  "cells (put_cell a c h) = (cells h)(a \<mapsto> c)"
  by (simp_all add: put_cell_def)

lemma put_cell_simps [simp]:
  "put_cell a c (put_cell a d h) = put_cell a c h"
  "cells h a = Some c \<Longrightarrow> put_cell a c h = h"
  by (simp_all add: put_cell_def map_upd_triv)

lemma put_cell_swap: "a \<noteq> b \<Longrightarrow> put_cell a c (put_cell b d h) = put_cell b d (put_cell a c h)"
  by (simp add: put_cell_def fun_upd_twist)

text \<open>
  Reading and writing a place. A nil pointer panics; an address without a cell of the right type does
  not occur in Go, the model stops there.
\<close>

definition stray :: "'a outcome" where
  "stray = Panic ''unexpected fault address''"

definition fetch :: "'a place \<Rightarrow> (gheap, 'a outcome) state" where
  "fetch pl = State (\<lambda>h.
     (case base pl of
        None \<Rightarrow> nil_deref
      | Some a \<Rightarrow> (case Option.bind (cells h a) (pget pl) of None \<Rightarrow> stray | Some v \<Rightarrow> Ok v), h))"

definition assign :: "'a place \<Rightarrow> 'a \<Rightarrow> (gheap, unit outcome) state" where
  "assign pl v = State (\<lambda>h.
     (case base pl of
        None \<Rightarrow> (nil_deref, h)
      | Some a \<Rightarrow>
          (case cells h a of
             None \<Rightarrow> (stray, h)
           | Some c \<Rightarrow> (if pget pl c = None then (stray, h) else (Ok (), put_cell a (pset pl v c) h)))))"

text \<open>\<open>new(T)\<close>\<close>

definition new :: "'a gotype \<Rightarrow> (gheap, 'a ptr outcome) state" where
  "new K = State (\<lambda>h. (Ok (Ptr (next_addr h)),
     put_cell (next_addr h) (inj K (zero K)) (h\<lparr>next_addr := Suc (next_addr h)\<rparr>)))"

section \<open>Slices\<close>

fun slice_len :: "slice \<Rightarrow> nat" where
  "slice_len NilSlice = 0"
| "slice_len (Slice _ _ n) = n"

text \<open>The elements of a slice; a nil slice is told apart from an empty one.\<close>

fun slice_value :: "gheap \<Rightarrow> slice \<Rightarrow> string list option option" where
  "slice_value h NilSlice = Some None"
| "slice_value h (Slice a off n) =
     (case cells h a of
        Some (CStrings xs) \<Rightarrow> (if off + n \<le> length xs then Some (Some (take n (drop off xs))) else None)
      | _ \<Rightarrow> None)"

text \<open>\<open>make([]string, n)\<close>\<close>

definition make_strings :: "nat \<Rightarrow> (gheap, slice outcome) state" where
  "make_strings n = State (\<lambda>h. (Ok (Slice (next_addr h) 0 n),
     put_cell (next_addr h) (CStrings (replicate n [])) (h\<lparr>next_addr := Suc (next_addr h)\<rparr>)))"

text \<open>The built-in \<open>copy(dst, src)\<close>: as many elements as both have.\<close>

definition copy_strings :: "slice \<Rightarrow> slice \<Rightarrow> (gheap, unit outcome) state" where
  "copy_strings dst src = State (\<lambda>h.
     (case (slice_value h src, dst) of
        (Some (Some ys), Slice b off n) \<Rightarrow>
          (case cells h b of
             Some (CStrings xs) \<Rightarrow>
               (let k = min n (length ys)
                in (Ok (), put_cell b (CStrings (take off xs @ take k ys @ drop (off + k) xs)) h))
           | _ \<Rightarrow> (stray, h))
      | (Some _, _) \<Rightarrow> (Ok (), h)
      | (None, _) \<Rightarrow> (stray, h)))"

section \<open>Running heap programs\<close>

lemma run_fetch [simp]:
  "base pl = Some a \<Longrightarrow> cells h a = Some c \<Longrightarrow> pget pl c = Some v \<Longrightarrow> run_state (fetch pl) h = (Ok v, h)"
  "base pl = None \<Longrightarrow> run_state (fetch pl) h = (nil_deref, h)"
  by (simp_all add: fetch_def)

lemma run_assign [simp]:
  "base pl = Some a \<Longrightarrow> cells h a = Some c \<Longrightarrow> pget pl c = Some w \<Longrightarrow>
     run_state (assign pl v) h = (Ok (), put_cell a (pset pl v c) h)"
  "base pl = None \<Longrightarrow> run_state (assign pl v) h = (nil_deref, h)"
  by (simp_all add: assign_def)

lemma run_new:
  "run_state (new K) h = (Ok (Ptr (next_addr h)),
     put_cell (next_addr h) (inj K (zero K)) (h\<lparr>next_addr := Suc (next_addr h)\<rparr>))"
  by (simp add: new_def)

lemma run_make_strings:
  "run_state (make_strings n) h = (Ok (Slice (next_addr h) 0 n),
     put_cell (next_addr h) (CStrings (replicate n [])) (h\<lparr>next_addr := Suc (next_addr h)\<rparr>))"
  by (simp add: make_strings_def)

text \<open>Copying into a fresh array of the length of the source gives the source's elements.\<close>

lemma run_copy_strings_fresh:
  assumes "slice_value h src = Some (Some ys)" and "n = length ys"
    and "cells h b = Some (CStrings (replicate n []))"
  shows "run_state (copy_strings (Slice b 0 n) src) h = (Ok (), put_cell b (CStrings ys) h)"
  using assms by (simp add: copy_strings_def Let_def)

lemma slice_value_len: "slice_value h s = Some (Some ys) \<Longrightarrow> slice_len s = length ys"
  by (cases s) (auto split: option.splits cell.splits if_splits)

section \<open>Heap extension\<close>

text \<open>No cell lies at or beyond the next address; a larger heap keeps the cells of the smaller.\<close>

definition bounded :: "gheap \<Rightarrow> bool" where
  "bounded h \<longleftrightarrow> (\<forall>a \<ge> next_addr h. cells h a = None)"

definition heap_ext :: "gheap \<Rightarrow> gheap \<Rightarrow> bool" where
  "heap_ext h h' \<longleftrightarrow> next_addr h \<le> next_addr h' \<and> (\<forall>a < next_addr h. cells h' a = cells h a)"

lemma boundedD: "bounded h \<Longrightarrow> cells h a = Some c \<Longrightarrow> a < next_addr h"
  unfolding bounded_def by (metis not_le option.distinct(1))

lemma bounded_put_cell: "bounded h \<Longrightarrow> a < next_addr h \<Longrightarrow> bounded (put_cell a c h)"
  by (auto simp: bounded_def)

lemma bounded_alloc:
  "bounded h \<Longrightarrow> bounded (put_cell (next_addr h) c (h\<lparr>next_addr := Suc (next_addr h)\<rparr>))"
  by (auto simp: bounded_def)

lemma heap_ext_refl [simp]: "heap_ext h h"
  by (simp add: heap_ext_def)

lemma heap_ext_trans [trans]: "heap_ext h h' \<Longrightarrow> heap_ext h' h'' \<Longrightarrow> heap_ext h h''"
  by (auto simp: heap_ext_def)

lemma heap_ext_alloc: "heap_ext h (put_cell (next_addr h) c (h\<lparr>next_addr := Suc (next_addr h)\<rparr>))"
  by (auto simp: heap_ext_def)

lemma heap_ext_cells: "heap_ext h h' \<Longrightarrow> bounded h \<Longrightarrow> cells h a = Some c \<Longrightarrow> cells h' a = Some c"
  using boundedD by (fastforce simp: heap_ext_def)

end
