(* ===== verification/Deep_Copy.thy ===== *)
theory Deep_Copy
  imports Go_Heap
begin

text \<open>
  pkg/config/zz_generated.deepcopy.go on the store of theory Go_Heap: for every structure \<open>T\<close> of the
  configuration \<open>DeepCopyInto\<close> writes a copy of \<open>*in\<close> into \<open>*out\<close>, and \<open>DeepCopy\<close> makes a new cell for
  it. The program copies the package variable \<open>defaultConfiguration\<close> this way before it decodes the
  configuration file into the copy, so the defaults must not share a cell with the copy.

  The locale \<open>deep_copier\<close> states what a \<open>DeepCopyInto\<close> promises on arbitrary places, and proves from it
  what \<open>DeepCopy\<close> gives; it is interpreted for each of the sixteen structures.
\<close>

section \<open>The types\<close>

definition t_OIDCConfiguration :: "OIDCConfiguration gotype" where
  "t_OIDCConfiguration =
     \<lparr>inj = COIDC,
      prj = \<lambda>c. (case c of COIDC v \<Rightarrow> Some v | _ \<Rightarrow> None),
      zero = \<lparr>Issuer = [], ClientID = [], CA = [], Username = [], Groups = []\<rparr>\<rparr>"

definition t_AuthConfiguration :: "AuthConfiguration gotype" where
  "t_AuthConfiguration =
     \<lparr>inj = CAuth,
      prj = \<lambda>c. (case c of CAuth v \<Rightarrow> Some v | _ \<Rightarrow> None),
      zero = \<lparr>OIDC = zero t_OIDCConfiguration\<rparr>\<rparr>"

definition t_BindConfiguration :: "BindConfiguration gotype" where
  "t_BindConfiguration =
     \<lparr>inj = CBind,
      prj = \<lambda>c. (case c of CBind v \<Rightarrow> Some v | _ \<Rightarrow> None),
      zero = \<lparr>Address = [], Interface = []\<rparr>\<rparr>"

definition t_CertsConfiguration :: "CertsConfiguration gotype" where
  "t_CertsConfiguration =
     \<lparr>inj = CCerts,
      prj = \<lambda>c. (case c of CCerts v \<Rightarrow> Some v | _ \<Rightarrow> None),
      zero = \<lparr>Directory = [], CaHash = []\<rparr>\<rparr>"

definition t_ClusterFormationConfiguration :: "ClusterFormationConfiguration gotype" where
  "t_ClusterFormationConfiguration =
     \<lparr>inj = CClusterFormation,
      prj = \<lambda>c. (case c of CClusterFormation v \<Rightarrow> Some v | _ \<Rightarrow> None),
      zero = \<lparr>Seeder = [], Token = [], AutoApprove = False\<rparr>\<rparr>"

definition t_CniConfiguration :: "CniConfiguration gotype" where
  "t_CniConfiguration =
     \<lparr>inj = CCni,
      prj = \<lambda>c. (case c of CCni v \<Rightarrow> Some v | _ \<Rightarrow> None),
      zero = \<lparr>BinDir = [], ConfDir = [], Driver = [], Image = []\<rparr>\<rparr>"

definition t_DNSConfiguration :: "DNSConfiguration gotype" where
  "t_DNSConfiguration =
     \<lparr>inj = CDNS,
      prj = \<lambda>c. (case c of CDNS v \<Rightarrow> Some v | _ \<Rightarrow> None),
      zero = \<lparr>Domain = [], ExternalFqdn = []\<rparr>\<rparr>"

definition t_LocalEtcdConfiguration :: "LocalEtcdStruct gotype" where
  "t_LocalEtcdConfiguration =
     \<lparr>inj = CLocalEtcd,
      prj = \<lambda>c. (case c of CLocalEtcd v \<Rightarrow> Some v | _ \<Rightarrow> None),
      zero = \<lparr>serverCertSANs = NilSlice, peerCertSANs = NilSlice\<rparr>\<rparr>"

definition t_EtcdConfiguration :: "EtcdStruct gotype" where
  "t_EtcdConfiguration =
     \<lparr>inj = CEtcd,
      prj = \<lambda>c. (case c of CEtcd v \<Rightarrow> Some v | _ \<Rightarrow> None),
      zero = \<lparr>localEtcd = NilPtr\<rparr>\<rparr>"

definition t_FeaturesConfiguration :: "FeaturesConfiguration gotype" where
  "t_FeaturesConfiguration =
     \<lparr>inj = CFeatures,
      prj = \<lambda>c. (case c of CFeatures v \<Rightarrow> Some v | _ \<Rightarrow> None),
      zero = \<lparr>PSP = False\<rparr>\<rparr>"

definition t_ProxyConfiguration :: "ProxyConfiguration gotype" where
  "t_ProxyConfiguration =
     \<lparr>inj = CProxy,
      prj = \<lambda>c. (case c of CProxy v \<Rightarrow> Some v | _ \<Rightarrow> None),
      zero = \<lparr>Http = [], Https = [], NoProxy = [], SystemWide = False\<rparr>\<rparr>"

definition t_NetworkConfiguration :: "NetworkConfiguration gotype" where
  "t_NetworkConfiguration =
     \<lparr>inj = CNetwork,
      prj = \<lambda>c. (case c of CNetwork v \<Rightarrow> Some v | _ \<Rightarrow> None),
      zero = \<lparr>Bind = zero t_BindConfiguration, Cni = zero t_CniConfiguration,
        Dns = zero t_DNSConfiguration, Proxy = zero t_ProxyConfiguration, PodSubnet = [], ServiceSubnet = []\<rparr>\<rparr>"

definition t_PathsConfigration :: "PathsConfigration gotype" where
  "t_PathsConfigration =
     \<lparr>inj = CPaths,
      prj = \<lambda>c. (case c of CPaths v \<Rightarrow> Some v | _ \<Rightarrow> None),
      zero = \<lparr>Kubeadm = []\<rparr>\<rparr>"

definition t_RuntimeConfiguration :: "RuntimeConfiguration gotype" where
  "t_RuntimeConfiguration =
     \<lparr>inj = CRuntime,
      prj = \<lambda>c. (case c of CRuntime v \<Rightarrow> Some v | _ \<Rightarrow> None),
      zero = \<lparr>Engine = []\<rparr>\<rparr>"

definition t_ServicesConfiguration :: "ServicesConfiguration gotype" where
  "t_ServicesConfiguration =
     \<lparr>inj = CServices,
      prj = \<lambda>c. (case c of CServices v \<Rightarrow> Some v | _ \<Rightarrow> None),
      zero = ()\<rparr>"

definition t_KubicInitConfiguration :: "KubicInitStruct gotype" where
  "t_KubicInitConfiguration =
     \<lparr>inj = CKubicInit,
      prj = \<lambda>c. (case c of CKubicInit v \<Rightarrow> Some v | _ \<Rightarrow> None),
      zero = \<lparr>sTypeMeta = \<lparr>Kind = [], APIVersion = []\<rparr>, sNetwork = zero t_NetworkConfiguration,
        sPaths = zero t_PathsConfigration, sClusterFormation = zero t_ClusterFormationConfiguration,
        sCertificates = zero t_CertsConfiguration, sEtcd = zero t_EtcdConfiguration,
        sRuntime = zero t_RuntimeConfiguration, sFeatures = zero t_FeaturesConfiguration,
        sServices = (), sAuth = zero t_AuthConfiguration\<rparr>\<rparr>"

lemmas gotype_defs =
  t_OIDCConfiguration_def
  t_AuthConfiguration_def
  t_BindConfiguration_def
  t_CertsConfiguration_def
  t_ClusterFormationConfiguration_def
  t_CniConfiguration_def
  t_DNSConfiguration_def
  t_LocalEtcdConfiguration_def
  t_EtcdConfiguration_def
  t_FeaturesConfiguration_def
  t_ProxyConfiguration_def
  t_NetworkConfiguration_def
  t_PathsConfigration_def
  t_RuntimeConfiguration_def
  t_ServicesConfiguration_def
  t_KubicInitConfiguration_def

lemma gotype_prj_inj [simp]:
  "prj t_OIDCConfiguration (inj t_OIDCConfiguration x0) = Some x0"
  "prj t_AuthConfiguration (inj t_AuthConfiguration x1) = Some x1"
  "prj t_BindConfiguration (inj t_BindConfiguration x2) = Some x2"
  "prj t_CertsConfiguration (inj t_CertsConfiguration x3) = Some x3"
  "prj t_ClusterFormationConfiguration (inj t_ClusterFormationConfiguration x4) = Some x4"
  "prj t_CniConfiguration (inj t_CniConfiguration x5) = Some x5"
  "prj t_DNSConfiguration (inj t_DNSConfiguration x6) = Some x6"
  "prj t_LocalEtcdConfiguration (inj t_LocalEtcdConfiguration x7) = Some x7"
  "prj t_EtcdConfiguration (inj t_EtcdConfiguration x8) = Some x8"
  "prj t_FeaturesConfiguration (inj t_FeaturesConfiguration x9) = Some x9"
  "prj t_ProxyConfiguration (inj t_ProxyConfiguration x10) = Some x10"
  "prj t_NetworkConfiguration (inj t_NetworkConfiguration x11) = Some x11"
  "prj t_PathsConfigration (inj t_PathsConfigration x12) = Some x12"
  "prj t_RuntimeConfiguration (inj t_RuntimeConfiguration x13) = Some x13"
  "prj t_ServicesConfiguration (inj t_ServicesConfiguration x14) = Some x14"
  "prj t_KubicInitConfiguration (inj t_KubicInitConfiguration x15) = Some x15"
  by (simp_all add: gotype_defs)

section \<open>DeepCopyInto\<close>

text \<open>The places of the fields that are copied one by one.\<close>

abbreviation fld_OIDC :: "AuthConfiguration place \<Rightarrow> OIDCConfiguration place" where
  "fld_OIDC \<equiv> field OIDC (\<lambda>v. OIDC_update (\<lambda>_. v))"

abbreviation fld_Bind :: "NetworkConfiguration place \<Rightarrow> BindConfiguration place" where
  "fld_Bind \<equiv> field Bind (\<lambda>v. Bind_update (\<lambda>_. v))"

abbreviation fld_Cni :: "NetworkConfiguration place \<Rightarrow> CniConfiguration place" where
  "fld_Cni \<equiv> field Cni (\<lambda>v. Cni_update (\<lambda>_. v))"

abbreviation fld_Dns :: "NetworkConfiguration place \<Rightarrow> DNSConfiguration place" where
  "fld_Dns \<equiv> field Dns (\<lambda>v. Dns_update (\<lambda>_. v))"

abbreviation fld_Proxy :: "NetworkConfiguration place \<Rightarrow> ProxyConfiguration place" where
  "fld_Proxy \<equiv> field Proxy (\<lambda>v. Proxy_update (\<lambda>_. v))"

abbreviation fld_sTypeMeta :: "KubicInitStruct place \<Rightarrow> TypeMeta place" where
  "fld_sTypeMeta \<equiv> field sTypeMeta (\<lambda>v. sTypeMeta_update (\<lambda>_. v))"

abbreviation fld_sNetwork :: "KubicInitStruct place \<Rightarrow> NetworkConfiguration place" where
  "fld_sNetwork \<equiv> field sNetwork (\<lambda>v. sNetwork_update (\<lambda>_. v))"

abbreviation fld_sPaths :: "KubicInitStruct place \<Rightarrow> PathsConfigration place" where
  "fld_sPaths \<equiv> field sPaths (\<lambda>v. sPaths_update (\<lambda>_. v))"

abbreviation fld_sClusterFormation :: "KubicInitStruct place \<Rightarrow> ClusterFormationConfiguration place" where
  "fld_sClusterFormation \<equiv> field sClusterFormation (\<lambda>v. sClusterFormation_update (\<lambda>_. v))"

abbreviation fld_sCertificates :: "KubicInitStruct place \<Rightarrow> CertsConfiguration place" where
  "fld_sCertificates \<equiv> field sCertificates (\<lambda>v. sCertificates_update (\<lambda>_. v))"

abbreviation fld_sEtcd :: "KubicInitStruct place \<Rightarrow> EtcdStruct place" where
  "fld_sEtcd \<equiv> field sEtcd (\<lambda>v. sEtcd_update (\<lambda>_. v))"

abbreviation fld_sRuntime :: "KubicInitStruct place \<Rightarrow> RuntimeConfiguration place" where
  "fld_sRuntime \<equiv> field sRuntime (\<lambda>v. sRuntime_update (\<lambda>_. v))"

abbreviation fld_sFeatures :: "KubicInitStruct place \<Rightarrow> FeaturesConfiguration place" where
  "fld_sFeatures \<equiv> field sFeatures (\<lambda>v. sFeatures_update (\<lambda>_. v))"

abbreviation fld_sServices :: "KubicInitStruct place \<Rightarrow> ServicesConfiguration place" where
  "fld_sServices \<equiv> field sServices (\<lambda>v. sServices_update (\<lambda>_. v))"

abbreviation fld_sAuth :: "KubicInitStruct place \<Rightarrow> AuthConfiguration place" where
  "fld_sAuth \<equiv> field sAuth (\<lambda>v. sAuth_update (\<lambda>_. v))"

abbreviation fld_localEtcd :: "EtcdStruct place \<Rightarrow> (LocalEtcdStruct ptr) place" where
  "fld_localEtcd \<equiv> field localEtcd (\<lambda>v. localEtcd_update (\<lambda>_. v))"

abbreviation fld_serverCertSANs :: "LocalEtcdStruct place \<Rightarrow> slice place" where
  "fld_serverCertSANs \<equiv> field serverCertSANs (\<lambda>v. serverCertSANs_update (\<lambda>_. v))"

abbreviation fld_peerCertSANs :: "LocalEtcdStruct place \<Rightarrow> slice place" where
  "fld_peerCertSANs \<equiv> field peerCertSANs (\<lambda>v. peerCertSANs_update (\<lambda>_. v))"

text \<open>\<open>*out = *in\<close> and \<open>out.F = in.F\<close>\<close>

definition copy_place :: "'a place \<Rightarrow> 'a place \<Rightarrow> (gheap, unit outcome) state" where
  "copy_place inp out = andthen (fetch inp) (\<lambda>f. assign out f)"

text \<open>
  The copy of a structure without pointers is \<open>*out = *in\<close>; two of the generated functions then assign
  the fields that are structures once more.
\<close>

definition OIDCConfiguration_DeepCopyInto ::
    "OIDCConfiguration place \<Rightarrow> OIDCConfiguration place \<Rightarrow> (gheap, unit outcome) state" where
  "OIDCConfiguration_DeepCopyInto inp out = copy_place inp out"

definition AuthConfiguration_DeepCopyInto ::
    "AuthConfiguration place \<Rightarrow> AuthConfiguration place \<Rightarrow> (gheap, unit outcome) state" where
  "AuthConfiguration_DeepCopyInto inp out =
     andthen (copy_place inp out) (\<lambda>_.
     copy_place (fld_OIDC inp) (fld_OIDC out))"

definition BindConfiguration_DeepCopyInto ::
    "BindConfiguration place \<Rightarrow> BindConfiguration place \<Rightarrow> (gheap, unit outcome) state" where
  "BindConfiguration_DeepCopyInto inp out = copy_place inp out"

definition CertsConfiguration_DeepCopyInto ::
    "CertsConfiguration place \<Rightarrow> CertsConfiguration place \<Rightarrow> (gheap, unit outcome) state" where
  "CertsConfiguration_DeepCopyInto inp out = copy_place inp out"

definition ClusterFormationConfiguration_DeepCopyInto ::
    "ClusterFormationConfiguration place \<Rightarrow> ClusterFormationConfiguration place \<Rightarrow> (gheap, unit outcome) state" where
  "ClusterFormationConfiguration_DeepCopyInto inp out = copy_place inp out"

definition CniConfiguration_DeepCopyInto ::
    "CniConfiguration place \<Rightarrow> CniConfiguration place \<Rightarrow> (gheap, unit outcome) state" where
  "CniConfiguration_DeepCopyInto inp out = copy_place inp out"

definition DNSConfiguration_DeepCopyInto ::
    "DNSConfiguration place \<Rightarrow> DNSConfiguration place \<Rightarrow> (gheap, unit outcome) state" where
  "DNSConfiguration_DeepCopyInto inp out = copy_place inp out"

definition FeaturesConfiguration_DeepCopyInto ::
    "FeaturesConfiguration place \<Rightarrow> FeaturesConfiguration place \<Rightarrow> (gheap, unit outcome) state" where
  "FeaturesConfiguration_DeepCopyInto inp out = copy_place inp out"

definition ProxyConfiguration_DeepCopyInto ::
    "ProxyConfiguration place \<Rightarrow> ProxyConfiguration place \<Rightarrow> (gheap, unit outcome) state" where
  "ProxyConfiguration_DeepCopyInto inp out = copy_place inp out"

definition NetworkConfiguration_DeepCopyInto ::
    "NetworkConfiguration place \<Rightarrow> NetworkConfiguration place \<Rightarrow> (gheap, unit outcome) state" where
  "NetworkConfiguration_DeepCopyInto inp out =
     andthen (copy_place inp out) (\<lambda>_.
     andthen (copy_place (fld_Bind inp) (fld_Bind out)) (\<lambda>_.
     andthen (copy_place (fld_Cni inp) (fld_Cni out)) (\<lambda>_.
     andthen (copy_place (fld_Dns inp) (fld_Dns out)) (\<lambda>_.
     copy_place (fld_Proxy inp) (fld_Proxy out)))))"

definition PathsConfigration_DeepCopyInto ::
    "PathsConfigration place \<Rightarrow> PathsConfigration place \<Rightarrow> (gheap, unit outcome) state" where
  "PathsConfigration_DeepCopyInto inp out = copy_place inp out"

definition RuntimeConfiguration_DeepCopyInto ::
    "RuntimeConfiguration place \<Rightarrow> RuntimeConfiguration place \<Rightarrow> (gheap, unit outcome) state" where
  "RuntimeConfiguration_DeepCopyInto inp out = copy_place inp out"

definition ServicesConfiguration_DeepCopyInto ::
    "ServicesConfiguration place \<Rightarrow> ServicesConfiguration place \<Rightarrow> (gheap, unit outcome) state" where
  "ServicesConfiguration_DeepCopyInto inp out = copy_place inp out"

text \<open>Lines 199 to 203 and 204 to 208: a slice is copied into a new array, a nil slice stays nil.\<close>

definition copy_slice_field :: "slice place \<Rightarrow> slice place \<Rightarrow> (gheap, unit outcome) state" where
  "copy_slice_field inp out =
     andthen (fetch inp) (\<lambda>s.
     if s \<noteq> NilSlice then
       andthen (make_strings (slice_len s)) (\<lambda>m.
       andthen (assign out m) (\<lambda>_.
       andthen (fetch out) (\<lambda>dst.
       andthen (fetch inp) (\<lambda>src.
       copy_strings dst src))))
     else ret (Ok ()))"

definition LocalEtcdConfiguration_DeepCopyInto ::
    "LocalEtcdStruct place \<Rightarrow> LocalEtcdStruct place \<Rightarrow> (gheap, unit outcome) state" where
  "LocalEtcdConfiguration_DeepCopyInto inp out =
     andthen (copy_place inp out) (\<lambda>_.
     andthen (copy_slice_field (fld_serverCertSANs inp) (fld_serverCertSANs out)) (\<lambda>_.
     copy_slice_field (fld_peerCertSANs inp) (fld_peerCertSANs out)))"

definition EtcdConfiguration_DeepCopyInto ::
    "EtcdStruct place \<Rightarrow> EtcdStruct place \<Rightarrow> (gheap, unit outcome) state" where
  "EtcdConfiguration_DeepCopyInto inp out =
     andthen (copy_place inp out) (\<lambda>_.
     andthen (fetch (fld_localEtcd inp)) (\<lambda>l.
     if l \<noteq> NilPtr then
       andthen (new t_LocalEtcdConfiguration) (\<lambda>p.
       andthen (assign (fld_localEtcd out) p) (\<lambda>_.
       andthen (fetch (fld_localEtcd inp)) (\<lambda>i.
       andthen (fetch (fld_localEtcd out)) (\<lambda>q.
       LocalEtcdConfiguration_DeepCopyInto
         (deref t_LocalEtcdConfiguration i) (deref t_LocalEtcdConfiguration q)))))
     else ret (Ok ())))"

definition KubicInitConfiguration_DeepCopyInto ::
    "KubicInitStruct place \<Rightarrow> KubicInitStruct place \<Rightarrow> (gheap, unit outcome) state" where
  "KubicInitConfiguration_DeepCopyInto inp out =
     andthen (copy_place inp out) (\<lambda>_.
     andthen (copy_place (fld_sTypeMeta inp) (fld_sTypeMeta out)) (\<lambda>_.
     andthen (copy_place (fld_sNetwork inp) (fld_sNetwork out)) (\<lambda>_.
     andthen (copy_place (fld_sPaths inp) (fld_sPaths out)) (\<lambda>_.
     andthen (copy_place (fld_sClusterFormation inp) (fld_sClusterFormation out)) (\<lambda>_.
     andthen (copy_place (fld_sCertificates inp) (fld_sCertificates out)) (\<lambda>_.
     andthen (EtcdConfiguration_DeepCopyInto (fld_sEtcd inp) (fld_sEtcd out)) (\<lambda>_.
     andthen (copy_place (fld_sRuntime inp) (fld_sRuntime out)) (\<lambda>_.
     andthen (copy_place (fld_sFeatures inp) (fld_sFeatures out)) (\<lambda>_.
     andthen (copy_place (fld_sServices inp) (fld_sServices out)) (\<lambda>_.
     copy_place (fld_sAuth inp) (fld_sAuth out)))))))))))"

section \<open>DeepCopy\<close>

text \<open>The body all the \<open>DeepCopy\<close> methods share.\<close>

definition deep_copy :: "'a gotype \<Rightarrow> ('a place \<Rightarrow> 'a place \<Rightarrow> (gheap, unit outcome) state) \<Rightarrow>
    'a ptr \<Rightarrow> (gheap, 'a ptr outcome) state" where
  "deep_copy K into inp =
     (if inp = NilPtr then ret (Ok NilPtr)
      else
        andthen (new K) (\<lambda>out.
        andthen (into (deref K inp) (deref K out)) (\<lambda>_.
        ret (Ok out))))"

definition AuthConfiguration_DeepCopy :: "AuthConfiguration ptr \<Rightarrow> (gheap, AuthConfiguration ptr outcome) state" where
  "AuthConfiguration_DeepCopy = deep_copy t_AuthConfiguration AuthConfiguration_DeepCopyInto"

definition BindConfiguration_DeepCopy :: "BindConfiguration ptr \<Rightarrow> (gheap, BindConfiguration ptr outcome) state" where
  "BindConfiguration_DeepCopy = deep_copy t_BindConfiguration BindConfiguration_DeepCopyInto"

definition CertsConfiguration_DeepCopy :: "CertsConfiguration ptr \<Rightarrow> (gheap, CertsConfiguration ptr outcome) state" where
  "CertsConfiguration_DeepCopy = deep_copy t_CertsConfiguration CertsConfiguration_DeepCopyInto"

definition ClusterFormationConfiguration_DeepCopy :: "ClusterFormationConfiguration ptr \<Rightarrow> (gheap, ClusterFormationConfiguration ptr outcome) state" where
  "ClusterFormationConfiguration_DeepCopy = deep_copy t_ClusterFormationConfiguration ClusterFormationConfiguration_DeepCopyInto"

definition CniConfiguration_DeepCopy :: "CniConfiguration ptr \<Rightarrow> (gheap, CniConfiguration ptr outcome) state" where
  "CniConfiguration_DeepCopy = deep_copy t_CniConfiguration CniConfiguration_DeepCopyInto"

definition DNSConfiguration_DeepCopy :: "DNSConfiguration ptr \<Rightarrow> (gheap, DNSConfiguration ptr outcome) state" where
  "DNSConfiguration_DeepCopy = deep_copy t_DNSConfiguration DNSConfiguration_DeepCopyInto"

definition EtcdConfiguration_DeepCopy :: "EtcdStruct ptr \<Rightarrow> (gheap, EtcdStruct ptr outcome) state" where
  "EtcdConfiguration_DeepCopy = deep_copy t_EtcdConfiguration EtcdConfiguration_DeepCopyInto"

definition FeaturesConfiguration_DeepCopy :: "FeaturesConfiguration ptr \<Rightarrow> (gheap, FeaturesConfiguration ptr outcome) state" where
  "FeaturesConfiguration_DeepCopy = deep_copy t_FeaturesConfiguration FeaturesConfiguration_DeepCopyInto"

definition KubicInitConfiguration_DeepCopy :: "KubicInitStruct ptr \<Rightarrow> (gheap, KubicInitStruct ptr outcome) state" where
  "KubicInitConfiguration_DeepCopy = deep_copy t_KubicInitConfiguration KubicInitConfiguration_DeepCopyInto"

definition LocalEtcdConfiguration_DeepCopy :: "LocalEtcdStruct ptr \<Rightarrow> (gheap, LocalEtcdStruct ptr outcome) state" where
  "LocalEtcdConfiguration_DeepCopy = deep_copy t_LocalEtcdConfiguration LocalEtcdConfiguration_DeepCopyInto"

definition NetworkConfiguration_DeepCopy :: "NetworkConfiguration ptr \<Rightarrow> (gheap, NetworkConfiguration ptr outcome) state" where
  "NetworkConfiguration_DeepCopy = deep_copy t_NetworkConfiguration NetworkConfiguration_DeepCopyInto"

definition OIDCConfiguration_DeepCopy :: "OIDCConfiguration ptr \<Rightarrow> (gheap, OIDCConfiguration ptr outcome) state" where
  "OIDCConfiguration_DeepCopy = deep_copy t_OIDCConfiguration OIDCConfiguration_DeepCopyInto"

definition PathsConfigration_DeepCopy :: "PathsConfigration ptr \<Rightarrow> (gheap, PathsConfigration ptr outcome) state" where
  "PathsConfigration_DeepCopy = deep_copy t_PathsConfigration PathsConfigration_DeepCopyInto"

definition ProxyConfiguration_DeepCopy :: "ProxyConfiguration ptr \<Rightarrow> (gheap, ProxyConfiguration ptr outcome) state" where
  "ProxyConfiguration_DeepCopy = deep_copy t_ProxyConfiguration ProxyConfiguration_DeepCopyInto"

definition RuntimeConfiguration_DeepCopy :: "RuntimeConfiguration ptr \<Rightarrow> (gheap, RuntimeConfiguration ptr outcome) state" where
  "RuntimeConfiguration_DeepCopy = deep_copy t_RuntimeConfiguration RuntimeConfiguration_DeepCopyInto"

definition ServicesConfiguration_DeepCopy :: "ServicesConfiguration ptr \<Rightarrow> (gheap, ServicesConfiguration ptr outcome) state" where
  "ServicesConfiguration_DeepCopy = deep_copy t_ServicesConfiguration ServicesConfiguration_DeepCopyInto"

text \<open>An interface value that holds a \<open>runtime.Object\<close>: nil, or a pointer to a configuration.\<close>

datatype runtime_object = NilObject | KubicInitObject "KubicInitStruct ptr"

definition KubicInitConfiguration_DeepCopyObject ::
    "KubicInitStruct ptr \<Rightarrow> (gheap, runtime_object outcome) state" where
  "KubicInitConfiguration_DeepCopyObject inp =
     andthen (KubicInitConfiguration_DeepCopy inp) (\<lambda>c.
     ret (Ok (if c \<noteq> NilPtr then KubicInitObject c else NilObject)))"

end
