(* ===== verification/Deep_Copy_Laws.thy ===== *)
theory Deep_Copy_Laws
  imports Deep_Copy
begin

text \<open>
  What the generated deep copies promise. The value of a structure on the heap is the tree that
  \<open>reflect.DeepEqual\<close> compares, and the cells it owns are those its pointers and slices reach. The
  contract of a \<open>DeepCopyInto\<close> (locale \<open>deep_copier\<close>) is stated for any two places in different cells,
  so that it composes: the copy of the whole configuration uses the contract of the etcd part on a
  field, which uses that of the local etcd configuration on a new cell.
\<close>

section \<open>Values and owned cells\<close>

definition plain_value :: "gheap \<Rightarrow> 'a \<Rightarrow> 'a option" where
  "plain_value h s = Some s"

definition plain_own :: "gheap \<Rightarrow> 'a \<Rightarrow> nat list" where
  "plain_own h s = []"

fun slice_own :: "slice \<Rightarrow> nat list" where
  "slice_own NilSlice = []"
| "slice_own (Slice a _ _) = [a]"

definition local_value :: "gheap \<Rightarrow> LocalEtcdStruct \<Rightarrow> (string list option \<times> string list option) option" where
  "local_value h l =
     (case (slice_value h (serverCertSANs l), slice_value h (peerCertSANs l)) of
        (Some xs, Some ys) \<Rightarrow> Some (xs, ys)
      | _ \<Rightarrow> None)"

definition local_own :: "gheap \<Rightarrow> LocalEtcdStruct \<Rightarrow> nat list" where
  "local_own h l = slice_own (serverCertSANs l) @ slice_own (peerCertSANs l)"

definition etcd_value :: "gheap \<Rightarrow> EtcdStruct \<Rightarrow> (string list option \<times> string list option) option option" where
  "etcd_value h e =
     (case localEtcd e of
        NilPtr \<Rightarrow> Some None
      | Ptr a \<Rightarrow> (case cells h a of Some (CLocalEtcd l) \<Rightarrow> map_option Some (local_value h l) | _ \<Rightarrow> None))"

definition etcd_own :: "gheap \<Rightarrow> EtcdStruct \<Rightarrow> nat list" where
  "etcd_own h e =
     (case localEtcd e of
        NilPtr \<Rightarrow> []
      | Ptr a \<Rightarrow> a # (case cells h a of Some (CLocalEtcd l) \<Rightarrow> local_own h l | _ \<Rightarrow> []))"

text \<open>The configuration: its fields, the etcd part read through its pointer.\<close>

definition kubic_value ::
    "gheap \<Rightarrow> KubicInitStruct \<Rightarrow> (KubicInitStruct \<times> (string list option \<times> string list option) option) option" where
  "kubic_value h k =
     map_option (\<lambda>v. (k\<lparr>sEtcd := \<lparr>localEtcd = NilPtr\<rparr>\<rparr>, v)) (etcd_value h (sEtcd k))"

definition kubic_own :: "gheap \<Rightarrow> KubicInitStruct \<Rightarrow> nat list" where
  "kubic_own h k = etcd_own h (sEtcd k)"

lemmas own_defs = plain_own_def local_own_def etcd_own_def kubic_own_def

text \<open>A heap is well typed when every pointer and slice in it leads to a cell of its type.\<close>

fun cell_ok :: "gheap \<Rightarrow> cell \<Rightarrow> bool" where
  "cell_ok h (CLocalEtcd l) = (local_value h l \<noteq> None)"
| "cell_ok h (CEtcd e) = (etcd_value h e \<noteq> None)"
| "cell_ok h (CKubicInit k) = (kubic_value h k \<noteq> None)"
| "cell_ok h _ = True"

definition well_typed :: "gheap \<Rightarrow> bool" where
  "well_typed h \<longleftrightarrow> bounded h \<and> (\<forall>a c. cells h a = Some c \<longrightarrow> cell_ok h c)"

section \<open>Frame lemmas\<close>

text \<open>A value only depends on the cells it owns, which are all allocated.\<close>

lemma slice_frame:
  assumes "slice_value h s = Some v" and "\<forall>x \<in> set (slice_own s). cells h' x = cells h x"
  shows "slice_value h' s = Some v"
  using assms by (cases s) (auto split: option.splits cell.splits)

lemma slice_own_alloc: "slice_value h s = Some v \<Longrightarrow> x \<in> set (slice_own s) \<Longrightarrow> cells h x \<noteq> None"
  by (cases s) (auto split: option.splits)

lemma local_valueE:
  assumes "local_value h l = Some v"
  obtains xs ys where "slice_value h (serverCertSANs l) = Some xs" and "slice_value h (peerCertSANs l) = Some ys"
    and "v = (xs, ys)"
  using assms by (auto simp: local_value_def split: option.splits)

lemma local_frame:
  assumes "local_value h l = Some v" and "\<forall>x \<in> set (local_own h l). cells h' x = cells h x"
  shows "local_value h' l = Some v"
  using assms(1)
proof (rule local_valueE)
  fix xs ys
  assume "slice_value h (serverCertSANs l) = Some xs" "slice_value h (peerCertSANs l) = Some ys" "v = (xs, ys)"
  then show ?thesis
    using slice_frame [of h _ _ h'] assms(2) by (auto simp: local_value_def local_own_def)
qed

lemma local_own_indep: "local_own h' l = local_own h l"
  by (simp add: local_own_def)

lemma local_own_alloc: "local_value h l = Some v \<Longrightarrow> x \<in> set (local_own h l) \<Longrightarrow> cells h x \<noteq> None"
  by (erule local_valueE) (auto simp: local_own_def dest: slice_own_alloc)

lemma etcd_valueE:
  assumes "etcd_value h e = Some v"
  obtains (nil) "localEtcd e = NilPtr" and "v = None"
  | (ptr) a l u where "localEtcd e = Ptr a" and "cells h a = Some (CLocalEtcd l)"
      and "local_value h l = Some u" and "v = Some u"
  using assms by (auto simp: etcd_value_def split: ptr.splits option.splits cell.splits)

lemma etcd_frame:
  assumes "etcd_value h e = Some v" and "\<forall>x \<in> set (etcd_own h e). cells h' x = cells h x"
  shows "etcd_value h' e = Some v \<and> etcd_own h' e = etcd_own h e"
  using assms(1)
proof (cases rule: etcd_valueE)
  case nil
  then show ?thesis by (simp add: etcd_value_def etcd_own_def)
next
  case (ptr a l u)
  then have "cells h' a = Some (CLocalEtcd l)" "local_value h' l = Some u"
    using assms(2) local_frame [OF ptr(3), of h'] by (auto simp: etcd_own_def)
  then show ?thesis
    using ptr by (simp add: etcd_value_def etcd_own_def local_own_indep [of h'])
qed

lemma etcd_own_alloc: "etcd_value h e = Some v \<Longrightarrow> x \<in> set (etcd_own h e) \<Longrightarrow> cells h x \<noteq> None"
  by (erule etcd_valueE) (auto simp: etcd_own_def dest: local_own_alloc)

lemma kubic_frame:
  assumes "kubic_value h k = Some v" and "\<forall>x \<in> set (kubic_own h k). cells h' x = cells h x"
  shows "kubic_value h' k = Some v \<and> kubic_own h' k = kubic_own h k"
  using assms etcd_frame [of h "sEtcd k" _ h'] by (auto simp: kubic_value_def kubic_own_def)

lemma kubic_own_alloc: "kubic_value h k = Some v \<Longrightarrow> x \<in> set (kubic_own h k) \<Longrightarrow> cells h x \<noteq> None"
  by (auto simp: kubic_value_def kubic_own_def dest: etcd_own_alloc)

section \<open>Places\<close>

definition type_ok :: "'a gotype \<Rightarrow> bool" where
  "type_ok K \<longleftrightarrow> (\<forall>v. prj K (inj K v) = Some v) \<and> (\<forall>c v. prj K c = Some v \<longrightarrow> inj K v = c)"

text \<open>A place reads what was last written, and a later write hides an earlier one.\<close>

definition place_ok :: "'a place \<Rightarrow> bool" where
  "place_ok pl \<longleftrightarrow>
     (\<forall>c u v w. pget pl c = Some u \<longrightarrow>
        pget pl (pset pl v c) = Some v \<and> pset pl w (pset pl v c) = pset pl w c \<and> pset pl u c = c)"

lemma place_okD:
  assumes "place_ok pl" and "pget pl c = Some u"
  shows "pget pl (pset pl v c) = Some v" and "pset pl w (pset pl v c) = pset pl w c" and "pset pl u c = c"
  using assms by (auto simp: place_ok_def)

lemma place_ok_deref [simp]: "type_ok K \<Longrightarrow> place_ok (deref K p)"
  by (simp add: place_ok_def type_ok_def)

lemma place_ok_field:
  assumes "place_ok pl"
    and "\<And>v s. g (u v s) = v" and "\<And>v w s. u w (u v s) = u w s" and "\<And>s. u (g s) s = s"
  shows "place_ok (field g u pl)"
  unfolding place_ok_def
proof (intro allI impI)
  fix c x v w
  assume "pget (field g u pl) c = Some x"
  then obtain s where s: "pget pl c = Some s" and x: "x = g s" by auto
  have "pget pl (pset pl (u v s) c) = Some (u v s)" by (rule place_okD(1) [OF assms(1) s])
  then show "pget (field g u pl) (pset (field g u pl) v c) = Some v \<and>
      pset (field g u pl) w (pset (field g u pl) v c) = pset (field g u pl) w c \<and>
      pset (field g u pl) x c = c"
    using s x assms(2-4) place_okD(2,3) [OF assms(1) s] by simp
qed

lemma type_ok_all [simp]:
  "type_ok t_AuthConfiguration" "type_ok t_BindConfiguration" "type_ok t_CertsConfiguration"
  "type_ok t_ClusterFormationConfiguration" "type_ok t_CniConfiguration" "type_ok t_DNSConfiguration"
  "type_ok t_EtcdConfiguration" "type_ok t_FeaturesConfiguration" "type_ok t_KubicInitConfiguration"
  "type_ok t_LocalEtcdConfiguration" "type_ok t_NetworkConfiguration" "type_ok t_OIDCConfiguration"
  "type_ok t_PathsConfigration" "type_ok t_ProxyConfiguration" "type_ok t_RuntimeConfiguration"
  "type_ok t_ServicesConfiguration"
  by (simp_all add: type_ok_def gotype_defs split: cell.splits)

text \<open>Assigning a place of one cell from a place of another.\<close>

lemma run_copy_place:
  assumes "base inp = Some a" and "base out = Some b" and "cells h a = Some ca" and "cells h b = Some cb"
    and "pget inp ca = Some s" and "pget out cb = Some s0"
  shows "run_state (copy_place inp out) h = (Ok (), put_cell b (pset out s cb) h)"
  using assms by (simp add: copy_place_def)

text \<open>Assigning a field that already has the value changes nothing.\<close>

lemma run_copy_place_idle:
  assumes "base inp = Some a" and "base out = Some b" and "cells h a = Some ca" and "cells h b = Some cb"
    and "pget inp ca = Some s" and "pget out cb = Some s" and "place_ok out"
  shows "run_state (copy_place inp out) h = (Ok (), h)"
  using run_copy_place [OF assms(1-6)] place_okD(3) [OF assms(7,6)] assms(4) by simp

section \<open>What a copy may change\<close>

text \<open>
  A cell that a copy allocates is an array, or a local etcd configuration with slices on arrays that
  were allocated as well.
\<close>

fun new_cell_ok :: "nat \<Rightarrow> gheap \<Rightarrow> cell \<Rightarrow> bool" where
  "new_cell_ok n h (CStrings _) = True"
| "new_cell_ok n h (CLocalEtcd l) = (local_value h l \<noteq> None \<and> list_all (\<lambda>x. n \<le> x) (local_own h l))"
| "new_cell_ok n h _ = False"

text \<open>From \<open>h\<close> to \<open>h'\<close> only the cell \<open>b\<close> was written; all other changes are allocations.\<close>

definition only_at :: "nat \<Rightarrow> gheap \<Rightarrow> gheap \<Rightarrow> bool" where
  "only_at b h h' \<longleftrightarrow>
     bounded h' \<and> next_addr h \<le> next_addr h'
     \<and> (\<forall>x < next_addr h. x \<noteq> b \<longrightarrow> cells h' x = cells h x)
     \<and> (\<forall>x c. next_addr h \<le> x \<longrightarrow> cells h' x = Some c \<longrightarrow> new_cell_ok (next_addr h) h' c)"

lemma only_at_cells: "only_at b h h' \<Longrightarrow> x < next_addr h \<Longrightarrow> x \<noteq> b \<Longrightarrow> cells h' x = cells h x"
  by (simp add: only_at_def)

lemma only_at_put: "bounded h \<Longrightarrow> b < next_addr h \<Longrightarrow> only_at b h (put_cell b c h)"
  by (auto simp: only_at_def bounded_put_cell bounded_def)

lemma new_cell_ok_frame:
  assumes "new_cell_ok n h c" and "\<And>x. n \<le> x \<Longrightarrow> cells h x \<noteq> None \<Longrightarrow> cells h' x = cells h x" and "m \<le> n"
  shows "new_cell_ok m h' c"
proof (cases c)
  case (CLocalEtcd l)
  then obtain v where v: "local_value h l = Some v" and n: "list_all (\<lambda>x. n \<le> x) (local_own h l)"
    using assms(1) by auto
  have "\<forall>x \<in> set (local_own h l). cells h' x = cells h x"
    using assms(2) n local_own_alloc [OF v] by (auto simp: list_all_iff)
  from local_frame [OF v this] show ?thesis
    using CLocalEtcd n assms(3) local_own_indep [of h' l h] by (auto simp: list_all_iff)
qed (use assms(1) in auto)

text \<open>Two such changes of the same cell in a row.\<close>

lemma only_at_trans:
  assumes "only_at b h h1" and "only_at b h1 h2" and "b < next_addr h"
  shows "only_at b h h2"
  unfolding only_at_def
proof (intro conjI allI impI)
  show "bounded h2" "next_addr h \<le> next_addr h2" using assms(1,2) by (auto simp: only_at_def)
  show "cells h2 x = cells h x" if "x < next_addr h" "x \<noteq> b" for x
    using assms(1,2) that by (auto simp: only_at_def)
  fix x c
  assume x: "next_addr h \<le> x" and c: "cells h2 x = Some c"
  have le: "next_addr h \<le> next_addr h1" and b1: "bounded h1" using assms(1) by (auto simp: only_at_def)
  show "new_cell_ok (next_addr h) h2 c"
  proof (cases "next_addr h1 \<le> x")
    case True
    then have "new_cell_ok (next_addr h1) h2 c" using assms(2) c by (simp add: only_at_def)
    then show ?thesis by (rule new_cell_ok_frame) (use le in auto)
  next
    case False
    then have c1: "cells h1 x = Some c" using only_at_cells [OF assms(2)] c x assms(3) by simp
    have eq: "cells h2 y = cells h1 y" if "next_addr h \<le> y" "cells h1 y \<noteq> None" for y
      using only_at_cells [OF assms(2)] that boundedD [OF b1] assms(3) by fastforce
    have "new_cell_ok (next_addr h) h1 c" using assms(1) x c1 by (simp add: only_at_def)
    then show ?thesis by (rule new_cell_ok_frame) (use eq in auto)
  qed
qed

text \<open>A change of the cell \<open>b\<close> and the allocation of one more cell, filled by a second change.\<close>

lemma only_at_alloc:
  assumes "only_at b h (put_cell b c h)" and "only_at n h1 h2" and "n = next_addr h" and "next_addr h1 = Suc n"
    and "\<And>x. x < n \<Longrightarrow> x \<noteq> b \<Longrightarrow> cells h1 x = cells h x"
    and "cells h2 n = Some d" and "new_cell_ok n h2 d"
  shows "only_at b h h2"
  unfolding only_at_def
proof (intro conjI allI impI)
  show "bounded h2" "next_addr h \<le> next_addr h2" using assms by (auto simp: only_at_def)
  show "cells h2 x = cells h x" if "x < next_addr h" "x \<noteq> b" for x
    using assms(2-5) that by (auto simp: only_at_def)
  fix x c'
  assume x: "next_addr h \<le> x" and c: "cells h2 x = Some c'"
  show "new_cell_ok (next_addr h) h2 c'"
  proof (cases "x = n")
    case True
    then show ?thesis using assms(3,6,7) c by simp
  next
    case False
    then have "Suc n \<le> x" using assms(3) x by simp
    then have "new_cell_ok (Suc n) h2 c'" using assms(2,4) c by (simp add: only_at_def)
    then show ?thesis by (rule new_cell_ok_frame) (use assms(3) in auto)
  qed
qed


section \<open>The contract\<close>

text \<open>
  After \<open>into\<close> between two cells, the target place holds a structure of the same value, which owns only
  cells that were allocated on the way.
\<close>

definition copies :: "(gheap \<Rightarrow> 'a \<Rightarrow> 'v option) \<Rightarrow> (gheap \<Rightarrow> 'a \<Rightarrow> nat list) \<Rightarrow>
    ('a place \<Rightarrow> 'a place \<Rightarrow> (gheap, unit outcome) state) \<Rightarrow> bool" where
  "copies val own into \<longleftrightarrow>
     (\<forall>h inp out a b ca cb s s0 v.
        bounded h \<longrightarrow> base inp = Some a \<longrightarrow> base out = Some b \<longrightarrow> a \<noteq> b \<longrightarrow>
        cells h a = Some ca \<longrightarrow> cells h b = Some cb \<longrightarrow> pget inp ca = Some s \<longrightarrow>
        place_ok out \<longrightarrow> pget out cb = Some s0 \<longrightarrow>
        val h s = Some v \<longrightarrow> b \<notin> set (own h s) \<longrightarrow>
        (\<exists>s' h'. run_state (into inp out) h = (Ok (), h') \<and> only_at b h h'
           \<and> cells h' b = Some (pset out s' cb) \<and> val h' s' = Some v
           \<and> list_all (\<lambda>x. next_addr h \<le> x) (own h' s')))"

lemma copiesI:
  assumes "\<And>h inp out a b ca cb s s0 v.
        bounded h \<Longrightarrow> base inp = Some a \<Longrightarrow> base out = Some b \<Longrightarrow> a \<noteq> b \<Longrightarrow>
        cells h a = Some ca \<Longrightarrow> cells h b = Some cb \<Longrightarrow> pget inp ca = Some s \<Longrightarrow>
        place_ok out \<Longrightarrow> pget out cb = Some s0 \<Longrightarrow>
        val h s = Some v \<Longrightarrow> b \<notin> set (own h s) \<Longrightarrow>
        \<exists>s' h'. run_state (into inp out) h = (Ok (), h') \<and> only_at b h h'
           \<and> cells h' b = Some (pset out s' cb) \<and> val h' s' = Some v
           \<and> list_all (\<lambda>x. next_addr h \<le> x) (own h' s')"
  shows "copies val own into"
  using assms unfolding copies_def by blast

lemma copiesE:
  assumes "copies val own into"
    and "bounded h" and "base inp = Some a" and "base out = Some b" and "a \<noteq> b"
    and "cells h a = Some ca" and "cells h b = Some cb" and "pget inp ca = Some s"
    and "place_ok out" and "pget out cb = Some s0" and "val h s = Some v" and "b \<notin> set (own h s)"
  obtains s' h' where "run_state (into inp out) h = (Ok (), h')" and "only_at b h h'"
    and "cells h' b = Some (pset out s' cb)" and "val h' s' = Some v"
    and "list_all (\<lambda>x. next_addr h \<le> x) (own h' s')"
  using assms unfolding copies_def by blast

text \<open>Structures without pointers.\<close>

lemma copies_plain: "copies plain_value plain_own copy_place"
proof (rule copiesI)
  fix h and inp out :: "'a place" and a b ca cb s s0 and v :: 'a
  assume *: "bounded h" "base inp = Some a" "base out = Some b" "cells h a = Some ca" "cells h b = Some cb"
    "pget inp ca = Some s" "place_ok out" "pget out cb = Some s0" "plain_value h s = Some v"
  have "run_state (copy_place inp out) h = (Ok (), put_cell b (pset out s cb) h)"
    using * by (intro run_copy_place)
  then show "\<exists>s' h'. run_state (copy_place inp out) h = (Ok (), h') \<and> only_at b h h'
      \<and> cells h' b = Some (pset out s' cb) \<and> plain_value h' s' = Some v
      \<and> list_all (\<lambda>x. next_addr h \<le> x) (plain_own h' s')"
    using * only_at_put [OF *(1) boundedD [OF *(1,5)]]
    by (intro exI [of _ s]) (simp add: plain_value_def plain_own_def)
qed

text \<open>The assignment of a slice field, when the target already holds the same slice.\<close>

lemma run_copy_slice_field:
  assumes "bounded h" and "base inp = Some a" and "base out = Some b" and "a \<noteq> b"
    and "cells h a = Some ca" and "cells h b = Some cb" and "pget inp ca = Some s"
    and "place_ok out" and "pget out cb = Some s" and "slice_value h s = Some v" and "b \<notin> set (slice_own s)"
  obtains s' h' where "run_state (copy_slice_field inp out) h = (Ok (), h')" and "only_at b h h'"
    and "cells h' b = Some (pset out s' cb)" and "slice_value h' s' = Some v"
    and "list_all (\<lambda>x. next_addr h \<le> x) (slice_own s')"
proof (cases s)
  case NilSlice
  then have "run_state (copy_slice_field inp out) h = (Ok (), h)"
    using assms by (simp add: copy_slice_field_def)
  moreover have "only_at b h h" using assms(1) by (auto simp: only_at_def bounded_def)
  moreover have "cells h b = Some (pset out NilSlice cb)"
    using place_okD(3) [OF assms(8,9)] assms(6) NilSlice by simp
  ultimately show ?thesis by (rule that) (use NilSlice assms(10) in auto)
next
  case (Slice d off len)
  define n where "n = next_addr h"
  have lt: "a < n" "b < n" using assms(1,5,6) boundedD by (auto simp: n_def)
  obtain ys where v: "v = Some ys" and ys: "length ys = len"
    using assms(10) slice_value_len [of h s] Slice by (auto split: option.splits cell.splits if_splits)
  have "d < n" using slice_own_alloc [OF assms(10)] boundedD [OF assms(1)] Slice by (fastforce simp: n_def)
  define h1 where "h1 = put_cell n (CStrings (replicate len [])) (h\<lparr>next_addr := Suc n\<rparr>)"
  define h2 where "h2 = put_cell b (pset out (Slice n 0 len) cb) h1"
  define h3 where "h3 = put_cell n (CStrings ys) h2"
  have s2: "slice_value h2 s = Some (Some ys)"
    using slice_frame [OF assms(10), of h2] assms(11) Slice \<open>d < n\<close> v by (auto simp: h1_def h2_def)
  have "run_state (copy_slice_field inp out) h = run_state (copy_strings (Slice n 0 len) s) h2"
    using assms Slice lt place_okD(1) [OF assms(8,9)]
    by (simp add: copy_slice_field_def run_make_strings h1_def h2_def flip: n_def)
  also have "\<dots> = (Ok (), h3)"
    unfolding h3_def by (rule run_copy_strings_fresh [OF s2]) (use ys lt in \<open>auto simp: h2_def h1_def\<close>)
  finally show ?thesis
  proof (rule that)
    show "only_at b h h3"
      using assms(1) lt by (auto simp: only_at_def h3_def h2_def h1_def bounded_def n_def)
    show "cells h3 b = Some (pset out (Slice n 0 len) cb)" using lt by (simp add: h3_def h2_def)
    show "slice_value h3 (Slice n 0 len) = Some v" using ys v by (simp add: h3_def)
    show "list_all (\<lambda>x. next_addr h \<le> x) (slice_own (Slice n 0 len))" by (simp add: n_def)
  qed
qed


text \<open>A value whose cells a change leaves alone.\<close>

lemma only_at_same:
  assumes "only_at b h h'" and "bounded h" and "b \<notin> set xs" and "\<And>x. x \<in> set xs \<Longrightarrow> cells h x \<noteq> None"
  shows "\<forall>x \<in> set xs. cells h' x = cells h x"
proof
  fix x
  assume x: "x \<in> set xs"
  then obtain c where "cells h x = Some c" using assms(4) by blast
  then have "x < next_addr h" using assms(2) by (rule boundedD [rotated])
  then show "cells h' x = cells h x" using only_at_cells [OF assms(1)] x assms(3) by metis
qed

lemma only_at_bounded: "only_at b h h' \<Longrightarrow> bounded h'"
  by (simp add: only_at_def)

lemma only_at_next: "only_at b h h' \<Longrightarrow> next_addr h \<le> next_addr h'"
  by (simp add: only_at_def)

text \<open>The state after \<open>*out = *in\<close>, with which every copy begins.\<close>

lemma run_copy_start:
  assumes "bounded h" and "base inp = Some a" and "base out = Some b" and "a \<noteq> b"
    and "cells h a = Some ca" and "cells h b = Some cb" and "pget inp ca = Some s"
    and "place_ok out" and "pget out cb = Some s0"
  obtains h1 where "run_state (copy_place inp out) h = (Ok (), h1)" and "only_at b h h1"
    and "next_addr h1 = next_addr h" and "cells h1 a = Some ca" and "cells h1 b = Some (pset out s cb)"
    and "pget out (pset out s cb) = Some s"
    and "\<And>x. x \<noteq> b \<Longrightarrow> cells h1 x = cells h x"
proof (rule that)
  let ?h = "put_cell b (pset out s cb) h"
  show "run_state (copy_place inp out) h = (Ok (), ?h)" by (rule run_copy_place) (use assms in auto)
  show "only_at b h ?h" by (rule only_at_put [OF assms(1) boundedD [OF assms(1,6)]])
  show "pget out (pset out s cb) = Some s" by (rule place_okD(1) [OF assms(8,9)])
qed (use assms in auto)

text \<open>
  One slice field of a structure that is being copied: \<open>h0\<close> is the state at the start of the copy, \<open>t\<close>
  the part of the target that is already there.
\<close>

lemma run_copy_slice_step:
  assumes "bounded h0" and "only_at b h0 h" and "base inp = Some a" and "base out = Some b" and "a \<noteq> b"
    and "b < next_addr h0" and "cells h a = Some ca" and "cells h b = Some (pset out t cb)"
    and "pget inp ca = Some s" and "place_ok out" and "pget out cb = Some s0"
    and "slice_value h0 (g s) = Some v" and "b \<notin> set (slice_own (g s))"
    and "place_ok (field g u out)" and "g t = g s"
  obtains s1 h' where "run_state (copy_slice_field (field g u inp) (field g u out)) h = (Ok (), h')"
    and "only_at b h0 h'" and "only_at b h h'" and "cells h' a = Some ca"
    and "cells h' b = Some (pset out (u s1 t) cb)" and "slice_value h' s1 = Some v"
    and "list_all (\<lambda>x. next_addr h0 \<le> x) (slice_own s1)"
proof -
  have t: "pget out (pset out t cb) = Some t" by (rule place_okD(1) [OF assms(10,11)])
  have v: "slice_value h (g s) = Some v"
    by (rule slice_frame [OF assms(12) only_at_same [OF assms(2,1,13) slice_own_alloc [OF assms(12)]]])
  obtain s1 h' where r: "run_state (copy_slice_field (field g u inp) (field g u out)) h = (Ok (), h')"
    and o: "only_at b h h'" and c: "cells h' b = Some (pset (field g u out) s1 (pset out t cb))"
    and s1: "slice_value h' s1 = Some v" "list_all (\<lambda>x. next_addr h \<le> x) (slice_own s1)"
    by (rule run_copy_slice_field [of h "field g u inp" a "field g u out" b ca "pset out t cb" "g s" v])
      (use assms(3-5,7-9,13-15) only_at_bounded [OF assms(2)] t v in auto)
  have le: "next_addr h0 \<le> next_addr h" by (rule only_at_next [OF assms(2)])
  show ?thesis
  proof (rule that [OF r _ o _ _ s1(1)])
    show "only_at b h0 h'" by (rule only_at_trans [OF assms(2) o assms(6)])
    show "cells h' a = Some ca"
      using only_at_cells [OF o _ assms(5)] boundedD [OF only_at_bounded [OF assms(2)] assms(7)] assms(7) by simp
    show "cells h' b = Some (pset out (u s1 t) cb)" using c t place_okD(2) [OF assms(10,11)] by simp
    show "list_all (\<lambda>x. next_addr h0 \<le> x) (slice_own s1)"
      using s1(2) le by (auto simp: list_all_iff)
  qed
qed

lemma copies_local: "copies local_value local_own LocalEtcdConfiguration_DeepCopyInto"
proof (rule copiesI)
  fix h and inp out :: "LocalEtcdStruct place" and a b ca cb s s0 v
  assume h: "bounded h" and a: "base inp = Some a" and b: "base out = Some b" and ab: "a \<noteq> b"
    and ca: "cells h a = Some ca" and cb: "cells h b = Some cb" and s: "pget inp ca = Some s"
    and out: "place_ok out" and s0: "pget out cb = Some s0"
    and v: "local_value h s = Some v" and nb: "b \<notin> set (local_own h s)"
  obtain xs ys where xs: "slice_value h (serverCertSANs s) = Some xs"
    and ys: "slice_value h (peerCertSANs s) = Some ys" and vv: "v = (xs, ys)"
    using v by (rule local_valueE)
  have nbs: "b \<notin> set (slice_own (serverCertSANs s))" "b \<notin> set (slice_own (peerCertSANs s))"
    using nb by (auto simp: local_own_def)
  have lt: "b < next_addr h" by (rule boundedD [OF h cb])
  obtain h1 where r1: "run_state (copy_place inp out) h = (Ok (), h1)" and o1: "only_at b h h1"
    and c1: "cells h1 a = Some ca" "cells h1 b = Some (pset out s cb)"
    by (rule run_copy_start [OF h a b ab ca cb s out s0])
  note step = run_copy_slice_step [OF h _ a b ab lt _ _ s out s0 _ _ place_ok_field [OF out]]
  obtain s1 h2 where r2: "run_state (copy_slice_field (fld_serverCertSANs inp) (fld_serverCertSANs out)) h1 = (Ok (), h2)"
    and o2: "only_at b h h2" and c2: "cells h2 a = Some ca" "cells h2 b = Some (pset out (s\<lparr>serverCertSANs := s1\<rparr>) cb)"
    and x2: "slice_value h2 s1 = Some xs" and f2: "list_all (\<lambda>x. next_addr h \<le> x) (slice_own s1)"
    by (rule step [where g = serverCertSANs and u = "\<lambda>v. serverCertSANs_update (\<lambda>_. v)", OF o1 c1 xs nbs(1)])
      simp_all
  let ?t = "s\<lparr>serverCertSANs := s1\<rparr>"
  obtain s2 h3 where r3: "run_state (copy_slice_field (fld_peerCertSANs inp) (fld_peerCertSANs out)) h2 = (Ok (), h3)"
    and o3: "only_at b h h3" "only_at b h2 h3" and c3: "cells h3 b = Some (pset out (?t\<lparr>peerCertSANs := s2\<rparr>) cb)"
    and y3: "slice_value h3 s2 = Some ys" and f3: "list_all (\<lambda>x. next_addr h \<le> x) (slice_own s2)"
    by (rule step [where g = peerCertSANs and u = "\<lambda>v. peerCertSANs_update (\<lambda>_. v)", OF o2 c2 ys nbs(2)])
      simp_all
  have "b \<notin> set (slice_own s1)" using f2 lt by (auto simp: list_all_iff)
  then have x3: "slice_value h3 s1 = Some xs"
    by (rule slice_frame [OF x2 only_at_same [OF o3(2) only_at_bounded [OF o2] _ slice_own_alloc [OF x2]]])
  let ?s = "?t\<lparr>peerCertSANs := s2\<rparr>"
  have "run_state (LocalEtcdConfiguration_DeepCopyInto inp out) h = (Ok (), h3)"
    by (simp add: LocalEtcdConfiguration_DeepCopyInto_def r1 r2 r3)
  moreover have "local_value h3 ?s = Some v" by (simp add: local_value_def x3 y3 vv)
  moreover have "list_all (\<lambda>x. next_addr h \<le> x) (local_own h3 ?s)"
    using f2 f3 by (simp add: local_own_def)
  ultimately show "\<exists>s' h'. run_state (LocalEtcdConfiguration_DeepCopyInto inp out) h = (Ok (), h') \<and> only_at b h h'
      \<and> cells h' b = Some (pset out s' cb) \<and> local_value h' s' = Some v
      \<and> list_all (\<lambda>x. next_addr h \<le> x) (local_own h' s')"
    using o3(1) c3 by blast
qed

lemma inj_local [simp]:
  "inj t_LocalEtcdConfiguration l = CLocalEtcd l" "prj t_LocalEtcdConfiguration (CLocalEtcd l) = Some l"
  by (simp_all add: t_LocalEtcdConfiguration_def)

text \<open>
  What a pointer field does: a new cell is made, its address is assigned, and the structure pointed to
  is copied into it.
\<close>

lemma copy_new_local:
  assumes "bounded h" and "b < next_addr h" and "i \<noteq> b"
    and "cells h i = Some (CLocalEtcd l)" and "local_value h l = Some u" and "b \<notin> set (local_own h l)"
    and h': "h' = put_cell b c (put_cell (next_addr h) (CLocalEtcd (zero t_LocalEtcdConfiguration))
      (h\<lparr>next_addr := Suc (next_addr h)\<rparr>))"
  obtains l' h4 where "run_state (LocalEtcdConfiguration_DeepCopyInto (deref t_LocalEtcdConfiguration (Ptr i))
        (deref t_LocalEtcdConfiguration (Ptr (next_addr h)))) h' = (Ok (), h4)"
    and "only_at (next_addr h) h' h4" and "cells h4 (next_addr h) = Some (CLocalEtcd l')"
    and "local_value h4 l' = Some u" and "list_all (\<lambda>x. Suc (next_addr h) \<le> x) (local_own h4 l')"
proof -
  let ?n = "next_addr h"
  have i: "i < ?n" using boundedD [OF assms(1,4)] .
  have eq: "cells h' x = cells h x" if "x < ?n" "x \<noteq> b" for x using that by (simp add: h')
  have h3: "bounded h'" "next_addr h' = Suc ?n" using assms(1,2) by (auto simp: h' bounded_def)
  have own: "x < ?n" if "x \<in> set (local_own h l)" for x
    using local_own_alloc [OF assms(5) that] boundedD [OF assms(1), of x] by auto
  then have "\<forall>x \<in> set (local_own h l). cells h' x = cells h x" using eq assms(6) by fastforce
  then have l3: "local_value h' l = Some u" by (rule local_frame [OF assms(5)])
  have n3: "?n \<notin> set (local_own h' l)" using own local_own_indep [of h' l h] by auto
  show ?thesis
    by (rule copiesE [OF copies_local, of h' "deref t_LocalEtcdConfiguration (Ptr i)" i
          "deref t_LocalEtcdConfiguration (Ptr ?n)" ?n "CLocalEtcd l" "CLocalEtcd (zero t_LocalEtcdConfiguration)"
          l "zero t_LocalEtcdConfiguration" u])
      (use i l3 n3 assms(2-4) eq h3 that in \<open>auto simp: h' [THEN arg_cong [of _ _ cells]]\<close>)
qed

text \<open>The first assignment shares the pointer; when it is not nil, the copy gets a cell of its own.\<close>

lemma etcd_shallow:
  assumes "bounded h" and "base inp = Some a" and "base out = Some b" and "a \<noteq> b" and "cells h a = Some ca"
    and "cells h b = Some cb" and "pget inp ca = Some s" and "place_ok out" and "pget out cb = Some s0"
  shows "run_state (copy_place inp out) h = (Ok (), put_cell b (pset out s cb) h)"
    and "only_at b h (put_cell b (pset out s cb) h)" and "pget out (pset out s cb) = Some s"
  using run_copy_place [OF assms(2,3,5-7,9)] only_at_put [OF assms(1) boundedD [OF assms(1,6)]]
    place_okD(1) [OF assms(8,9)] by blast+

lemma etcd_ptr:
  assumes h: "bounded h" and a: "base inp = Some a" and b: "base out = Some b" and ab: "a \<noteq> b"
    and ca: "cells h a = Some ca" and cb: "cells h b = Some cb" and s: "pget inp ca = Some s"
    and out: "place_ok out" and s0: "pget out cb = Some s0" and nb: "b \<notin> set (etcd_own h s)"
    and ptr: "localEtcd s = Ptr i" "cells h i = Some (CLocalEtcd l)" "local_value h l = Some u" "v = Some u"
  shows "\<exists>s' h'. run_state (EtcdConfiguration_DeepCopyInto inp out) h = (Ok (), h') \<and> only_at b h h'
    \<and> cells h' b = Some (pset out s' cb) \<and> etcd_value h' s' = Some v
    \<and> list_all (\<lambda>x. next_addr h \<le> x) (etcd_own h' s')"
proof -
  define n where "n = next_addr h"
  define cb1 where "cb1 = pset out s cb"
  define h1 where "h1 = put_cell b cb1 h"
  define e where "e = s\<lparr>localEtcd := Ptr n\<rparr>"
  define h3 where "h3 = put_cell b (pset out e cb) (put_cell n (CLocalEtcd (zero t_LocalEtcdConfiguration))
    (h1\<lparr>next_addr := Suc n\<rparr>))"
  note shallow = etcd_shallow [OF h a b ab ca cb s out s0, folded cb1_def, folded h1_def]
  have lt: "a < n" "b < n" using boundedD [OF h] ca cb by (auto simp: n_def)
  have i: "i < n" "i \<noteq> b" "b \<notin> set (local_own h l)"
    using boundedD [OF h ptr(2)] nb ptr by (auto simp: n_def etcd_own_def)
  have eq: "cells h3 x = cells h x" if "x < n" "x \<noteq> b" for x using that by (simp add: h3_def h1_def)
  have n: "next_addr h1 = n" "next_addr h3 = Suc n" by (simp_all add: h1_def h3_def n_def)
  have l1: "local_value h1 l = Some u"
    using i(3) by (intro local_frame [OF ptr(3)]) (auto simp: h1_def)
  obtain l' h4 where r: "run_state (LocalEtcdConfiguration_DeepCopyInto
        (deref t_LocalEtcdConfiguration (Ptr i)) (deref t_LocalEtcdConfiguration (Ptr n))) h3 = (Ok (), h4)"
    and o4: "only_at n h3 h4" and c4: "cells h4 n = Some (CLocalEtcd l')" and l4: "local_value h4 l' = Some u"
    and f4: "list_all (\<lambda>x. Suc n \<le> x) (local_own h4 l')"
    by (rule copy_new_local [of h1 b i l u h3 "pset out e cb", unfolded n(1)])
      (use only_at_bounded [OF shallow(2)] lt i l1 ptr(2) local_own_indep [of h1 l h] in \<open>auto simp: h3_def h1_def\<close>)
  have run: "run_state (EtcdConfiguration_DeepCopyInto inp out) h = (Ok (), h4)"
    using a b ab ca s out lt ptr(1) shallow(3) r place_okD [OF out s0]
    by (simp add: EtcdConfiguration_DeepCopyInto_def shallow(1) run_new h3_def e_def cb1_def h1_def flip: n_def)
  have o: "only_at b h h4"
    by (rule only_at_alloc [OF shallow(2) [unfolded h1_def] o4 n_def n(2) eq c4])
      (use l4 f4 in \<open>auto simp: list_all_iff\<close>)
  have "cells h4 b = Some (pset out e cb)" using only_at_cells [OF o4, of b] lt n(2) by (simp add: h3_def)
  then show ?thesis
    using run o c4 l4 f4 ptr(4)
    by (intro exI [of _ e] exI [of _ h4]) (auto simp: etcd_value_def etcd_own_def e_def list_all_iff n_def)
qed

lemma copies_etcd: "copies etcd_value etcd_own EtcdConfiguration_DeepCopyInto"
proof (rule copiesI)
  fix h and inp out :: "EtcdStruct place" and a b ca cb s s0 v
  assume places: "bounded h" "base inp = Some a" "base out = Some b" "a \<noteq> b"
    "cells h a = Some ca" "cells h b = Some cb" "pget inp ca = Some s" "place_ok out" "pget out cb = Some s0"
    and v: "etcd_value h s = Some v" and nb: "b \<notin> set (etcd_own h s)"
  note shallow = etcd_shallow [OF places]
  from v show "\<exists>s' h'. run_state (EtcdConfiguration_DeepCopyInto inp out) h = (Ok (), h') \<and> only_at b h h'
      \<and> cells h' b = Some (pset out s' cb) \<and> etcd_value h' s' = Some v
      \<and> list_all (\<lambda>x. next_addr h \<le> x) (etcd_own h' s')"
  proof (cases rule: etcd_valueE)
    case nil
    have "run_state (EtcdConfiguration_DeepCopyInto inp out) h = (Ok (), put_cell b (pset out s cb) h)"
      using places nil by (simp add: EtcdConfiguration_DeepCopyInto_def shallow(1))
    then show ?thesis
      using nil shallow(2) by (intro exI [of _ s] exI [of _ "put_cell b (pset out s cb) h"])
        (simp add: etcd_value_def etcd_own_def)
  next
    case (ptr i l u)
    from places nb ptr show ?thesis by (rule etcd_ptr)
  qed
qed

text \<open>Assigning a field that both structures agree on.\<close>

lemma run_copy_field_idle:
  assumes "base inp = Some a" and "base out = Some b" and "cells h a = Some ca" and "cells h b = Some cb"
    and "pget inp ca = Some s" and "pget out cb = Some t" and "g s = g t" and "place_ok (field g u out)"
  shows "run_state (copy_place (field g u inp) (field g u out)) h = (Ok (), h)"
  by (rule run_copy_place_idle [where a = a and b = b and ca = ca and cb = cb and s = "g s"])
    (use assms in simp_all)

lemma run_copy_field_same:
  assumes "base inp = Some a" and "base out = Some b" and "cells h a = Some ca" and "cells h b = Some cb"
    and "pget inp ca = Some s" and "pget out cb = Some s" and "place_ok (field g u out)"
  shows "run_state (copy_place (field g u inp) (field g u out)) h = (Ok (), h)"
  using run_copy_field_idle [OF assms(1-6) _ assms(7)] by simp

lemma copies_plain_idle:
  assumes "\<And>h inp out a b ca cb s. base inp = Some a \<Longrightarrow> base out = Some b \<Longrightarrow> cells h a = Some ca \<Longrightarrow>
      cells h b = Some cb \<Longrightarrow> pget inp ca = Some s \<Longrightarrow> pget out cb = Some s \<Longrightarrow> place_ok out \<Longrightarrow>
      run_state (rest inp out) h = (Ok (), h)"
  shows "copies plain_value plain_own (\<lambda>inp out. andthen (copy_place inp out) (\<lambda>_. rest inp out))"
proof (rule copiesI)
  fix h and inp out :: "'a place" and a b ca cb s s0 and v :: 'a
  assume *: "bounded h" "base inp = Some a" "base out = Some b" "a \<noteq> b" "cells h a = Some ca" "cells h b = Some cb"
    "pget inp ca = Some s" "place_ok out" "pget out cb = Some s0" "plain_value h s = Some v"
  let ?h = "put_cell b (pset out s cb) h"
  have "run_state (copy_place inp out) h = (Ok (), ?h)" by (rule run_copy_place [OF *(2,3,5,6,7,9)])
  moreover have "run_state (rest inp out) ?h = (Ok (), ?h)"
    by (rule assms [OF *(2,3) _ _ *(7) _ *(8)]) (use * place_okD(1) [OF *(8,9)] in auto)
  ultimately show "\<exists>s' h'. run_state (andthen (copy_place inp out) (\<lambda>_. rest inp out)) h = (Ok (), h')
      \<and> only_at b h h' \<and> cells h' b = Some (pset out s' cb) \<and> plain_value h' s' = Some v
      \<and> list_all (\<lambda>x. next_addr h \<le> x) (plain_own h' s')"
    using * only_at_put [OF *(1) boundedD [OF *(1,6)]]
    by (intro exI [of _ s]) (simp add: plain_value_def plain_own_def)
qed

lemma copies_auth: "copies plain_value plain_own AuthConfiguration_DeepCopyInto"
  unfolding AuthConfiguration_DeepCopyInto_def [abs_def]
  by (rule copies_plain_idle) (erule (5) run_copy_field_idle, simp_all add: place_ok_field)

lemma copies_network: "copies plain_value plain_own NetworkConfiguration_DeepCopyInto"
  unfolding NetworkConfiguration_DeepCopyInto_def [abs_def]
proof (rule copies_plain_idle)
  fix h :: gheap and inp out :: "NetworkConfiguration place" and a b ca cb s
  assume *: "base inp = Some a" "base out = Some b" "cells h a = Some ca" "cells h b = Some cb"
    "pget inp ca = Some s" "pget out cb = Some s" and ok: "place_ok out"
  note idle = run_copy_field_same [OF *]
  show "run_state (andthen (copy_place (fld_Bind inp) (fld_Bind out)) (\<lambda>_.
     andthen (copy_place (fld_Cni inp) (fld_Cni out)) (\<lambda>_.
     andthen (copy_place (fld_Dns inp) (fld_Dns out)) (\<lambda>_.
     copy_place (fld_Proxy inp) (fld_Proxy out))))) h = (Ok (), h)"
    by (simp add: idle place_ok_field [OF ok])
qed

lemma copies_kubic: "copies kubic_value kubic_own KubicInitConfiguration_DeepCopyInto"
proof (rule copiesI)
  fix h and inp out :: "KubicInitStruct place" and a b ca cb s s0 v
  assume h: "bounded h" and a: "base inp = Some a" and b: "base out = Some b" and ab: "a \<noteq> b"
    and ca: "cells h a = Some ca" and cb: "cells h b = Some cb" and s: "pget inp ca = Some s"
    and out: "place_ok out" and s0: "pget out cb = Some s0"
    and v: "kubic_value h s = Some v" and nb: "b \<notin> set (kubic_own h s)"
  have lt: "a < next_addr h" "b < next_addr h" using boundedD [OF h] ca cb by auto
  define cb1 where "cb1 = pset out s cb"
  obtain h1 where cp: "run_state (copy_place inp out) h = (Ok (), h1)" and o1: "only_at b h h1"
    and n1: "next_addr h1 = next_addr h" and a1: "cells h1 a = Some ca" "cells h1 b = Some cb1"
    and g1: "pget out cb1 = Some s"
    unfolding cb1_def by (rule run_copy_start [OF h a b ab ca cb s out s0])
  note idle1 = run_copy_field_same [OF a b a1 s g1]
  obtain w where w: "etcd_value h (sEtcd s) = Some w" and vw: "v = (s\<lparr>sEtcd := \<lparr>localEtcd = NilPtr\<rparr>\<rparr>, w)"
    using v by (auto simp: kubic_value_def)
  have nbe: "b \<notin> set (etcd_own h (sEtcd s))" using nb by (simp add: kubic_own_def)
  have e1: "etcd_value h1 (sEtcd s) = Some w \<and> etcd_own h1 (sEtcd s) = etcd_own h (sEtcd s)"
    by (rule etcd_frame [OF w only_at_same [OF o1 h nbe etcd_own_alloc [OF w]]])
  obtain e h2 where r2: "run_state (EtcdConfiguration_DeepCopyInto (fld_sEtcd inp) (fld_sEtcd out)) h1 = (Ok (), h2)"
    and o2: "only_at b h1 h2" and c2: "cells h2 b = Some (pset (fld_sEtcd out) e cb1)"
    and e2: "etcd_value h2 e = Some w" and f2: "list_all (\<lambda>x. next_addr h1 \<le> x) (etcd_own h2 e)"
    by (rule copiesE [OF copies_etcd only_at_bounded [OF o1] _ _ ab a1,
          where inp = "fld_sEtcd inp" and out = "fld_sEtcd out" and s = "sEtcd s" and ?s0.0 = "sEtcd s" and v = w])
      (use a b s g1 e1 nbe in \<open>simp_all add: place_ok_field [OF out]\<close>)
  have o: "only_at b h h2" by (rule only_at_trans [OF o1 o2 lt(2)])
  define s' where "s' = s\<lparr>sEtcd := e\<rparr>"
  have b2: "cells h2 b = Some (pset out s' cb)"
    using c2 g1 place_okD(2) [OF out s0] by (simp add: cb1_def s'_def)
  have a2: "cells h2 a = Some ca" using only_at_cells [OF o lt(1) ab] ca by simp
  note idle2 = run_copy_field_idle [OF a b a2 b2 s place_okD(1) [OF out s0]]
  have "run_state (KubicInitConfiguration_DeepCopyInto inp out) h = (Ok (), h2)"
    by (simp add: KubicInitConfiguration_DeepCopyInto_def cp idle1 r2 idle2 s'_def place_ok_field [OF out])
  moreover have "kubic_value h2 s' = Some v" by (simp add: kubic_value_def s'_def e2 vw)
  moreover have "list_all (\<lambda>x. next_addr h \<le> x) (kubic_own h2 s')"
    using f2 by (simp add: kubic_own_def s'_def n1)
  ultimately show "\<exists>s' h'. run_state (KubicInitConfiguration_DeepCopyInto inp out) h = (Ok (), h')
      \<and> only_at b h h' \<and> cells h' b = Some (pset out s' cb) \<and> kubic_value h' s' = Some v
      \<and> list_all (\<lambda>x. next_addr h \<le> x) (kubic_own h' s')"
    using o b2 by blast
qed

end
