(* ===== verification/Deep_Copy_Props.thy ===== *)
theory Deep_Copy_Props
  imports Deep_Copy_Laws
begin

text \<open>
  What a \<open>DeepCopy\<close> gives: a pointer to new cells only, of equal value, in a heap that is otherwise
  unchanged and still well typed. It is proved once, in the locale \<open>deep_copier\<close>, and holds for each of
  the sixteen structures. From it follows that the package variable \<open>defaultConfiguration\<close>, which
  every load copies, keeps its value whatever is written through the copies.
\<close>

section \<open>The interface of a copied type\<close>

locale deep_copier =
  fixes K :: "'a gotype"
    and into :: "'a place \<Rightarrow> 'a place \<Rightarrow> (gheap, unit outcome) state"
    and val :: "gheap \<Rightarrow> 'a \<Rightarrow> 'v option"
    and own :: "gheap \<Rightarrow> 'a \<Rightarrow> nat list"
  assumes type: "type_ok K"
    and copies: "copies val own into"
    and frame: "val h s = Some v \<Longrightarrow> \<forall>x \<in> set (own h s). cells h' x = cells h x \<Longrightarrow>
        val h' s = Some v \<and> own h' s = own h s"
    and own_alloc: "val h s = Some v \<Longrightarrow> x \<in> set (own h s) \<Longrightarrow> cells h x \<noteq> None"
    and stored_ok: "cell_ok h (inj K s) \<longleftrightarrow> val h s \<noteq> None"
begin

lemma copy_nil: "run_state (deep_copy K into NilPtr) h = (Ok NilPtr, h)"
  by (simp add: deep_copy_def)

lemma copy_ptr:
  assumes "bounded h" and "cells h p = Some (inj K s)" and "val h s = Some v"
  obtains s' h' where "run_state (deep_copy K into (Ptr p)) h = (Ok (Ptr (next_addr h)), h')"
    and "cells h' (next_addr h) = Some (inj K s')" and "val h' s' = Some v"
    and "list_all (\<lambda>x. next_addr h < x) (own h' s')"
    and "heap_ext h h'" and "bounded h'"
    and "\<And>x c. next_addr h < x \<Longrightarrow> cells h' x = Some c \<Longrightarrow> new_cell_ok (Suc (next_addr h)) h' c"
proof -
  let ?n = "next_addr h"
  define h1 where "h1 = put_cell ?n (inj K (zero K)) (h\<lparr>next_addr := Suc ?n\<rparr>)"
  have p: "p < ?n" using boundedD [OF assms(1,2)] .
  have b1: "bounded h1" unfolding h1_def by (rule bounded_alloc [OF assms(1)])
  have eq: "cells h1 x = cells h x" if "x < ?n" for x using that by (simp add: h1_def)
  have own: "x < ?n" if "x \<in> set (own h s)" for x
    using own_alloc [OF assms(3) that] boundedD [OF assms(1)] by auto
  have "val h1 s = Some v \<and> own h1 s = own h s"
    by (rule frame [OF assms(3)]) (use own eq in auto)
  then obtain s' h' where r: "run_state (into (deref K (Ptr p)) (deref K (Ptr ?n))) h1 = (Ok (), h')"
    and o: "only_at ?n h1 h'" and c: "cells h' ?n = Some (inj K s')" and v: "val h' s' = Some v"
    and f: "list_all (\<lambda>x. next_addr h1 \<le> x) (own h' s')"
    by (rule_tac copiesE [OF copies b1, of "deref K (Ptr p)" p "deref K (Ptr ?n)" ?n "inj K s" "inj K (zero K)" s "zero K" v])
      (use p own eq [OF p] assms(2) type in \<open>auto simp: h1_def type_ok_def\<close>)
  show ?thesis
  proof (rule that [OF _ c v])
    show "run_state (deep_copy K into (Ptr p)) h = (Ok (Ptr ?n), h')"
      using r by (simp add: deep_copy_def run_new h1_def)
    show "list_all (\<lambda>x. ?n < x) (own h' s')" using f by (auto simp: h1_def list_all_iff)
    show "heap_ext h h'" using o eq by (auto simp: only_at_def heap_ext_def h1_def)
    show "bounded h'" by (rule only_at_bounded [OF o])
    show "new_cell_ok (Suc ?n) h' d" if "?n < x" "cells h' x = Some d" for x d
      using o that(2) Suc_leI [OF that(1)] by (simp add: only_at_def h1_def)
  qed
qed

end

section \<open>Well-typed heaps\<close>

lemma new_cell_ok_typed: "new_cell_ok n h c \<Longrightarrow> cell_ok h c"
  by (cases c) auto

lemma heap_ext_same:
  assumes "heap_ext h h'" and "bounded h" and "\<And>x. x \<in> set xs \<Longrightarrow> cells h x \<noteq> None"
  shows "\<forall>x \<in> set xs. cells h' x = cells h x"
proof
  fix x
  assume "x \<in> set xs"
  then obtain c where "cells h x = Some c" using assms(3) by blast
  then show "cells h' x = cells h x" using heap_ext_cells [OF assms(1,2)] by simp
qed

lemma cell_ok_ext:
  assumes "heap_ext h h'" and "bounded h" and "cell_ok h c"
  shows "cell_ok h' c"
proof (cases c)
  case (CLocalEtcd l)
  then obtain v where v: "local_value h l = Some v" using assms(3) by auto
  from local_frame [OF v heap_ext_same [OF assms(1,2) local_own_alloc [OF v]]] show ?thesis
    using CLocalEtcd by simp
next
  case (CEtcd e)
  then obtain v where v: "etcd_value h e = Some v" using assms(3) by auto
  from etcd_frame [OF v heap_ext_same [OF assms(1,2) etcd_own_alloc [OF v]]] show ?thesis
    using CEtcd by simp
next
  case (CKubicInit k)
  then obtain v where v: "kubic_value h k = Some v" using assms(3) by auto
  from kubic_frame [OF v heap_ext_same [OF assms(1,2) kubic_own_alloc [OF v]]] show ?thesis
    using CKubicInit by simp
qed auto

text \<open>A pointer of type \<open>*T\<close> is nil or leads to a cell that holds a \<open>T\<close>.\<close>

definition ptr_ok :: "'a gotype \<Rightarrow> gheap \<Rightarrow> 'a ptr \<Rightarrow> bool" where
  "ptr_ok K h p = (case p of NilPtr \<Rightarrow> True | Ptr a \<Rightarrow> Option.bind (cells h a) (prj K) \<noteq> None)"

context deep_copier
begin

lemma stored: "ptr_ok K h (Ptr p) \<Longrightarrow> \<exists>s. cells h p = Some (inj K s)"
  using type by (auto simp: ptr_ok_def type_ok_def bind_eq_Some_conv)

lemma copy_typed:
  assumes "well_typed h" and "ptr_ok K h p"
  shows "\<exists>q h'. run_state (deep_copy K into p) h = (Ok q, h') \<and> well_typed h' \<and> ptr_ok K h' q
    \<and> heap_ext h h' \<and> (q = NilPtr \<longleftrightarrow> p = NilPtr)"
proof (cases p)
  case NilPtr
  then show ?thesis using assms by (simp add: copy_nil)
next
  case (Ptr a)
  have h: "bounded h" using assms(1) by (simp add: well_typed_def)
  obtain s where s: "cells h a = Some (inj K s)" using stored assms(2) Ptr by blast
  then obtain v where v: "val h s = Some v" using assms(1) stored_ok [of h s] by (auto simp: well_typed_def)
  obtain s' h' where r: "run_state (deep_copy K into (Ptr a)) h = (Ok (Ptr (next_addr h)), h')"
    and c: "cells h' (next_addr h) = Some (inj K s')" and v': "val h' s' = Some v"
    and e: "heap_ext h h'" and b: "bounded h'"
    and new: "\<And>x c. next_addr h < x \<Longrightarrow> cells h' x = Some c \<Longrightarrow> new_cell_ok (Suc (next_addr h)) h' c"
    by (rule copy_ptr [OF h s v]) (rule that)
  have "cell_ok h' d" if "cells h' x = Some d" for x d
  proof (cases "x < next_addr h")
    case True
    then have "cell_ok h d" using that e assms(1) by (auto simp: heap_ext_def well_typed_def)
    then show ?thesis by (rule cell_ok_ext [OF e h])
  next
    case False
    then consider "x = next_addr h" | "next_addr h < x" by linarith
    then show ?thesis
    proof cases
      case 1
      then show ?thesis using that c v' stored_ok [of h' s'] by simp
    next
      case 2
      then show ?thesis using new [OF _ that] by (rule_tac new_cell_ok_typed)
    qed
  qed
  then have "well_typed h'" using b by (simp add: well_typed_def)
  then show ?thesis using r e c type Ptr by (auto simp: ptr_ok_def type_ok_def)
qed

end


section \<open>The sixteen structures\<close>

lemma plain_frame:
  "plain_value h s = Some v \<Longrightarrow> \<forall>x \<in> set (plain_own h s). cells h' x = cells h x \<Longrightarrow>
     plain_value h' s = Some v \<and> plain_own h' s = plain_own h s"
  by (simp add: plain_value_def plain_own_def)

lemma local_frame_own:
  "local_value h l = Some v \<Longrightarrow> \<forall>x \<in> set (local_own h l). cells h' x = cells h x \<Longrightarrow>
     local_value h' l = Some v \<and> local_own h' l = local_own h l"
  using local_frame local_own_indep by blast

lemma inj_type [simp]:
  "inj t_AuthConfiguration v0 = CAuth v0"
  "inj t_BindConfiguration v1 = CBind v1"
  "inj t_CertsConfiguration v2 = CCerts v2"
  "inj t_ClusterFormationConfiguration v3 = CClusterFormation v3"
  "inj t_CniConfiguration v4 = CCni v4"
  "inj t_DNSConfiguration v5 = CDNS v5"
  "inj t_EtcdConfiguration v6 = CEtcd v6"
  "inj t_FeaturesConfiguration v7 = CFeatures v7"
  "inj t_KubicInitConfiguration v8 = CKubicInit v8"
  "inj t_NetworkConfiguration v10 = CNetwork v10"
  "inj t_OIDCConfiguration v11 = COIDC v11"
  "inj t_PathsConfigration v12 = CPaths v12"
  "inj t_ProxyConfiguration v13 = CProxy v13"
  "inj t_RuntimeConfiguration v14 = CRuntime v14"
  "inj t_ServicesConfiguration v15 = CServices v15"
  by (simp_all add: gotype_defs)

lemmas copier_simps = plain_value_def plain_own_def

text \<open>The functions that only assign the structure.\<close>

lemma copies_assign:
  "copies plain_value plain_own BindConfiguration_DeepCopyInto"
  "copies plain_value plain_own CertsConfiguration_DeepCopyInto"
  "copies plain_value plain_own ClusterFormationConfiguration_DeepCopyInto"
  "copies plain_value plain_own CniConfiguration_DeepCopyInto"
  "copies plain_value plain_own DNSConfiguration_DeepCopyInto"
  "copies plain_value plain_own FeaturesConfiguration_DeepCopyInto"
  "copies plain_value plain_own OIDCConfiguration_DeepCopyInto"
  "copies plain_value plain_own PathsConfigration_DeepCopyInto"
  "copies plain_value plain_own ProxyConfiguration_DeepCopyInto"
  "copies plain_value plain_own RuntimeConfiguration_DeepCopyInto"
  "copies plain_value plain_own ServicesConfiguration_DeepCopyInto"
  by (simp_all add: BindConfiguration_DeepCopyInto_def [abs_def]
      CertsConfiguration_DeepCopyInto_def [abs_def]
      ClusterFormationConfiguration_DeepCopyInto_def [abs_def]
      CniConfiguration_DeepCopyInto_def [abs_def]
      DNSConfiguration_DeepCopyInto_def [abs_def]
      FeaturesConfiguration_DeepCopyInto_def [abs_def]
      OIDCConfiguration_DeepCopyInto_def [abs_def]
      PathsConfigration_DeepCopyInto_def [abs_def]
      ProxyConfiguration_DeepCopyInto_def [abs_def]
      RuntimeConfiguration_DeepCopyInto_def [abs_def]
      ServicesConfiguration_DeepCopyInto_def [abs_def]
      copies_plain)

interpretation auth_copier: deep_copier t_AuthConfiguration
    AuthConfiguration_DeepCopyInto plain_value plain_own
  by unfold_locales (auto simp: copies_assign copies_auth copies_network copier_simps)

interpretation bind_copier: deep_copier t_BindConfiguration
    BindConfiguration_DeepCopyInto plain_value plain_own
  by unfold_locales (auto simp: copies_assign copies_auth copies_network copier_simps)

interpretation certs_copier: deep_copier t_CertsConfiguration
    CertsConfiguration_DeepCopyInto plain_value plain_own
  by unfold_locales (auto simp: copies_assign copies_auth copies_network copier_simps)

interpretation formation_copier: deep_copier t_ClusterFormationConfiguration
    ClusterFormationConfiguration_DeepCopyInto plain_value plain_own
  by unfold_locales (auto simp: copies_assign copies_auth copies_network copier_simps)

interpretation cni_copier: deep_copier t_CniConfiguration
    CniConfiguration_DeepCopyInto plain_value plain_own
  by unfold_locales (auto simp: copies_assign copies_auth copies_network copier_simps)

interpretation dns_copier: deep_copier t_DNSConfiguration
    DNSConfiguration_DeepCopyInto plain_value plain_own
  by unfold_locales (auto simp: copies_assign copies_auth copies_network copier_simps)

interpretation etcd_copier: deep_copier t_EtcdConfiguration
    EtcdConfiguration_DeepCopyInto etcd_value etcd_own
  by unfold_locales
    (simp, rule copies_etcd, erule (1) etcd_frame, erule (1) etcd_own_alloc, simp)

interpretation features_copier: deep_copier t_FeaturesConfiguration
    FeaturesConfiguration_DeepCopyInto plain_value plain_own
  by unfold_locales (auto simp: copies_assign copies_auth copies_network copier_simps)

interpretation kubic_copier: deep_copier t_KubicInitConfiguration
    KubicInitConfiguration_DeepCopyInto kubic_value kubic_own
  by unfold_locales
    (simp, rule copies_kubic, erule (1) kubic_frame, erule (1) kubic_own_alloc, simp)

interpretation local_copier: deep_copier t_LocalEtcdConfiguration
    LocalEtcdConfiguration_DeepCopyInto local_value local_own
  by unfold_locales
    (simp, rule copies_local, erule (1) local_frame_own, erule (1) local_own_alloc, simp)

interpretation network_copier: deep_copier t_NetworkConfiguration
    NetworkConfiguration_DeepCopyInto plain_value plain_own
  by unfold_locales (auto simp: copies_assign copies_auth copies_network copier_simps)

interpretation oidc_copier: deep_copier t_OIDCConfiguration
    OIDCConfiguration_DeepCopyInto plain_value plain_own
  by unfold_locales (auto simp: copies_assign copies_auth copies_network copier_simps)

interpretation paths_copier: deep_copier t_PathsConfigration
    PathsConfigration_DeepCopyInto plain_value plain_own
  by unfold_locales (auto simp: copies_assign copies_auth copies_network copier_simps)

interpretation proxy_copier: deep_copier t_ProxyConfiguration
    ProxyConfiguration_DeepCopyInto plain_value plain_own
  by unfold_locales (auto simp: copies_assign copies_auth copies_network copier_simps)

interpretation runtime_copier: deep_copier t_RuntimeConfiguration
    RuntimeConfiguration_DeepCopyInto plain_value plain_own
  by unfold_locales (auto simp: copies_assign copies_auth copies_network copier_simps)

interpretation services_copier: deep_copier t_ServicesConfiguration
    ServicesConfiguration_DeepCopyInto plain_value plain_own
  by unfold_locales (auto simp: copies_assign copies_auth copies_network copier_simps)


section \<open>The configuration as the loader sees it\<close>

text \<open>
  The value of theory Config that a stored configuration stands for; there a nil slice and an empty one
  are the same list.
\<close>

definition san_list :: "string list option \<Rightarrow> string list" where
  "san_list xs = (case xs of None \<Rightarrow> [] | Some l \<Rightarrow> l)"

fun config_of :: "KubicInitStruct \<times> (string list option \<times> string list option) option \<Rightarrow> KubicInitConfiguration" where
  "config_of (k, e) =
     \<lparr>typeMeta = sTypeMeta k, Network = sNetwork k, Paths = sPaths k,
      ClusterFormation = sClusterFormation k, Certificates = sCertificates k,
      Etcd = \<lparr>LocalEtcd =
        map_option (\<lambda>(s, p). \<lparr>ServerCertSANs = san_list s, PeerCertSANs = san_list p\<rparr>) e\<rparr>,
      Runtime = sRuntime k, Features = sFeatures k, Services = sServices k, Auth = sAuth k\<rparr>"

definition config_at :: "gheap \<Rightarrow> nat \<Rightarrow> KubicInitConfiguration option" where
  "config_at h a =
     (case cells h a of Some (CKubicInit k) \<Rightarrow> map_option config_of (kubic_value h k) | _ \<Rightarrow> None)"

text \<open>The package variable \<open>defaultConfiguration\<close>, at address 0, with its \<open>&LocalEtcdConfiguration{}\<close>.\<close>

definition default_struct :: KubicInitStruct where
  "default_struct =
     \<lparr>sTypeMeta = typeMeta defaultConfiguration, sNetwork = Network defaultConfiguration,
      sPaths = Paths defaultConfiguration, sClusterFormation = ClusterFormation defaultConfiguration,
      sCertificates = Certificates defaultConfiguration, sEtcd = \<lparr>localEtcd = Ptr 1\<rparr>,
      sRuntime = Runtime defaultConfiguration, sFeatures = Features defaultConfiguration,
      sServices = Services defaultConfiguration, sAuth = Auth defaultConfiguration\<rparr>"

definition package_heap :: gheap where
  "package_heap =
     \<lparr>next_addr = 2,
      cells = [0 \<mapsto> CKubicInit default_struct, 1 \<mapsto> CLocalEtcd (zero t_LocalEtcdConfiguration)]\<rparr>"

lemma default_value:
  assumes "cells h 1 = Some (CLocalEtcd (zero t_LocalEtcdConfiguration))"
  shows "kubic_value h default_struct =
      Some (default_struct\<lparr>sEtcd := \<lparr>localEtcd = NilPtr\<rparr>\<rparr>, Some (None, None))"
  using assms
  by (simp add: kubic_value_def etcd_value_def default_struct_def local_value_def t_LocalEtcdConfiguration_def)

lemma config_of_default:
  "config_of (default_struct\<lparr>sEtcd := \<lparr>localEtcd = NilPtr\<rparr>\<rparr>, Some (None, None)) = defaultConfiguration"
  by (simp add: default_struct_def defaultConfiguration_def san_list_def)

lemma package_heap_typed: "well_typed package_heap"
proof -
  have "kubic_value package_heap default_struct \<noteq> None"
    by (subst default_value) (simp_all add: package_heap_def)
  then show ?thesis
    by (auto simp: well_typed_def bounded_def package_heap_def local_value_def t_LocalEtcdConfiguration_def
        split: if_splits)
qed

lemma typed_value: "well_typed h \<Longrightarrow> cells h p = Some (CKubicInit s) \<Longrightarrow> \<exists>v. kubic_value h s = Some v"
  unfolding well_typed_def by (metis cell_ok.simps(3) not_None_eq)

section \<open>Properties\<close>

text \<open>
  C14. A deep copy of the configuration equals the original, as \<open>reflect.DeepEqual\<close> compares them, and
  shares no cell with anything that existed before: the new structure and every cell its pointer and
  its slices reach were unallocated, and no old cell has changed.
\<close>

theorem DeepCopy_equal:
  assumes "well_typed h" and "cells h p = Some (CKubicInit s)"
  shows "\<exists>q s' h'. run_state (KubicInitConfiguration_DeepCopy (Ptr p)) h = (Ok (Ptr q), h')
    \<and> cells h' q = Some (CKubicInit s') \<and> kubic_value h' s' = kubic_value h s
    \<and> list_all (\<lambda>x. cells h x = None) (q # kubic_own h' s') \<and> heap_ext h h'"
proof -
  have h: "bounded h" using assms(1) by (simp add: well_typed_def)
  obtain v where v: "kubic_value h s = Some v" using typed_value [OF assms] by blast
  show ?thesis
    by (rule kubic_copier.copy_ptr [OF h _ v, of p])
      (use assms(2) h v in \<open>auto simp: KubicInitConfiguration_DeepCopy_def bounded_def list_all_iff
        intro!: exI [of _ "next_addr h"]\<close>)
qed

lemma package_cells:
  "cells package_heap 0 = Some (CKubicInit default_struct)"
  "cells package_heap 1 = Some (CLocalEtcd (zero t_LocalEtcdConfiguration))"
  "cells package_heap (Suc 0) = Some (CLocalEtcd (zero t_LocalEtcdConfiguration))"
  "next_addr package_heap = 2"
  by (simp_all add: package_heap_def)

theorem DeepCopy_equal_witness:
  "\<exists>q s' h'. run_state (KubicInitConfiguration_DeepCopy (Ptr 0)) package_heap = (Ok (Ptr q), h')
    \<and> cells h' q = Some (CKubicInit s') \<and> kubic_value h' s' = kubic_value package_heap default_struct
    \<and> list_all (\<lambda>x. cells package_heap x = None) (q # kubic_own h' s') \<and> heap_ext package_heap h'"
  by (rule DeepCopy_equal [OF package_heap_typed package_cells(1)])

text \<open>
  C15. Copying keeps the types of the heap: for a well-typed pointer, nil or not, \<open>DeepCopy\<close> neither
  panics nor leaves the heap ill typed, and its result is well typed; \<open>DeepCopyObject\<close> wraps the same
  pointer, except that it turns a nil pointer into a nil interface instead of an interface that holds a
  nil pointer.
\<close>

theorem DeepCopy_keeps_types:
  assumes "well_typed h" and "ptr_ok t_KubicInitConfiguration h p"
  shows "\<exists>q h'. run_state (KubicInitConfiguration_DeepCopy p) h = (Ok q, h')
    \<and> well_typed h' \<and> ptr_ok t_KubicInitConfiguration h' q \<and> (q = NilPtr \<longleftrightarrow> p = NilPtr)
    \<and> run_state (KubicInitConfiguration_DeepCopyObject p) h =
        (Ok (if p = NilPtr then NilObject else KubicInitObject q), h')"
proof -
  obtain q h' where "run_state (KubicInitConfiguration_DeepCopy p) h = (Ok q, h')" "well_typed h'"
    "ptr_ok t_KubicInitConfiguration h' q" "q = NilPtr \<longleftrightarrow> p = NilPtr"
    using kubic_copier.copy_typed [OF assms] by (auto simp: KubicInitConfiguration_DeepCopy_def)
  then show ?thesis
    by (intro exI [of _ q] exI [of _ h']) (simp add: KubicInitConfiguration_DeepCopyObject_def)
qed

theorem DeepCopy_keeps_types_witness:
  "\<exists>q h'. run_state (KubicInitConfiguration_DeepCopy (Ptr 0)) package_heap = (Ok q, h')
    \<and> well_typed h' \<and> ptr_ok t_KubicInitConfiguration h' q \<and> (q = NilPtr \<longleftrightarrow> (Ptr 0 :: KubicInitStruct ptr) = NilPtr)
    \<and> run_state (KubicInitConfiguration_DeepCopyObject (Ptr 0)) package_heap =
        (Ok (if (Ptr 0 :: KubicInitStruct ptr) = NilPtr then NilObject else KubicInitObject q), h')"
  by (rule DeepCopy_keeps_types [OF package_heap_typed])
    (simp add: ptr_ok_def package_cells t_KubicInitConfiguration_def)

section \<open>Loads in sequence\<close>

text \<open>The cells reached from the configuration at an address.\<close>

definition region :: "gheap \<Rightarrow> nat \<Rightarrow> nat list" where
  "region h a = (case cells h a of Some (CKubicInit k) \<Rightarrow> a # kubic_own h k | _ \<Rightarrow> [])"

text \<open>
  A run of the program as far as configurations go: it copies the package variable, and it writes
  through a copy (the decoder of the file, the environment overrides, the walker of \<open>SetVars\<close>), which
  changes the cells reached from that copy, may allocate, and leads to no cell that was neither
  reached from the copy before nor is new.
\<close>

definition writes_through :: "nat \<Rightarrow> gheap \<Rightarrow> gheap \<Rightarrow> bool" where
  "writes_through q h h' \<longleftrightarrow>
     well_typed h' \<and> next_addr h \<le> next_addr h' \<and> region h' q \<noteq> []
     \<and> (\<forall>x < next_addr h. x \<notin> set (region h q) \<longrightarrow> cells h' x = cells h x)
     \<and> (\<forall>x \<in> set (region h' q). x \<in> set (region h q) \<or> next_addr h \<le> x)"

inductive loader_step :: "gheap \<times> nat list \<Rightarrow> gheap \<times> nat list \<Rightarrow> bool" where
  copy: "run_state (KubicInitConfiguration_DeepCopy (Ptr 0)) h = (Ok (Ptr q), h') \<Longrightarrow>
     loader_step (h, qs) (h', q # qs)"
| modify: "q \<in> set qs \<Longrightarrow> writes_through q h h' \<Longrightarrow> loader_step (h, qs) (h', qs)"

inductive_cases loader_stepE: "loader_step (h, qs) st"

definition loads_inv :: "gheap \<times> nat list \<Rightarrow> bool" where
  "loads_inv st \<longleftrightarrow> (case st of (h, qs) \<Rightarrow>
     well_typed h \<and> 2 \<le> next_addr h
     \<and> cells h 0 = cells package_heap 0 \<and> cells h 1 = cells package_heap 1
     \<and> (\<forall>q \<in> set qs. region h q \<noteq> [] \<and> (\<forall>x \<in> set (region h q). 2 \<le> x))
     \<and> distinct qs
     \<and> (\<forall>q \<in> set qs. \<forall>r \<in> set qs. q \<noteq> r \<longrightarrow> set (region h q) \<inter> set (region h r) = {}))"

lemma region_value:
  assumes "well_typed h" and "region h a \<noteq> []"
  obtains k v where "cells h a = Some (CKubicInit k)" and "kubic_value h k = Some v" and "region h a = a # kubic_own h k"
proof -
  obtain k where k: "cells h a = Some (CKubicInit k)" "region h a = a # kubic_own h k"
    using assms(2) by (auto simp: region_def split: option.splits cell.splits)
  moreover obtain v where "kubic_value h k = Some v" using typed_value [OF assms(1) k(1)] by blast
  ultimately show ?thesis by (blast intro: that)
qed

lemma region_self: "region h q \<noteq> [] \<Longrightarrow> q \<in> set (region h q)"
  by (auto simp: region_def split: option.splits cell.splits)

lemma region_alloc:
  assumes "well_typed h" and "x \<in> set (region h a)"
  shows "x < next_addr h"
proof -
  have h: "bounded h" using assms(1) by (simp add: well_typed_def)
  have "region h a \<noteq> []" using assms(2) by auto
  then obtain k v where "cells h a = Some (CKubicInit k)" "kubic_value h k = Some v" "region h a = a # kubic_own h k"
    using region_value [OF assms(1)] by blast
  then show ?thesis using assms(2) boundedD [OF h] kubic_own_alloc [of h k v x] by auto
qed

lemma region_frame:
  assumes "well_typed h" and "region h a \<noteq> []" and "\<forall>x \<in> set (region h a). cells h' x = cells h x"
  shows "region h' a = region h a"
proof -
  obtain k v where k: "cells h a = Some (CKubicInit k)" "kubic_value h k = Some v" "region h a = a # kubic_own h k"
    using region_value [OF assms(1,2)] by blast
  have "cells h' a = Some (CKubicInit k)" "kubic_own h' k = kubic_own h k"
    using k assms(3) kubic_frame [OF k(2), of h'] by auto
  then show ?thesis using k by (simp add: region_def)
qed


lemma loads_inv_init: "loads_inv (package_heap, [])"
  by (simp add: loads_inv_def package_heap_typed package_cells)

lemma default_value_kept:
  assumes "cells h 0 = cells package_heap 0" and "cells h 1 = cells package_heap 1"
  shows "cells h 0 = Some (CKubicInit default_struct)"
    and "kubic_value h default_struct = Some (default_struct\<lparr>sEtcd := \<lparr>localEtcd = NilPtr\<rparr>\<rparr>, Some (None, None))"
  using assms by (simp_all add: package_cells default_value)

lemma copy_step:
  assumes "loads_inv (h, qs)"
  obtains s' h' where "run_state (KubicInitConfiguration_DeepCopy (Ptr 0)) h = (Ok (Ptr (next_addr h)), h')"
    and "cells h' (next_addr h) = Some (CKubicInit s')"
    and "kubic_value h' s' = Some (default_struct\<lparr>sEtcd := \<lparr>localEtcd = NilPtr\<rparr>\<rparr>, Some (None, None))"
    and "list_all (\<lambda>x. next_addr h < x) (kubic_own h' s')" and "heap_ext h h'" and "well_typed h'"
proof -
  have wt: "well_typed h" and h: "bounded h" and d: "cells h 0 = cells package_heap 0" "cells h 1 = cells package_heap 1"
    using assms by (auto simp: loads_inv_def well_typed_def)
  note v = default_value_kept [OF d]
  have inj: "cells h 0 = Some (inj t_KubicInitConfiguration default_struct)" using v(1) by simp
  have "ptr_ok t_KubicInitConfiguration h (Ptr 0)" using v(1) by (simp add: ptr_ok_def t_KubicInitConfiguration_def)
  from kubic_copier.copy_typed [OF wt this]
  have wt': "well_typed h'" if "run_state (KubicInitConfiguration_DeepCopy (Ptr 0)) h = (r, h')" for r h'
    using that by (auto simp: KubicInitConfiguration_DeepCopy_def)
  show ?thesis
  proof (rule kubic_copier.copy_ptr [OF h inj v(2)])
    fix s' h'
    assume r: "run_state (deep_copy t_KubicInitConfiguration KubicInitConfiguration_DeepCopyInto (Ptr 0)) h =
        (Ok (Ptr (next_addr h)), h')"
      and *: "cells h' (next_addr h) = Some (inj t_KubicInitConfiguration s')"
      "kubic_value h' s' = Some (default_struct\<lparr>sEtcd := \<lparr>localEtcd = NilPtr\<rparr>\<rparr>, Some (None, None))"
      "list_all (\<lambda>x. next_addr h < x) (kubic_own h' s')" "heap_ext h h'"
    have r': "run_state (KubicInitConfiguration_DeepCopy (Ptr 0)) h = (Ok (Ptr (next_addr h)), h')"
      using r by (simp add: KubicInitConfiguration_DeepCopy_def)
    show thesis by (rule that [OF r' _ *(2-4) wt' [OF r']]) (use *(1) in simp)
  qed
qed

lemma loads_inv_copy:
  assumes inv: "loads_inv (h, qs)" and run: "run_state (KubicInitConfiguration_DeepCopy (Ptr 0)) h = (Ok (Ptr q), h')"
  shows "loads_inv (h', q # qs)"
proof -
  have wt: "well_typed h" and two: "2 \<le> next_addr h" using inv by (auto simp: loads_inv_def)
  obtain s' h1 where r1: "run_state (KubicInitConfiguration_DeepCopy (Ptr 0)) h = (Ok (Ptr (next_addr h)), h1)"
    and c: "cells h1 (next_addr h) = Some (CKubicInit s')"
    and f: "list_all (\<lambda>x. next_addr h < x) (kubic_own h1 s')" and e: "heap_ext h h1" and wt': "well_typed h1"
    by (rule copy_step [OF inv]) (rule that)
  have q: "q = next_addr h" "h' = h1" using run r1 by auto
  have new: "next_addr h \<le> x" if "x \<in> set (region h' q)" for x
    using that c f by (auto simp: region_def q list_all_iff)
  have old: "region h' r = region h r" if "region h r \<noteq> []" for r
    by (rule region_frame [OF wt that]) (use e region_alloc [OF wt] in \<open>auto simp: heap_ext_def q\<close>)
  have "cells h' 0 = cells h 0" "cells h' 1 = cells h 1" using e two by (auto simp: heap_ext_def q)
  moreover have "q \<notin> set qs"
  proof
    assume "q \<in> set qs"
    then have "region h q \<noteq> []" using inv by (simp add: loads_inv_def)
    then have "q \<in> set (region h q)" by (rule region_self)
    then show False using region_alloc [OF wt] q by blast
  qed
  moreover have "region h' q \<noteq> []" using c by (simp add: region_def q)
  moreover have "set (region h' q) \<inter> set (region h r) = {}" for r
    using new region_alloc [OF wt] by force
  moreover have "2 \<le> x" if "x \<in> set (region h' q)" for x using new [OF that] two by linarith
  moreover have "2 \<le> next_addr h'" using e two by (simp add: heap_ext_def q)
  moreover have "well_typed h'" using wt' q by simp
  ultimately show ?thesis using inv old unfolding loads_inv_def by auto
qed

lemma loads_inv_modify:
  assumes inv: "loads_inv (h, qs)" and q: "q \<in> set qs" and w: "writes_through q h h'"
  shows "loads_inv (h', qs)"
proof -
  have wt: "well_typed h" and two: "2 \<le> next_addr h" using inv by (auto simp: loads_inv_def)
  have dis: "set (region h q) \<inter> set (region h r) = {}" if "r \<in> set qs" "r \<noteq> q" for r
    using inv q that by (auto simp: loads_inv_def)
  have kept: "cells h' x = cells h x" if "x < next_addr h" "x \<notin> set (region h q)" for x
    using w that by (simp add: writes_through_def)
  have reach: "x \<in> set (region h q) \<or> next_addr h \<le> x" if "x \<in> set (region h' q)" for x
    using w that by (simp add: writes_through_def)
  have old: "region h' r = region h r" if "r \<in> set qs" "r \<noteq> q" for r
  proof (rule region_frame [OF wt])
    show "region h r \<noteq> []" using inv that by (simp add: loads_inv_def)
    show "\<forall>x \<in> set (region h r). cells h' x = cells h x"
      using dis [OF that] region_alloc [OF wt, of _ r] kept by blast
  qed
  have low: "2 \<le> x" if "x \<in> set (region h q)" for x using inv q that by (simp add: loads_inv_def)
  have "cells h' 0 = cells h 0" by (rule kept) (use low [of 0] two in auto)
  moreover have "cells h' 1 = cells h 1" by (rule kept) (use low [of 1] two in auto)
  moreover have "region h' r \<noteq> [] \<and> (\<forall>x \<in> set (region h' r). 2 \<le> x)" if "r \<in> set qs" for r
  proof (cases "r = q")
    case True
    then show ?thesis using reach low two w by (fastforce simp: writes_through_def)
  next
    case False
    then show ?thesis using old [OF that] inv that by (simp add: loads_inv_def)
  qed
  moreover have "set (region h' r) \<inter> set (region h' r') = {}" if "r \<in> set qs" "r' \<in> set qs" "r \<noteq> r'" for r r'
  proof -
    have apart: "set (region h' q) \<inter> set (region h' u) = {}" if "u \<in> set qs" "u \<noteq> q" for u
      using old [OF that] dis [OF that] reach region_alloc [OF wt, of _ u] by fastforce
    consider "r = q" | "r' = q" | "r \<noteq> q" "r' \<noteq> q" by blast
    then show ?thesis
    proof cases
      case 3
      then show ?thesis using old that inv by (simp add: loads_inv_def)
    qed (use apart that in auto)
  qed
  ultimately show ?thesis
    using inv w unfolding loads_inv_def by (auto simp: writes_through_def)
qed

lemma loads_inv_reachable: "loader_step\<^sup>*\<^sup>* (package_heap, []) st \<Longrightarrow> loads_inv st"
proof (induction rule: rtranclp_induct)
  case base
  show ?case by (rule loads_inv_init)
next
  case (step s t)
  obtain h qs where s: "s = (h, qs)" by fastforce
  from step(2) show ?case unfolding s
    by (cases rule: loader_stepE) (use step(3) s loads_inv_copy loads_inv_modify in auto)
qed

text \<open>
  C13. However often the configuration is loaded and whatever is written through the loaded
  configurations, the package variable \<open>defaultConfiguration\<close> keeps its value, every further load starts
  from exactly that value, and two loaded configurations never share a cell.
\<close>

theorem loads_keep_defaults:
  assumes "loader_step\<^sup>*\<^sup>* (package_heap, []) (h, qs)"
  shows "config_at h 0 = Some defaultConfiguration
    \<and> (\<exists>q h'. run_state (KubicInitConfiguration_DeepCopy (Ptr 0)) h = (Ok (Ptr q), h')
        \<and> config_at h' q = Some defaultConfiguration)
    \<and> distinct (0 # qs)
    \<and> pairwise (\<lambda>q r. set (region h q) \<inter> set (region h r) = {}) (set (0 # qs))"
proof -
  note inv = loads_inv_reachable [OF assms]
  have d: "cells h 0 = cells package_heap 0" "cells h 1 = cells package_heap 1"
    using inv by (auto simp: loads_inv_def)
  note v = default_value_kept [OF d]
  have 1: "config_at h 0 = Some defaultConfiguration"
    using v by (simp add: config_at_def config_of_default del: config_of.simps)
  have 2: "\<exists>q h'. run_state (KubicInitConfiguration_DeepCopy (Ptr 0)) h = (Ok (Ptr q), h')
        \<and> config_at h' q = Some defaultConfiguration"
  proof (rule copy_step [OF inv])
    fix s' h'
    assume "run_state (KubicInitConfiguration_DeepCopy (Ptr 0)) h = (Ok (Ptr (next_addr h)), h')"
      and "cells h' (next_addr h) = Some (CKubicInit s')"
      and "kubic_value h' s' = Some (default_struct\<lparr>sEtcd := \<lparr>localEtcd = NilPtr\<rparr>\<rparr>, Some (None, None))"
    then show ?thesis
      by (intro exI [of _ "next_addr h"] exI [of _ h'])
        (simp add: config_at_def config_of_default del: config_of.simps)
  qed
  have r0: "set (region h 0) = {0, 1}"
    using v(1) d by (auto simp: region_def kubic_own_def etcd_own_def default_struct_def package_cells
        local_own_def t_LocalEtcdConfiguration_def)
  have low: "2 \<le> x" if "q \<in> set qs" "x \<in> set (region h q)" for q x using inv that by (simp add: loads_inv_def)
  have self: "q \<in> set (region h q)" if "q \<in> set qs" for q
    using inv that by (simp add: loads_inv_def region_self)
  have "0 \<notin> set qs" using low [OF _ self] by fastforce
  moreover have "set (region h 0) \<inter> set (region h q) = {}" if "q \<in> set qs" for q
    unfolding r0 using low [OF that, of 0] low [OF that, of 1] by auto
  ultimately have "distinct (0 # qs) \<and> pairwise (\<lambda>q r. set (region h q) \<inter> set (region h r) = {}) (set (0 # qs))"
    using inv by (auto simp: loads_inv_def pairwise_def)
  with 1 2 show ?thesis by blast
qed


text \<open>A load whose copy has been given a token.\<close>

definition loaded_struct :: "string \<Rightarrow> KubicInitStruct" where
  "loaded_struct tok = default_struct
     \<lparr>sClusterFormation := (sClusterFormation default_struct)\<lparr>Token := tok\<rparr>, sEtcd := \<lparr>localEtcd = Ptr 3\<rparr>\<rparr>"

definition loaded_heap :: "string \<Rightarrow> gheap" where
  "loaded_heap tok =
     \<lparr>next_addr = 4,
      cells = (cells package_heap)(2 \<mapsto> CKubicInit (loaded_struct tok),
                                   3 \<mapsto> CLocalEtcd (zero t_LocalEtcdConfiguration))\<rparr>"

lemma loaded_cells [simp]:
  "cells (loaded_heap tok) 2 = Some (CKubicInit (loaded_struct tok))"
  "cells (loaded_heap tok) 3 = Some (CLocalEtcd (zero t_LocalEtcdConfiguration))"
  "next_addr (loaded_heap tok) = 4"
  by (simp_all add: loaded_heap_def)

lemma package_copy:
  "run_state (KubicInitConfiguration_DeepCopy (Ptr 0)) package_heap = (Ok (Ptr 2), loaded_heap [])"
proof -
  have tok: "loaded_struct [] = default_struct\<lparr>sEtcd := \<lparr>localEtcd = Ptr 3\<rparr>\<rparr>"
    by (simp add: loaded_struct_def default_struct_def defaultConfiguration_def)
  show ?thesis
    by (simp add: KubicInitConfiguration_DeepCopy_def deep_copy_def KubicInitConfiguration_DeepCopyInto_def
        EtcdConfiguration_DeepCopyInto_def LocalEtcdConfiguration_DeepCopyInto_def copy_place_def
        copy_slice_field_def run_new package_heap_def put_cell_def gotype_defs default_struct_def
        loaded_heap_def tok) (simp add: fun_eq_iff)
qed

lemma loaded_regions:
  "region (loaded_heap tok) 2 = [2, 3]" "set (region (loaded_heap tok) 0) = {0, 1}"
  by (simp_all add: region_def kubic_own_def etcd_own_def loaded_struct_def local_own_def t_LocalEtcdConfiguration_def)
    (auto simp: loaded_heap_def package_heap_def default_struct_def t_LocalEtcdConfiguration_def)

lemma loaded_heap_typed: "well_typed (loaded_heap tok)"
proof -
  have "kubic_value (loaded_heap tok) default_struct \<noteq> None"
    by (subst default_value) (simp_all add: loaded_heap_def package_heap_def)
  moreover have "kubic_value (loaded_heap tok) (loaded_struct tok) \<noteq> None"
    by (simp add: kubic_value_def etcd_value_def loaded_struct_def local_value_def t_LocalEtcdConfiguration_def)
  ultimately show ?thesis
    by (auto simp: well_typed_def bounded_def loaded_heap_def package_heap_def local_value_def
        t_LocalEtcdConfiguration_def split: if_splits)
qed

lemma loaded_frame: "x \<noteq> 2 \<Longrightarrow> x \<noteq> 3 \<Longrightarrow> cells (loaded_heap tok) x = cells (loaded_heap tok') x"
  by (simp add: loaded_heap_def)

lemma loaded_reachable: "loader_step\<^sup>*\<^sup>* (package_heap, []) (loaded_heap ''abcdef'', [2])"
proof -
  have "loader_step (package_heap, []) (loaded_heap [], [2])"
    by (rule loader_step.copy [OF package_copy])
  moreover have "loader_step (loaded_heap [], [2]) (loaded_heap ''abcdef'', [2])"
    by (rule loader_step.modify) (auto simp: writes_through_def loaded_heap_typed loaded_regions loaded_frame)
  ultimately show ?thesis by (meson converse_rtranclp_into_rtranclp rtranclp.rtrancl_refl)
qed

theorem loads_keep_defaults_witness:
  "config_at (loaded_heap ''abcdef'') 0 = Some defaultConfiguration
    \<and> (\<exists>q h'. run_state (KubicInitConfiguration_DeepCopy (Ptr 0)) (loaded_heap ''abcdef'') = (Ok (Ptr q), h')
        \<and> config_at h' q = Some defaultConfiguration)
    \<and> distinct (0 # [2 :: nat])
    \<and> pairwise (\<lambda>q r. set (region (loaded_heap ''abcdef'') q) \<inter> set (region (loaded_heap ''abcdef'') r) = {})
        (set (0 # [2]))"
  by (rule loads_keep_defaults [OF loaded_reachable])

end
