(* ===== verification/Go_Template.thy ===== *)
theory Go_Template
  imports Util_Strings Go_URL
begin

text \<open>
  The part of Go's \<open>text/template\<close> that the templates of the program use: literal text, and actions
  that are pipelines of fields of the data, literals and calls of the registered functions. An action
  outside this part (control structures, variables, comments, trim markers, parentheses, the built-in
  functions, escapes in strings) is refused by the parser here with the error \<open>unsupported\<close>, which the library does
  not do; nothing is claimed of such templates. The engine is an instance of the parameter of
  \<open>ParseTemplate\<close> in theory Util_Strings.
\<close>

section \<open>Lexer\<close>

datatype token = TokField "string list" | TokIdent string | TokInt int | TokStr string | TokPipe

definition unsupported :: goerr where
  "unsupported = Plain ''unsupported action''"

definition ident_char :: "char \<Rightarrow> bool" where
  "ident_char c \<longleftrightarrow> is_alpha c \<or> is_digit c \<or> c = CHR ''_''"

definition is_blank :: "char \<Rightarrow> bool" where
  "is_blank c \<longleftrightarrow> c = CHR '' '' \<or> c = CHR 0x09"

text \<open>What may follow a name: a blank, the pipe symbol, or the closing braces.\<close>

definition at_terminator :: "string \<Rightarrow> bool" where
  "at_terminator s \<longleftrightarrow> s = [] \<or> is_blank (hd s) \<or> hd s = CHR ''|'' \<or> hd s = CHR ''}''"

text \<open>A chain of field names, after its first dot.\<close>

fun lex_path :: "string \<Rightarrow> string list \<times> string" where
  "lex_path [] = ([[]], [])"
| "lex_path (c # s) =
     (if ident_char c then (case lex_path s of (p, r) \<Rightarrow> ((c # hd p) # tl p, r))
      else if c = CHR ''.'' then (case lex_path s of (p, r) \<Rightarrow> ([] # p, r))
      else ([[]], c # s))"

fun dec_val :: "nat \<Rightarrow> string \<Rightarrow> nat" where
  "dec_val n [] = n"
| "dec_val n (c # s) = dec_val (n * 10 + (byte c - 48)) s"

lemma lex_path_length: "lex_path s = (p, r) \<Longrightarrow> length r \<le> length s"
  by (induction s arbitrary: p r) (fastforce split: prod.splits if_splits)+

lemmas scan_length = length_dropWhile_le le_trans [OF diff_le_self length_dropWhile_le]

text \<open>The tokens of an action up to its closing braces, and the text after them.\<close>

definition cons_tok :: "token \<Rightarrow> goerr + token list \<times> string \<Rightarrow> goerr + token list \<times> string" where
  "cons_tok t r = (case r of Inl e \<Rightarrow> Inl e | Inr (ts, s) \<Rightarrow> Inr (t # ts, s))"

function lex_action :: "string \<Rightarrow> goerr + token list \<times> string" where
  "lex_action [] = Inl (Plain ''unclosed action'')"
| "lex_action (c # s) =
     (if c = CHR ''}'' \<and> has_prefix s ''}'' then Inr ([], tl s)
      else if is_blank c then (if has_prefix s ''-}}'' then Inl unsupported else lex_action s)
      else if c = CHR ''|'' then cons_tok TokPipe (lex_action s)
      else if c = CHR ''.'' then
        (let (p, r) = lex_path s in
         if [] \<in> set p \<or> list_ex (\<lambda>f. is_digit (hd f)) p \<or> \<not> at_terminator r then Inl unsupported
         else cons_tok (TokField p) (lex_action r))
      else if c = CHR 0x22 then
        (let v = takeWhile (\<lambda>d. d \<noteq> CHR 0x22) s; r = dropWhile (\<lambda>d. d \<noteq> CHR 0x22) s in
         if r = [] \<or> backslash \<in> set v \<or> nl \<in> set v \<or> \<not> at_terminator (tl r) then Inl unsupported
         else cons_tok (TokStr v) (lex_action (tl r)))
      else if is_digit c then
        (let n = takeWhile is_digit s; r = dropWhile is_digit s in
         if \<not> at_terminator r \<or> (c = CHR ''0'' \<and> n \<noteq> []) then Inl unsupported
         else cons_tok (TokInt (int (dec_val 0 (c # n)))) (lex_action r))
      else if ident_char c then
        (let f = takeWhile ident_char s; r = dropWhile ident_char s in
         if \<not> at_terminator r then Inl unsupported else cons_tok (TokIdent (c # f)) (lex_action r))
      else Inl unsupported)"
  by pat_completeness auto
termination
  by (relation "measure length")
    (auto simp: less_Suc_eq_le scan_length dest: lex_path_length [OF sym])

declare lex_action.simps(2) [simp del]

section \<open>Parser\<close>

text \<open>
  An operand is a field, a literal or a function without arguments; a command is a list of operands, and
  a pipeline a list of commands.
\<close>

type_synonym pipeline = "token list list"

text \<open>A template: each action with the text before it, and the text after the last.\<close>

type_synonym tmpl = "(string \<times> pipeline) list \<times> string"

fun split_pipes :: "token list \<Rightarrow> token list list" where
  "split_pipes [] = [[]]"
| "split_pipes (TokPipe # ts) = [] # split_pipes ts"
| "split_pipes (t # ts) = (t # hd (split_pipes ts)) # tl (split_pipes ts)"

fun known_token :: "string list \<Rightarrow> token \<Rightarrow> bool" where
  "known_token funcs (TokIdent f) = (f \<in> set funcs)"
| "known_token funcs _ = True"

fun executable :: "token list \<Rightarrow> bool" where
  "executable (TokIdent _ # _) = True"
| "executable (TokField _ # _) = True"
| "executable _ = False"

definition parse_pipeline :: "string list \<Rightarrow> token list \<Rightarrow> goerr + pipeline" where
  "parse_pipeline funcs ts =
     (let cmds = split_pipes ts in
      if [] \<in> set cmds then Inl (Plain ''missing value for command'')
      else if \<not> list_all (known_token funcs) ts then Inl (Plain ''function not defined'')
      else if \<not> list_all executable (tl cmds) then Inl (Plain ''non executable command in pipeline'')
      else Inr cmds)"

definition add_action :: "string \<Rightarrow> pipeline \<Rightarrow> goerr + tmpl \<Rightarrow> goerr + tmpl" where
  "add_action text p r = (case r of Inl e \<Rightarrow> Inl e | Inr (as, tail) \<Rightarrow> Inr ((text, p) # as, tail))"

lemma cons_tok_Inr: "cons_tok t x = Inr (ts, r) \<Longrightarrow> \<exists>ts'. x = Inr (ts', r)"
  by (auto simp: cons_tok_def split: sum.splits)

lemma lex_action_length: "lex_action s = Inr (ts, r) \<Longrightarrow> length r \<le> length s"
proof (induction s arbitrary: ts r rule: measure_induct_rule [of length])
  case (less s)
  show ?case
  proof (cases s)
    case (Cons c s')
    have IH: "length r \<le> length s'" if "lex_action y = Inr (ts', r)" "length y \<le> length s'" for y ts'
      using less(1) [of y ts' r] that Cons by simp
    consider "r = tl s'" | y ts' where "lex_action y = Inr (ts', r)" "length y \<le> length s'"
      using less(2) unfolding Cons
      by (subst (asm) lex_action.simps(2))
        (auto simp: Let_def scan_length split: if_splits prod.splits dest!: cons_tok_Inr dest: lex_path_length)
    then show ?thesis using IH Cons by cases (simp_all add: le_diff_conv, force)
  qed (use less in simp)
qed


function parse_tmpl :: "string list \<Rightarrow> string \<Rightarrow> goerr + tmpl" where
  "parse_tmpl funcs s =
     (case str_index s ''{{'' of
        None \<Rightarrow> Inr ([], s)
      | Some i \<Rightarrow>
          (let rest = drop (i + length ''{{'') s in
           if has_prefix rest ''-'' \<or> has_prefix rest ''/*'' then Inl unsupported
           else
             (case lex_action rest of
                Inl e \<Rightarrow> Inl e
              | Inr (ts, rest') \<Rightarrow>
                  (case parse_pipeline funcs ts of
                     Inl e \<Rightarrow> Inl e
                   | Inr p \<Rightarrow> add_action (take i s) p (parse_tmpl funcs rest')))))"
  by pat_completeness auto
termination
proof (relation "measure (\<lambda>(funcs, s). length s)")
  fix funcs s i rest r ts rest' p
  assume "str_index s ''{{'' = Some i" "rest = drop (i + length ''{{'') s" "lex_action rest = Inr r" "(ts, rest') = r"
  then show "((funcs, rest'), funcs, s) \<in> measure (\<lambda>(funcs, s). length s)"
    using str_index_drop_less [of s "''{{''" i] lex_action_length [of rest ts rest'] by auto
qed simp

declare parse_tmpl.simps [simp del]

section \<open>Execution\<close>

text \<open>
  The data is given by its fields. A function takes the value of the stage before it as its last
  argument. Every error ends the execution.
\<close>

type_synonym tmpl_funcs = "(string \<times> (tval list \<Rightarrow> string outcome)) list"

definition call_func :: "tmpl_funcs \<Rightarrow> string \<Rightarrow> tval list \<Rightarrow> tval outcome" where
  "call_func funcs f args =
     (case map_of funcs f of
        None \<Rightarrow> Err (Plain ''function not defined'')
      | Some g \<Rightarrow> (case g args of Ok s \<Rightarrow> Ok (TStr s) | Err e \<Rightarrow> Err e | Panic p \<Rightarrow> Panic p))"

fun eval_operand :: "tmpl_funcs \<Rightarrow> (string list \<Rightarrow> tval option) \<Rightarrow> token \<Rightarrow> tval outcome" where
  "eval_operand funcs d (TokField p) =
     (case d p of None \<Rightarrow> Err (Plain ''can't evaluate field'') | Some v \<Rightarrow> Ok v)"
| "eval_operand funcs d (TokIdent f) = call_func funcs f []"
| "eval_operand funcs d (TokInt n) = Ok (TInt n)"
| "eval_operand funcs d (TokStr s) = Ok (TStr s)"
| "eval_operand funcs d TokPipe = Err unsupported"

fun eval_args :: "tmpl_funcs \<Rightarrow> (string list \<Rightarrow> tval option) \<Rightarrow> token list \<Rightarrow> tval list outcome" where
  "eval_args funcs d [] = Ok []"
| "eval_args funcs d (t # ts) =
     (case eval_operand funcs d t of
        Ok v \<Rightarrow> (case eval_args funcs d ts of Ok vs \<Rightarrow> Ok (v # vs) | r \<Rightarrow> r)
      | Err e \<Rightarrow> Err e
      | Panic p \<Rightarrow> Panic p)"

fun eval_command :: "tmpl_funcs \<Rightarrow> (string list \<Rightarrow> tval option) \<Rightarrow> tval list \<Rightarrow> token list \<Rightarrow> tval outcome" where
  "eval_command funcs d final [] = Err unsupported"
| "eval_command funcs d final (TokIdent f # args) =
     (case eval_args funcs d args of
        Ok vs \<Rightarrow> call_func funcs f (vs @ final)
      | Err e \<Rightarrow> Err e
      | Panic p \<Rightarrow> Panic p)"
| "eval_command funcs d final (t # args) =
     (if args \<noteq> [] \<or> final \<noteq> [] then Err (Plain ''can't give argument to non-function'')
      else eval_operand funcs d t)"

fun eval_pipeline :: "tmpl_funcs \<Rightarrow> (string list \<Rightarrow> tval option) \<Rightarrow> tval list \<Rightarrow> pipeline \<Rightarrow> tval outcome" where
  "eval_pipeline funcs d final [] = (case final of [v] \<Rightarrow> Ok v | _ \<Rightarrow> Err unsupported)"
| "eval_pipeline funcs d final (c # cs) =
     (case eval_command funcs d final c of
        Ok v \<Rightarrow> eval_pipeline funcs d [v] cs
      | r \<Rightarrow> r)"

fun show_val :: "tval \<Rightarrow> string" where
  "show_val (TStr s) = s"
| "show_val (TInt n) = (if n < 0 then CHR ''-'' # dec_str (nat (- n)) else dec_str (nat n))"

fun exec_actions :: "tmpl_funcs \<Rightarrow> (string list \<Rightarrow> tval option) \<Rightarrow> (string \<times> pipeline) list \<Rightarrow> string \<Rightarrow> string outcome" where
  "exec_actions funcs d [] tail = Ok tail"
| "exec_actions funcs d ((text, p) # as) tail =
     (case eval_pipeline funcs d [] p of
        Ok v \<Rightarrow>
          (case exec_actions funcs d as tail of Ok out \<Rightarrow> Ok (text @ show_val v @ out) | r \<Rightarrow> r)
      | Err e \<Rightarrow> Err e
      | Panic p \<Rightarrow> Panic p)"

definition exec_tmpl :: "tmpl_funcs \<Rightarrow> (string list \<Rightarrow> tval option) \<Rightarrow> tmpl \<Rightarrow> string outcome" where
  "exec_tmpl funcs d t = exec_actions funcs d (fst t) (snd t)"

text \<open>The engine for data whose fields are read by \<open>fields\<close>.\<close>

definition text_template :: "('d \<Rightarrow> string list \<Rightarrow> tval option) \<Rightarrow> (tmpl, 'd) template_engine" where
  "text_template read =
     \<lparr>tmpl_parse = parse_tmpl, tmpl_execute = \<lambda>funcs t d. exec_tmpl funcs (read d) t\<rparr>"

section \<open>Templates of fields\<close>

text \<open>
  Text in which some parts are fields: what the engine makes of it is the text with every field replaced
  by its value.
\<close>

datatype seg = Lit string | Hole "string list"

definition path_text :: "string list \<Rightarrow> string" where
  "path_text p = concat (map (\<lambda>f. CHR ''.'' # f) p)"

fun seg_text :: "seg \<Rightarrow> string" where
  "seg_text (Lit s) = s"
| "seg_text (Hole p) = ''{{ '' @ path_text p @ '' }}''"

fun seg_value :: "(string list \<Rightarrow> tval option) \<Rightarrow> seg \<Rightarrow> string" where
  "seg_value d (Lit s) = s"
| "seg_value d (Hole p) = (case d p of None \<Rightarrow> [] | Some v \<Rightarrow> show_val v)"

text \<open>Text that does not open an action, not even together with what follows it.\<close>

fun no_open :: "string \<Rightarrow> bool" where
  "no_open [] = True"
| "no_open (c # s) = ((if c = CHR ''{'' then s \<noteq> [] \<and> hd s \<noteq> CHR ''{'' else True) \<and> no_open s)"

definition field_name :: "string \<Rightarrow> bool" where
  "field_name f \<longleftrightarrow> f \<noteq> [] \<and> list_all ident_char f \<and> \<not> is_digit (hd f)"

fun good_seg :: "(string list \<Rightarrow> tval option) \<Rightarrow> seg \<Rightarrow> bool" where
  "good_seg d (Lit s) = no_open s"
| "good_seg d (Hole p) = (p \<noteq> [] \<and> list_all field_name p \<and> d p \<noteq> None)"

lemma no_open_index: "no_open s \<Longrightarrow> str_index (s @ r) ''{{'' = map_option ((+) (length s)) (str_index r ''{{'')"
proof (induction s)
  case Nil
  then show ?case by (simp add: option.map_ident)
next
  case (Cons c s)
  have "\<not> has_prefix ((c # s) @ r) ''{{''" using Cons.prems by (cases s) (auto split: if_splits)
  then show ?case using Cons by (auto simp: option.map_comp comp_def split: if_splits)
qed

text \<open>Running a template after some plain text.\<close>

definition run_tmpl :: "tmpl_funcs \<Rightarrow> (string list \<Rightarrow> tval option) \<Rightarrow> string \<Rightarrow> string outcome" where
  "run_tmpl funcs d s =
     (case parse_tmpl (map fst funcs) s of Inl e \<Rightarrow> Err e | Inr t \<Rightarrow> exec_tmpl funcs d t)"

lemma run_tmpl_plain: "str_index s ''{{'' = None \<Longrightarrow> run_tmpl funcs d s = Ok s"
  by (simp add: run_tmpl_def parse_tmpl.simps [of _ s] exec_tmpl_def)

lemma run_tmpl_text:
  assumes "no_open s" and "run_tmpl funcs d r = Ok out"
  shows "run_tmpl funcs d (s @ r) = Ok (s @ out)"
proof (cases "str_index r ''{{''")
  case None
  then show ?thesis
    using assms(2) no_open_index [OF assms(1), of r] by (simp add: run_tmpl_plain)
next
  case (Some i)
  have i: "str_index (s @ r) ''{{'' = Some (length s + i)" using no_open_index [OF assms(1), of r] Some by simp
  have "drop (length s + i + 2) (s @ r) = drop (i + 2) r" "take (length s + i) (s @ r) = s @ take i r"
    by simp_all
  then show ?thesis
    using assms(2) Some i
    by (auto simp: run_tmpl_def parse_tmpl.simps [of _ r] parse_tmpl.simps [of _ "s @ r"] exec_tmpl_def Let_def
        add_action_def add.assoc split: sum.splits if_splits outcome.splits prod.splits)
qed

lemma lex_path_text:
  assumes "list_all ident_char f" and "list_all (list_all ident_char) fs" and "\<not> ident_char c" and "c \<noteq> CHR ''.''"
  shows "lex_path (f @ path_text fs @ c # s) = (f # fs, c # s)"
  using assms(1,2)
proof (induction fs arbitrary: f)
  case Nil
  then show ?case using assms(3,4) by (induction f) (simp_all add: path_text_def)
next
  case (Cons g fs)
  have dot: "\<not> ident_char (CHR ''.'')" by (simp add: ident_char_def is_alpha_def is_digit_def in_range_def byte_def)
  have "path_text (g # fs) @ c # s = CHR ''.'' # (g @ path_text fs @ c # s)" by (simp add: path_text_def)
  then show ?case using Cons dot by (induction f) simp_all
qed


lemma lex_action_close: "lex_action ('' }}'' @ r) = Inr ([], r)"
  by (simp add: lex_action.simps(2) is_blank_def)

lemma lex_action_path:
  assumes "p \<noteq> []" and "list_all field_name p"
  shows "lex_action (CHR '' '' # path_text p @ '' }}'' @ r) = Inr ([TokField p], r)"
proof -
  obtain f fs where p: "p = f # fs" using assms(1) by (cases p) auto
  have blank: "\<not> ident_char (CHR '' '')" by (simp add: ident_char_def is_alpha_def is_digit_def in_range_def byte_def)
  have names: "list_all ident_char f" "list_all (list_all ident_char) fs"
    using assms(2) by (auto simp: p field_name_def list_all_iff)
  have path: "lex_path (f @ path_text fs @ '' }}'' @ r) = (p, '' }}'' @ r)"
    using lex_path_text [OF names blank, of "''}}'' @ r"] by (simp add: p)
  have ok: "[] \<notin> set p" "\<not> list_ex (\<lambda>f. is_digit (hd f)) p"
    using assms(2) by (auto simp: field_name_def list_all_iff list_ex_iff)
  have "path_text p @ '' }}'' @ r = CHR ''.'' # f @ path_text fs @ '' }}'' @ r" by (simp add: p path_text_def)
  moreover have "lex_action (CHR ''.'' # f @ path_text fs @ '' }}'' @ r) = Inr ([TokField p], r)"
    using path ok lex_action_close [of r]
    by (subst lex_action.simps(2)) (simp add: Let_def is_blank_def at_terminator_def cons_tok_def)
  ultimately show ?thesis by (subst lex_action.simps(2)) (simp add: is_blank_def)
qed

lemma parse_tmpl_action:
  assumes "\<not> has_prefix s ''-''" and "\<not> has_prefix s ''/*''"
    and "lex_action s = Inr (ts, r)" and "parse_pipeline funcs ts = Inr p"
  shows "parse_tmpl funcs (''{{'' @ s) = add_action [] p (parse_tmpl funcs r)"
  using assms by (subst parse_tmpl.simps) (simp add: Let_def)

lemma run_tmpl_hole:
  assumes "p \<noteq> []" and "list_all field_name p" and "d p = Some v" and "run_tmpl funcs d r = Ok out"
  shows "run_tmpl funcs d (seg_text (Hole p) @ r) = Ok (show_val v @ out)"
proof -
  have "parse_pipeline (map fst funcs) [TokField p] = Inr [[TokField p]]"
    by (simp add: parse_pipeline_def)
  from parse_tmpl_action [OF _ _ lex_action_path [OF assms(1,2)] this, of r]
  have "parse_tmpl (map fst funcs) (seg_text (Hole p) @ r) =
      add_action [] [[TokField p]] (parse_tmpl (map fst funcs) r)" by simp
  then show ?thesis
    using assms(3,4) by (auto simp: run_tmpl_def exec_tmpl_def add_action_def split: sum.splits)
qed

lemma run_tmpl_segs:
  "list_all (good_seg d) segs \<Longrightarrow>
     run_tmpl funcs d (concat (map seg_text segs)) = Ok (concat (map (seg_value d) segs))"
proof (induction segs)
  case Nil
  show ?case by (simp add: run_tmpl_plain)
next
  case (Cons g segs)
  then have IH: "run_tmpl funcs d (concat (map seg_text segs)) = Ok (concat (map (seg_value d) segs))" by simp
  show ?case
  proof (cases g)
    case (Lit s)
    then show ?thesis using run_tmpl_text [OF _ IH, of s] Cons.prems by simp
  next
    case (Hole p)
    then obtain v where "d p = Some v" using Cons.prems by auto
    then show ?thesis using run_tmpl_hole [OF _ _ _ IH, of p v] Cons.prems Hole by (simp del: seg_text.simps)
  qed
qed

lemma ParseTemplate_text_template:
  "ParseTemplate (text_template read) s d =
     (case parse_tmpl (map fst funcMap) s of
        Inl e \<Rightarrow> Err (Wrapped ''error when parsing template'' e)
      | Inr t \<Rightarrow>
          (case exec_tmpl funcMap (read d) t of
             Err e \<Rightarrow> Err (Wrapped ''error when executing template'' e)
           | Ok out \<Rightarrow> Ok out
           | Panic p \<Rightarrow> Panic p))"
  by (simp add: ParseTemplate_def text_template_def split: sum.split)

text \<open>
  A manifest template whose actions are fields of the configuration is rendered by replacing each
  action by the value of its field and leaving everything else, braces included, as it is.
\<close>

theorem ParseTemplate_fields:
  assumes "list_all (good_seg (read d)) segs"
  shows "ParseTemplate (text_template read) (concat (map seg_text segs)) d =
    Ok (concat (map (seg_value (read d)) segs))"
  using run_tmpl_segs [OF assms, of funcMap]
  by (auto simp: ParseTemplate_text_template run_tmpl_def split: sum.splits outcome.splits)


theorem ParseTemplate_fields_witness:
  "ParseTemplate (text_template (\<lambda>v p. if p = [''Cni'', ''Image''] then Some (TStr v) else None))
     (''image: {{ .Cni.Image }}'' @ [nl]) ''flannel:0.9.1'' = Ok (''image: flannel:0.9.1'' @ [nl])"
proof -
  let ?read = "\<lambda>v p. if p = [''Cni'', ''Image''] then Some (TStr v) else None"
  let ?segs = "[Lit ''image: '', Hole [''Cni'', ''Image''], Lit [nl]]"
  have "list_all (good_seg (?read ''flannel:0.9.1'')) ?segs"
    by (simp add: field_name_def ident_char_def is_alpha_def is_digit_def in_range_def byte_def nl_def)
  from ParseTemplate_fields [of ?read "''flannel:0.9.1''" ?segs, OF this] show ?thesis by (simp add: path_text_def)
qed

end
