(* ===== verification/Flannel_Render.thy ===== *)
theory Flannel_Render
  imports Cni Go_Template
begin

text \<open>
  The two flannel templates rendered by the engine of theory Go_Template, for every configuration:
  \<open>kubeadm\<close>'s \<open>ParseTemplate\<close>, which the driver calls, parses and executes a template without registered
  functions on a structure. The result is compared with a direct substitution, line by line.
\<close>

section \<open>The reference\<close>

definition value_fields :: "(string \<times> tval) list \<Rightarrow> string list \<Rightarrow> tval option" where
  "value_fields vs p = (case p of [f] \<Rightarrow> map_of vs f | _ \<Rightarrow> None)"

text \<open>The field of a line that has one, as \<open>{{ .Field }}\<close>, and its place.\<close>

definition line_hole :: "string \<Rightarrow> (nat \<times> string) option" where
  "line_hole l = map_option (\<lambda>i. (i, takeWhile (\<lambda>c. c \<noteq> CHR '' '') (drop (i + 4) l))) (str_index l ''{{ .'')"

definition fill_line :: "(string \<times> tval) list \<Rightarrow> string \<Rightarrow> string" where
  "fill_line vs l =
     (case line_hole l of
        None \<Rightarrow> l
      | Some (i, f) \<Rightarrow>
          take i l @ (case map_of vs f of None \<Rightarrow> [] | Some v \<Rightarrow> show_val v) @ drop (i + 4 + length f + 3) l)"

section \<open>Lines as segments\<close>

definition line_segs :: "string \<Rightarrow> seg list" where
  "line_segs l =
     (case line_hole l of
        None \<Rightarrow> [Lit (l @ [nl])]
      | Some (i, f) \<Rightarrow> [Lit (take i l), Hole [f], Lit (drop (i + 4 + length f + 3) l @ [nl])])"

text \<open>A line that the segments represent, with a value for its field.\<close>

definition line_ok :: "(string \<times> tval) list \<Rightarrow> string \<Rightarrow> bool" where
  "line_ok vs l \<longleftrightarrow>
     concat (map seg_text (line_segs l)) = l @ [nl] \<and> list_all (good_seg (value_fields vs)) (line_segs l)"

lemma no_brace_no_open: "CHR ''{'' \<notin> set l \<Longrightarrow> no_open (l @ r) = no_open r"
  by (induction l) auto

lemma no_brace_no_hole: "CHR ''{'' \<notin> set l \<Longrightarrow> line_hole l = None"
proof -
  assume "CHR ''{'' \<notin> set l"
  then have "str_index l ''{{ .'' = None" by (induction l) auto
  then show ?thesis by (simp add: line_hole_def)
qed

lemma no_brace_line_ok: "CHR ''{'' \<notin> set l \<Longrightarrow> line_ok vs l"
  by (simp add: line_ok_def line_segs_def no_brace_no_hole no_brace_no_open nl_def)

lemma line_segs_value: "concat (map (seg_value (value_fields vs)) (line_segs l)) = fill_line vs l @ [nl]"
  by (auto simp: line_segs_def fill_line_def value_fields_def split: option.split)

text \<open>The text of lines, the last of which is empty.\<close>

lemma str_join_lines: "str_join (ls @ [[]]) [nl] = concat (map (\<lambda>l. l @ [nl]) ls)"
proof (induction ls)
  case (Cons l ls)
  then show ?case by (cases ls) auto
qed simp

lemma run_lines:
  assumes "list_all (line_ok vs) ls"
  shows "run_tmpl funcs (value_fields vs) (str_join (ls @ [[]]) [nl]) =
    Ok (str_join (map (fill_line vs) ls @ [[]]) [nl])"
proof -
  let ?segs = "concat (map line_segs ls)"
  have "concat (map seg_text ?segs) = str_join (ls @ [[]]) [nl]"
    using assms unfolding str_join_lines by (induction ls) (auto simp: line_ok_def)
  moreover have "list_all (good_seg (value_fields vs)) ?segs"
    using assms by (auto simp: list_all_iff line_ok_def)
  moreover have "concat (map (seg_value (value_fields vs)) ?segs) = str_join (map (fill_line vs) ls @ [[]]) [nl]"
    unfolding str_join_lines by (induction ls) (auto simp: line_segs_value)
  ultimately show ?thesis using run_tmpl_segs by metis
qed

lemma lines_ok:
  assumes "filter (\<lambda>l. CHR ''{'' \<in> set l) ls = bs" and "list_all (line_ok vs) bs"
  shows "list_all (line_ok vs) ls"
  using assms no_brace_line_ok by (auto simp: list_all_iff)

section \<open>The templates\<close>

lemma config_map_lines_ok: "list_all (line_ok (config_map_values c)) FlannelConfigMap19_lines"
  by (rule lines_ok [OF config_map_braces])
    (simp add: line_ok_def line_segs_def line_hole_def path_text_def nl_def config_map_values_def value_fields_def
      field_name_def ident_char_def is_alpha_def is_digit_def in_range_def byte_def)

lemma daemon_set_lines_ok: "list_all (line_ok (daemon_set_values c)) FlannelDaemonSet19_lines"
  by (rule lines_ok [OF daemon_set_braces])
    (simp add: line_ok_def line_segs_def line_hole_def path_text_def nl_def daemon_set_values_def value_fields_def
      field_name_def ident_char_def is_alpha_def is_digit_def in_range_def byte_def)

lemma last_lines:
  "FlannelConfigMap19_lines \<noteq> []" "last FlannelConfigMap19_lines = []"
  "FlannelDaemonSet19_lines \<noteq> []" "last FlannelDaemonSet19_lines = []"
  unfolding FlannelConfigMap19_lines_def FlannelDaemonSet19_lines_def
  by (simp_all only: last.simps list.distinct if_False if_True refl not_False_eq_True)

lemma run_template_lines:
  assumes "ls \<noteq> []" and "last ls = []" and "list_all (line_ok vs) ls"
  shows "run_tmpl funcs (value_fields vs) (str_join ls [nl]) = Ok (str_join (map (fill_line vs) ls) [nl])"
proof -
  have ls: "ls = butlast ls @ [[]]" using append_butlast_last_id [OF assms(1)] assms(2) by simp
  have "list_all (line_ok vs) (butlast ls)"
    using assms(3) by (auto simp: list_all_iff dest: in_set_butlastD)
  moreover have "fill_line vs [] = []" by (simp add: fill_line_def line_hole_def)
  then have "map (fill_line vs) ls = map (fill_line vs) (butlast ls) @ [[]]"
    by (subst ls) simp
  ultimately show ?thesis using run_lines [of vs "butlast ls" funcs] ls by simp
qed

text \<open>
  C33. The templates of the flannel driver render for every configuration, without an error, and the
  result is the template with each field replaced in its line by the value the driver passes: no field
  is missing or misspelt, and nothing else of the template is touched.
\<close>

theorem flannel_templates_rendered:
  "run_tmpl [] (value_fields (config_map_values c)) FlannelConfigMap19 =
     Ok (str_join (map (fill_line (config_map_values c)) FlannelConfigMap19_lines) [nl])
   \<and> run_tmpl [] (value_fields (daemon_set_values c)) FlannelDaemonSet19 =
     Ok (str_join (map (fill_line (daemon_set_values c)) FlannelDaemonSet19_lines) [nl])"
  unfolding FlannelConfigMap19_def FlannelDaemonSet19_def
  by (intro conjI run_template_lines [OF last_lines(1,2) config_map_lines_ok]
      run_template_lines [OF last_lines(3,4) daemon_set_lines_ok])

end
