(* ===== verification/Template_Funcs.thy ===== *)
theory Template_Funcs
  imports Go_Template Go_IP
begin

text \<open>
  The functions that \<open>ParseTemplate\<close> registers, as a template sees them: what comes out of an action that
  calls one of them by its name, in terms of the encodings and of the text, not of the table.
\<close>

section \<open>Actions in a text\<close>

lemma run_tmpl_action:
  assumes "\<not> has_prefix s ''-''" and "\<not> has_prefix s ''/*''" and "lex_action s = Inr (ts, r)"
    and "parse_pipeline (map fst funcs) ts = Inr p" and "eval_pipeline funcs d [] p = Ok v"
    and "run_tmpl funcs d r = Ok out"
  shows "run_tmpl funcs d (''{{'' @ s) = Ok (show_val v @ out)"
  using parse_tmpl_action [OF assms(1-4)] assms(5,6)
  by (auto simp: run_tmpl_def exec_tmpl_def add_action_def split: sum.splits)

subsection \<open>Tokens\<close>

lemma blank_space [simp]: "is_blank (CHR '' '')" "at_terminator (CHR '' '' # s)"
  by (simp_all add: is_blank_def at_terminator_def)

lemma lex_space: "\<not> has_prefix s ''-}}'' \<Longrightarrow> lex_action (CHR '' '' # s) = lex_action s"
  by (simp add: lex_action.simps(2))

lemma not_ident: "\<not> ident_char (CHR '' '')" "\<not> is_digit (CHR '' '')" "\<not> ident_char (CHR ''.'')" "\<not> ident_char (CHR 0x22)"
  "\<not> ident_char (CHR ''}'')" "\<not> ident_char (CHR ''|'')" "\<not> is_digit (CHR 0x22)" "\<not> is_digit (CHR ''}'')"
  "\<not> is_digit (CHR ''|'')" "\<not> is_digit (CHR ''.'')" "\<not> ident_char (CHR 0x09)" "\<not> is_digit (CHR 0x09)" "\<not> ident_char (CHR ''-'')"
  "\<not> is_digit (CHR ''-'')"
  by (simp_all add: ident_char_def is_alpha_def is_digit_def in_range_def byte_def)

lemma takeWhile_stop: "list_all P f \<Longrightarrow> \<not> P c \<Longrightarrow> takeWhile P (f @ c # s) = f \<and> dropWhile P (f @ c # s) = c # s"
  by (induction f) auto

lemma lex_ident:
  assumes "field_name f"
  shows "lex_action (f @ CHR '' '' # s) = cons_tok (TokIdent f) (lex_action (CHR '' '' # s))"
proof -
  obtain c g where f: "f = c # g" and c: "ident_char c" "\<not> is_digit c" and g: "list_all ident_char g"
    using assms by (cases f) (auto simp: field_name_def)
  have "c \<noteq> CHR ''}''" "\<not> is_blank c" "c \<noteq> CHR ''|''" "c \<noteq> CHR ''.''" "c \<noteq> CHR 0x22"
    using c(1) not_ident by (auto simp: is_blank_def)
  then show ?thesis
    using c takeWhile_stop [OF g not_ident(1), of s]
    by (simp add: f lex_action.simps(2) Let_def del: takeWhile_append dropWhile_append)
qed

text \<open>A string without quotes, backslashes and line breaks.\<close>

definition quotable :: "string \<Rightarrow> bool" where
  "quotable v \<longleftrightarrow> CHR 0x22 \<notin> set v \<and> backslash \<notin> set v \<and> nl \<notin> set v"

lemma lex_string:
  assumes "quotable v"
  shows "lex_action (CHR 0x22 # v @ CHR 0x22 # CHR '' '' # s) = cons_tok (TokStr v) (lex_action (CHR '' '' # s))"
proof -
  have "list_all (\<lambda>d. d \<noteq> CHR 0x22) v" using assms by (auto simp: quotable_def list_all_iff)
  from takeWhile_stop [OF this, of "CHR 0x22" "CHR '' '' # s"] show ?thesis
    using assms by (simp add: lex_action.simps(2) [of "CHR 0x22"] Let_def is_blank_def quotable_def del: takeWhile_append dropWhile_append)
qed

lemma digit_char_props:
  assumes "d < 10"
  shows "is_digit (digit_char d)" and "byte (digit_char d) - 48 = d" and "digit_char d = CHR ''0'' \<longleftrightarrow> d = 0"
proof -
  have "d \<in> {0, 1, 2, 3, 4, 5, 6, 7, 8, 9}" using assms by auto
  then show "is_digit (digit_char d)" and "byte (digit_char d) - 48 = d" and "digit_char d = CHR ''0'' \<longleftrightarrow> d = 0"
    by (auto simp: is_digit_def in_range_def digit_char_def byte_def)
qed

lemma dec_str_digits: "list_all is_digit (dec_str n)"
proof (induction n rule: dec_str.induct)
  case (1 n)
  then show ?case by (subst dec_str.simps) (simp add: digit_char_props(1))
qed

lemma dec_val_append: "dec_val m (s @ t) = dec_val (dec_val m s) t"
  by (induction s arbitrary: m) simp_all

lemma dec_val_dec_str: "dec_val 0 (dec_str n) = n"
proof (induction n rule: dec_str.induct)
  case (1 n)
  then show ?case
    by (subst dec_str.simps) (simp add: dec_val_append digit_char_props(2))
qed

lemma dec_str_no_zero: "0 < n \<Longrightarrow> hd (dec_str n) \<noteq> CHR ''0''"
proof (induction n rule: dec_str.induct)
  case (1 n)
  then show ?case using dec_str_nonempty by (subst dec_str.simps) (auto simp: digit_char_props(3))
qed

lemma lex_int: "lex_action (dec_str n @ CHR '' '' # s) = cons_tok (TokInt (int n)) (lex_action (CHR '' '' # s))"
proof -
  obtain c g where n: "dec_str n = c # g" using dec_str_nonempty by (cases "dec_str n") auto
  have c: "is_digit c" and g: "list_all is_digit g" using dec_str_digits [of n] by (simp_all add: n)
  have "\<not> (c = CHR ''0'' \<and> g \<noteq> [])"
    using dec_str_no_zero [of n] n dec_str.simps [of 0] by (cases "n = 0") auto
  moreover have "c \<noteq> CHR ''}''" "\<not> is_blank c" "c \<noteq> CHR ''|''" "c \<noteq> CHR ''.''" "c \<noteq> CHR 0x22"
    using c not_ident by (auto simp: is_blank_def)
  moreover have "dec_val 0 (c # g) = n" using dec_val_dec_str [of n] by (simp only: n)
  ultimately show ?thesis
    using c takeWhile_stop [OF g not_ident(2), of s]
    by (simp add: n lex_action.simps(2) Let_def del: takeWhile_append dropWhile_append dec_val.simps) blast
qed

section \<open>Templates with functions\<close>

text \<open>
  The pieces of a template: plain text or a field, a function of one string applied to a field, and the
  two functions that take more.
\<close>

datatype piece =
    Seg seg
  | Apply string "string list"
  | Indent nat "string list"
  | Replace string string "string list"

fun piece_text :: "piece \<Rightarrow> string" where
  "piece_text (Seg g) = seg_text g"
| "piece_text (Apply f p) = ''{{ '' @ f @ '' '' @ path_text p @ '' }}''"
| "piece_text (Indent n p) = ''{{ indent '' @ dec_str n @ '' '' @ path_text p @ '' }}''"
| "piece_text (Replace a b p) =
     ''{{ replace '' @ [CHR 0x22] @ a @ [CHR 0x22] @ '' '' @ [CHR 0x22] @ b @ [CHR 0x22] @ '' '' @ path_text p @ '' }}''"

text \<open>What they stand for, the data being given by its fields.\<close>

definition string_at :: "(string list \<Rightarrow> tval option) \<Rightarrow> string list \<Rightarrow> string" where
  "string_at d p = (case d p of Some (TStr v) \<Rightarrow> v | _ \<Rightarrow> [])"

definition meaning :: "string \<Rightarrow> string \<Rightarrow> string" where
  "meaning f v =
     (if f = ''base64encode'' then EncodeToString StdEncoding v
      else if f = ''base64decode'' then (case DecodeString StdEncoding v of Inl err \<Rightarrow> err | Inr b \<Rightarrow> b)
      else if f = ''url64encode'' then EncodeToString RawURLEncoding v
      else if f = ''url64decode'' then (case DecodeString RawURLEncoding v of Inl err \<Rightarrow> [] | Inr b \<Rightarrow> b)
      else if f = ''safeYAMLId'' then SafeId v
      else concat (map (\<lambda>c. if c = CHR '' '' \<or> c = CHR '':'' then [backslash, c] else [c]) v))"

fun piece_value :: "(string list \<Rightarrow> tval option) \<Rightarrow> piece \<Rightarrow> string" where
  "piece_value d (Seg g) = seg_value d g"
| "piece_value d (Apply f p) = meaning f (string_at d p)"
| "piece_value d (Indent n p) =
     (let ls = text_lines (string_at d p) in
      str_join (hd ls # map (\<lambda>l. replicate n (CHR '' '') @ l) (tl ls)) [nl])"
| "piece_value d (Replace a b p) = str_replace (string_at d p) a b"

definition string_field :: "(string list \<Rightarrow> tval option) \<Rightarrow> string list \<Rightarrow> bool" where
  "string_field d p \<longleftrightarrow> p \<noteq> [] \<and> list_all field_name p \<and> (\<exists>v. d p = Some (TStr v))"

fun good_piece :: "(string list \<Rightarrow> tval option) \<Rightarrow> piece \<Rightarrow> bool" where
  "good_piece d (Seg g) = good_seg d g"
| "good_piece d (Apply f p) =
     (f \<in> {''base64encode'', ''base64decode'', ''url64encode'', ''url64decode'', ''safeYAMLId'', ''safePath''} \<and> string_field d p)"
| "good_piece d (Indent n p) = string_field d p"
| "good_piece d (Replace a b p) = (quotable a \<and> quotable b \<and> string_field d p)"

text \<open>Each kind of action is lexed to its tokens.\<close>

lemma path_no_minus: "p \<noteq> [] \<Longrightarrow> \<not> has_prefix (path_text p @ s) ''-}}''"
  by (cases p) (simp_all add: path_text_def)

lemma lex_apply:
  assumes "field_name f" and "p \<noteq> []" and "list_all field_name p"
  shows "lex_action (CHR '' '' # f @ CHR '' '' # path_text p @ '' }}'' @ r) = Inr ([TokIdent f, TokField p], r)"
proof -
  have "\<not> has_prefix (f @ CHR '' '' # path_text p @ '' }}'' @ r) ''-}}''"
    using assms(1) not_ident by (cases f) (auto simp: field_name_def)
  then show ?thesis
    using lex_ident [OF assms(1), of "path_text p @ '' }}'' @ r"] lex_action_path [OF assms(2,3), of r]
    by (simp add: lex_space cons_tok_def)
qed

lemma lex_indent:
  assumes "p \<noteq> []" and "list_all field_name p"
  shows "lex_action ('' indent '' @ dec_str n @ CHR '' '' # path_text p @ '' }}'' @ r) =
    Inr ([TokIdent ''indent'', TokInt (int n), TokField p], r)"
proof -
  have f: "field_name ''indent''" by (simp add: field_name_def ident_char_def is_alpha_def is_digit_def in_range_def byte_def)
  have "\<not> has_prefix (dec_str n @ s) ''-}}''" for s
    using dec_str_digits [of n] dec_str_nonempty [of n] not_ident by (cases "dec_str n") auto
  then show ?thesis
    using lex_ident [OF f, of "dec_str n @ CHR '' '' # path_text p @ '' }}'' @ r"]
      lex_int [of n "path_text p @ '' }}'' @ r"] lex_action_path [OF assms, of r]
    by (simp add: lex_space cons_tok_def)
qed

lemma lex_replace:
  assumes "quotable a" and "quotable b" and "p \<noteq> []" and "list_all field_name p"
  shows "lex_action ('' replace '' @ CHR 0x22 # a @ CHR 0x22 # CHR '' '' # CHR 0x22 # b @ CHR 0x22 # CHR '' '' #
      path_text p @ '' }}'' @ r) = Inr ([TokIdent ''replace'', TokStr a, TokStr b, TokField p], r)"
proof -
  have f: "field_name ''replace''" by (simp add: field_name_def ident_char_def is_alpha_def is_digit_def in_range_def byte_def)
  show ?thesis
    using lex_ident [OF f] lex_string [OF assms(1)] lex_string [OF assms(2)] lex_action_path [OF assms(3,4), of r]
    by (simp add: lex_space cons_tok_def)
qed

text \<open>The registered functions compute these meanings.\<close>

lemma funcMap_apply:
  assumes "f \<in> {''base64encode'', ''base64decode'', ''url64encode'', ''url64decode'', ''safeYAMLId'', ''safePath''}"
  shows "call_func funcMap f [TStr v] = Ok (TStr (meaning f v))"
proof -
  have "safePath v = concat (map (\<lambda>c. if c = CHR '' '' \<or> c = CHR '':'' then [backslash, c] else [c]) v)"
    by (induction v) simp_all
  then show ?thesis
    using assms
    by (auto simp: call_func_def funcMap_def unary_def meaning_def base64encode_def base64decode_def URL64encode_def
        URL64decode_def split: sum.split)
qed

lemma funcMap_indent:
  "call_func funcMap ''indent'' [TInt (int n), TStr v] =
     Ok (TStr (str_join (hd (text_lines v) # map (\<lambda>l. replicate n (CHR '' '') @ l) (tl (text_lines v))) [nl]))"
proof -
  obtain l ls where ls: "split_on v [nl] = l # ls" by (cases "split_on v [nl]") auto
  have "str_replace v [nl] (nl # replicate n (CHR '' '')) = str_join (l # ls) (nl # replicate n (CHR '' ''))"
    unfolding str_replace_byte join_split_byte [symmetric] ls ..
  also have "\<dots> = str_join (l # map (\<lambda>l. replicate n (CHR '' '') @ l) ls) [nl]" by (rule join_pad)
  finally have "str_replace v [nl] (nl # replicate n (CHR '' '')) =
      str_join (l # map (\<lambda>l. replicate n (CHR '' '') @ l) ls) [nl]" .
  then have "indent (int n) v = Ok (str_join (hd (text_lines v) # map (\<lambda>l. replicate n (CHR '' '') @ l) (tl (text_lines v))) [nl])"
    by (simp add: indent_def Let_def text_lines_def str_repeat_byte ls del: str_join.simps)
  then show ?thesis by (simp add: call_func_def funcMap_def)
qed

lemma funcMap_replace: "call_func funcMap ''replace'' [TStr a, TStr b, TStr v] = Ok (TStr (str_replace v a b))"
  by (simp add: call_func_def funcMap_def tmpl_replace_def)

lemma run_piece:
  assumes "good_piece d x" and "run_tmpl funcMap d r = Ok out"
  shows "run_tmpl funcMap d (piece_text x @ r) = Ok (piece_value d x @ out)"
proof (cases x)
  case (Seg g)
  show ?thesis
  proof (cases g)
    case (Lit s)
    then show ?thesis using run_tmpl_text [OF _ assms(2), of s] assms(1) Seg by simp
  next
    case (Hole p)
    then obtain v where "d p = Some v" using assms(1) Seg by auto
    then show ?thesis using run_tmpl_hole [OF _ _ _ assms(2), of p v] assms(1) Seg Hole by (simp del: seg_text.simps)
  qed
next
  case (Apply f p)
  then obtain v where p: "p \<noteq> []" "list_all field_name p" "d p = Some (TStr v)"
    using assms(1) by (auto simp: string_field_def)
  have f: "f \<in> {''base64encode'', ''base64decode'', ''url64encode'', ''url64decode'', ''safeYAMLId'', ''safePath''}"
    using assms(1) Apply by simp
  then have "field_name f"
    by (auto simp: field_name_def ident_char_def is_alpha_def is_digit_def in_range_def byte_def)
  note lexed = lex_apply [OF this p(1,2), of r]
  have "parse_pipeline (map fst funcMap) [TokIdent f, TokField p] = Inr [[TokIdent f, TokField p]]"
    using f by (auto simp: parse_pipeline_def funcMap_def)
  from run_tmpl_action [where d = d and v = "TStr (meaning f v)", OF _ _ lexed this _ assms(2)] show ?thesis
    using p(3) by (simp add: Apply funcMap_apply [OF f] string_at_def)
next
  case (Indent n p)
  then obtain v where p: "p \<noteq> []" "list_all field_name p" "d p = Some (TStr v)"
    using assms(1) by (auto simp: string_field_def)
  have "parse_pipeline (map fst funcMap) [TokIdent ''indent'', TokInt (int n), TokField p] =
      Inr [[TokIdent ''indent'', TokInt (int n), TokField p]]"
    by (simp add: parse_pipeline_def funcMap_def)
  from run_tmpl_action [where d = d, OF _ _ lex_indent [OF p(1,2), of n r] this _ assms(2)] show ?thesis
    using p(3) by (simp add: Indent funcMap_indent string_at_def Let_def)
next
  case (Replace a b p)
  then obtain v where p: "p \<noteq> []" "list_all field_name p" "d p = Some (TStr v)" and ab: "quotable a" "quotable b"
    using assms(1) by (auto simp: string_field_def)
  have "parse_pipeline (map fst funcMap) [TokIdent ''replace'', TokStr a, TokStr b, TokField p] =
      Inr [[TokIdent ''replace'', TokStr a, TokStr b, TokField p]]"
    by (simp add: parse_pipeline_def funcMap_def)
  from run_tmpl_action [where d = d, OF _ _ lex_replace [OF ab p(1,2), of r] this _ assms(2)] show ?thesis
    using p(3) by (simp add: Replace funcMap_replace string_at_def)
qed

lemma run_pieces:
  "list_all (good_piece d) xs \<Longrightarrow>
     run_tmpl funcMap d (concat (map piece_text xs)) = Ok (concat (map (piece_value d) xs))"
  by (induction xs) (simp_all add: run_tmpl_plain run_piece del: piece_text.simps piece_value.simps)

text \<open>
  C37. The template functions reach the templates, each under its name and with its arguments in order: a
  template made of text, of fields and of calls of the eight functions on fields is rendered to the
  text with the values substituted, in which \<open>base64encode\<close>, \<open>base64decode\<close>, \<open>url64encode\<close> and
  \<open>url64decode\<close> are the encodings of the standard and of the unpadded URL-safe alphabet (with the error
  message, or nothing, for a malformed input), \<open>safeYAMLId\<close> and \<open>safePath\<close> escape, \<open>indent n\<close> puts \<open>n\<close> spaces
  before every line but the first, and \<open>replace old new\<close> replaces \<open>old\<close> by \<open>new\<close>.
\<close>

theorem ParseTemplate_functions:
  assumes "list_all (good_piece (read d)) xs"
  shows "ParseTemplate (text_template read) (concat (map piece_text xs)) d =
    Ok (concat (map (piece_value (read d)) xs))"
  using run_pieces [OF assms]
  by (auto simp: ParseTemplate_text_template run_tmpl_def split: sum.splits outcome.splits)

theorem ParseTemplate_functions_witness:
  "ParseTemplate (text_template (\<lambda>v p. if p = [''Image''] then Some (TStr v) else None))
     (''image: {{ base64encode .Image }}, {{ replace '' @ [CHR 0x22] @ '':'' @ [CHR 0x22] @ '' '' @ [CHR 0x22] @ ''/'' @
        [CHR 0x22] @ '' .Image }}, {{ indent 4 .Image }}'') ''a:1'' = Ok ''image: YTox, a/1, a:1''"
proof -
  let ?read = "\<lambda>v p. if p = [''Image''] then Some (TStr v) else None"
  let ?xs = "[Seg (Lit ''image: ''), Apply ''base64encode'' [''Image''], Seg (Lit '', ''),
    Replace '':'' ''/'' [''Image''], Seg (Lit '', ''), Indent 4 [''Image'']]"
  have "list_all (good_piece (?read ''a:1'')) ?xs"
    by (simp add: string_field_def field_name_def ident_char_def is_alpha_def is_digit_def in_range_def byte_def
        quotable_def backslash_def nl_def)
  note run = ParseTemplate_functions [of ?read "''a:1''" ?xs, OF this]
  have "EncodeToString StdEncoding ''a:1'' = ''YTox''" by code_simp
  moreover have "str_replace ''a:1'' '':'' ''/'' = ''a/1''" by code_simp
  moreover have "text_lines ''a:1'' = [''a:1'']" by (simp add: text_lines_def split_on_byte_notin nl_def)
  ultimately have "concat (map (piece_value (?read ''a:1'')) ?xs) = ''image: YTox, a/1, a:1''"
    by (simp add: string_at_def meaning_def)
  moreover have "dec_str 4 = ''4''" by (simp add: dec_str.simps digit_char_def)
  ultimately show ?thesis using run by (simp add: path_text_def)
qed

end
