(* ===== verification/Spec2Isabelle.thy ===== *)
theory Spec2Isabelle
  imports Commands Formation Password_Race Csr_Signing Seeder_Up Published_Config Bind_Address Deep_Copy_Props
    Flannel_Render Template_Funcs
begin

text \<open>
  A model of kubic-init, the program that turns a machine into a node of a Kubernetes cluster, with the
  properties that make it correct. The program (Go, under src/) has three commands: \<open>bootstrap\<close> loads a
  configuration, and either joins the cluster of another node (the seeder) or creates one with
  \<open>kubeadm init\<close>, then publishes its configuration, deploys a CNI driver and installs the assets (RBAC
  rules, resource definitions, manifests) found in some directories; \<open>reset\<close> undoes this; \<open>version\<close>
  prints build data. Two libraries for its controllers come along: shared passwords and
  automatically signed certificates.

  The world. Everything outside src/ is a parameter: the operating system, the API server, kubeadm and
  its packages, YAML and JSON decoders, the engine of manifest templates, cryptography. A state is a \<open>world\<close>: the
  history of the calls made to the outside, and the one package variable the program changes (the
  default kubelet arguments, which configuration objects alias). A computation is a value of
  \<open>(world, 'a) state\<close>; each external function is an arbitrary function of the history, so an answer may
  change from one call to the next, and performing a call appends it. Go errors are values of
  \<open>'a outcome\<close>, which is a result, an error or a panic; \<open>andthen\<close> is the \<open>if err != nil\<close> sequence. What
  a property needs of the outside is a named hypothesis about these functions (\<open>secret_store\<close> and
  \<open>steady_store\<close> for secrets; \<open>object_store\<close> for objects whose specifications the server completes;
  \<open>serves\<close> for the objects of manifests, where the server decides what it makes of each object and whether
  it takes an update; \<open>kinds_stay\<close>, \<open>kinds_provided\<close> and \<open>one_server\<close> for the kinds that discovery knows;
  \<open>rbac_server\<close> and \<open>unbinds\<close> for roles and bindings; \<open>crd_server\<close>, \<open>establishes\<close> and \<open>keeps_listing\<close> for
  resource definitions; \<open>csr_server\<close> and \<open>signer_alive\<close> for the signing of certificates;
  \<open>polls_immediately\<close> and \<open>polls_until\<close> for polling helpers, \<open>still_files\<close>, \<open>still_dirs\<close> and
  \<open>still_urls\<close> for inputs that do not change, \<open>good_rbac\<close> and \<open>readable_manifests\<close> for files that can be
  read and decoded, \<open>yaml_library\<close> for the YAML library, which omits what is empty and decodes over the
  value it is given), stating documented
  behaviour and satisfied by a concrete function in the witnesses. Loops without a bound in the source
  are partial functions: \<open>None\<close> is a command that does not return. There is no fuel: the number of
  attempts of a polling helper is a parameter of its contract, at least one and finite. Orders in which
  the runtime ranges over a Go map are parameters too. Logging is left out, and so are time stamps.

  Concurrency. The program itself has no goroutines, but its processes share the API server. Each of them
  is a run over the same history; where their interleaving matters (shared passwords), the code is split
  into steps between which others may act, and the split is proved to be the sequential code for a
  process that runs alone. The controller that signs certificates acts between any two calls.

  The theories, in the order in which they are used:
  \<^item> \<open>Prelude\<close>: errors, outcomes, sequencing, loops. \<open>Go_Strings\<close>, \<open>Go_Base64\<close>, \<open>Go_URL\<close>, \<open>Go_IP\<close>,
    \<open>Go_Template\<close>: what the source uses of Go's strings, filepath, base64, net/url, net and
    text/template packages (of the last, actions that are pipelines of fields, literals and calls).
  \<^item> \<open>Util_Names\<close>, \<open>Util_Strings\<close>: pkg/util. Namespaced names and the interface for objects with names
    (locale \<open>namespaced_objects\<close>, interpreted on every implementation); identifiers, duplicates,
    template functions. Round trips and closed forms.
    \<open>Template_Funcs\<close>: the template functions as a template that calls them by name sees them.
  \<^item> \<open>World\<close>: API objects, calls, the operating system, and \<open>calls_only\<close>, the compositional statement of
    which calls a computation can make, an instance of the locale \<open>io_relation\<close> for relations between
    the worlds before and after; another is that the package variable is left as it is. Worlds are a preorder by their histories.
  \<^item> \<open>Config\<close>, \<open>Config_Ops\<close>: pkg/config. Structures, defaults, loading with overrides from the
    environment, normalising the address of the seeder, setting variables, derived values.
    \<open>Bind_Address\<close>: the address to bind to, exact up to the last octet.
  \<^item> \<open>Go_Heap\<close>, \<open>Deep_Copy\<close>, \<open>Deep_Copy_Laws\<close>, \<open>Deep_Copy_Props\<close>: the generated deep copies, on a store of
    typed cells with pointers, slices and places (what an assignment can write). The contract of
    a copy function (\<open>copies\<close>) composes over nested structures; the locale \<open>deep_copier\<close> derives from
    it what a deep copy gives, and is interpreted on all sixteen structures. A step relation of
    loads and writes shows that the defaults survive every load. Elsewhere a configuration is its value.
  \<^item> \<open>Secrets\<close>, \<open>Password\<close>, \<open>AutoCert\<close>: pkg/crypto. The store of secrets, shared passwords and sets of
    them, certificates signed through a CertificateSigningRequest, the wait for the signature, the cache.
    \<open>Password_Race\<close>: controllers that share passwords, as a step relation; what is published stays, and
    what two of them can do when nothing is. \<open>Csr_Signing\<close>: the server with its signing controller, and
    that a certificate is issued.
  \<^item> \<open>Kubeadm\<close>: pkg/kubeadm. The command with its temporary file (locale \<open>kubeadm_configurer\<close>: what the
    command relies on in the function that makes the configuration, interpreted on both of them), the
    objects for init and join, reset.
  \<^item> \<open>Client\<close>: pkg/client. Finding the server, creating or updating objects (locale \<open>upsert\<close>: the
    contract of these functions over a server that is an object store, interpreted on pods, jobs,
    services and network policies), polling and waiting.
  \<^item> \<open>Loader\<close>, \<open>Crds\<close>: pkg/loader. Files, RBAC rules, manifests; resource definitions, where the
    progress of the poller's shrinking map is the invariant behind the soundness of the wait.
    \<open>Asset_Store\<close>: computations that take a list of objects, one step each, to a store or a record of
    calls, and how they compose (\<open>puts\<close>). \<open>Rbac_Install\<close>, \<open>Convergence\<close>: the rules that the RBAC files ask for
    and the objects that the manifests ask for, as such lists; the installations implement these
    specifications, what they leave when they run again, and what is sent whatever the server answers.
    \<open>Crd_Establish\<close>: a server that serves definitions some time after they were written, the success of the
    installation, and that everything is listed when it ends.
  \<^item> \<open>Flannel_Manifests\<close>, \<open>Cni\<close>: pkg/cni, pkg/cluster and the upload of the configuration. The registry of
    drivers (locale \<open>plugin_registry\<close>), the flannel driver and its templates. \<open>Flannel_Render\<close>: the
    templates rendered, against a substitution line by line. \<open>Published_Config\<close>: a published
    configuration mounted and loaded again, over the defaults; seeders with IPv6 addresses.
  \<^item> \<open>Bootstrap\<close>, \<open>Commands\<close>: cmd/kubic-init and the installation of all assets; the flags with their
    variables and defaults, the subcommands, \<open>main\<close> and its exit code. \<open>Formation\<close>: what a node that came
    up has given to kubeadm, for both roles. \<open>Cluster_Assets\<close>: the installation of rules, definitions and
    manifests on one history, where no part undoes another and the manifests can have objects of the kinds
    that the definitions define. \<open>Seeder_Up\<close>: the steps of a seeder after \<open>kubeadm init\<close> on a cluster that
    cooperates from then on (\<open>cooperates\<close> collects the hypotheses), and what is stored in the end. The store of the manifests is that of the objects which the dynamic client writes; a
    server on which manifests also describe definitions or rules is outside these two theories.
  \<^item> this theory: the properties of whole runs, which compose the call specifications of the parts:
    that a seeder comes up, which calls a role can make, what comes after what, what is deleted, when
    the command returns, how the seeder and a node that joins fit together.

  Each property is a theorem after a comment that states it; its witness applies it to a concrete
  environment. The lemmas named \<open>..._calls\<close> say which calls an operation makes; those named \<open>..._Ok\<close>
  say what a successful run implies.

  Not modelled: the parsers of the command line (parameters of \<open>main\<close>), the help text of the root command
  and the set-up of the logging flags, the seeding of the random source (a parameter), the package
  documentation, the build files and the deployment data. Templates with control
  structures, variables or built-in functions are outside the template engine given here; \<open>ParseTemplate\<close>
  itself takes any engine.
\<close>

section \<open>Runs of the whole command\<close>

lemma hist_ext_calls: "hist_ext P w w' \<Longrightarrow> \<exists>cs. history w' = history w @ cs \<and> list_all P cs"
  by (simp add: hist_ext_def)

lemma calls_of_append: "run_state m w = (r, w') \<Longrightarrow> history w' = history w @ cs \<Longrightarrow> calls_of m w = cs"
  by (simp add: calls_of_def)

lemma bootstrap_join_local:
  assumes "run_state (load_config B (kubicCfgFile F) (vars F)) w = (Ok c, w1)" and "\<not> IsSeeder c"
  shows "list_all local_call (calls_of (bootstrap_node B F) w)"
proof -
  have "run_state (bootstrap_node B F) w = run_state (NewJoin (be_kubeadm B) (be_os B) c []) w1"
    using assms by (simp add: bootstrap_node_def)
  moreover have "hist_ext local_call w w1"
    using calls_onlyD [OF load_config_calls assms(1)] by (rule hist_ext_mono) (simp add: config_call_local)
  moreover have "hist_ext local_call w1 (snd (run_state (NewJoin (be_kubeadm B) (be_os B) c []) w1))"
    using NewJoin_calls_only by (simp add: calls_only_iff)
  ultimately have "hist_ext local_call w (snd (run_state (bootstrap_node B F) w))"
    by (simp only: hist_ext_trans)
  then show ?thesis by (auto simp: hist_ext_def calls_of_def)
qed

text \<open>
  C11. A node that joins never talks to the API server: when the configuration loaded, flags included,
  names a seeder, the whole bootstrap only reads files and the environment, handles its temporary file,
  asks for the address of the host and executes commands; whatever it ends with.
\<close>

theorem join_stays_local:
  assumes "run_state (load_config B (kubicCfgFile F) (vars F)) w = (Ok c, w1)" and "\<not> IsSeeder c"
  shows "list_all local_call (calls_of (bootstrap_node B F) w)"
  using assms by (rule bootstrap_join_local)

text \<open>
  C3. Nothing is asked of the cluster before it exists: in every run of the bootstrap, of whatever role
  and outcome, all calls before \<open>kubeadm init\<close> is executed are local; so the connection, the config map,
  the CNI driver and the assets come after it.
\<close>

theorem cluster_calls_after_init:
  assumes "polls_ok B"
  shows "list_all local_call (takeWhile (\<lambda>c. \<not> is_init c) (calls_of (bootstrap_node B F) w))"
proof -
  obtain pre post where calls: "calls_of (bootstrap_node B F) w = pre @ post"
    and pre: "list_all local_call pre" and post: "post = [] \<or> list_ex is_init pre"
    using bootstrap_calls_split [OF assms] by blast
  from post have "takeWhile (\<lambda>c. \<not> is_init c) (pre @ post) = takeWhile (\<lambda>c. \<not> is_init c) pre"
    by (auto simp: list_ex_iff takeWhile_append1)
  then show ?thesis using keep_local [OF pre] by (simp add: calls)
qed

text \<open>
  C2. The automatic approval of new nodes is switched off exactly when the configuration says so: the
  deletions of a successful bootstrap of a seeder are the approval binding, once, when \<open>autoApprove\<close> is
  false, and none when it is true; no other object is ever deleted.
\<close>

theorem auto_approval_removed:
  assumes "polls_ok B"
    and "run_state (load_config B (kubicCfgFile F) (vars F)) w = (Ok c, w1)" and "IsSeeder c"
    and "run_state (bootstrap_node B F) w = (Ok (), w')"
  shows "deletions (history w') = deletions (history w) @
    (if AutoApprove (ClusterFormation c) then []
     else [ApiDelete KClusterRoleBinding [] (be_approve_binding B) True])"
proof -
  have "run_state (seed B F c) w1 = (Ok (), w')" using assms by (simp add: bootstrap_node_def)
  then obtain w2 where init: "run_state (NewInit (be_kubeadm B) (be_os B) c []) w1 = (Ok (), w2)"
    and rest: "run_state (after_init B F c) w2 = (Ok (), w')"
    unfolding seed_def by (auto elim!: andthen_OkE)
  have "deletions (history w1) = deletions (history w)"
    by (rule local_no_deletions [OF calls_only_mono [OF load_config_calls] assms(2)]) (simp add: config_call_local)
  moreover have "deletions (history w2) = deletions (history w1)"
    by (rule local_no_deletions [OF NewInit_calls init])
  ultimately show ?thesis using after_init_deletions [OF assms(1) rest] by simp
qed

text \<open>
  The bootstrap command does not return exactly when the node came up and blocking was asked for;
  otherwise it returns the outcome of the bootstrap. So every failure ends the process, in the state in
  which it happened.
\<close>

theorem bootstrap_blocks:
  "newCmdBootstrap_run B F w =
     (if is_Ok (fst (run_state (bootstrap_node B F) w)) \<and> block F then None
      else Some (run_state (bootstrap_node B F) w))"
  by (cases "run_state (bootstrap_node B F) w"; cases "fst (run_state (bootstrap_node B F) w)")
    (simp_all add: newCmdBootstrap_run_def sleep_forever_never_returns)

text \<open>
  A seeder given on the command line is not normalised: the variables are set after the address was
  completed, so \<open>--var ClusterFormation.Seeder=host\<close> makes the node join \<open>host\<close> without the default
  port, while the same value in the file or the environment becomes \<open>host:6443\<close>.
\<close>

theorem seeder_variable_not_normalised:
  assumes "run_state (ConfigFileAndDefaultsToKubicInitConfig (be_config B) (be_os B) file) w = (Ok c, w1)"
    and "swalker_write (be_config B) ''ClusterFormation.Seeder'' c host = (set_seeder host c, None)"
    and "CHR ''='' \<notin> set host" and "verbosity (be_config B) < 8"
  shows "run_state (load_config B file [''ClusterFormation.Seeder='' @ host]) w = (Ok (set_seeder host c), w1)
    \<and> APIServerEndpoint (join_discovery (set_seeder host c)) = host"
proof -
  have "str_split (''ClusterFormation.Seeder='' @ host) ''='' = [''ClusterFormation.Seeder'', host]"
    using split_on_byte_app [of "CHR ''=''" "''ClusterFormation.Seeder''" host] split_on_byte_notin [OF assms(3)]
    by (simp add: str_split_def)
  then have "SetVars (be_config B) c [''ClusterFormation.Seeder='' @ host] = (set_seeder host c, Ok ())"
    using assms(2,4) by (simp add: SetVars_def Let_def log_config_def glog_V_def)
  then show ?thesis using assms(1) by (simp add: load_config_def join_discovery_def)
qed

text \<open>
  Three stages in a row, each with its own calls: how far a run came determines which were made.
\<close>

lemma three_stages:
  assumes "calls_only P a" and "calls_only Q b" and "calls_only R c"
    and "run_state (andthen a (\<lambda>_. andthen b (\<lambda>_. c))) w = (r, w')"
  shows "\<exists>as bs cs. history w' = history w @ as @ bs @ cs \<and> list_all P as \<and> list_all Q bs \<and> list_all R cs
    \<and> (cs = [] \<or> (\<exists>x y w1 w2. run_state a w = (Ok x, w1) \<and> run_state b w1 = (Ok y, w2)
         \<and> history w1 = history w @ as \<and> history w2 = history w @ as @ bs))"
proof -
  obtain r1 w1 where 1: "run_state a w = (r1, w1)" by fastforce
  obtain as where as: "history w1 = history w @ as" "list_all P as"
    using calls_onlyD [OF assms(1) 1] by (auto simp: hist_ext_def)
  obtain r2 w2 where 2: "run_state b w1 = (r2, w2)" by fastforce
  obtain bs where bs: "history w2 = history w1 @ bs" "list_all Q bs"
    using calls_onlyD [OF assms(2) 2] by (auto simp: hist_ext_def)
  obtain r3 w3 where 3: "run_state c w2 = (r3, w3)" by fastforce
  obtain cs where cs: "history w3 = history w2 @ cs" "list_all R cs"
    using calls_onlyD [OF assms(3) 3] by (auto simp: hist_ext_def)
  consider "w' = w1" | "w' = w2" | x y where "w' = w3" "r1 = Ok x" "r2 = Ok y"
    using assms(4) 1 2 3 by (cases r1; cases r2) auto
  then show ?thesis
  proof cases
    case 1
    then show ?thesis using as by (intro exI [of _ as] exI [of _ "[]"]) simp
  next
    case 2
    then show ?thesis using as bs by (intro exI [of _ as] exI [of _ bs] exI [of _ "[]"]) simp
  next
    case 3
    then show ?thesis
      using as bs cs 1 2 by (intro exI [of _ as] exI [of _ bs] exI [of _ cs]) auto
  qed
qed

text \<open>
  C5. The assets are installed in order: the calls of \<open>InstallAllAssets\<close> are those for RBAC rules, then
  those for resource definitions, then those for manifests, whatever it ends with. When there is a call
  for manifests, the rules had been installed, the definitions in the directories had been read and
  created, and every one of them had then been found served: after the creation, and before the first call
  for manifests, the server was asked for the resources of its group and version and listed it, so that
  manifests of the new kinds can be created.
\<close>

theorem manifests_after_definitions:
  assumes "polls_immediately SleepMs (ld_poll L)" and "polls_immediately pause_waiting (crd_poll X)"
    and "\<And>h l. set (range_names X h l) = set l" and "\<And>h l. set (range_gvs X h l) = set l"
    and "run_state (InstallAllAssets L X M cfg c md cd rd) w = (r, w')"
  shows "\<exists>rbacs defs manifests. history w' = history w @ rbacs @ defs @ manifests
    \<and> list_all rbac_call rbacs \<and> list_all crd_call defs \<and> list_all manifest_call manifests
    \<and> (manifests = [] \<or> (\<exists>w1 crds w2 w3.
          run_state (InstallRBAC L cfg (rbac_options rd)) w = (Ok (), w1) \<and> history w1 = history w @ rbacs
        \<and> run_state (readCRDFiles X (defaultCRDOptions (crd_options cd))) w1 = (Ok crds, w2)
        \<and> run_state (CreateCRDs X cfg crds) w2 = (Ok (), w3)
        \<and> list_all (\<lambda>(name, d). seen X (history w3) (history w @ rbacs @ defs)
              (crdGroup d, crdVersion d) (crdPlural d)) crds))"
proof -
  obtain rbacs defs ms where calls: "history w' = history w @ rbacs @ defs @ ms"
    "list_all rbac_call rbacs" "list_all crd_call defs" "list_all manifest_call ms"
    and stages: "ms = [] \<or> (\<exists>x y w1 w2. run_state (InstallRBAC L cfg (rbac_options rd)) w = (Ok x, w1)
      \<and> run_state (InstallCRDs X cfg (crd_options cd)) w1 = (Ok y, w2)
      \<and> history w1 = history w @ rbacs \<and> history w2 = history w @ rbacs @ defs)"
    using three_stages [OF InstallRBAC_calls_only [OF assms(1)] InstallCRDs_calls_only [OF assms(2)]
        InstallManifests_calls_only assms(5) [unfolded InstallAllAssets_parts]] by blast
  show ?thesis
  proof (cases "ms = []")
    case True
    then show ?thesis using calls by blast
  next
    case False
    then obtain w1 w4 where rbac: "run_state (InstallRBAC L cfg (rbac_options rd)) w = (Ok (), w1)"
      and crd: "run_state (InstallCRDs X cfg (crd_options cd)) w1 = (Ok (), w4)"
      and h: "history w1 = history w @ rbacs" "history w4 = history w @ rbacs @ defs"
      using stages by auto
    obtain crds w2 w3 where steps: "run_state (readCRDFiles X (defaultCRDOptions (crd_options cd))) w1 = (Ok crds, w2)"
      "run_state (CreateCRDs X cfg crds) w2 = (Ok (), w3)"
      and wait: "run_state (WaitForCRDs X cfg crds (defaultCRDOptions (crd_options cd))) w3 = (Ok (), w4)"
      and names: "distinct (map fst crds)"
      by (rule InstallCRDs_stages [OF crd])
    have "seen X (history w3) (history w @ rbacs @ defs) (crdGroup d, crdVersion d) (crdPlural d)"
      if "(name, d) \<in> set crds" for name d
      using WaitForCRDs_seen [OF assms(2-4) wait map_of_is_SomeI [OF names that]] unfolding h .
    then have "list_all (\<lambda>(name, d). seen X (history w3) (history w @ rbacs @ defs)
              (crdGroup d, crdVersion d) (crdPlural d)) crds"
      by (auto simp: list_all_iff)
    then show ?thesis using calls rbac h(1) steps by blast
  qed
qed

text \<open>
  C4. A seeder and a joining node fit together: when both bootstraps succeed, with the same kubeadm, the
  same token and the same container engine in their configurations, \<open>kubeadm init\<close> and \<open>kubeadm join\<close> ran
  on configurations in which the token that the joining node presents is the one token that the cluster
  was created with, the address it asks is its seeder, and both nodes are registered in the same way
  (container socket and every kubelet argument).
\<close>

theorem cluster_formed:
  assumes "polls_ok Bs" and "be_kubeadm Bj = be_kubeadm Bs"
    and "run_state (load_config Bs (kubicCfgFile Fs) (vars Fs)) ws = (Ok cs, ws1)" and "IsSeeder cs"
    and "run_state (bootstrap_node Bs Fs) ws = (Ok (), ws')"
    and "run_state (load_config Bj (kubicCfgFile Fj) (vars Fj)) wj = (Ok cj, wj1)" and "\<not> IsSeeder cj"
    and "run_state (bootstrap_node Bj Fj) wj = (Ok (), wj')"
    and "Token (ClusterFormation cj) = Token (ClusterFormation cs)" and "Token (ClusterFormation cs) \<noteq> []"
    and "Engine (Runtime cj) = Engine (Runtime cs)" and "kubelet_settings wj = kubelet_settings ws"
  shows "\<exists>i bi j bj t.
      marshal_init_files (be_kubeadm Bs) i = Ok bi
    \<and> ran_kubeadm (Kubeadm (Paths cs)) ''init'' bi (calls_of (bootstrap_node Bs Fs) ws)
    \<and> marshal_join (be_kubeadm Bs) j = Inr bj
    \<and> ran_kubeadm (Kubeadm (Paths cj)) ''join'' bj (calls_of (bootstrap_node Bj Fj) wj)
    \<and> new_bootstrap_token (be_kubeadm Bs) (discoveryToken (joinBootstrapToken j)) = Inr t
    \<and> BootstrapTokens i = [t]
    \<and> APIServerEndpoint (joinBootstrapToken j) = Seeder (ClusterFormation cj)
    \<and> joinNodeRegistration j = initNodeRegistration i"
proof -
  from assms(1,3-5) obtain i bi where i: "marshal_init_files (be_kubeadm Bs) i = Ok bi"
    "ran_kubeadm (Kubeadm (Paths cs)) ''init'' bi (calls_of (bootstrap_node Bs Fs) ws)"
    "initNodeRegistration i = fst (run_state (node_registration (Engine (Runtime cs))) ws)"
    and t: "if Token (ClusterFormation cs) = [] then BootstrapTokens i = []
      else \<exists>t. new_bootstrap_token (be_kubeadm Bs) (Token (ClusterFormation cs)) = Inr t \<and> BootstrapTokens i = [t]"
    by (rule seeder_given)
  from assms(6-8) obtain j bj where j: "marshal_join (be_kubeadm Bj) j = Inr bj"
    "ran_kubeadm (Kubeadm (Paths cj)) ''join'' bj (calls_of (bootstrap_node Bj Fj) wj)"
    "joinNodeRegistration j = fst (run_state (node_registration (Engine (Runtime cj))) wj)"
    "joinBootstrapToken j = join_discovery cj"
    by (rule joiner_given)
  have "joinNodeRegistration j = initNodeRegistration i"
    unfolding i(3) j(3) assms(11) by (rule node_registration_cong [OF assms(12)])
  moreover obtain t where "new_bootstrap_token (be_kubeadm Bs) (Token (ClusterFormation cs)) = Inr t"
    "BootstrapTokens i = [t]"
    using t assms(10) by auto
  ultimately show ?thesis
    using i(1,2) j(1,2) unfolding assms(2)
    by (intro exI [of _ i] exI [of _ bi] exI [of _ j] exI [of _ bj] exI [of _ t])
      (simp add: j(4) join_discovery_def assms(9))
qed

text \<open>
  C1. A seeder comes up: when the configuration loads as that of a seeder and \<open>kubeadm init\<close> succeeds, then
  on a cluster that cooperates from then on (see theory Seeder_Up) the bootstrap succeeds and, with the flag
  that blocks, the command stays up for ever. The configuration has been uploaded as a config map. In the
  end the server has, over what there was after \<open>kubeadm init\<close>: the rules of flannel and then those of the
  RBAC files, with the binding that approves new nodes removed first unless the configuration approves
  them; and every resource definition. Every object of the manifests has been offered to it, those of the
  kinds that the definitions define included. Nothing else of these kinds has changed.
\<close>

theorem seeder_comes_up:
  assumes "run_state (load_config B (kubicCfgFile F) (vars F)) w = (Ok c, w0)" and "IsSeeder c"
    and "run_state (NewInit (be_kubeadm B) (be_os B) c []) w0 = (Ok (), w1)"
    and "cooperates B F c config aR \<rho> \<mu> crds admit \<sigma> (history w1)"
  shows "\<exists>y w'. run_state (bootstrap_node B F) w = (Ok (), w')
    \<and> newCmdBootstrap_run B F w = (if block F then None else Some (Ok (), w'))
    \<and> yaml_marshal (be_config B) c = Inr y \<and> ApiCreateOrUpdate (OConfigMap (uploaded B y)) \<in> set (history w')
    \<and> \<rho> (history w') = put_all rbac_key aR
        (flannel_rbac (PSP (Features c)) @ wanted_rbac (be_load B) (rbac_options (rbacDir F)))
        (approvals_kept B c (\<rho> (history w1)))
    \<and> (\<forall>d\<in>snd ` set crds. \<mu> (history w') (crd_id d) = Some (installed (\<mu> (history w1) (crd_id d)) d))
    \<and> (\<forall>n. n \<notin> crd_id ` snd ` set crds \<longrightarrow> \<mu> (history w') n = \<mu> (history w1) n)
    \<and> \<sigma> (history w') = fold (offer admit)
        (wanted_objects (ld_os (be_load B)) (be_manifests B) c (manifest_options (postControlManifDir F))) (\<sigma> (history w1))"
proof -
  obtain w' where run: "run_state (after_init B F c) w1 = (Ok (), w')"
    using after_init_run [OF assms(4)] by blast
  then have "run_state (bootstrap_node B F) w = (Ok (), w')"
    by (simp add: bootstrap_node_def seed_def assms(1-3))
  moreover from this have "newCmdBootstrap_run B F w = (if block F then None else Some (Ok (), w'))"
    by (simp add: newCmdBootstrap_run_def sleep_forever_never_returns)
  ultimately show ?thesis
    using after_init_run [OF assms(4)] run by (auto intro!: exI [of _ w'])
qed

section \<open>Concrete runs\<close>

definition demo_boot :: "config_deps \<Rightarrow> os_env \<Rightarrow> string boot_env" where
  "demo_boot D E =
     \<lparr>be_config = D, be_os = E, be_kubeadm = demo_kubeadm, be_admin_kubeconfig = ''/etc/kubernetes/admin.conf'',
      be_connect = \<lambda>_ _. None, be_api = demo_api, be_flannel = demo_flannel,
      be_approve_binding = ''kubeadm:node-autoapprove-bootstrap'',
      be_rest = \<lparr>build_config = \<lambda>_ _ _. Inr ''cfg'', in_cluster_config = \<lambda>_. Inr ''cfg'', current_user = \<lambda>_. Inr ''/root''\<rparr>,
      be_load = demo_load, be_crds = demo_crds, be_manifests = demo_manifest,
      be_build = \<lparr>Version = ''0.1'', Build = ''1'', BuildDate = [], Branch = [], GoVersion = []\<rparr>\<rparr>"

lemma demo_boot_sel [simp]:
  "be_config (demo_boot D E) = D" "be_os (demo_boot D E) = E" "be_kubeadm (demo_boot D E) = demo_kubeadm"
  "be_connect (demo_boot D E) = (\<lambda>_ _. None)" "be_api (demo_boot D E) = demo_api"
  "be_flannel (demo_boot D E) = demo_flannel"
  "be_approve_binding (demo_boot D E) = ''kubeadm:node-autoapprove-bootstrap''"
  "be_load (demo_boot D E) = demo_load" "be_crds (demo_boot D E) = demo_crds"
  by (simp_all add: demo_boot_def)

lemma demo_polls: "polls_ok (demo_boot D E)"
  using attempts_polls_immediately [of SleepMs] attempts_polls_immediately [of pause_waiting]
  by (simp add: polls_ok_def demo_load_def del: attempts.simps)

text \<open>The same operating system with given environment variables.\<close>

definition with_env :: "(string \<rightharpoonup> string) \<Rightarrow> os_env" where
  "with_env vs = demo_os\<lparr>os_lookup_env := \<lambda>_. vs\<rparr>"

abbreviation no_env :: os_env where
  "no_env \<equiv> with_env Map.empty"

lemma with_env_sel [simp]:
  "os_lookup_env (with_env vs) h = vs" "os_temp_file (with_env vs) h p = Inr ''/tmp/kubic-kubeadm.1.yaml''"
  "os_exec (with_env vs) h p as = None" "os_host_interface (with_env vs) h = Inr ''10.0.0.1''"
  by (simp_all add: with_env_def)

text \<open>A walker that can set the two fields used here.\<close>

definition demo_walker :: "string \<Rightarrow> KubicInitConfiguration \<Rightarrow> string \<Rightarrow> KubicInitConfiguration \<times> goerr option" where
  "demo_walker path c v =
     (if path = ''ClusterFormation.Seeder'' then (set_seeder v c, None)
      else if path = ''ClusterFormation.AutoApprove''
      then (c\<lparr>ClusterFormation := (ClusterFormation c)\<lparr>AutoApprove := (v = ''true'')\<rparr>\<rparr>, None)
      else (c, Some (Plain ''no such field'')))"

definition walker_deps :: config_deps where
  "walker_deps = demo_deps\<lparr>swalker_write := demo_walker\<rparr>"

lemma walker_deps_sel [simp]:
  "verbosity walker_deps = 3" "swalker_write walker_deps = demo_walker"
  "yaml_marshal walker_deps c = Inr (Seeder (ClusterFormation c))"
  by (simp_all add: walker_deps_def)

lemma default_config_loads:
  "run_state (ConfigFileAndDefaultsToKubicInitConfig walker_deps no_env []) w =
     (Ok defaultConfiguration, w\<lparr>history := history w @ [OsLookupEnv ''SEEDER'', OsLookupEnv ''TOKEN'']\<rparr>)"
proof -
  have "run_state (load_file walker_deps no_env []) w = (Ok (Some defaultConfiguration), w)"
    by (simp add: load_file_def)
  from run_load_config [OF this] show ?thesis
    by (simp add: overridden_def normalise_seeder_def log_config_def glog_V_def)
      (simp add: set_seeder_def defaultConfiguration_def)
qed

definition manual_config :: KubicInitConfiguration where
  "manual_config = defaultConfiguration
     \<lparr>ClusterFormation := (ClusterFormation defaultConfiguration)\<lparr>AutoApprove := False\<rparr>\<rparr>"

definition demo_flags :: boot_flags where
  "demo_flags = default_flags\<lparr>vars := [''ClusterFormation.AutoApprove=false''], loadAssets := False, block := False\<rparr>"

lemma demo_flags_sel [simp]:
  "kubicCfgFile demo_flags = []" "vars demo_flags = [''ClusterFormation.AutoApprove=false'']"
  "loadAssets demo_flags = False" "deployCNI demo_flags = True"
  by (simp_all add: demo_flags_def default_flags_def)

lemma manual_config_loads:
  "run_state (load_config (demo_boot walker_deps no_env) [] [''ClusterFormation.AutoApprove=false'']) w =
     (Ok manual_config, w\<lparr>history := history w @ [OsLookupEnv ''SEEDER'', OsLookupEnv ''TOKEN'']\<rparr>)"
proof -
  have "str_split ''ClusterFormation.AutoApprove=false'' ''='' = [''ClusterFormation.AutoApprove'', ''false'']"
    using split_on_byte_app [of "CHR ''=''" "''ClusterFormation.AutoApprove''" "''false''"]
      split_on_byte_notin [of "CHR ''=''" "''false''"]
    by (simp add: str_split_def)
  then show ?thesis
    by (simp add: load_config_def default_config_loads SetVars_def Let_def log_config_def glog_V_def
        demo_walker_def manual_config_def)
qed

theorem join_stays_local_witness:
  "list_all local_call (calls_of (bootstrap_node (demo_boot demo_deps demo_os)
     \<lparr>kubicCfgFile = [], vars = [], block = True, deployCNI = True, loadAssets = True, crdsDir = [], rbacDir = [],
      postControlManifDir = []\<rparr>) demo_world)"
proof (rule join_stays_local)
  show "\<not> IsSeeder (set_seeder ''master:6443'' (set_seeder ''master'' defaultConfiguration))"
    by (simp add: IsSeeder_def)
qed (simp add: load_config_def demo_config SetVars_def)

theorem cluster_calls_after_init_witness:
  "list_all local_call (takeWhile (\<lambda>c. \<not> is_init c)
     (calls_of (bootstrap_node (demo_boot walker_deps no_env) demo_flags) empty_world))"
  by (rule cluster_calls_after_init [OF demo_polls])

lemma demo_init_token: "\<exists>j. init_token demo_kubeadm c i = Ok j"
  by (simp add: init_token_def)

lemma demo_init_issuer:
  "IsSeeder c \<Longrightarrow> \<exists>url w'. run_state (init_issuer (with_env vs) c) w = (Ok url, w')"
  by (simp add: init_issuer_def GetPublicAPIAddress_def ChooseHostInterface_def run_andthen)

lemma demo_NewInit:
  assumes "IsSeeder c"
  shows "\<exists>w'. run_state (NewInit demo_kubeadm (with_env vs) c []) w = (Ok (), w')"
proof -
  have "\<exists>i w'. run_state (init_configuration demo_kubeadm (with_env vs) c gates) v = (Ok i, w')" for v gates
  proof -
    obtain url w1 where "run_state (init_issuer (with_env vs) c) v = (Ok url, w1)"
      using demo_init_issuer [OF assms] by blast
    moreover obtain j where "init_token demo_kubeadm c (init_bind c (on_cluster
         (\<lambda>cc. cc\<lparr>apiExtraArgs := AList.update ''oidc-issuer-url'' url (apiExtraArgs cc)\<rparr>)
         (init_base c gates))) = Ok j"
      using demo_init_token by blast
    ultimately show ?thesis by (simp add: init_configuration_def case_prod_unfold)
  qed
  then obtain i w1 where "run_state (init_configuration demo_kubeadm (with_env vs) c [])
      (w\<lparr>history := history w @ [OsTempFile kubeadmConfigTemplate]\<rparr>) = (Ok i, w1)"
    by blast
  then show ?thesis
    by (simp add: NewInit_def getIgnorePreflightArg_def kubeadmCmd_def TempFile_def deferring_remove_def
        RemoveFile_def WriteTemp_def Exec_def toInitConfig_def marshal_init_files_def demo_kubeadm_def
        run_andthen Let_def)
qed

lemma demo_NewJoin: "\<exists>w'. run_state (NewJoin demo_kubeadm (with_env vs) c []) w = (Ok (), w')"
  by (simp add: NewJoin_def getIgnorePreflightArg_def kubeadmCmd_def TempFile_def deferring_remove_def
      RemoveFile_def WriteTemp_def Exec_def toJoinConfig_def run_andthen case_prod_unfold Let_def)

lemma demo_after_init:
  assumes "Driver (Cni (Network c)) = ''flannel''" and "\<not> loadAssets F" and "yaml_marshal D c = Inr b"
  shows "\<exists>w'. run_state (after_init (demo_boot D E) F c) w = (Ok (), w')"
proof -
  have "Load (Registry demo_flannel demo_api) ''flannel'' c = EnsureFlannelAddon demo_flannel demo_api c" for c
    unfolding Registry_def flannel_init_def by (simp add: cni.load_only)
  moreover have "always_ok (EnsureFlannelAddon demo_flannel demo_api c)" for c
    unfolding always_ok_def
  proof
    fix s
    obtain w' where "run_state (EnsureFlannelAddon demo_flannel demo_api c) s = (Ok (), w')"
      using demo_flannel_Ok by blast
    then show "is_Ok (fst (run_state (EnsureFlannelAddon demo_flannel demo_api c) s))" by simp
  qed
  moreover have "always_ok (perform (\<lambda>h. Ok x) k)" for x :: unit and k by (simp add: always_ok_def)
  moreover have assets: "loadAssets F = False" using assms(2) by simp
  ultimately have "always_ok (after_init (demo_boot D E) F c)"
    unfolding after_init_def assets if_False using assms(1,3) by (intro ok_intros)
      (simp_all add: ClientSetFromFile_def ToConfigMap_def CreateOrUpdateConfigMap_def
        RemoveAutoApprovalRBAC_def always_ok_return always_ok_andthen)
  then have "is_Ok (fst (run_state (after_init (demo_boot D E) F c) w))"
    by (simp add: always_ok_def)
  then show ?thesis unfolding is_Ok_iff by (metis (full_types) old.unit.exhaust prod.collapse)
qed

text \<open>A seeder of this system comes up.\<close>

lemma demo_seed:
  assumes "run_state (load_config (demo_boot D (with_env vs)) (kubicCfgFile F) (vars F)) w = (Ok c, w1)"
    and "IsSeeder c" and "Driver (Cni (Network c)) = ''flannel''" and "\<not> loadAssets F"
    and "yaml_marshal D c = Inr b"
  shows "\<exists>w'. run_state (bootstrap_node (demo_boot D (with_env vs)) F) w = (Ok (), w')"
proof -
  obtain w2 where init: "run_state (NewInit demo_kubeadm (with_env vs) c []) w1 = (Ok (), w2)"
    using demo_NewInit [OF assms(2)] by blast
  then show ?thesis
    using assms demo_after_init [OF assms(3-5), of "with_env vs" w2] by (simp add: bootstrap_node_def seed_def)
qed

lemma manual_config_seeds: "IsSeeder manual_config" "Driver (Cni (Network manual_config)) = ''flannel''"
  by (simp_all add: IsSeeder_def manual_config_def defaultConfiguration_def DefaultCniDriver_def)

lemma demo_bootstrap:
  "\<exists>w'. run_state (bootstrap_node (demo_boot walker_deps no_env) demo_flags) empty_world = (Ok (), w')"
  by (rule demo_seed [where c = manual_config])
    (simp_all add: manual_config_loads manual_config_seeds)

theorem auto_approval_removed_witness:
  "\<exists>w' :: world. deletions (history w') =
     [ApiDelete KClusterRoleBinding [] ''kubeadm:node-autoapprove-bootstrap'' True]"
proof -
  let ?B = "demo_boot walker_deps no_env"
  have load: "run_state (load_config ?B (kubicCfgFile demo_flags) (vars demo_flags)) empty_world =
      (Ok manual_config, empty_world\<lparr>history := history empty_world @ [OsLookupEnv ''SEEDER'', OsLookupEnv ''TOKEN'']\<rparr>)"
    using manual_config_loads by simp
  note seeder = manual_config_seeds(1)
  obtain w' where "run_state (bootstrap_node ?B demo_flags) empty_world = (Ok (), w')"
    using demo_bootstrap by blast
  from auto_approval_removed [OF demo_polls load seeder this] show ?thesis
    by (intro exI [of _ w']) (simp add: manual_config_def deletions_def empty_world_def)
qed

theorem seeder_variable_not_normalised_witness:
  "fst (run_state (load_config (demo_boot walker_deps no_env) [] [''ClusterFormation.Seeder='' @ ''master'']) empty_world) =
     Ok (set_seeder ''master'' defaultConfiguration)"
proof -
  have "run_state (ConfigFileAndDefaultsToKubicInitConfig (be_config (demo_boot walker_deps no_env))
      (be_os (demo_boot walker_deps no_env)) []) empty_world =
    (Ok defaultConfiguration, empty_world\<lparr>history := history empty_world @ [OsLookupEnv ''SEEDER'', OsLookupEnv ''TOKEN'']\<rparr>)"
    using default_config_loads by simp
  from conjunct1 [OF seeder_variable_not_normalised [OF this, of "''master''"]] show ?thesis
    by (simp add: demo_walker_def)
qed

lemma quiet_objects: "list_all (\<lambda>c. \<not> writes_object c) cs \<Longrightarrow> objects_after cs = Map.empty"
  by (induction cs rule: rev_induct) (simp_all add: replay_object_quiet)

theorem manifests_after_definitions_witness:
  "\<exists>rbacs defs manifests :: call list. list_all rbac_call rbacs \<and> list_all crd_call defs \<and> list_all manifest_call manifests
     \<and> history (snd (run_state (InstallAllAssets store_load slow_crds (store_manifest dex_listed) ''cfg'' defaultConfiguration
          [] [] []) empty_world)) = rbacs @ defs @ manifests
     \<and> manifests \<noteq> [] \<and> seen slow_crds [] (rbacs @ defs) (''kubic'', ''v1'') ''dexes''"
proof -
  have none: "stored (history empty_world) = Map.empty" "objects_after (history empty_world) = Map.empty"
    by (simp_all add: empty_world_def)
  obtain w' where run: "run_state (InstallAllAssets store_load slow_crds (store_manifest dex_listed) ''cfg'' defaultConfiguration
      [] [] []) empty_world = (Ok (), w')"
    and stored: "objects_after (history w') = fold (offer demo_admit)
      (wanted_objects (ld_os store_load) (store_manifest dex_listed) defaultConfiguration (manifest_options [])) Map.empty"
    using InstallAllAssets_run [OF store_assets_ready [OF none(1)], of empty_world defaultConfiguration] none(2) by auto
  have objects: "objects_after (history w') = [object_key dex_object \<mapsto> completed_object dex_object]"
    unfolding stored store_load_os by (rule dex_offered)
  have polls: "polls_immediately SleepMs (ld_poll store_load)" "polls_immediately pause_waiting (crd_poll slow_crds)"
    using slow_ready store_load_polls unfolding crds_ready_def by blast+
  have ranges: "set (range_names slow_crds h l) = set l" "set (range_gvs slow_crds h m) = set m" for h l m
    by (simp_all add: slow_crds_def)
  from manifests_after_definitions [OF polls ranges run] obtain rbacs defs manifests where
    calls: "history w' = rbacs @ defs @ manifests" "list_all rbac_call rbacs" "list_all crd_call defs" "list_all manifest_call manifests"
    and order: "manifests = [] \<or> (\<exists>w1 crds w2 w3.
          run_state (InstallRBAC store_load ''cfg'' (rbac_options [])) empty_world = (Ok (), w1) \<and> history w1 = rbacs
        \<and> run_state (readCRDFiles slow_crds (defaultCRDOptions (crd_options []))) w1 = (Ok crds, w2)
        \<and> run_state (CreateCRDs slow_crds ''cfg'' crds) w2 = (Ok (), w3)
        \<and> list_all (\<lambda>(name, d). seen slow_crds (history w3) (rbacs @ defs) (crdGroup d, crdVersion d) (crdPlural d)) crds)"
    by (auto simp: empty_world_def)
  have "list_all (\<lambda>c. \<not> writes_object c) (rbacs @ defs)"
    using calls(2,3) rbac_call_quiet crd_call_quiet by (auto simp: list_all_iff)
  then have "objects_after (rbacs @ defs) = Map.empty"
    by (rule quiet_objects)
  moreover have "objects_after (history w') (object_key dex_object) \<noteq> None" by (simp add: objects)
  ultimately have "manifests \<noteq> []" using calls(1) by (cases manifests) auto
  then obtain w1 w2 w3 :: world and crds where read: "run_state (readCRDFiles slow_crds (defaultCRDOptions (crd_options []))) w1 = (Ok crds, w2)"
    and seen: "list_all (\<lambda>(name, d). seen slow_crds (history w3) (rbacs @ defs) (crdGroup d, crdVersion d) (crdPlural d)) crds"
    using order by blast
  have "crds = [(''dexes.kubic'', demo_crd)]" using crds_ready_read [OF slow_ready, of w1] read by simp
  then have "seen slow_crds [] (rbacs @ defs) (''kubic'', ''v1'') ''dexes''"
    using seen seen_mono [of slow_crds "history w3" "rbacs @ defs" _ _ "[]"] by simp
  then show ?thesis using calls \<open>manifests \<noteq> []\<close> run by (intro exI [of _ rbacs] exI [of _ defs] exI [of _ manifests]) simp
qed

text \<open>A server that keeps everything a seeder with the default directories puts there.\<close>

definition up_boot :: "string boot_env" where
  "up_boot = (demo_boot walker_deps no_env)
     \<lparr>be_api := demo_api\<lparr>ka_rbac := ld_rbac store_load\<rparr>, be_load := store_load, be_crds := slow_crds,
      be_manifests := store_manifest dex_listed\<rparr>"

definition up_flags :: boot_flags where
  "up_flags = default_flags\<lparr>vars := [''ClusterFormation.AutoApprove=false'']\<rparr>"

text \<open>After \<open>kubeadm init\<close> the binding that approves new nodes is there.\<close>

lemma replay_local: "local_call c \<Longrightarrow> replay_rbac c st = (if is_init c then st(Inr approve_name \<mapsto> Inr approve_binding) else st)"
  by (cases "(c, st)" rule: replay_rbac.cases) (simp_all add: local_call_def is_init_def)

lemma init_binds:
  assumes "list_all local_call cs" and "list_ex is_init cs"
  shows "rbac_after (h @ cs) (Inr approve_name) \<noteq> None"
  using assms
proof (induction cs rule: rev_induct)
  case (snoc c cs)
  have "rbac_after (h @ cs @ [c]) = replay_rbac c (rbac_after (h @ cs))"
    using rbac_after_snoc(1) [of "h @ cs" c] by simp
  then show ?case using snoc by (auto simp: replay_local)
qed simp

lemma up_boot_cooperates:
  assumes "stored h0 = Map.empty" and "rbac_after h0 (Inr approve_name) \<noteq> None"
  shows "cooperates up_boot up_flags manual_config ''cfg'' rbac_named rbac_after stored [(''dexes.kubic'', demo_crd)]
     demo_admit objects_after h0"
proof -
  have "admits up_boot manual_config h0" by (simp add: admits_def up_boot_def demo_boot_def)
  moreover have "flannel_renders (be_flannel up_boot) (be_api up_boot) manual_config h0"
    by (simp add: flannel_renders_def up_boot_def manual_config_seeds)
  moreover have "kubeconfig_is up_boot ''cfg'' h0"
    by (simp add: kubeconfig_is_def GetConfig_def Getenv_def LookupEnv_def InClusterConfig_def up_boot_def demo_boot_def)
  moreover have "list_all rbac_named (flannel_rbac psp)" for psp
    by (simp add: flannel_rbac_def rbac_named_def rbac_key_def clusterRole_def clusterRoleBinding_def
        clusterRoleBindingPSP_def FlannelClusterRoleName_def FlannelClusterRoleNamePSP_def)
  moreover have "unbinds (be_api up_boot) rbac_after" by (simp add: unbinds_def up_boot_def)
  moreover have "rbac_after h0 (Inr (be_approve_binding up_boot)) \<noteq> None"
    using assms(2) by (simp add: up_boot_def approve_name_def)
  moreover have "assets_ready store_load slow_crds (store_manifest dex_listed) ''cfg'' manual_config
      (postControlManifDir up_flags) (crdsDir up_flags) (rbacDir up_flags) rbac_named rbac_after stored
      [(''dexes.kubic'', demo_crd)] demo_admit objects_after h0"
  proof -
    have "manifest_options (postControlManifDir up_flags) = manifest_options []" "crd_options (crdsDir up_flags) = crd_options []"
      "rbac_options (rbacDir up_flags) = rbac_options []"
      by (simp_all add: manifest_options_def crd_options_def rbac_options_def up_flags_def default_flags_def
          DefaultKubicManifestsDir_def DefaultKubicCRDDir_def DefaultKubicRBACDir_def)
    then show ?thesis using store_assets_ready [OF assms(1), of manual_config] by (simp add: assets_ready_def)
  qed
  ultimately show ?thesis
    by (simp add: cooperates_def up_boot_def up_flags_def default_flags_def)
qed

theorem seeder_comes_up_witness:
  "newCmdBootstrap_run up_boot up_flags empty_world = None
   \<and> (\<exists>w'. run_state (bootstrap_node up_boot up_flags) empty_world = (Ok (), w')
      \<and> stored (history w') ''dexes.kubic'' = Some demo_crd
      \<and> rbac_after (history w') (Inl ''kubic:flannel'') = Some (Inl clusterRole)
      \<and> objects_after (history w') (object_key dex_object) = Some (completed_object dex_object))"
proof -
  let ?w0 = "empty_world\<lparr>history := history empty_world @ [OsLookupEnv ''SEEDER'', OsLookupEnv ''TOKEN'']\<rparr>"
  have load: "run_state (load_config up_boot (kubicCfgFile up_flags) (vars up_flags)) empty_world = (Ok manual_config, ?w0)"
    using manual_config_loads [of empty_world]
    by (simp add: up_boot_def up_flags_def default_flags_def load_config_def)
  obtain w1 where init: "run_state (NewInit demo_kubeadm no_env manual_config []) ?w0 = (Ok (), w1)"
    using demo_NewInit [OF manual_config_seeds(1)] by blast
  have "\<not> writes_crd c \<and> \<not> writes_object c" if "local_call c" for c
    using that by (cases c) (simp_all add: local_call_def writes_crd_def writes_object_def)
  then have "stored (history w1) = stored (history ?w0)" "objects_after (history w1) = objects_after (history ?w0)"
    using kept_store [OF NewInit_calls init, where Q = writes_crd and st = stored] crd_serverD(6) [OF slow_server]
      kept_store [OF NewInit_calls init, where Q = writes_object and st = objects_after] replay_object_quiet
    by (simp_all only: objects_after_snoc, blast+)
  moreover have "stored (history ?w0) = Map.empty" "objects_after (history ?w0) = Map.empty"
    by (simp_all add: stored_def written_def map_filter_def objects_after_def empty_world_def)
  ultimately have none: "stored (history w1) = Map.empty" "objects_after (history w1) = Map.empty" by simp_all
  have bound: "rbac_after (history w1) (Inr approve_name) \<noteq> None"
    using NewInit_Ok_ran [OF init] init_binds by metis
  have sel: "be_kubeadm up_boot = demo_kubeadm" "be_os up_boot = no_env" by (simp_all add: up_boot_def)
  note up = seeder_comes_up [OF load manual_config_seeds(1) _ up_boot_cooperates [OF none(1) bound], unfolded sel, OF init]
  obtain w' where run: "run_state (bootstrap_node up_boot up_flags) empty_world = (Ok (), w')"
    and blocks: "newCmdBootstrap_run up_boot up_flags empty_world = (if block up_flags then None else Some (Ok (), w'))"
    and rbac: "rbac_after (history w') = put_all rbac_key rbac_named (flannel_rbac (PSP (Features manual_config)) @
        wanted_rbac (be_load up_boot) (rbac_options (rbacDir up_flags)))
        (approvals_kept up_boot manual_config (rbac_after (history w1)))"
    and crds: "\<forall>d\<in>snd ` set [(''dexes.kubic'', demo_crd)].
        stored (history w') (crd_id d) = Some (installed (stored (history w1) (crd_id d)) d)"
    and objects: "objects_after (history w') = fold (offer demo_admit) (wanted_objects (ld_os (be_load up_boot))
        (be_manifests up_boot) manual_config (manifest_options (postControlManifDir up_flags))) (objects_after (history w1))"
    using up by blast
  have "stored (history w') ''dexes.kubic'' = Some demo_crd"
    using crds by (simp add: none crd_id_def installed_def)
  moreover have "rbac_after (history w') (Inl ''kubic:flannel'') = Some (Inl clusterRole)"
    unfolding rbac put_all_lookup
    by (simp add: flannel_rbac_def wanted_rbac_def wanted_roles_def wanted_bindings_def visited_def rbac_options_def
        RemoveDuplicates_def DefaultRBACDirs_def up_boot_def up_flags_def default_flags_def DefaultKubicRBACDir_def
        store_load_def demo_load_def stamped_role_def stamped_binding_def rbac_key_def rbac_named_def
        clusterRole_def clusterRoleBinding_def clusterRoleBindingPSP_def FlannelClusterRoleName_def)
  moreover have "objects_after (history w') (object_key dex_object) = Some (completed_object dex_object)"
  proof -
    have "manifest_options (postControlManifDir up_flags) = manifest_options []"
      by (simp add: manifest_options_def up_flags_def default_flags_def DefaultKubicManifestsDir_def)
    then have "objects_after (history w') = [object_key dex_object \<mapsto> completed_object dex_object]"
      using dex_offered [of dex_listed manual_config] by (simp add: objects none up_boot_def)
    then show ?thesis by simp
  qed
  moreover have "block up_flags" by (simp add: up_flags_def default_flags_def)
  ultimately show ?thesis using run blocks by simp
qed

text \<open>Two nodes that get the token, and one of them its seeder, from the environment.\<close>

definition seeder_vars :: "string \<rightharpoonup> string" where
  "seeder_vars = [''TOKEN'' \<mapsto> ''abcdef.0123456789abcdef'']"

definition joiner_vars :: "string \<rightharpoonup> string" where
  "joiner_vars = [''TOKEN'' \<mapsto> ''abcdef.0123456789abcdef'', ''SEEDER'' \<mapsto> ''master'']"

definition node_flags :: boot_flags where
  "node_flags = default_flags\<lparr>loadAssets := False\<rparr>"

lemma node_flags_sel [simp]: "kubicCfgFile node_flags = []" "vars node_flags = []" "\<not> loadAssets node_flags"
  by (simp_all add: node_flags_def default_flags_def)

lemma node_loads:
  assumes "normalise_seeder (Seeder (ClusterFormation (overridden (with_env vs) [] defaultConfiguration))) = Inr sd"
  shows "\<exists>w1. run_state (load_config (demo_boot demo_deps (with_env vs)) [] []) empty_world =
     (Ok (set_seeder sd (overridden (with_env vs) [] defaultConfiguration)), w1)"
proof -
  have "run_state (load_file demo_deps (with_env vs) []) empty_world = (Ok (Some defaultConfiguration), empty_world)"
    by (simp add: load_file_def)
  from run_load_config [OF this] assms show ?thesis
    by (simp add: load_config_def empty_world_def SetVars_def log_config_def glog_V_def)
qed

theorem cluster_formed_witness:
  "\<exists>i bi j bj. marshal_init_files demo_kubeadm i = Ok bi
    \<and> ran_kubeadm ''/usr/bin/kubeadm'' ''init'' bi
        (calls_of (bootstrap_node (demo_boot demo_deps (with_env seeder_vars)) node_flags) empty_world)
    \<and> marshal_join demo_kubeadm j = Inr bj
    \<and> ran_kubeadm ''/usr/bin/kubeadm'' ''join'' bj
        (calls_of (bootstrap_node (demo_boot demo_deps (with_env joiner_vars)) node_flags) empty_world)
    \<and> BootstrapTokens i = [discoveryToken (joinBootstrapToken j)]
    \<and> APIServerEndpoint (joinBootstrapToken j) = ''master:6443''"
proof -
  let ?cs = "set_seeder [] (overridden (with_env seeder_vars) [] defaultConfiguration)"
  let ?cj = "set_seeder ''master:6443'' (overridden (with_env joiner_vars) [] defaultConfiguration)"
  obtain ws1 where ls: "run_state (load_config (demo_boot demo_deps (with_env seeder_vars))
      (kubicCfgFile node_flags) (vars node_flags)) empty_world = (Ok ?cs, ws1)"
    using node_loads [of seeder_vars "[]"]
    by (auto simp: overridden_def seeder_vars_def normalise_seeder_def set_token_def defaultConfiguration_def)
  obtain wj1 where lj: "run_state (load_config (demo_boot demo_deps (with_env joiner_vars))
      (kubicCfgFile node_flags) (vars node_flags)) empty_world = (Ok ?cj, wj1)"
    using node_loads [of joiner_vars "''master:6443''"]
    by (auto simp: overridden_def joiner_vars_def set_token_def set_seeder_def demo_seeder)
  have seeder: "IsSeeder ?cs" and driver: "Driver (Cni (Network ?cs)) = ''flannel''"
    by (simp_all add: IsSeeder_def overridden_def seeder_vars_def set_token_def set_seeder_def
        defaultConfiguration_def DefaultCniDriver_def)
  have joiner: "\<not> IsSeeder ?cj" by (simp add: IsSeeder_def set_seeder_def)
  obtain ws' where rs: "run_state (bootstrap_node (demo_boot demo_deps (with_env seeder_vars)) node_flags) empty_world = (Ok (), ws')"
    using demo_seed [OF ls seeder driver, of "Seeder (ClusterFormation ?cs)"] by (auto simp: demo_deps_def)
  obtain wj' where rj: "run_state (bootstrap_node (demo_boot demo_deps (with_env joiner_vars)) node_flags) empty_world = (Ok (), wj')"
    using lj joiner demo_NewJoin [of joiner_vars ?cj wj1] by (auto simp: bootstrap_node_def)
  have paths: "Kubeadm (Paths ?cs) = ''/usr/bin/kubeadm''" "Kubeadm (Paths ?cj) = ''/usr/bin/kubeadm''"
    and tokens: "Token (ClusterFormation ?cs) = ''abcdef.0123456789abcdef''"
      "Token (ClusterFormation ?cj) = ''abcdef.0123456789abcdef''"
    and engines: "Engine (Runtime ?cj) = Engine (Runtime ?cs)"
    by (simp_all add: overridden_def seeder_vars_def joiner_vars_def set_token_def set_seeder_def
        defaultConfiguration_def DefaultKubeadmPath_def)
  have endpoint: "Seeder (ClusterFormation ?cj) = ''master:6443''" by (simp add: set_seeder_def)
  have "be_kubeadm (demo_boot demo_deps (with_env joiner_vars)) = be_kubeadm (demo_boot demo_deps (with_env seeder_vars))"
    by simp
  from cluster_formed [OF demo_polls this ls seeder rs lj joiner rj, unfolded tokens paths endpoint demo_boot_sel]
    engines
  obtain i bi j bj t where given: "marshal_init_files demo_kubeadm i = Ok bi"
      "ran_kubeadm ''/usr/bin/kubeadm'' ''init'' bi
        (calls_of (bootstrap_node (demo_boot demo_deps (with_env seeder_vars)) node_flags) empty_world)"
      "marshal_join demo_kubeadm j = Inr bj"
      "ran_kubeadm ''/usr/bin/kubeadm'' ''join'' bj
        (calls_of (bootstrap_node (demo_boot demo_deps (with_env joiner_vars)) node_flags) empty_world)"
    and j: "new_bootstrap_token demo_kubeadm (discoveryToken (joinBootstrapToken j)) = Inr t"
      "BootstrapTokens i = [t]" "APIServerEndpoint (joinBootstrapToken j) = ''master:6443''"
    by blast
  from j(1,2) have "BootstrapTokens i = [discoveryToken (joinBootstrapToken j)]" by simp
  with given j(3) show ?thesis by blast
qed

text \<open>The command line \<open>bootstrap --var ClusterFormation.AutoApprove=false --load-assets=false --block=false\<close>.\<close>

definition boot_given :: "string \<Rightarrow> flag_value option" where
  "boot_given = [''var'' \<mapsto> SliceV [''ClusterFormation.AutoApprove=false''],
     ''load-assets'' \<mapsto> BoolV False, ''block'' \<mapsto> BoolV False]"

definition boot_parse :: "string list \<Rightarrow> goerr + (string \<times> (string \<Rightarrow> flag_value option)) option" where
  "boot_parse args = (case args of [] \<Rightarrow> Inr None | c # _ \<Rightarrow> Inr (Some (c, boot_given)))"

lemma boot_given_flags: "demo_flags = parse_flags bootstrap_flagset boot_given default_flags"
  by (simp add: bootstrap_flagset_def flag_defs flag_of_def boot_given_def demo_flags_def default_flags_def)

theorem main_bootstrap_exit_witness:
  "\<exists>out (w' :: world). main (demo_boot walker_deps no_env) (\<lambda>_. 1) boot_parse [''bootstrap''] empty_world = Some (0, out, w')"
proof -
  obtain w' where run: "run_state (bootstrap_node (demo_boot walker_deps no_env) demo_flags) empty_world = (Ok (), w')"
    using demo_bootstrap by blast
  have "\<not> block demo_flags" by (simp add: demo_flags_def)
  moreover have "boot_parse [''bootstrap''] = Inr (Some (''bootstrap'', boot_given))" by (simp add: boot_parse_def)
  ultimately show ?thesis
    using main_bootstrap_exit [OF _ _ boot_given_flags run, of boot_parse "[''bootstrap'']" "\<lambda>_. 1"]
    by (cases "main (demo_boot walker_deps no_env) (\<lambda>_. 1) boot_parse [''bootstrap''] empty_world") auto
qed

end
